(* ===== verification/Drpdb_Prelude.thy ===== *)
theory Drpdb_Prelude
  imports Main "HOL-Library.Word" "HOL-Library.Char_ord"
begin

text \<open>
  What every component of the model shares: the names of the machine types the program uses,
  the characters it treats specially, joining of text by a separator, the decimal text that
  the C runtime's integer formats produce, and the result type of code that can fault or
  fail to return.

  Machine types (the program is built for Windows, where \<open>long\<close> has 32 bits):
  \<^item> \<open>DWORD\<close>, \<open>BOOL\<close>, \<open>LONG\<close>, \<open>uint32_t\<close>, \<open>unsigned long\<close>: \<open>u32\<close>;
  \<^item> \<open>ULONGLONG\<close>, \<open>uint64_t\<close>, \<open>int64_t\<close>: \<open>u64\<close>;
  \<^item> \<open>WORD\<close>, \<open>wchar_t\<close>: \<open>u16\<close>; \<open>BYTE\<close> and the enumerations with a \<open>uint8_t\<close> base: \<open>u8\<close>;
  \<^item> \<open>char\<close>: HOL's \<open>char\<close>; \<open>std::string\<close>: \<open>string\<close>.
\<close>

type_synonym u8 = "8 word"
type_synonym u16 = "16 word"
type_synonym u32 = "32 word"
type_synonym u64 = "64 word"
type_synonym wstring = "u16 list"

named_theorems text_simps
named_theorems out_simps
named_theorems ctor_simps

section \<open>Characters\<close>

abbreviation dquote :: char where "dquote \<equiv> CHR 0x22"
abbreviation squote :: char where "squote \<equiv> CHR 0x27"
abbreviation backslash :: char where "backslash \<equiv> CHR 0x5C"
abbreviation newline :: char where "newline \<equiv> CHR 0x0A"
abbreviation carriage_return :: char where "carriage_return \<equiv> CHR 0x0D"
abbreviation nul :: char where "nul \<equiv> CHR 0x00"

abbreviation crlf :: string where "crlf \<equiv> [carriage_return, newline]"

section \<open>Joining\<close>

fun join_with :: "'a list \<Rightarrow> 'a list list \<Rightarrow> 'a list" where
  "join_with sep [] = []"
| "join_with sep [x] = x"
| "join_with sep (x # y # ys) = x @ sep @ join_with sep (y # ys)"

lemma join_with_Cons:
  "join_with sep (x # xs) = x @ concat (map (\<lambda>y. sep @ y) xs)"
  by (induction xs arbitrary: x) simp_all

text \<open>Every piece followed by the separator, with the last separator taken off again.\<close>

lemma butlast_terminated:
  "xs \<noteq> [] \<Longrightarrow> butlast (concat (map (\<lambda>x. x @ [c]) xs)) = join_with [c] xs"
proof (induction xs)
  case Nil
  then show ?case by simp
next
  case (Cons x xs)
  show ?case
  proof (cases xs)
    case Nil
    then show ?thesis by simp
  next
    case (Cons y ys)
    with Cons.IH show ?thesis by (simp add: butlast_append)
  qed
qed

lemma concat_map_single [text_simps]: "concat (map (\<lambda>x. [x]) xs) = xs"
  by (induction xs) simp_all

section \<open>Decimal text\<close>

definition digit :: "nat \<Rightarrow> char" where
  "digit d = char_of (48 + d)"

definition undigit :: "char \<Rightarrow> nat" where
  "undigit c = of_char c - 48"

definition is_digit :: "char \<Rightarrow> bool" where
  "is_digit c = (48 \<le> (of_char c :: nat) \<and> (of_char c :: nat) \<le> 57)"

fun dec :: "nat \<Rightarrow> string" where
  "dec n = (if n < 10 then [digit n] else dec (n div 10) @ [digit (n mod 10)])"

declare dec.simps [simp del]

definition undec :: "string \<Rightarrow> nat" where
  "undec s = foldl (\<lambda>n c. 10 * n + undigit c) 0 s"

definition dec_int :: "int \<Rightarrow> string" where
  "dec_int i = (if i < 0 then CHR ''-'' # dec (nat (- i)) else dec (nat i))"

lemma of_char_digit: "d < 10 \<Longrightarrow> (of_char (digit d) :: nat) = 48 + d"
  by (simp add: digit_def)

lemma is_digit_digit: "d < 10 \<Longrightarrow> is_digit (digit d)"
  by (simp add: is_digit_def of_char_digit)

lemma undigit_digit: "d < 10 \<Longrightarrow> undigit (digit d) = d"
  by (simp add: undigit_def of_char_digit)

lemma dec_digits: "c \<in> set (dec n) \<Longrightarrow> is_digit c"
proof (induction n rule: dec.induct)
  case (1 n)
  then show ?case
    by (auto simp: dec.simps [of n] is_digit_digit split: if_splits)
qed

lemma dec_nonempty [simp]: "dec n \<noteq> []"
  by (subst dec.simps) simp

lemma undec_dec: "undec (dec n) = n"
proof (induction n rule: dec.induct)
  case (1 n)
  then show ?case
    by (auto simp: dec.simps [of n] undec_def undigit_digit)
qed

lemma dec_inject: "dec m = dec n \<longleftrightarrow> m = n"
  by (metis undec_dec)

lemma length_dec: "n < 10 ^ k \<Longrightarrow> 0 < k \<Longrightarrow> length (dec n) \<le> k"
proof (induction n arbitrary: k rule: dec.induct)
  case (1 n)
  show ?case
  proof (cases "n < 10")
    case True
    with "1.prems" show ?thesis by (simp add: dec.simps [of n])
  next
    case False
    with "1.prems" obtain j where k: "k = Suc j" and j: "0 < j"
      by (cases k) (auto simp: not_less dest: le_less_trans split: nat.splits,
          metis One_nat_def not_gr_zero not_less power_0 power_one_right mult_1_right)
    with "1.prems" have "n div 10 < 10 ^ j" by (simp add: div_less_iff_less_mult)
    with "1.IH" False j have "length (dec (n div 10)) \<le> j" by simp
    with False k show ?thesis by (simp add: dec.simps [of n])
  qed
qed

text \<open>Characters that decimal text never holds.\<close>

definition is_num_char :: "char \<Rightarrow> bool" where
  "is_num_char c = (is_digit c \<or> c = CHR ''-'')"

lemma dec_int_chars: "c \<in> set (dec_int i) \<Longrightarrow> is_num_char c"
  by (auto simp: dec_int_def is_num_char_def dest: dec_digits split: if_splits)

lemma dec_chars: "c \<in> set (dec n) \<Longrightarrow> is_num_char c"
  by (simp add: is_num_char_def dec_digits)

lemma dec_int_nonempty [simp]: "dec_int i \<noteq> []"
  by (simp add: dec_int_def)

lemma dec_no_minus: "CHR ''-'' \<notin> set (dec n)"
  by (auto simp: is_digit_def dest: dec_digits)

lemma dec_int_inject: "dec_int i = dec_int j \<longleftrightarrow> i = j"
proof
  assume eq: "dec_int i = dec_int j"
  have "(i < 0) = (j < 0)"
    using eq dec_no_minus [of "nat i"] dec_no_minus [of "nat j"]
    by (auto simp: dec_int_def split: if_splits) (metis list.set_intros(1))+
  with eq show "i = j"
    by (auto simp: dec_int_def dec_inject split: if_splits)
qed simp

section \<open>Code that can fault or not return\<close>

text \<open>
  \<open>fault\<close> names what stops the C++ code: undefined behaviour (an index or a
  \<open>pop_back\<close> out of range, a null pointer), a \<open>throw\<close> of a text, which \<open>main\<close> catches, or an
  exception of another type, which nothing catches; or that the code ended the process
  itself, with an exit code, what the console then shows and the files written until then. \<open>'a run\<close> is \<open>None\<close>
  when the code does not return.
\<close>

datatype fault = Undefined_Behaviour string | Thrown string | Uncaught string | Exit int string "(string \<times> string) list"

type_synonym 'a result = "fault + 'a"
type_synonym 'a run = "'a result option"

definition returns :: "'a \<Rightarrow> 'a run" where
  "returns x = Some (Inr x)"

definition run_bind :: "'a run \<Rightarrow> ('a \<Rightarrow> 'b run) \<Rightarrow> 'b run" where
  "run_bind r f = (case r of None \<Rightarrow> None | Some (Inl e) \<Rightarrow> Some (Inl e) | Some (Inr x) \<Rightarrow> f x)"

lemma run_bind_returns [simp]: "run_bind (returns x) f = f x"
  by (simp add: run_bind_def returns_def)

lemma run_bind_None [simp]: "run_bind None f = None"
  by (simp add: run_bind_def)

lemma run_bind_fault [simp]: "run_bind (Some (Inl e)) f = Some (Inl e)"
  by (simp add: run_bind_def)

lemma returns_inject [simp]: "returns x = returns y \<longleftrightarrow> x = y"
  by (simp add: returns_def)

lemma returns_not_None [simp]: "returns x \<noteq> None" and returns_not_fault [simp]: "returns x \<noteq> Some (Inl e)"
  by (simp_all add: returns_def)

lemma Some_eq_returns [simp]: "Some z = returns y \<longleftrightarrow> z = Inr y" and None_not_returns [simp]: "None \<noteq> returns y"
  by (simp_all add: returns_def)

lemma run_bind_eq_returns:
  "run_bind r f = returns y \<longleftrightarrow> (\<exists>x. r = returns x \<and> f x = returns y)"
  by (auto simp: run_bind_def returns_def split: option.splits sum.splits)

primrec run_fold :: "('a \<Rightarrow> 's \<Rightarrow> 's run) \<Rightarrow> 'a list \<Rightarrow> 's \<Rightarrow> 's run" where
  "run_fold f [] s = returns s"
| "run_fold f (x # xs) s = run_bind (f x s) (run_fold f xs)"

lemma run_fold_append:
  "run_fold f (xs @ ys) s = run_bind (run_fold f xs s) (run_fold f ys)"
  by (induction xs arbitrary: s)
    (auto simp: run_bind_def returns_def split: option.splits sum.splits)

text \<open>An invariant kept by every step is kept by the fold.\<close>

lemma run_fold_invariant:
  assumes "\<And>x s t. x \<in> set xs \<Longrightarrow> P s \<Longrightarrow> f x s = returns t \<Longrightarrow> P t"
    and "P s" and "run_fold f xs s = returns t"
  shows "P t"
  using assms
  by (induction xs arbitrary: s) (auto simp: run_bind_eq_returns)

lemma run_fold_cong:
  "(\<And>x s. x \<in> set xs \<Longrightarrow> f x s = g x s) \<Longrightarrow> run_fold f xs s = run_fold g xs s"
  by (induction xs arbitrary: s)
    (auto simp: run_bind_def split: option.splits sum.splits)

text \<open>A fold that acts on one of several distinct keys only.\<close>

lemma run_fold_skip:
  "\<forall>x \<in> set xs. key x \<noteq> k \<Longrightarrow> run_fold (\<lambda>x s. if k = key x then f x s else returns s) xs s = returns s"
  by (induction xs) auto

lemma run_fold_single:
  assumes "distinct (map key xs)" and "x \<in> set xs"
  shows "run_fold (\<lambda>y s. if key x = key y then f y s else returns s) xs s = f x s"
proof -
  from assms(2) obtain ys zs where xs: "xs = ys @ x # zs" by (meson split_list)
  with assms(1) have "\<forall>y \<in> set ys. key y \<noteq> key x" "\<forall>y \<in> set zs. key y \<noteq> key x"
    by (auto simp: image_iff)
  then show ?thesis
    by (simp add: xs run_fold_append run_fold_skip)
      (cases "f x s"; auto simp: run_fold_skip run_bind_def returns_def split: sum.split)
qed

lemma run_fold_total:
  assumes "\<And>x s. x \<in> set xs \<Longrightarrow> f x s = returns (g x s)"
  shows "run_fold f xs s = returns (fold g xs s)"
  using assms by (induction xs arbitrary: s) auto

text \<open>A computation that can fault but always returns.\<close>

definition result_bind :: "'a result \<Rightarrow> ('a \<Rightarrow> 'b result) \<Rightarrow> 'b result" where
  "result_bind r f = (case r of Inl e \<Rightarrow> Inl e | Inr x \<Rightarrow> f x)"

lemma result_bind_simps [simp]: "result_bind (Inr x) f = f x" "result_bind (Inl e) f = Inl e"
  by (simp_all add: result_bind_def)

lemma Some_Inr: "Some (Inr x) = returns x"
  by (simp add: returns_def)

section \<open>Result codes\<close>

type_synonym hresult = int

abbreviation S_OK :: hresult where "S_OK \<equiv> 0"

definition SUCCEEDED :: "hresult \<Rightarrow> bool" where
  "SUCCEEDED r = (0 \<le> r)"

end
