(* ===== verification/Stringutils.thy ===== *)
theory Stringutils
  imports Drpdb_Prelude
begin

text \<open>
  The text routines of \<^verbatim>\<open>drpdb/src/stringutils.h\<close>: the in-place \<open>escape\<close> of the CSV
  writer, the find-and-replace loop \<open>replace\<close> of the SQL writers, and \<open>tolower\<close>.
  The loops are written as the code has them, on an index into the growing text, with
  \<open>None\<close> for a loop that never ends; each is then shown equal to a plain left-to-right
  description. The locale \<open>quoted_code\<close> states what a quoting scheme promises its reader;
  the two schemes of the program are instances of it.
\<close>

section \<open>The routines\<close>

definition insert_char :: "string \<Rightarrow> nat \<Rightarrow> char \<Rightarrow> string" where
  "insert_char str i c = take i str @ c # drop i str"

text \<open>
  The loop of \<open>escape\<close>: its test is \<open>i != str.size()\<close>; \<open>insert\<close> puts the backslash in
  front of the character read, and the two increments step over both.
\<close>

partial_function (option) escape_run :: "char \<Rightarrow> string \<Rightarrow> nat \<Rightarrow> string option" where
  "escape_run separator str i =
     (if i = length str then Some str
      else if str ! i = dquote then escape_run separator (insert_char str i backslash) (i + 2)
      else if str ! i = backslash then escape_run separator (insert_char str i backslash) (i + 2)
      else if str ! i = separator then escape_run separator (insert_char str i backslash) (i + 2)
      else escape_run separator str (i + 1))"

definition escape :: "string \<Rightarrow> char \<Rightarrow> string" where
  "escape str separator = the (escape_run separator str 0)"

text \<open>\<open>std::string::find\<close>: the first position, from \<open>pos\<close> on, where the pattern stands.\<close>

fun find_prefix :: "string \<Rightarrow> string \<Rightarrow> nat option" where
  "find_prefix pat [] = (if pat = [] then Some 0 else None)"
| "find_prefix pat (c # cs) =
     (if take (length pat) (c # cs) = pat then Some 0 else map_option Suc (find_prefix pat cs))"

definition find_from :: "string \<Rightarrow> string \<Rightarrow> nat \<Rightarrow> nat option" where
  "find_from subject pat pos =
     (if length subject < pos then None
      else map_option (\<lambda>i. pos + i) (find_prefix pat (drop pos subject)))"

partial_function (option) replace_run :: "string \<Rightarrow> string \<Rightarrow> string \<Rightarrow> nat \<Rightarrow> string option" where
  "replace_run subject search repl pos =
     (case find_from subject search pos of
        None \<Rightarrow> Some subject
      | Some p \<Rightarrow>
          replace_run (take p subject @ repl @ drop (p + length search) subject)
            search repl (p + length repl))"

definition replace :: "string \<Rightarrow> string \<Rightarrow> string \<Rightarrow> string" where
  "replace subject search repl = the (replace_run subject search repl 0)"

definition tolower_char :: "char \<Rightarrow> char" where
  "tolower_char c =
     (if 65 \<le> (of_char c :: nat) \<and> (of_char c :: nat) \<le> 90 then char_of (of_char c + 32 :: nat) else c)"

definition tolower :: "string \<Rightarrow> string" where
  "tolower chars = map tolower_char chars"

section \<open>What \<open>escape\<close> computes\<close>

definition escape_char :: "char \<Rightarrow> char \<Rightarrow> string" where
  "escape_char sep c = (if c = dquote \<or> c = backslash \<or> c = sep then [backslash, c] else [c])"

definition escape_text :: "char \<Rightarrow> string \<Rightarrow> string" where
  "escape_text sep s = concat (map (escape_char sep) s)"

lemma escape_text_simps [simp]:
  "escape_text sep [] = []"
  "escape_text sep (c # s) = escape_char sep c @ escape_text sep s"
  by (simp_all add: escape_text_def)

lemma escape_text_append: "escape_text sep (s @ t) = escape_text sep s @ escape_text sep t"
  by (simp add: escape_text_def)

lemma escape_run_from:
  "escape_run sep (pre @ s) (length pre) = Some (pre @ escape_text sep s)"
proof (induction s arbitrary: pre)
  case Nil
  then show ?case by (simp add: escape_run.simps)
next
  case (Cons c s)
  have plain: "escape_run sep ((pre @ [c]) @ s) (length (pre @ [c])) = Some ((pre @ [c]) @ escape_text sep s)"
    by (rule Cons.IH)
  have quoted: "escape_run sep ((pre @ [backslash, c]) @ s) (length (pre @ [backslash, c]))
      = Some ((pre @ [backslash, c]) @ escape_text sep s)"
    by (rule Cons.IH)
  show ?case
    using plain quoted
    by (subst escape_run.simps) (auto simp: insert_char_def escape_char_def)
qed

text \<open>The loop always ends, and \<open>escape\<close> is the character-wise translation.\<close>

lemma escape_run_returns: "escape_run sep s 0 = Some (escape s sep)"
  using escape_run_from [of sep "[]" s] by (simp add: escape_def)

lemma escape_eq [text_simps]: "escape s sep = escape_text sep s"
  using escape_run_from [of sep "[]" s] by (simp add: escape_def)

section \<open>What \<open>replace\<close> computes\<close>

text \<open>Leftmost occurrences, left to right, without overlap; the inserted text is not searched.\<close>

function replace_text :: "string \<Rightarrow> string \<Rightarrow> string \<Rightarrow> string" where
  "replace_text pat repl [] = []"
| "replace_text pat repl (c # cs) =
     (if pat \<noteq> [] \<and> take (length pat) (c # cs) = pat
      then repl @ replace_text pat repl (drop (length pat) (c # cs))
      else c # replace_text pat repl cs)"
  by pat_completeness auto
termination
  by (relation "measure (\<lambda>(pat, repl, s). length s)") auto

declare replace_text.simps(2) [simp del]

lemma find_prefix_None: "find_prefix pat s = None \<Longrightarrow> replace_text pat repl s = s"
  by (induction s) (auto simp: replace_text.simps(2) split: if_splits)

lemma find_prefix_Some:
  "find_prefix pat s = Some i \<Longrightarrow> pat \<noteq> [] \<Longrightarrow>
     replace_text pat repl s = take i s @ repl @ replace_text pat repl (drop (i + length pat) s)"
proof (induction s arbitrary: i)
  case Nil
  then show ?case by simp
next
  case (Cons c cs)
  show ?case
  proof (cases "take (length pat) (c # cs) = pat")
    case True
    with Cons.prems have "i = 0" by simp
    with True Cons.prems(2) show ?thesis by (simp add: replace_text.simps(2))
  next
    case False
    with Cons.prems(1) obtain j where "find_prefix pat cs = Some j" and "i = Suc j"
      by auto
    with False Cons.IH Cons.prems(2) show ?thesis by (simp add: replace_text.simps(2))
  qed
qed

lemma find_prefix_bound: "find_prefix pat s = Some i \<Longrightarrow> i + length pat \<le> length s"
proof (induction s arbitrary: i)
  case Nil
  then show ?case by (simp split: if_splits)
next
  case (Cons c cs)
  then show ?case
  proof (cases "take (length pat) (c # cs) = pat")
    case True
    with Cons.prems have "i = 0" by simp
    moreover have "length pat \<le> length (c # cs)"
      using True by (metis length_take min.cobounded1)
    ultimately show ?thesis by simp
  next
    case False
    with Cons.prems Cons.IH show ?thesis by fastforce
  qed
qed

lemma replace_run_from:
  assumes "search \<noteq> []"
  shows "replace_run (pre @ s) search repl (length pre) = Some (pre @ replace_text search repl s)"
proof (induction s arbitrary: pre rule: length_induct)
  case (1 s)
  show ?case
  proof (cases "find_prefix search s")
    case None
    then show ?thesis
      by (subst replace_run.simps) (simp add: find_from_def find_prefix_None)
  next
    case (Some i)
    let ?pre = "pre @ take i s @ repl" and ?s = "drop (i + length search) s"
    from Some have bound: "i + length search \<le> length s" by (rule find_prefix_bound)
    with assms have "length ?s < length s" by (cases search) auto
    then have "replace_run (?pre @ ?s) search repl (length ?pre)
        = Some (?pre @ replace_text search repl ?s)"
      using 1 by blast
    with Some bound assms show ?thesis
      by (subst replace_run.simps) (simp add: find_from_def find_prefix_Some ac_simps)
  qed
qed

lemma replace_run_returns:
  "search \<noteq> [] \<Longrightarrow> replace_run s search repl 0 = Some (replace s search repl)"
  using replace_run_from [of search "[]" s repl] by (simp add: replace_def)

lemma replace_eq: "search \<noteq> [] \<Longrightarrow> replace s search repl = replace_text search repl s"
  using replace_run_from [of search "[]" s repl] by (simp add: replace_def)

lemma replace_text_char:
  "replace_text [a] repl s = concat (map (\<lambda>c. if c = a then repl else [c]) s)"
  by (induction s) (simp_all add: replace_text.simps(2))

lemma replace_char_eq [text_simps]:
  "replace s [a] repl = concat (map (\<lambda>c. if c = a then repl else [c]) s)"
  by (simp add: replace_eq replace_text_char)

text \<open>
  With an empty search text every call finds a match at once and the loop runs for ever;
  the program never makes such a call.
\<close>

lemma find_from_empty: "pos \<le> length s \<Longrightarrow> find_from s [] pos = Some pos"
  by (cases "drop pos s") (simp_all add: find_from_def)

lemma replace_run_empty:
  assumes "pos \<le> length s"
  shows "replace_run s [] repl pos = None"
proof (rule ccontr)
  assume "replace_run s [] repl pos \<noteq> None"
  then obtain r where ret: "replace_run s [] repl pos = Some r" by auto
  have "[] = ([] :: string) \<longrightarrow> \<not> pos \<le> length s"
  proof (rule replace_run.raw_induct
      [where P = "\<lambda>s search repl pos r. search = [] \<longrightarrow> \<not> pos \<le> length s", OF _ ret])
    fix f :: "string \<Rightarrow> string \<Rightarrow> string \<Rightarrow> nat \<Rightarrow> string option"
      and s search repl pos r
    assume IH: "\<And>s search repl pos r. f s search repl pos = Some r \<Longrightarrow>
        search = [] \<longrightarrow> \<not> pos \<le> length s"
      and eq: "(case find_from s search pos of None \<Rightarrow> Some s
        | Some p \<Rightarrow> f (take p s @ repl @ drop (p + length search) s) search repl (p + length repl))
          = Some r"
    show "search = [] \<longrightarrow> \<not> pos \<le> length s"
    proof (intro impI notI)
      assume "search = []" and pos: "pos \<le> length s"
      with eq have "f (take pos s @ repl @ drop pos s) [] repl (pos + length repl) = Some r"
        by (simp add: find_from_empty)
      then have "\<not> pos + length repl \<le> length (take pos s @ repl @ drop pos s)"
        by (blast dest: IH)
      with pos show False by simp
    qed
  qed
  with assms show False by simp
qed

section \<open>Quoting schemes\<close>

text \<open>
  A writer that puts text between quotes relies on this contract: a reader that starts
  behind the opening quote finds the text again and stops behind the closing one, whenever
  what follows is something that may follow a quoted text.
\<close>

locale quoted_code =
  fixes enc :: "string \<Rightarrow> string"
    and closing :: char
    and follow :: "string \<Rightarrow> bool"
    and scan :: "string \<Rightarrow> (string \<times> string) option"
  assumes scan_enc: "follow rest \<Longrightarrow> scan (enc s @ closing # rest) = Some (s, rest)"
    and follow_Nil: "follow []"
begin

lemma unambiguous:
  assumes "enc s @ closing # rest = enc t @ closing # rest'" and "follow rest" and "follow rest'"
  shows "s = t \<and> rest = rest'"
proof -
  have "Some (s, rest) = scan (enc s @ closing # rest)"
    by (rule scan_enc [OF assms(2), symmetric])
  also have "\<dots> = scan (enc t @ closing # rest')"
    by (simp only: assms(1))
  also have "\<dots> = Some (t, rest')"
    by (rule scan_enc [OF assms(3)])
  finally show ?thesis by simp
qed

lemma enc_inject: "enc s = enc t \<longleftrightarrow> s = t"
proof
  assume "enc s = enc t"
  then have "enc s @ closing # [] = enc t @ closing # []" by simp
  from unambiguous [OF this follow_Nil follow_Nil] show "s = t" ..
qed simp

end

text \<open>The reader of backslash-escaped text, up to the closing double quote.\<close>

fun scan_escaped :: "string \<Rightarrow> (string \<times> string) option" where
  "scan_escaped [] = None"
| "scan_escaped (c # cs) =
     (if c = backslash then
        (case cs of [] \<Rightarrow> None
         | d # ds \<Rightarrow> map_option (\<lambda>(s, r). (d # s, r)) (scan_escaped ds))
      else if c = dquote then Some ([], cs)
      else map_option (\<lambda>(s, r). (c # s, r)) (scan_escaped cs))"

lemma scan_escape_text: "scan_escaped (escape_text sep s @ dquote # rest) = Some (s, rest)"
  by (induction s) (auto simp: escape_char_def)

interpretation csv_quote: quoted_code "\<lambda>s. escape s sep" dquote "\<lambda>_. True" scan_escaped
  by unfold_locales (simp_all add: escape_eq scan_escape_text)

text \<open>The reader of a SQL text literal, where a doubled single quote stands for one.\<close>

fun scan_doubled :: "string \<Rightarrow> (string \<times> string) option" where
  "scan_doubled [] = None"
| "scan_doubled (c # cs) =
     (if c = squote then
        (case cs of d # ds \<Rightarrow>
             (if d = squote then map_option (\<lambda>(s, r). (squote # s, r)) (scan_doubled ds)
              else Some ([], cs))
         | [] \<Rightarrow> Some ([], []))
      else map_option (\<lambda>(s, r). (c # s, r)) (scan_doubled cs))"

definition not_squote :: "string \<Rightarrow> bool" where
  "not_squote rest = (case rest of [] \<Rightarrow> True | c # _ \<Rightarrow> c \<noteq> squote)"

lemma scan_doubled_text:
  assumes "not_squote rest"
  shows "scan_doubled (concat (map (\<lambda>c. if c = squote then [squote, squote] else [c]) s)
      @ squote # rest) = Some (s, rest)"
  using assms by (induction s) (auto simp: not_squote_def split: list.splits)

interpretation sql_quote: quoted_code "\<lambda>s. replace s [squote] [squote, squote]" squote not_squote
    scan_doubled
  by unfold_locales
    (simp_all add: replace_char_eq scan_doubled_text, simp add: not_squote_def)

section \<open>Properties\<close>

text \<open>C34. \<open>escape\<close>, which inserts into the text it walks over, comes to its end, and what it leaves is
  read back, up to the closing quote, as the text it was given, whatever follows the quote.\<close>

theorem escape_reads_back:
  "escape_run sep s 0 = Some (escape s sep) \<and> scan_escaped (escape s sep @ dquote # rest) = Some (s, rest)"
  using escape_run_returns csv_quote.scan_enc [OF TrueI] by (rule conjI)

text \<open>\<open>replace\<close> comes to its end exactly when the text searched for is not empty.\<close>

lemma replace_ends: "replace_run s search repl 0 = None \<longleftrightarrow> search = []"
  by (cases "search = []") (simp_all add: replace_run_empty replace_run_returns)

end
