(* ===== verification/Sym_Enums.thy ===== *)
theory Sym_Enums
  imports Drpdb_Prelude
begin

text \<open>
  The enumerations of \<^verbatim>\<open>drpdb/src/drpdb.h\<close>. Those that the code only ever assigns by name are
  datatypes, with the value of each enumerator as a function. Those that the code fills by a
  cast from a \<open>DWORD\<close> it received can hold any value of their base type, so they are kept as
  words of that type; the list \<open>X_values\<close> gives their named values.
\<close>

section \<open>Enumerations assigned by name\<close>

datatype TableType =
  TableType_Master | TableType_Data | TableType_Function | TableType_Files

instantiation TableType :: enum
begin

definition enum_TableType :: "TableType list" where
  "enum_TableType = [TableType_Master, TableType_Data, TableType_Function, TableType_Files]"

definition enum_all_TableType :: "(TableType \<Rightarrow> bool) \<Rightarrow> bool" where
  "enum_all_TableType P = list_all P [TableType_Master, TableType_Data, TableType_Function, TableType_Files]"

definition enum_ex_TableType :: "(TableType \<Rightarrow> bool) \<Rightarrow> bool" where
  "enum_ex_TableType P = list_ex P [TableType_Master, TableType_Data, TableType_Function, TableType_Files]"

instance
  by standard
    (simp_all add: enum_TableType_def enum_all_TableType_def enum_ex_TableType_def UNIV_eq_I
      TableType.nchotomy split: TableType.splits,
     (metis (full_types) TableType.exhaust)+)

end

datatype PublicSymbol_Type =
  PublicType_FUNCTION | PublicType_DATA | PublicType_OTHER

primrec PublicSymbol_Type_value :: "PublicSymbol_Type \<Rightarrow> nat" where
  "PublicSymbol_Type_value PublicType_FUNCTION = 0"
| "PublicSymbol_Type_value PublicType_DATA = 1"
| "PublicSymbol_Type_value PublicType_OTHER = 2"

definition PublicSymbol_Type_values :: "(string \<times> nat) list" where
  "PublicSymbol_Type_values = [
    (''FUNCTION'', 0), (''DATA'', 1), (''OTHER'', 2)]"

datatype Function_Virtuality =
  Virtuality_INTRO | Virtuality_OVERRIDE | Virtuality_NONE

primrec Function_Virtuality_value :: "Function_Virtuality \<Rightarrow> nat" where
  "Function_Virtuality_value Virtuality_INTRO = 0"
| "Function_Virtuality_value Virtuality_OVERRIDE = 1"
| "Function_Virtuality_value Virtuality_NONE = 2"

definition Function_Virtuality_values :: "(string \<times> nat) list" where
  "Function_Virtuality_values = [
    (''INTRO'', 0), (''OVERRIDE'', 1), (''NONE'', 2)]"

datatype AddrSection_Kind =
  SectionKind_UNKNOWN | SectionKind_DATA | SectionKind_BSS | SectionKind_CODE
  | SectionKind_READDATA

primrec AddrSection_Kind_value :: "AddrSection_Kind \<Rightarrow> nat" where
  "AddrSection_Kind_value SectionKind_UNKNOWN = 0"
| "AddrSection_Kind_value SectionKind_DATA = 1"
| "AddrSection_Kind_value SectionKind_BSS = 2"
| "AddrSection_Kind_value SectionKind_CODE = 3"
| "AddrSection_Kind_value SectionKind_READDATA = 4"

definition AddrSection_Kind_values :: "(string \<times> nat) list" where
  "AddrSection_Kind_values = [
    (''UNKNOWN'', 0), (''DATA'', 1), (''BSS'', 2), (''CODE'', 3), (''READDATA'', 4)]"

datatype UserType_Aggregate =
  Aggregate_NONE | Aggregate_HOMOG_FLOAT | Aggregate_HOMOG_DOUBLE

primrec UserType_Aggregate_value :: "UserType_Aggregate \<Rightarrow> nat" where
  "UserType_Aggregate_value Aggregate_NONE = 0"
| "UserType_Aggregate_value Aggregate_HOMOG_FLOAT = 1"
| "UserType_Aggregate_value Aggregate_HOMOG_DOUBLE = 2"

definition UserType_Aggregate_values :: "(string \<times> nat) list" where
  "UserType_Aggregate_values = [
    (''NONE'', 0), (''HOMOG_FLOAT'', 1), (''HOMOG_DOUBLE'', 2)]"

datatype UserType_Semantics =
  Semantics_UNKNOWN | Semantics_VALUE | Semantics_REFERENCE | Semantics_INTERFACE

primrec UserType_Semantics_value :: "UserType_Semantics \<Rightarrow> nat" where
  "UserType_Semantics_value Semantics_UNKNOWN = 0"
| "UserType_Semantics_value Semantics_VALUE = 1"
| "UserType_Semantics_value Semantics_REFERENCE = 2"
| "UserType_Semantics_value Semantics_INTERFACE = 3"

definition UserType_Semantics_values :: "(string \<times> nat) list" where
  "UserType_Semantics_values = [
    (''UNKNOWN'', 0), (''VALUE'', 1), (''REFERENCE'', 2), (''INTERFACE'', 3)]"

datatype Pointer_Kind =
  PointerKind_PTR | PointerKind_L_REF | PointerKind_R_REF | PointerKind_WINRT_HAT

primrec Pointer_Kind_value :: "Pointer_Kind \<Rightarrow> nat" where
  "Pointer_Kind_value PointerKind_PTR = 0"
| "Pointer_Kind_value PointerKind_L_REF = 1"
| "Pointer_Kind_value PointerKind_R_REF = 2"
| "Pointer_Kind_value PointerKind_WINRT_HAT = 3"

definition Pointer_Kind_values :: "(string \<times> nat) list" where
  "Pointer_Kind_values = [
    (''PTR'', 0), (''L_REF'', 1), (''R_REF'', 2), (''WINRT_HAT'', 3)]"

datatype Pointer_Inheritance =
  Inheritance_NONE | Inheritance_SINGLE | Inheritance_MULTIPLE

primrec Pointer_Inheritance_value :: "Pointer_Inheritance \<Rightarrow> nat" where
  "Pointer_Inheritance_value Inheritance_NONE = 0"
| "Pointer_Inheritance_value Inheritance_SINGLE = 1"
| "Pointer_Inheritance_value Inheritance_MULTIPLE = 2"

definition Pointer_Inheritance_values :: "(string \<times> nat) list" where
  "Pointer_Inheritance_values = [
    (''NONE'', 0), (''SINGLE'', 1), (''MULTIPLE'', 2)]"

datatype Pointer_MemberType =
  MemberType_NONE | MemberType_DATA | MemberType_FUNCTION

primrec Pointer_MemberType_value :: "Pointer_MemberType \<Rightarrow> nat" where
  "Pointer_MemberType_value MemberType_NONE = 0"
| "Pointer_MemberType_value MemberType_DATA = 1"
| "Pointer_MemberType_value MemberType_FUNCTION = 2"

definition Pointer_MemberType_values :: "(string \<times> nat) list" where
  "Pointer_MemberType_values = [
    (''NONE'', 0), (''DATA'', 1), (''FUNCTION'', 2)]"

section \<open>Enumerations filled by casts\<close>

definition CPU_values :: "(string \<times> nat) list" where
  "CPU_values = [
    (''I8080'', 0), (''I8086'', 1), (''I80286'', 2), (''I80386'', 3), (''I80486'', 4),
    (''PENTIUM'', 5), (''PENTIUMII'', 6), (''PENTIUMIII'', 7), (''MIPS'', 16),
    (''MIPS16'', 17), (''MIPS32'', 18), (''MIPS64'', 19), (''MIPSI'', 20), (''MIPSII'', 21),
    (''MIPSIII'', 22), (''MIPSIV'', 23), (''MIPSV'', 24), (''M68000'', 32), (''M68010'', 33),
    (''M68020'', 34), (''M68030'', 35), (''M68040'', 36), (''ALPHA_21064'', 48),
    (''ALPHA_21164'', 49), (''ALPHA_21164A'', 50), (''ALPHA_21264'', 51),
    (''ALPHA_21364'', 52), (''PPC601'', 64), (''PPC603'', 65), (''PPC604'', 66),
    (''PPC620'', 67), (''PPCFP'', 68), (''PPCBE'', 69), (''SH3'', 80), (''SH3E'', 81),
    (''SH3DSP'', 82), (''SH4'', 83), (''SHMEDIA'', 84), (''ARM3'', 96), (''ARM4'', 97),
    (''ARM4T'', 98), (''ARM5'', 99), (''ARM5T'', 100), (''ARM6'', 101), (''ARM_XMAC'', 102),
    (''ARM_WMMX'', 103), (''ARM7'', 104), (''OMNI'', 112), (''IA64_1'', 128),
    (''IA64_2'', 129), (''CEE'', 144), (''AM33'', 160), (''M32R'', 176), (''TRICORE'', 192),
    (''X64'', 208), (''EBC'', 224), (''THUMB'', 240), (''ARMNT'', 244), (''ARM64'', 246),
    (''D3D11_SHADER'', 256)]"

definition Location_values :: "(string \<times> nat) list" where
  "Location_values = [
    (''NONE'', 0), (''STATIC'', 1), (''TLS'', 2), (''REGREL'', 3), (''THISREL'', 4),
    (''ENREGISTERED'', 5), (''BITFIELD'', 6), (''SLOT'', 7), (''ILREL'', 8), (''METADATA'', 9),
    (''CONSTANT'', 10)]"

definition Language_values :: "(string \<times> nat) list" where
  "Language_values = [
    (''C'', 0), (''CXX'', 1), (''FORTRAN'', 2), (''MASM'', 3), (''PASCAL'', 4), (''BASIC'', 5),
    (''COBOL'', 6), (''LINK'', 7), (''CVTRES'', 8), (''CVTPGD'', 9), (''CSHARP'', 10),
    (''VB'', 11), (''ILASM'', 12), (''JAVA'', 13), (''JS'', 14), (''CIL'', 15), (''HLSL'', 16)]"

definition Tag_values :: "(string \<times> nat) list" where
  "Tag_values = [
    (''Unknown'', 0), (''Exe'', 1), (''Compiland'', 2), (''CompilandDetails'', 3),
    (''CompilandEnv'', 4), (''Function'', 5), (''Block'', 6), (''Data'', 7),
    (''Annotation'', 8), (''Label'', 9), (''PublicSymbol'', 10), (''UDT'', 11), (''Enum'', 12),
    (''FunctionType'', 13), (''PointerType'', 14), (''ArrayType'', 15), (''BaseType'', 16),
    (''Typedef'', 17), (''BaseClass'', 18), (''Friend'', 19), (''FunctionArgType'', 20),
    (''FuncDebugStart'', 21), (''FuncDebugEnd'', 22), (''UsingNamespace'', 23),
    (''VTableShape'', 24), (''VTable'', 25), (''Custom'', 26), (''Thunk'', 27),
    (''CustomType'', 28), (''ManagedType'', 29), (''Dimension'', 30), (''CallSite'', 31),
    (''InlineSite'', 32), (''BaseInterface'', 33), (''VectorType'', 34), (''MatrixType'', 35),
    (''HLSLType'', 36), (''Caller'', 37), (''Callee'', 38), (''Export'', 39),
    (''HeapAllocationSite'', 40), (''CoffGroup'', 41), (''Max'', 42)]"

definition Access_values :: "(string \<times> nat) list" where
  "Access_values = [
    (''NONE'', 0), (''PRIVATE'', 1), (''PROTECTED'', 2), (''PUBLIC'', 3)]"

definition Thunk_Ordinal_values :: "(string \<times> nat) list" where
  "Thunk_Ordinal_values = [
    (''NONE'', 0), (''THIS_ADJUSTOR'', 1), (''VIRTUAL_CALL'', 2), (''PCODE'', 3),
    (''DELAY_LOAD'', 4), (''TRAMPOLINE_INCREMENTAL'', 5), (''TRAMPOLINE_BRANCHISLAND'', 6)]"

definition Data_Kind_values :: "(string \<times> nat) list" where
  "Data_Kind_values = [
    (''UNKNOWN'', 0), (''LOCAL'', 1), (''STATICLOCAL'', 2), (''PARAM'', 3), (''OBJECTPTR'', 4),
    (''FILESTATIC'', 5), (''GLOBAL'', 6), (''MEMBER'', 7), (''STATICMEMBER'', 8),
    (''CONSTANT'', 9)]"

definition BuiltinType_Kind_values :: "(string \<times> nat) list" where
  "BuiltinType_Kind_values = [
    (''NONE'', 0), (''VOID'', 1), (''CHAR'', 2), (''WCHAR'', 3), (''INT'', 6), (''UINT'', 7),
    (''FLOAT'', 8), (''BCD'', 9), (''BOOL'', 10), (''LONG'', 13), (''ULONG'', 14),
    (''CURRENCY'', 25), (''DATE'', 26), (''VARIANT'', 27), (''COMPLEX'', 28), (''BIT'', 29),
    (''BSTR'', 30), (''HRESULT'', 31), (''CHAR16'', 32), (''CHAR32'', 33)]"

definition UserType_Kind_values :: "(string \<times> nat) list" where
  "UserType_Kind_values = [
    (''STRUCT'', 0), (''CLASS'', 1), (''UNION'', 2), (''INTERFACE'', 3)]"

definition FunctionType_CallConv_values :: "(string \<times> nat) list" where
  "FunctionType_CallConv_values = [
    (''NEAR_C'', 0), (''FAR_C'', 1), (''NEAR_PASCAL'', 2), (''FAR_PASCAL'', 3),
    (''NEAR_FAST'', 4), (''FAR_FAST'', 5), (''SKIPPED'', 6), (''NEAR_STD'', 7),
    (''FAR_STD'', 8), (''NEAR_SYS'', 9), (''FAR_SYS'', 10), (''THISCALL'', 11),
    (''MIPSCALL'', 12), (''GENERIC'', 13), (''ALPHACALL'', 14), (''PPCCALL'', 15),
    (''SHCALL'', 16), (''ARMCALL'', 17), (''AM33CALL'', 18), (''TRICALL'', 19),
    (''SH5CALL'', 20), (''M32RCALL'', 21), (''CLRCALL'', 22), (''INLINE'', 23),
    (''NEAR_VECTOR'', 24), (''RESERVED'', 25)]"

section \<open>Addresses\<close>

record address_info =
  address_rv :: u32

end
