(* ===== verification/Reflection.thy ===== *)
theory Reflection
  imports Sym_Enums
begin

text \<open>
  \<^verbatim>\<open>drpdb/src/PDBReflection.inl\<close>, the list of tables that the CSV writer, the SQL writers and
  the documentation writer expand with their own macros. A table is what one
  \<open>BEGIN_STRUCT ... END_STRUCT\<close> group says, a member what one \<open>MEMBER\<close> or
  \<open>UNIQUE_MEMBER\<close> line says together with \<open>decltype\<close> of the field it names; an enumeration
  lists the enumerators of one \<open>BEGIN_ENUMERATION ... END_ENUMERATION\<close> group in its order.
\<close>

section \<open>Enumerations\<close>

datatype etype =
  E_PublicSymbol_Type | E_AddrSection_Kind | E_Language | E_UserType_Semantics
  | E_Thunk_Ordinal | E_Tag | E_Data_Kind | E_BuiltinType_Kind | E_FunctionType_CallConv
  | E_UserType_Kind | E_UserType_Aggregate | E_Pointer_Kind | E_Pointer_Inheritance
  | E_Pointer_MemberType | E_Function_Virtuality | E_Access | E_CPU | E_Location

definition PublicSymbol_Type_enumerators :: "string list" where
  "PublicSymbol_Type_enumerators = [
    ''FUNCTION'', ''DATA'', ''OTHER'']"

definition AddrSection_Kind_enumerators :: "string list" where
  "AddrSection_Kind_enumerators = [
    ''UNKNOWN'', ''DATA'', ''BSS'', ''CODE'', ''READDATA'']"

definition Language_enumerators :: "string list" where
  "Language_enumerators = [
    ''C'', ''CXX'', ''FORTRAN'', ''MASM'', ''PASCAL'', ''BASIC'', ''COBOL'', ''LINK'',
    ''CVTRES'', ''CVTPGD'', ''CSHARP'', ''VB'', ''ILASM'', ''JAVA'', ''JS'', ''CIL'', ''HLSL'']"

definition UserType_Semantics_enumerators :: "string list" where
  "UserType_Semantics_enumerators = [
    ''UNKNOWN'', ''VALUE'', ''REFERENCE'', ''INTERFACE'']"

definition Thunk_Ordinal_enumerators :: "string list" where
  "Thunk_Ordinal_enumerators = [
    ''NONE'', ''THIS_ADJUSTOR'', ''VIRTUAL_CALL'', ''PCODE'', ''DELAY_LOAD'',
    ''TRAMPOLINE_INCREMENTAL'', ''TRAMPOLINE_BRANCHISLAND'']"

definition Tag_enumerators :: "string list" where
  "Tag_enumerators = [
    ''Unknown'', ''Exe'', ''Compiland'', ''CompilandDetails'', ''CompilandEnv'', ''Function'',
    ''Block'', ''Data'', ''Annotation'', ''Label'', ''PublicSymbol'', ''UDT'', ''Enum'',
    ''FunctionType'', ''PointerType'', ''ArrayType'', ''BaseType'', ''Typedef'', ''BaseClass'',
    ''Friend'', ''FunctionArgType'', ''FuncDebugStart'', ''FuncDebugEnd'', ''UsingNamespace'',
    ''VTableShape'', ''VTable'', ''Custom'', ''Thunk'', ''CustomType'', ''ManagedType'',
    ''Dimension'', ''CallSite'', ''InlineSite'', ''BaseInterface'', ''VectorType'',
    ''MatrixType'', ''HLSLType'', ''Caller'', ''Callee'', ''Export'', ''HeapAllocationSite'',
    ''CoffGroup'', ''Max'']"

definition Data_Kind_enumerators :: "string list" where
  "Data_Kind_enumerators = [
    ''UNKNOWN'', ''LOCAL'', ''STATICLOCAL'', ''PARAM'', ''OBJECTPTR'', ''FILESTATIC'',
    ''GLOBAL'', ''MEMBER'', ''STATICMEMBER'', ''CONSTANT'']"

definition BuiltinType_Kind_enumerators :: "string list" where
  "BuiltinType_Kind_enumerators = [
    ''NONE'', ''VOID'', ''CHAR'', ''WCHAR'', ''INT'', ''UINT'', ''FLOAT'', ''BCD'', ''BOOL'',
    ''LONG'', ''ULONG'', ''CURRENCY'', ''DATE'', ''VARIANT'', ''COMPLEX'', ''BIT'', ''BSTR'',
    ''HRESULT'', ''CHAR16'', ''CHAR32'']"

definition FunctionType_CallConv_enumerators :: "string list" where
  "FunctionType_CallConv_enumerators = [
    ''NEAR_C'', ''FAR_C'', ''NEAR_PASCAL'', ''FAR_PASCAL'', ''NEAR_FAST'', ''FAR_FAST'',
    ''SKIPPED'', ''NEAR_STD'', ''FAR_STD'', ''NEAR_SYS'', ''FAR_SYS'', ''THISCALL'',
    ''MIPSCALL'', ''GENERIC'', ''ALPHACALL'', ''PPCCALL'', ''SHCALL'', ''ARMCALL'',
    ''AM33CALL'', ''TRICALL'', ''SH5CALL'', ''M32RCALL'', ''CLRCALL'', ''INLINE'',
    ''NEAR_VECTOR'', ''RESERVED'']"

definition UserType_Kind_enumerators :: "string list" where
  "UserType_Kind_enumerators = [
    ''STRUCT'', ''CLASS'', ''UNION'', ''INTERFACE'']"

definition UserType_Aggregate_enumerators :: "string list" where
  "UserType_Aggregate_enumerators = [
    ''NONE'', ''HOMOG_FLOAT'', ''HOMOG_DOUBLE'']"

definition Pointer_Kind_enumerators :: "string list" where
  "Pointer_Kind_enumerators = [
    ''PTR'', ''L_REF'', ''R_REF'', ''WINRT_HAT'']"

definition Pointer_Inheritance_enumerators :: "string list" where
  "Pointer_Inheritance_enumerators = [
    ''NONE'', ''SINGLE'', ''MULTIPLE'']"

definition Pointer_MemberType_enumerators :: "string list" where
  "Pointer_MemberType_enumerators = [
    ''NONE'', ''DATA'', ''FUNCTION'']"

definition Function_Virtuality_enumerators :: "string list" where
  "Function_Virtuality_enumerators = [
    ''INTRO'', ''OVERRIDE'', ''NONE'']"

definition Access_enumerators :: "string list" where
  "Access_enumerators = [
    ''NONE'', ''PRIVATE'', ''PUBLIC'', ''PROTECTED'']"

definition CPU_enumerators :: "string list" where
  "CPU_enumerators = [
    ''I8080'', ''I8086'', ''I80286'', ''I80386'', ''I80486'', ''PENTIUM'', ''PENTIUMII'',
    ''PENTIUMIII'', ''MIPS'', ''MIPS16'', ''MIPS32'', ''MIPS64'', ''MIPSI'', ''MIPSII'',
    ''MIPSIII'', ''MIPSIV'', ''MIPSV'', ''M68000'', ''M68010'', ''M68020'', ''M68030'',
    ''M68040'', ''ALPHA_21064'', ''ALPHA_21164'', ''ALPHA_21164A'', ''ALPHA_21264'',
    ''ALPHA_21364'', ''PPC601'', ''PPC603'', ''PPC604'', ''PPC620'', ''PPCFP'', ''PPCBE'',
    ''SH3'', ''SH3E'', ''SH3DSP'', ''SH4'', ''SHMEDIA'', ''ARM3'', ''ARM4'', ''ARM4T'',
    ''ARM5'', ''ARM5T'', ''ARM6'', ''ARM_XMAC'', ''ARM_WMMX'', ''ARM7'', ''OMNI'', ''IA64_1'',
    ''IA64_2'', ''CEE'', ''AM33'', ''M32R'', ''TRICORE'', ''X64'', ''EBC'', ''THUMB'',
    ''ARMNT'', ''ARM64'', ''D3D11_SHADER'']"

definition Location_enumerators :: "string list" where
  "Location_enumerators = [
    ''NONE'', ''STATIC'', ''TLS'', ''REGREL'', ''THISREL'', ''ENREGISTERED'', ''BITFIELD'',
    ''SLOT'', ''ILREL'', ''METADATA'', ''CONSTANT'']"

primrec enumerators :: "etype \<Rightarrow> string list" where
  "enumerators E_PublicSymbol_Type = PublicSymbol_Type_enumerators"
| "enumerators E_AddrSection_Kind = AddrSection_Kind_enumerators"
| "enumerators E_Language = Language_enumerators"
| "enumerators E_UserType_Semantics = UserType_Semantics_enumerators"
| "enumerators E_Thunk_Ordinal = Thunk_Ordinal_enumerators"
| "enumerators E_Tag = Tag_enumerators"
| "enumerators E_Data_Kind = Data_Kind_enumerators"
| "enumerators E_BuiltinType_Kind = BuiltinType_Kind_enumerators"
| "enumerators E_FunctionType_CallConv = FunctionType_CallConv_enumerators"
| "enumerators E_UserType_Kind = UserType_Kind_enumerators"
| "enumerators E_UserType_Aggregate = UserType_Aggregate_enumerators"
| "enumerators E_Pointer_Kind = Pointer_Kind_enumerators"
| "enumerators E_Pointer_Inheritance = Pointer_Inheritance_enumerators"
| "enumerators E_Pointer_MemberType = Pointer_MemberType_enumerators"
| "enumerators E_Function_Virtuality = Function_Virtuality_enumerators"
| "enumerators E_Access = Access_enumerators"
| "enumerators E_CPU = CPU_enumerators"
| "enumerators E_Location = Location_enumerators"

text \<open>The values the header gives the enumerators.\<close>

primrec enum_values :: "etype \<Rightarrow> (string \<times> nat) list" where
  "enum_values E_PublicSymbol_Type = PublicSymbol_Type_values"
| "enum_values E_AddrSection_Kind = AddrSection_Kind_values"
| "enum_values E_Language = Language_values"
| "enum_values E_UserType_Semantics = UserType_Semantics_values"
| "enum_values E_Thunk_Ordinal = Thunk_Ordinal_values"
| "enum_values E_Tag = Tag_values"
| "enum_values E_Data_Kind = Data_Kind_values"
| "enum_values E_BuiltinType_Kind = BuiltinType_Kind_values"
| "enum_values E_FunctionType_CallConv = FunctionType_CallConv_values"
| "enum_values E_UserType_Kind = UserType_Kind_values"
| "enum_values E_UserType_Aggregate = UserType_Aggregate_values"
| "enum_values E_Pointer_Kind = Pointer_Kind_values"
| "enum_values E_Pointer_Inheritance = Pointer_Inheritance_values"
| "enum_values E_Pointer_MemberType = Pointer_MemberType_values"
| "enum_values E_Function_Virtuality = Function_Virtuality_values"
| "enum_values E_Access = Access_values"
| "enum_values E_CPU = CPU_values"
| "enum_values E_Location = Location_values"

section \<open>Members and tables\<close>

text \<open>The C++ types of the reflected fields, as overload resolution tells them apart.\<close>

datatype ctype =
    T_float | T_int | T_uint32 | T_long | T_ulong | T_ullong | T_llong | T_uchar | T_string
  | T_bool | T_address | T_enum etype

datatype member =
    MEMBER (m_name: string) (m_type: ctype) (m_desc: string)
  | UNIQUE_MEMBER (m_name: string) (m_type: ctype) (m_desc: string)

primrec is_unique :: "member \<Rightarrow> bool" where
  "is_unique (MEMBER n t d) = False"
| "is_unique (UNIQUE_MEMBER n t d) = True"

text \<open>The value of a field, tagged with that type. A finite \<open>float\<close> is \<open>m * 2 ^ e\<close>.\<close>

datatype cval =
    V_float int int
  | V_int u32 | V_uint32 u32 | V_long u32 | V_ulong u32 | V_ullong u64 | V_llong u64
  | V_string string | V_bool bool | V_address address_info | V_enum etype nat

primrec cval_type :: "cval \<Rightarrow> ctype" where
  "cval_type (V_float m e) = T_float"
| "cval_type (V_int v) = T_int"
| "cval_type (V_uint32 v) = T_uint32"
| "cval_type (V_long v) = T_long"
| "cval_type (V_ulong v) = T_ulong"
| "cval_type (V_ullong v) = T_ullong"
| "cval_type (V_llong v) = T_llong"
| "cval_type (V_string v) = T_string"
| "cval_type (V_bool v) = T_bool"
| "cval_type (V_address v) = T_address"
| "cval_type (V_enum e v) = T_enum e"

record table =
  tbl_struct :: string
  tbl_name :: string
  tbl_desc :: string
  tbl_category :: TableType
  tbl_members :: "member list"

definition members_Symbol :: "member list" where
  "members_Symbol = [
    MEMBER ''name'' T_string
      ''A description of the symbol'',
    UNIQUE_MEMBER ''symbol'' T_ulong
      ''Unique key for the symbol'',
    MEMBER ''lexical_parent_symbol'' T_ulong
      ''The region of source code in which a symbol (or identifier) is considered valid; that is, a namespace, file, function, block of code, or function prototype.'',
    MEMBER ''parent_symbol'' T_ulong
      ''Logical parent of the symbol'',
    MEMBER ''size'' T_ullong
      ''Size of the symbol in bytes'',
    MEMBER ''tag'' (T_enum E_Tag)
      ''Codeview symbol type'',
    MEMBER ''location_type'' (T_enum E_Location)
      ''Type of addressing to use when looking up this symbol in the executable'']"

definition table_Symbol :: table where
  "table_Symbol = \<lparr> tbl_struct = ''Symbol'', tbl_name = ''symbols'',
    tbl_desc = ''For the compiler, any name used to identify coding constructs (such as a variable, function, structure, enumeration, constant, class, method, property, and so on) and memory locations within an application.'',
    tbl_category = TableType_Master, tbl_members = members_Symbol \<rparr>"

definition members_BuiltinType :: "member list" where
  "members_BuiltinType = [
    UNIQUE_MEMBER ''symbol'' T_uint32
      ''Corresponding *symbols* table entry'',
    MEMBER ''kind'' (T_enum E_BuiltinType_Kind)
      ''The language builtin type'',
    MEMBER ''unaligned'' T_bool
      ''The type does not follow normal alignment rules'',
    MEMBER ''const_'' T_bool
      ''The type is	`const` qualified'',
    MEMBER ''volatile_'' T_bool
      ''The type is `volatile` qualified'',
    MEMBER ''const_export'' T_bool
      ''Symbol is both exported and const'']"

definition table_BuiltinType :: table where
  "table_BuiltinType = \<lparr> tbl_struct = ''BuiltinType'', tbl_name = ''builtins'',
    tbl_desc = ''Describes qualified builtin types (`const bool`, `volatile int`, etc) used in the program.'',
    tbl_category = TableType_Data, tbl_members = members_BuiltinType \<rparr>"

definition members_Frame :: "member list" where
  "members_Frame = [
    MEMBER ''program'' T_string
      ''Program string that is used to compute the register set before the call to the current function'',
    MEMBER ''address'' T_address
      ''Virtual address of the code for the frame'',
    MEMBER ''length_block'' T_uint32
      ''Number of bytes of the block of code described by the frame'',
    MEMBER ''length_locals'' T_uint32
      ''Number of bytes of local variables pushed on the stack'',
    MEMBER ''length_params'' T_uint32
      ''Number of bytes of parameters pushed on the stack'',
    MEMBER ''max_stack'' T_uint32
      ''The maximum number of bytes pushed on the stack in the frame'',
    MEMBER ''length_prolog'' T_uint32
      ''Number of bytes of prologue code on the block'',
    MEMBER ''length_saved_registers'' T_uint32
      ''Number of bytes of saved registers pushed on the stack'',
    MEMBER ''type_symbol'' T_uint32
      ''Compiler-specific frame type'',
    MEMBER ''exceptions_system'' T_bool
      ''System exception handling is in effect'',
    MEMBER ''exceptions_cxx'' T_bool
      ''C++ exception handling is in effect'',
    MEMBER ''function_start'' T_bool
      ''Block contains entry point of a function'',
    MEMBER ''allocate_base_pointer'' T_bool
      ''Base pointer is allocated for code in this range (deprecated)'']"

definition table_Frame :: table where
  "table_Frame = \<lparr> tbl_struct = ''Frame'', tbl_name = ''frames'',
    tbl_desc = ''Details of a stack frame'',
    tbl_category = TableType_Function, tbl_members = members_Frame \<rparr>"

definition members_Label :: "member list" where
  "members_Label = [
    UNIQUE_MEMBER ''symbol'' T_uint32
      ''Corresponding *symbols* table entry'',
    MEMBER ''address'' T_address
      ''Relative position of this label within its module'']"

definition table_Label :: table where
  "table_Label = \<lparr> tbl_struct = ''Label'', tbl_name = ''labels'',
    tbl_desc = ''A location in code (used by e.g. goto)'',
    tbl_category = TableType_Function, tbl_members = members_Label \<rparr>"

definition members_FunctionType :: "member list" where
  "members_FunctionType = [
    UNIQUE_MEMBER ''symbol'' T_uint32
      ''Corresponding *symbols* table entry'',
    MEMBER ''volatile_'' T_bool
      ''The function is marked as `volatile`'',
    MEMBER ''const_'' T_bool
      ''The function is marked as `const`'',
    MEMBER ''unaligned'' T_bool
      ''The function is unaligned'',
    MEMBER ''this_adjust'' T_int
      ''Logical `this` adjustor for the method'',
    MEMBER ''param_count'' T_uint32
      ''Number of parameters for this function'',
    MEMBER ''is_constructor'' T_bool
      ''The function represents a constructor'',
    MEMBER ''return_type_symbol'' T_uint32
      ''*symbols* table entry for the type of the `return` value'',
    MEMBER ''this_type_symbol'' T_uint32
      ''*symbols* table entry for the type of `this`'',
    MEMBER ''cxx_return_udt'' T_bool
      ''Function returns a C++ `struct`/`class`/`union`'',
    MEMBER ''constructor_virtual_base'' T_bool
      ''Constructor requires adjustments for `virtual` base classes'',
    MEMBER ''constant_export'' T_bool
      '''',
    MEMBER ''call_convention'' (T_enum E_FunctionType_CallConv)
      ''[Calling convention](https://msdn.microsoft.com/en-us/library/k2b2ssfy.aspx) for this function'']"

definition table_FunctionType :: table where
  "table_FunctionType = \<lparr> tbl_struct = ''FunctionType'', tbl_name = ''function_types'',
    tbl_desc = ''Each unique function signature is identified by a function type. Each parameter is identified as a class child symbol with a FunctionArg tag.'',
    tbl_category = TableType_Function, tbl_members = members_FunctionType \<rparr>"

definition members_Function :: "member list" where
  "members_Function = [
    UNIQUE_MEMBER ''symbol'' T_uint32
      ''Corresponding *symbols* table entry'',
    MEMBER ''virtual_base_offset'' T_uint32
      '''',
    MEMBER ''type_symbol'' T_uint32
      ''*symbols* table entry for the function signature (see *function_types* table)'',
    MEMBER ''access'' (T_enum E_Access)
      ''`private`, `public`, `protected`, or none'',
    MEMBER ''virtuality'' (T_enum E_Function_Virtuality)
      ''Is a virtual override, virtual introducer, or non-virtual'',
    MEMBER ''pgo_dyn_instr_count'' T_ullong
      ''Instruction counter used by profile-guided optimization'',
    MEMBER ''static_size'' T_uint32
      '''',
    MEMBER ''pbp_regid'' T_uint32
      ''Parameter base pointer register ID'',
    MEMBER ''lbp_regid'' T_uint32
      ''Local base pointer register ID'',
    MEMBER ''final_live_static_size'' T_uint32
      '''',
    MEMBER ''frame_size'' T_uint32
      ''Size of the function's stack frame'',
    MEMBER ''address'' T_address
      ''Relative virtual address of the function'',
    MEMBER ''eh_address'' T_address
      ''Relative virtual address of the function's exception handler'',
    MEMBER ''pgo_entry_count'' T_uint32
      ''Function call counter used by profile-guided optimization'',
    MEMBER ''control_flow_check'' T_bool
      ''See https://msdn.microsoft.com/en-us/library/windows/desktop/mt637065(v=vs.85).aspx'',
    MEMBER ''exceptions'' T_bool
      ''Exceptions are enabled'',
    MEMBER ''sealed'' T_bool
      ''Is `sealed` or `final`'',
    MEMBER ''security_checks'' T_bool
      ''See https://msdn.microsoft.com/en-us/library/8dbf701c.aspx'',
    MEMBER ''static_'' T_bool
      ''Is `static`'',
    MEMBER ''pure_virtual'' T_bool
      ''`virtual` function has `=0` specifier'',
    MEMBER ''inline_'' T_bool
      ''Declared `inline`'',
    MEMBER ''inlined'' T_bool
      ''Can actually be inlined'',
    MEMBER ''noinline'' T_bool
      ''Declared [`__declspec(noinline)`](https://msdn.microsoft.com/en-us/library/kxybs02x.aspx)'',
    MEMBER ''noreturn'' T_bool
      ''Declared [`__declspec(noreturn)`](https://msdn.microsoft.com/en-us/library/k6ktzx3s.aspx)'',
    MEMBER ''unreachable'' T_bool
      '''',
    MEMBER ''setjmp_'' T_bool
      ''Contains a `setjmp` instruction'',
    MEMBER ''asm_'' T_bool
      ''Includes inline assembly'',
    MEMBER ''alloca_'' T_bool
      ''Uses `alloca`'',
    MEMBER ''const_export'' T_bool
      ''Symbol is both exported and const'',
    MEMBER ''strict_gs_check'' T_bool
      ''If function uses [#pragma strict_gs_check](https://msdn.microsoft.com/en-us/library/bb507721.aspx)'',
    MEMBER ''longjmp'' T_bool
      ''If function uses `longjmp` instruction'',
    MEMBER ''eh'' T_bool
      ''Compiled with [/EH](https://msdn.microsoft.com/en-us/library/1deeycx5.aspx)'',
    MEMBER ''eha'' T_bool
      ''Compiled with [/EHa](https://msdn.microsoft.com/en-us/library/1deeycx5.aspx)'',
    MEMBER ''seh'' T_bool
      ''Contains [structured exception handling](https://msdn.microsoft.com/en-us/library/windows/desktop/ms680657(v=vs.85).aspx)'',
    MEMBER ''optimized_debug_info'' T_bool
      '''',
    MEMBER ''frame_pointer'' T_bool
      ''Contains a [frame pointer](https://msdn.microsoft.com/en-us/library/2kxx5t2c.aspx)'',
    MEMBER ''interrupt_return'' T_bool
      '''',
    MEMBER ''far_return'' T_bool
      '''',
    MEMBER ''naked'' T_bool
      ''Declared [`__declspec(naked)`](https://msdn.microsoft.com/en-us/library/h5w10wxs.aspx)'',
    MEMBER ''custom_call'' T_bool
      ''Optimizer has created a custom calling convention for optimization purposes'',
    MEMBER ''stack_ordering'' T_bool
      ''Stack ordering could not be done for [/GS](https://technet.microsoft.com/en-us/library/8dbf701c)'',
    MEMBER ''safebuffers'' T_bool
      ''Declared [`__declspec(safebuffers)`](https://msdn.microsoft.com/en-us/library/dd778695.aspx)'',
    MEMBER ''pgo'' T_bool
      ''Compiled with profile guided optimization'',
    MEMBER ''has_pgo_counts'' T_bool
      ''Describes whether or not the pgo counters contain valid data'',
    MEMBER ''optimized_for_speed'' T_bool
      ''Compiled to be optimized for speed'',
    MEMBER ''compiler_generated'' T_bool
      ''Was generated by the compiler'']"

definition table_Function :: table where
  "table_Function = \<lparr> tbl_struct = ''Function'', tbl_name = ''functions'',
    tbl_desc = ''Provides information about functions'',
    tbl_category = TableType_Function, tbl_members = members_Function \<rparr>"

definition members_VTablePtr :: "member list" where
  "members_VTablePtr = [
    MEMBER ''symbol'' T_uint32
      ''Corresponding *symbols* table entry'',
    MEMBER ''offset'' T_uint32
      ''Location of the pointer in the class'',
    MEMBER ''type_symbol'' T_uint32
      ''Corresponding *vtables* table entry'']"

definition table_VTablePtr :: table where
  "table_VTablePtr = \<lparr> tbl_struct = ''VTablePtr'', tbl_name = ''vtable_pointers'',
    tbl_desc = ''Represents a pointer to a table of virtual functions'',
    tbl_category = TableType_Data, tbl_members = members_VTablePtr \<rparr>"

definition members_VTableShape :: "member list" where
  "members_VTableShape = [
    MEMBER ''symbol'' T_uint32
      ''Corresponding *symbols* table entry'',
    MEMBER ''count'' T_uint32
      ''Number of entries in the VTable'']"

definition table_VTableShape :: table where
  "table_VTableShape = \<lparr> tbl_struct = ''VTableShape'', tbl_name = ''vtables'',
    tbl_desc = ''Represents a table of virtual functions'',
    tbl_category = TableType_Data, tbl_members = members_VTableShape \<rparr>"

definition members_Friend :: "member list" where
  "members_Friend = [
    MEMBER ''symbol'' T_uint32
      ''Corresponding *symbols* table entry'',
    MEMBER ''type_symbol'' T_uint32
      ''*symbols* table entry for the befriended type'']"

definition table_Friend :: table where
  "table_Friend = \<lparr> tbl_struct = ''Friend'', tbl_name = ''friends'',
    tbl_desc = ''Describes `friend` relationships among data types'',
    tbl_category = TableType_Data, tbl_members = members_Friend \<rparr>"

definition members_PublicSymbol :: "member list" where
  "members_PublicSymbol = [
    UNIQUE_MEMBER ''symbol'' T_uint32
      ''Corresponding *symbols* table entry'',
    MEMBER ''type'' (T_enum E_PublicSymbol_Type)
      ''DATA or FUNCTION'',
    MEMBER ''address'' T_address
      ''Relative virtual address of the symbol'',
    MEMBER ''managed'' T_bool
      ''Is a managed symbol'',
    MEMBER ''cil'' T_bool
      ''Defined in the [Common Intermediate Language](https://en.wikipedia.org/wiki/Common_Intermediate_Language)'']"

definition table_PublicSymbol :: table where
  "table_PublicSymbol = \<lparr> tbl_struct = ''PublicSymbol'', tbl_name = ''public_symbols'',
    tbl_desc = ''Describes symbols which are visible to multiple translation units. These symbols force additional work onto the linker'',
    tbl_category = TableType_Master, tbl_members = members_PublicSymbol \<rparr>"

definition members_Data :: "member list" where
  "members_Data = [
    UNIQUE_MEMBER ''symbol'' T_ulong
      ''Corresponding *symbols* table entry'',
    MEMBER ''value'' T_llong
      ''Numeric value of the data'',
    MEMBER ''type_symbol'' T_uint32
      ''*symbols* table entry for the data type'',
    MEMBER ''offset'' T_uint32
      ''Offset of the data (for eg. data members)'',
    MEMBER ''address'' T_address
      ''Address of the data'',
    MEMBER ''register_id'' T_uint32
      ''Register for the data object'',
    MEMBER ''bit_position'' T_uint32
      ''Position for bitfield data'',
    MEMBER ''kind'' (T_enum E_Data_Kind)
      ''Where the data is stored'',
    MEMBER ''const_export'' T_bool
      ''Symbol is both exported and const'']"

definition table_Data :: table where
  "table_Data = \<lparr> tbl_struct = ''Data'', tbl_name = ''data'',
    tbl_desc = ''Describes global variables, local variables, and member data'',
    tbl_category = TableType_Master, tbl_members = members_Data \<rparr>"

definition members_Compiland :: "member list" where
  "members_Compiland = [
    UNIQUE_MEMBER ''symbol'' T_uint32
      ''Corresponding *symbols* table entry'',
    MEMBER ''library'' T_string
      ''Path to the .obj file'',
    MEMBER ''compiler'' T_string
      ''Compiler that generated the .obj file'',
    MEMBER ''backend_build'' T_uint32
      ''compiler version'',
    MEMBER ''backend_major'' T_uint32
      ''compiler version'',
    MEMBER ''backend_minor'' T_uint32
      ''compiler version'',
    MEMBER ''frontend_build'' T_uint32
      ''compiler version'',
    MEMBER ''frontend_major'' T_uint32
      ''compiler version'',
    MEMBER ''frontend_minor'' T_uint32
      ''compiler version'',
    MEMBER ''frontend_qfe'' T_uint32
      ''compiler version'',
    MEMBER ''backend_qfe'' T_uint32
      ''compiler version'',
    MEMBER ''language'' (T_enum E_Language)
      ''Language of the source file'',
    MEMBER ''platform'' (T_enum E_CPU)
      ''Architecture the file was compiled for'',
    MEMBER ''security_check'' T_bool
      ''Compiled with [/GS](https://msdn.microsoft.com/en-us/library/8dbf701c.aspx)'',
    MEMBER ''managed'' T_bool
      ''Source language is managed'',
    MEMBER ''debug_info'' T_bool
      ''If the .obj file has debug information available'',
    MEMBER ''edit_and_continue'' T_bool
      ''File was compiled with edit and continue support'',
    MEMBER ''ltcg'' T_bool
      ''File was compiled for link-time code generation'',
    MEMBER ''sdl'' T_bool
      ''Compiled with [/sdl](https://msdn.microsoft.com/en-us/library/jj161081.aspx)'',
    MEMBER ''pgo'' T_bool
      ''Compiled for profile guided optimization'',
    MEMBER ''data_aligned'' T_bool
      '''',
    MEMBER ''hotpatchable'' T_bool
      ''contains extra nop instructions to facilitate [hotpatching](https://msdn.microsoft.com/en-us/library/ms173507.aspx)'',
    MEMBER ''cvtcil'' T_bool
      ''Module was coverted from Common Intermediate Language module to native module via `link /cvtcil`'',
    MEMBER ''cil_netmodule'' T_bool
      ''See the definition of [Netmodule](https://blogs.msdn.microsoft.com/junfeng/2005/02/12/netmodule-vs-assembly/)'']"

definition table_Compiland :: table where
  "table_Compiland = \<lparr> tbl_struct = ''Compiland'', tbl_name = ''compilands'',
    tbl_desc = ''Describes the translation units/source files used to compile the program'',
    tbl_category = TableType_Files, tbl_members = members_Compiland \<rparr>"

definition members_InjectedSource :: "member list" where
  "members_InjectedSource = [
    MEMBER ''length'' T_ullong
      '''',
    MEMBER ''text'' T_string
      '''']"

definition table_InjectedSource :: table where
  "table_InjectedSource = \<lparr> tbl_struct = ''InjectedSource'', tbl_name = ''injected_src'',
    tbl_desc = ''Code that has been placed into the symbol store by attribute providers or other components of the compilation process. May also refer to code that is generated automatically by the compiler and/or linker.'',
    tbl_category = TableType_Function, tbl_members = members_InjectedSource \<rparr>"

definition members_SourceFile :: "member list" where
  "members_SourceFile = [
    UNIQUE_MEMBER ''source_id'' T_uint32
      ''Primary key used as a unique identifier'',
    MEMBER ''path'' T_string
      ''Location of the file on disk'']"

definition table_SourceFile :: table where
  "table_SourceFile = \<lparr> tbl_struct = ''SourceFile'', tbl_name = ''src_files'',
    tbl_desc = ''Describes source code files used in the program'',
    tbl_category = TableType_Files, tbl_members = members_SourceFile \<rparr>"

definition members_SrcRange :: "member list" where
  "members_SrcRange = [
    UNIQUE_MEMBER ''id'' T_uint32
      ''Primary key used as a unique identifier'',
    MEMBER ''compiland_symbol'' T_uint32
      ''*symbols* table entry for the compiland'',
    MEMBER ''src_file'' T_uint32
      ''*src_files* table entry for the source file'',
    MEMBER ''line_begin'' T_uint32
      ''Beginning line number'',
    MEMBER ''line_end'' T_uint32
      ''Ending line number (or 0)'',
    MEMBER ''column_begin'' T_uint32
      ''Beginning column number (or 0)'',
    MEMBER ''column_end'' T_uint32
      ''Ending column number (or 0)'',
    MEMBER ''address_rv'' T_uint32
      ''Relative virtual address of the source line'',
    MEMBER ''address_offset'' T_uint32
      ''Address offset within the section'',
    MEMBER ''address_section'' T_uint32
      ''*section* table entry for the section this is in'',
    MEMBER ''length'' T_uint32
      ''Length of the line'',
    MEMBER ''statement'' T_bool
      ''Is a statement'']"

definition table_SrcRange :: table where
  "table_SrcRange = \<lparr> tbl_struct = ''SrcRange'', tbl_name = ''src_lines'',
    tbl_desc = ''Used to map symbols to the location they occur in the source code'',
    tbl_category = TableType_Files, tbl_members = members_SrcRange \<rparr>"

definition members_InputAssembly :: "member list" where
  "members_InputAssembly = [
    MEMBER ''filename'' T_string
      ''Filename of the input assembly'',
    MEMBER ''index_'' T_uint32
      '''',
    MEMBER ''timestamp'' T_uint32
      ''Timestamp for when the assembly was compiled'',
    MEMBER ''uid'' T_uint32
      ''Assembly UID'',
    MEMBER ''pdb_available_at_il_merge'' T_bool
      '''']"

definition table_InputAssembly :: table where
  "table_InputAssembly = \<lparr> tbl_struct = ''InputAssembly'', tbl_name = ''input_assemblies'',
    tbl_desc = '''',
    tbl_category = TableType_Files, tbl_members = members_InputAssembly \<rparr>"

definition members_CompilandEnv :: "member list" where
  "members_CompilandEnv = [
    MEMBER ''compiland_symbol'' T_uint32
      ''*symbols* table entry for the compiland'',
    MEMBER ''option_name'' T_string
      ''Name of the option being set (key)'',
    MEMBER ''value'' T_string
      ''Value of the option that was set'']"

definition table_CompilandEnv :: table where
  "table_CompilandEnv = \<lparr> tbl_struct = ''CompilandEnv'', tbl_name = ''compiland_env'',
    tbl_desc = ''Describes information about the environment in which a compiland was compiled'',
    tbl_category = TableType_Files, tbl_members = members_CompilandEnv \<rparr>"

definition members_AddrSection :: "member list" where
  "members_AddrSection = [
    UNIQUE_MEMBER ''section_index'' T_uint32
      ''Primary key for this table'',
    MEMBER ''size'' T_ulong
      ''size of the section in bytes'',
    MEMBER ''line_numbers'' T_uint32
      ''If data is available'',
    MEMBER ''name'' T_string
      ''Name of the section'',
    MEMBER ''relocations'' T_ulong
      ''If relocations are present'',
    MEMBER ''comdat'' T_bool
      ''If this section is a comdat'',
    MEMBER ''executable'' T_bool
      ''If this section contains executable instructions'',
    MEMBER ''readable'' T_bool
      ''If this data is readable'',
    MEMBER ''writable'' T_bool
      ''If this data is writable'',
    MEMBER ''discardable'' T_bool
      ''If this data is discardable'']"

definition table_AddrSection :: table where
  "table_AddrSection = \<lparr> tbl_struct = ''AddrSection'', tbl_name = ''sections'',
    tbl_desc = ''Describes the sections of the executable'',
    tbl_category = TableType_Files, tbl_members = members_AddrSection \<rparr>"

definition members_Included :: "member list" where
  "members_Included = [
    MEMBER ''compiland_symbol'' T_uint32
      ''*symbols* table entry for the translation unit'',
    MEMBER ''source_id'' T_uint32
      ''*src_files* table entry that was included'']"

definition table_Included :: table where
  "table_Included = \<lparr> tbl_struct = ''Included'', tbl_name = ''included'',
    tbl_desc = ''Records direct and indirect `#include`s occurring from source files'',
    tbl_category = TableType_Files, tbl_members = members_Included \<rparr>"

definition members_UserType :: "member list" where
  "members_UserType = [
    UNIQUE_MEMBER ''symbol'' T_uint32
      ''Corresponding *symbols* table entry'',
    MEMBER ''src_line'' T_uint32
      ''*src_lines* table entry for the declaration site'',
    MEMBER ''vtable_shape'' T_uint32
      ''*symbols* table entry for the vtable'',
    MEMBER ''vtable_count'' T_uint32
      ''Number of functions in the vtable'',
    MEMBER ''kind'' (T_enum E_UserType_Kind)
      ''`union`, `class`, or `struct`'',
    MEMBER ''semantics'' (T_enum E_UserType_Semantics)
      ''In managed languages, this defines the type semantics'',
    MEMBER ''aggregate_type'' (T_enum E_UserType_Aggregate)
      ''Used by the auto-vectorizer to detect vector-like types'',
    MEMBER ''packed'' T_bool
      ''Uses [#pragma pack](https://msdn.microsoft.com/en-us/library/2e70t5y1.aspx)'',
    MEMBER ''unaligned'' T_bool
      ''structure is unaligned'',
    MEMBER ''const_'' T_bool
      '''',
    MEMBER ''volatile_'' T_bool
      '''',
    MEMBER ''overloaded_operators'' T_bool
      ''contains overloaded operators'',
    MEMBER ''nested'' T_bool
      ''is a nested class'',
    MEMBER ''has_nested_types'' T_bool
      ''contains nested classes'',
    MEMBER ''assignment_operator'' T_bool
      ''has an assignment operator'',
    MEMBER ''cast_operator'' T_bool
      ''has a cast/conversion operator'',
    MEMBER ''scoped'' T_bool
      ''occurs in a non-global lexical scope'',
    MEMBER ''constructor'' T_bool
      ''has a user-defined (not compiler-generated) constructor'']"

definition table_UserType :: table where
  "table_UserType = \<lparr> tbl_struct = ''UserType'', tbl_name = ''user_types'',
    tbl_desc = ''Describes `class`es, `union`s, and `struct`s in the program'',
    tbl_category = TableType_Data, tbl_members = members_UserType \<rparr>"

definition members_Enum :: "member list" where
  "members_Enum = [
    UNIQUE_MEMBER ''symbol'' T_uint32
      ''Corresponding *symbols* table entry'',
    MEMBER ''unmodified_type_symbol'' T_uint32
      ''*symbols* table entry for the unqualified underlying type'',
    MEMBER ''type_symbol'' T_uint32
      ''*symbols* table entry for the underlying type'',
    MEMBER ''type'' (T_enum E_BuiltinType_Kind)
      ''Builtin underlying base type of the enum'',
    MEMBER ''packed'' T_bool
      ''Uses C++/CLI [underlying types](https://msdn.microsoft.com/en-us/library/a6cskb49.aspx)'',
    MEMBER ''scoped'' T_bool
      ''Occurs in a nonglobal lexical scope'']"

definition table_Enum :: table where
  "table_Enum = \<lparr> tbl_struct = ''Enum'', tbl_name = ''enumerations'',
    tbl_desc = ''Describes `enum`s in the program. Values of the enum may be observed in the *data* table'',
    tbl_category = TableType_Data, tbl_members = members_Enum \<rparr>"

definition members_Pointer :: "member list" where
  "members_Pointer = [
    UNIQUE_MEMBER ''symbol'' T_uint32
      ''Corresponding *symbols* table entry'',
    MEMBER ''type_symbol'' T_uint32
      ''*symbols* table entry for the qualified type pointed to'',
    MEMBER ''unmodified_type_symbol'' T_uint32
      ''*symbols* table entry for the unqualified type pointed to'',
    MEMBER ''unaligned'' T_bool
      '''',
    MEMBER ''kind'' (T_enum E_Pointer_Kind)
      ''pointer, lvalue reference, or rvalue reference'',
    MEMBER ''inheritance'' (T_enum E_Pointer_Inheritance)
      '''',
    MEMBER ''member_type'' (T_enum E_Pointer_MemberType)
      ''Is a member pointer'',
    MEMBER ''const_'' T_bool
      ''Is a const T*'',
    MEMBER ''volatile_'' T_bool
      ''Is a volatile T*'',
    MEMBER ''restrict_'' T_bool
      ''Declared with [`__declspec(restrict)`](https://msdn.microsoft.com/en-us/library/5ft82fed.aspx)'',
    MEMBER ''constant_export'' T_bool
      '''',
    MEMBER ''virtual_inheritance'' T_bool
      '''']"

definition table_Pointer :: table where
  "table_Pointer = \<lparr> tbl_struct = ''Pointer'', tbl_name = ''pointers'',
    tbl_desc = ''Describes qualified pointer types in the program'',
    tbl_category = TableType_Data, tbl_members = members_Pointer \<rparr>"

definition members_BaseClass :: "member list" where
  "members_BaseClass = [
    MEMBER ''child_symbol'' T_uint32
      ''*symbols* table entry for the child class'',
    MEMBER ''parent_symbol'' T_uint32
      ''*symbols* table entry for the parent class'',
    MEMBER ''offset'' T_uint32
      ''Physical offset of the parent (base) class into the child class'',
    MEMBER ''vdisp_index'' T_uint32
      ''Displacement within the vbase table'',
    MEMBER ''vbase_type_symbol'' T_uint32
      ''*symbols* table entry for the type of the virtual base table'',
    MEMBER ''vbase_offset'' T_uint32
      ''offset to the virtual base table pointer'',
    MEMBER ''virtual_'' T_bool
      ''Uses direct `virtual` inheritance'',
    MEMBER ''indirect_virtual'' T_bool
      ''Uses indirect `virtual` inheritance'',
    MEMBER ''access'' (T_enum E_Access)
      ''`public`, `private`, or `protected`'']"

definition table_BaseClass :: table where
  "table_BaseClass = \<lparr> tbl_struct = ''BaseClass'', tbl_name = ''base_classes'',
    tbl_desc = ''Describes the class inheritance hierarchy'',
    tbl_category = TableType_Data, tbl_members = members_BaseClass \<rparr>"

definition members_Thunk :: "member list" where
  "members_Thunk = [
    UNIQUE_MEMBER ''symbol'' T_uint32
      ''Corresponding *symbols* table entry'',
    MEMBER ''ordinal'' (T_enum E_Thunk_Ordinal)
      ''The type of thunk'',
    MEMBER ''address'' T_address
      ''Address of the thunk'',
    MEMBER ''target'' T_address
      ''Address of the thunk target (destination)'',
    MEMBER ''target_symbol'' T_uint32
      ''*symbols* table entry for the thunk target'']"

definition table_Thunk :: table where
  "table_Thunk = \<lparr> tbl_struct = ''Thunk'', tbl_name = ''thunks'',
    tbl_desc = ''Code that performs a translation or conversion during a call or indirection. For example, a thunk may be used to change the size or type of function parameters when passing data between 16-bit and 32-bit code.'',
    tbl_category = TableType_Function, tbl_members = members_Thunk \<rparr>"

definition members_FunctionArg :: "member list" where
  "members_FunctionArg = [
    UNIQUE_MEMBER ''symbol'' T_uint32
      ''Corresponding *symbols* table entry'',
    MEMBER ''type_symbol'' T_uint32
      ''*symbols* table entry for the type of the argument'']"

definition table_FunctionArg :: table where
  "table_FunctionArg = \<lparr> tbl_struct = ''FunctionArg'', tbl_name = ''arguments'',
    tbl_desc = ''Each function argument has an entry in this table. The corresponding function is recorded in *symbols.parent_symbol*'',
    tbl_category = TableType_Function, tbl_members = members_FunctionArg \<rparr>"

definition members_Block :: "member list" where
  "members_Block = [
    UNIQUE_MEMBER ''symbol'' T_uint32
      ''Corresponding *symbols* table entry'',
    MEMBER ''address'' T_address
      ''Address of the block'']"

definition table_Block :: table where
  "table_Block = \<lparr> tbl_struct = ''Block'', tbl_name = ''blocks'',
    tbl_desc = ''Lexical scopes {} in the program'',
    tbl_category = TableType_Function, tbl_members = members_Block \<rparr>"

definition members_HeapAllocation :: "member list" where
  "members_HeapAllocation = [
    UNIQUE_MEMBER ''symbol'' T_uint32
      ''Corresponding *symbols* table entry'',
    MEMBER ''address'' T_address
      ''Address of the heap allocation'',
    MEMBER ''type_symbol'' T_uint32
      ''*symbols* table entry for the type of object being allocated'']"

definition table_HeapAllocation :: table where
  "table_HeapAllocation = \<lparr> tbl_struct = ''HeapAllocation'', tbl_name = ''heap_allocs'',
    tbl_desc = ''Heap allocations tracking inserted by CL's [profiling support](https://blogs.msdn.microsoft.com/vcblog/2015/10/21/memory-profiling-in-visual-c-2015/)'',
    tbl_category = TableType_Function, tbl_members = members_HeapAllocation \<rparr>"

definition members_Export :: "member list" where
  "members_Export = [
    UNIQUE_MEMBER ''symbol'' T_uint32
      ''Corresponding *symbols* table entry'',
    MEMBER ''address_offset'' T_uint32
      ''Address offset of the export'',
    MEMBER ''rank'' T_uint32
      ''Rank of a FORTRAN multidimensional array'',
    MEMBER ''ordinal'' T_uint32
      ''Index into the [export table](https://blogs.msdn.microsoft.com/oldnewthing/20060714-16/?p=30513/)'',
    MEMBER ''const_export'' T_bool
      ''Symbol is both exported and const'',
    MEMBER ''data_export'' T_bool
      ''Export represents data'',
    MEMBER ''private_export'' T_bool
      ''Export is private to the executable'',
    MEMBER ''noname'' T_bool
      ''Export name was stripped by NONAME statement in .def file'',
    MEMBER ''explicit_ordinal'' T_bool
      ''Export table index was assigned by hand rather than automatically generated'',
    MEMBER ''forwarder'' T_bool
      ''Function linkage is [redirected](https://blogs.msdn.microsoft.com/oldnewthing/20060719-24/?p=30473) to another dll'',
    MEMBER ''function_'' T_bool
      ''Is a function'',
    MEMBER ''const_'' T_bool
      ''Is `const`'']"

definition table_Export :: table where
  "table_Export = \<lparr> tbl_struct = ''Export'', tbl_name = ''exports'',
    tbl_desc = ''Symbols which can be accessed by external executables. `dllexport` or [/EXPORT](https://msdn.microsoft.com/en-us/library/7k30y2k5.aspx)'',
    tbl_category = TableType_Master, tbl_members = members_Export \<rparr>"

definition members_Exe :: "member list" where
  "members_Exe = [
    MEMBER ''guid'' T_string
      ''The executable's globally unique identifier'',
    MEMBER ''symbols_path'' T_string
      ''File path for the executable's .PDB'',
    UNIQUE_MEMBER ''symbol'' T_uint32
      ''Corresponding *symbols* table entry'',
    MEMBER ''age'' T_uint32
      '''',
    MEMBER ''ctypes'' T_bool
      '''',
    MEMBER ''stripped'' T_bool
      ''private symbols have been [stripped](https://msdn.microsoft.com/en-us/library/y87kw2fd.aspx)'',
    MEMBER ''architecture'' T_uint32
      ''CPU architecture that the executable was compiled for'',
    MEMBER ''signature'' T_uint32
      ''A crc or other signature for the executable'']"

definition table_Exe :: table where
  "table_Exe = \<lparr> tbl_struct = ''Exe'', tbl_name = ''executable'',
    tbl_desc = ''The top-most level of the executable image'',
    tbl_category = TableType_Files, tbl_members = members_Exe \<rparr>"

definition members_Typedef :: "member list" where
  "members_Typedef = [
    UNIQUE_MEMBER ''symbol'' T_uint32
      ''Corresponding *symbols* table entry'',
    MEMBER ''type_symbol'' T_uint32
      ''*symbols* table entry for the qualified type being aliased'',
    MEMBER ''unmodified_type_symbol'' T_uint32
      ''*symbols* table entry for the unqualified type being aliased'']"

definition table_Typedef :: table where
  "table_Typedef = \<lparr> tbl_struct = ''Typedef'', tbl_name = ''typedefs'',
    tbl_desc = ''Records `typedef`s used in the program'',
    tbl_category = TableType_Data, tbl_members = members_Typedef \<rparr>"

definition members_SectionContrib :: "member list" where
  "members_SectionContrib = [
    MEMBER ''compiland_symbol'' T_uint32
      ''Corresponding *compilands* table entry'',
    MEMBER ''data_crc'' T_uint32
      ''CRC of the data segment'',
    MEMBER ''length'' T_uint32
      ''Length of the section contribution'',
    MEMBER ''address'' T_address
      ''Address of the section contribution'',
    MEMBER ''relocations_crc'' T_uint32
      ''CRC of the relocations information'',
    MEMBER ''code'' T_bool
      ''Contains code'',
    MEMBER ''code_16bit'' T_bool
      ''Contains code for 16 bit platforms'',
    MEMBER ''comdat'' T_bool
      ''is a comdat'',
    MEMBER ''executable'' T_bool
      ''Contains executable data'',
    MEMBER ''discardable'' T_bool
      ''Contains discardable debug info'',
    MEMBER ''initialized_data'' T_bool
      ''Contains initialized data'',
    MEMBER ''uninitialized_data'' T_bool
      ''Contains uninitialized data'',
    MEMBER ''cached'' T_bool
      ''Must be cached'',
    MEMBER ''paged'' T_bool
      ''Is paged'',
    MEMBER ''readable'' T_bool
      ''Contains readable data'',
    MEMBER ''writeable'' T_bool
      ''Contains writable data'',
    MEMBER ''remove'' T_bool
      '''',
    MEMBER ''share'' T_bool
      '''']"

definition table_SectionContrib :: table where
  "table_SectionContrib = \<lparr> tbl_struct = ''SectionContrib'', tbl_name = ''section_contrib'',
    tbl_desc = ''Describes ranges of data within each section'',
    tbl_category = TableType_Files, tbl_members = members_SectionContrib \<rparr>"

definition members_Inlined :: "member list" where
  "members_Inlined = [
    UNIQUE_MEMBER ''symbol'' T_uint32
      ''Corresponding *symbols* table entry'',
    MEMBER ''type_symbol'' T_uint32
      '''',
    MEMBER ''pgo_edges'' T_uint32
      ''Used by profile-guided optimization'',
    MEMBER ''address'' T_address
      ''Address of the inline site'']"

definition table_Inlined :: table where
  "table_Inlined = \<lparr> tbl_struct = ''Inlined'', tbl_name = ''inlined'',
    tbl_desc = ''Describes locations where code has been inlined'',
    tbl_category = TableType_Files, tbl_members = members_Inlined \<rparr>"

definition members_Array :: "member list" where
  "members_Array = [
    UNIQUE_MEMBER ''symbol'' T_uint32
      ''Corresponding *symbols* table entry'',
    MEMBER ''index_type_symbol'' T_uint32
      ''*symbols* table entry for the type of the array's index'',
    MEMBER ''count'' T_uint32
      ''Length of the array'',
    MEMBER ''rank'' T_uint32
      ''FORTRAN array rank'',
    MEMBER ''type_symbol'' T_uint32
      ''*symbols* table entry for the type of the array's elements'']"

definition table_Array :: table where
  "table_Array = \<lparr> tbl_struct = ''Array'', tbl_name = ''arrays'',
    tbl_desc = ''Describes c-style array[]s in the program'',
    tbl_category = TableType_Data, tbl_members = members_Array \<rparr>"

definition members_Segment :: "member list" where
  "members_Segment = [
    MEMBER ''address_rv'' T_uint32
      ''Address of the segment'',
    MEMBER ''address_section'' T_uint32
      ''Corresponding section for the segment address'',
    MEMBER ''frame'' T_uint32
      ''Index of the segment'',
    MEMBER ''length'' T_uint32
      ''Size of the segment'',
    MEMBER ''offset'' T_uint32
      '''',
    MEMBER ''executable'' T_bool
      ''Contains executable bytes'',
    MEMBER ''readable'' T_bool
      ''Contains readable bytes'',
    MEMBER ''writable'' T_bool
      ''Contains writable byts'']"

definition table_Segment :: table where
  "table_Segment = \<lparr> tbl_struct = ''Segment'', tbl_name = ''segments'',
    tbl_desc = ''Listing of the [segments](https://msdn.microsoft.com/en-us/library/ms809762.aspx) of the executable'',
    tbl_category = TableType_Files, tbl_members = members_Segment \<rparr>"

definition members_Callsite :: "member list" where
  "members_Callsite = [
    UNIQUE_MEMBER ''symbol'' T_uint32
      ''Corresponding *symbols* table entry'',
    MEMBER ''target_symbol'' T_uint32
      ''*symbols* table entry for the function being called'',
    MEMBER ''address'' T_address
      ''Address of the function call'']"

definition table_Callsite :: table where
  "table_Callsite = \<lparr> tbl_struct = ''Callsite'', tbl_name = ''calls'',
    tbl_desc = ''Listing of function call sites in the program'',
    tbl_category = TableType_Function, tbl_members = members_Callsite \<rparr>"

definition tables :: "table list" where
  "tables = [
    table_Symbol, table_BuiltinType, table_Frame, table_Label, table_FunctionType,
    table_Function, table_VTablePtr, table_VTableShape, table_Friend, table_PublicSymbol,
    table_Data, table_Compiland, table_InjectedSource, table_SourceFile, table_SrcRange,
    table_InputAssembly, table_CompilandEnv, table_AddrSection, table_Included, table_UserType,
    table_Enum, table_Pointer, table_BaseClass, table_Thunk, table_FunctionArg, table_Block,
    table_HeapAllocation, table_Export, table_Exe, table_Typedef, table_SectionContrib,
    table_Inlined, table_Array, table_Segment, table_Callsite]"

end
