(* ===== verification/CSV_Writer.thy ===== *)
theory CSV_Writer
  imports Stringutils Reflection
begin

text \<open>
  \<open>CSV::writer\<close> of \<^verbatim>\<open>drpdb/src/CSVWriter.h\<close> and \<^verbatim>\<open>drpdb/src/CSVOutput.cpp\<close>: an output text, one
  \<open>operator<<\<close> per C++ type that appends a cell and the separator, one per reflected struct
  that appends its members, and \<open>backup\<close>, which takes the last separator off again. The
  locale \<open>record_writer\<close> is the contract between such a writer and the loops that fill a
  file row by row. How the database reads such a file is in \<open>Load_Data\<close>.
\<close>

section \<open>The writer\<close>

record writer =
  w_out :: string
  w_outPath :: string
  w_UseBitType :: bool
  w_separator :: char

definition writer_init :: "string \<Rightarrow> bool \<Rightarrow> char \<Rightarrow> writer" where
  "writer_init path UseBitType separator =
     \<lparr> w_out = [], w_outPath = path, w_UseBitType = UseBitType, w_separator = separator \<rparr>"

definition backup :: "writer \<Rightarrow> writer run" where
  "backup w = (if w_out w = [] then Some (Inl (Undefined_Behaviour ''pop_back''))
     else returns (w\<lparr> w_out := butlast (w_out w) \<rparr>))"

text \<open>\<open>out += Buf; out += separator;\<close>\<close>

definition emit :: "writer \<Rightarrow> string \<Rightarrow> writer" where
  "emit w buf = w\<lparr> w_out := w_out w @ buf @ [w_separator w] \<rparr>"

text \<open>
  The text of \<open>%f\<close>: six decimals, the exact value rounded half to even. A finite float is
  \<open>m * 2 ^ e\<close>.
\<close>

definition millionths :: "int \<Rightarrow> int \<Rightarrow> nat" where
  "millionths m e =
     (let n = nat \<bar>m\<bar> * 10 ^ 6 in
      if 0 \<le> e then n * 2 ^ nat e
      else let d = 2 ^ nat (- e); q = n div d; r = n mod d in
        if d < 2 * r \<or> (2 * r = d \<and> odd q) then q + 1 else q)"

definition fmt_f :: "int \<Rightarrow> int \<Rightarrow> string" where
  "fmt_f m e =
     (let s = millionths m e; frac = dec (s mod 10 ^ 6) in
      (if m < 0 then ''-'' else '''') @ dec (s div 10 ^ 6) @ ''.''
        @ replicate (6 - length frac) CHR ''0'' @ frac)"

text \<open>The \<open>switch\<close> that \<open>BEGIN_ENUMERATION\<close> opens: no case for a value without a name.\<close>

definition enum_name :: "etype \<Rightarrow> nat \<Rightarrow> string" where
  "enum_name e v =
     (case find (\<lambda>n. map_of (enum_values e) n = Some v) (enumerators e) of
        None \<Rightarrow> [] | Some n \<Rightarrow> n)"

definition bool_text :: "bool \<Rightarrow> bool \<Rightarrow> string" where
  "bool_text UseBitType V =
     (if UseBitType then (if V then ''1'' else ''0'') else (if V then ''TRUE'' else ''FALSE''))"

primrec put_cell :: "writer \<Rightarrow> cval \<Rightarrow> writer" where
  "put_cell w (V_float m e) = emit w (fmt_f m e)"
| "put_cell w (V_int V) = emit w (dec_int (sint V))"
| "put_cell w (V_uint32 V) = emit w (dec (unat V))"
| "put_cell w (V_ullong V) = emit w (dec (unat V))"
| "put_cell w (V_llong V) = emit w (dec_int (sint V))"
| "put_cell w (V_long V) = emit w (dec_int (sint V))"
| "put_cell w (V_ulong V) = emit w (dec (unat V))"
| "put_cell w (V_address V) = emit w (dec (unat (address_rv V)))"
| "put_cell w (V_string V) = emit w ([dquote] @ escape V (w_separator w) @ [dquote])"
| "put_cell w (V_bool V) = emit w (bool_text (w_UseBitType w) V)"
| "put_cell w (V_enum e V) = emit w ([dquote] @ enum_name e V @ [dquote])"

text \<open>\<open>operator<<(const type& V)\<close>: the members one after the other.\<close>

definition put_row :: "writer \<Rightarrow> cval list \<Rightarrow> writer" where
  "put_row w r = foldl put_cell w r"

text \<open>The body of the loops of \<open>PopulateTable\<close>, and the loop.\<close>

definition write_row :: "cval list \<Rightarrow> writer \<Rightarrow> writer run" where
  "write_row r w =
     run_bind (backup (put_row w r)) (\<lambda>w. returns (w\<lparr> w_out := w_out w @ [newline] \<rparr>))"

definition write_rows :: "cval list list \<Rightarrow> writer \<Rightarrow> writer run" where
  "write_rows = run_fold write_row"

section \<open>The text a writer produces\<close>

locale record_writer =
  fixes put :: "'w \<Rightarrow> 'c \<Rightarrow> 'w"
    and out :: "'w \<Rightarrow> string"
    and render :: "'w \<Rightarrow> 'c \<Rightarrow> string"
    and sep :: "'w \<Rightarrow> char"
  assumes out_put: "out (put w c) = out w @ render w c @ [sep w]"
    and render_put: "render (put w c) = render w"
    and sep_put: "sep (put w c) = sep w"
begin

lemma frame_foldl: "render (foldl put w cs) = render w" "sep (foldl put w cs) = sep w"
  by (induction cs arbitrary: w) (simp_all add: render_put sep_put)

lemma out_foldl: "out (foldl put w cs) = out w @ concat (map (\<lambda>t. t @ [sep w]) (map (render w) cs))"
  by (induction cs arbitrary: w) (simp_all add: out_put render_put sep_put)

text \<open>A record without its last separator: the cells, joined.\<close>

lemma out_record:
  assumes "cs \<noteq> []"
  shows "butlast (out (foldl put w cs)) = out w @ join_with [sep w] (map (render w) cs)"
proof -
  from assms have ne: "map (render w) cs \<noteq> []" by simp
  then have "concat (map (\<lambda>t. t @ [sep w]) (map (render w) cs)) \<noteq> []"
    by (cases "map (render w) cs") simp_all
  then show ?thesis
    using assms by (simp only: out_foldl butlast_append if_False butlast_terminated [OF ne])
qed

lemma out_nonempty: "cs \<noteq> [] \<Longrightarrow> out (foldl put w cs) \<noteq> []"
  by (cases cs) (simp_all add: out_foldl out_put)

end

fun csv_text :: "bool \<Rightarrow> char \<Rightarrow> cval \<Rightarrow> string" where
  "csv_text ubt sep (V_float m e) = fmt_f m e"
| "csv_text ubt sep (V_int V) = dec_int (sint V)"
| "csv_text ubt sep (V_uint32 V) = dec (unat V)"
| "csv_text ubt sep (V_ullong V) = dec (unat V)"
| "csv_text ubt sep (V_llong V) = dec_int (sint V)"
| "csv_text ubt sep (V_long V) = dec_int (sint V)"
| "csv_text ubt sep (V_ulong V) = dec (unat V)"
| "csv_text ubt sep (V_address V) = dec (unat (address_rv V))"
| "csv_text ubt sep (V_string V) = [dquote] @ escape_text sep V @ [dquote]"
| "csv_text ubt sep (V_bool V) = bool_text ubt V"
| "csv_text ubt sep (V_enum e V) = [dquote] @ enum_name e V @ [dquote]"

interpretation csv_record: record_writer put_cell w_out "\<lambda>w. csv_text (w_UseBitType w) (w_separator w)"
    w_separator
proof unfold_locales
  fix w c
  show "w_out (put_cell w c) = w_out w @ csv_text (w_UseBitType w) (w_separator w) c @ [w_separator w]"
    by (cases c) (simp_all add: emit_def escape_eq)
  show "csv_text (w_UseBitType (put_cell w c)) (w_separator (put_cell w c))
      = csv_text (w_UseBitType w) (w_separator w)"
    by (cases c) (simp_all add: emit_def)
  show "w_separator (put_cell w c) = w_separator w"
    by (cases c) (simp_all add: emit_def)
qed

definition csv_row :: "bool \<Rightarrow> char \<Rightarrow> cval list \<Rightarrow> string" where
  "csv_row ubt sep r = join_with [sep] (map (csv_text ubt sep) r)"

definition csv_rows :: "bool \<Rightarrow> char \<Rightarrow> cval list list \<Rightarrow> string" where
  "csv_rows ubt sep rs = concat (map (\<lambda>r. csv_row ubt sep r @ [newline]) rs)"

lemma put_cell_frame [simp]:
  "w_UseBitType (put_cell w c) = w_UseBitType w" "w_separator (put_cell w c) = w_separator w"
  "w_outPath (put_cell w c) = w_outPath w"
  by (cases c; simp add: emit_def)+

lemma put_row_frame [simp]:
  "w_UseBitType (put_row w r) = w_UseBitType w" "w_separator (put_row w r) = w_separator w"
  "w_outPath (put_row w r) = w_outPath w"
  unfolding put_row_def by (induction r arbitrary: w) simp_all

lemma write_row_returns:
  assumes "r \<noteq> []"
  shows "write_row r w = returns (w\<lparr> w_out := w_out w
      @ csv_row (w_UseBitType w) (w_separator w) r @ [newline] \<rparr>)"
proof -
  have "w_out (put_row w r) \<noteq> []"
    unfolding put_row_def by (rule csv_record.out_nonempty [OF assms])
  moreover have "butlast (w_out (put_row w r))
      = w_out w @ csv_row (w_UseBitType w) (w_separator w) r"
    unfolding put_row_def csv_row_def by (rule csv_record.out_record [OF assms])
  ultimately show ?thesis
    by (simp add: write_row_def backup_def)
qed

lemma write_rows_returns:
  "\<forall>r \<in> set rs. r \<noteq> [] \<Longrightarrow>
    write_rows rs w = returns (w\<lparr> w_out := w_out w @ csv_rows (w_UseBitType w) (w_separator w) rs \<rparr>)"
  unfolding write_rows_def
  by (induction rs arbitrary: w) (simp_all add: csv_rows_def write_row_returns)

text \<open>Every number fits the 64 bytes of \<open>Buf\<close>, the terminating NUL included.\<close>

lemma length_dec_word: "length (dec (unat (v :: 'a::len word))) \<le> LENGTH('a)"
proof (rule length_dec)
  have "unat v < 2 ^ LENGTH('a)" by simp
  also have "(2 :: nat) ^ LENGTH('a) \<le> 10 ^ LENGTH('a)" by (rule power_mono) simp_all
  finally show "unat v < 10 ^ LENGTH('a)" .
qed simp

end
