(* ===== verification/Load_Data.thy ===== *)
theory Load_Data
  imports CSV_Writer
begin

text \<open>
  What the database does with the files: the reading rules of the statement that
  \<open>LoadTable\<close> issues, \<^verbatim>\<open>fields terminated by ',' optionally enclosed by '"' lines terminated
  by '\n'\<close> (with the default escape character, the backslash), as the database documents
  them. A field is quoted when it begins with the double quote and then ends at a double
  quote that a separator or the end of the line follows; a backslash makes the next
  character literal, but for a few letters that stand for control characters.
\<close>

definition load_escape :: "char \<Rightarrow> char" where
  "load_escape c =
     (if c = CHR ''0'' then nul else if c = CHR ''b'' then CHR 0x08
      else if c = CHR ''n'' then newline else if c = CHR ''r'' then carriage_return
      else if c = CHR ''t'' then CHR 0x09 else if c = CHR ''Z'' then CHR 0x1A else c)"

datatype load_mode = Start | Plain | Quoted | Closed

definition ends_field :: "char \<Rightarrow> string \<Rightarrow> bool" where
  "ends_field sep s = (case s of [] \<Rightarrow> True | c # _ \<Rightarrow> c = sep \<or> c = newline)"

text \<open>One line: the fields read and what follows the line.\<close>

fun load_line :: "char \<Rightarrow> load_mode \<Rightarrow> string \<Rightarrow> string \<Rightarrow> (string list \<times> string) option" where
  "load_line sep m acc [] = None"
| "load_line sep Quoted acc (c # cs) =
     (if c = backslash then
        (case cs of [] \<Rightarrow> None
         | d # ds \<Rightarrow> load_line sep Quoted (acc @ [load_escape d]) ds)
      else if c = dquote \<and> ends_field sep cs then load_line sep Closed acc cs
      else load_line sep Quoted (acc @ [c]) cs)"
| "load_line sep Closed acc (c # cs) =
     (if c = sep then map_option (\<lambda>(fs, r). (acc # fs, r)) (load_line sep Start [] cs)
      else if c = newline then Some ([acc], cs) else None)"
| "load_line sep m acc (c # cs) =
     (if m = Start \<and> c = dquote then load_line sep Quoted [] cs
      else if c = sep then map_option (\<lambda>(fs, r). (acc # fs, r)) (load_line sep Start [] cs)
      else if c = newline then Some ([acc], cs)
      else if c = backslash then
        (case cs of [] \<Rightarrow> None
         | d # ds \<Rightarrow> load_line sep Plain (acc @ [load_escape d]) ds)
      else load_line sep Plain (acc @ [c]) cs)"

lemma load_line_shrinks: "load_line sep m acc s = Some (fs, r) \<Longrightarrow> length r < length s"
  by (induction sep m acc s arbitrary: fs r rule: load_line.induct)
    (force split: if_splits list.splits)+

text \<open>A whole file, line by line.\<close>

function load_file :: "char \<Rightarrow> string \<Rightarrow> string list list option" where
  "load_file sep s =
     (if s = [] then Some []
      else case load_line sep Start [] s of
          None \<Rightarrow> None
        | Some (fs, r) \<Rightarrow> map_option (Cons fs) (load_file sep r))"
  by pat_completeness auto
termination
  by (relation "measure (\<lambda>(sep, s). length s)") (auto dest: load_line_shrinks)

declare load_file.simps [simp del]

section \<open>Reading back what was written\<close>

text \<open>
  A separator is usable when it is not a character of the unquoted cells, of the quoting, or
  one that the reader takes for a control character behind a backslash.
\<close>

definition is_letter :: "char \<Rightarrow> bool" where
  "is_letter c = ((65 \<le> (of_char c :: nat) \<and> (of_char c :: nat) \<le> 90)
     \<or> (97 \<le> (of_char c :: nat) \<and> (of_char c :: nat) \<le> 122))"

definition sep_ok :: "char \<Rightarrow> bool" where
  "sep_ok sep = (\<not> is_digit sep \<and> \<not> is_letter sep \<and> sep \<notin> {CHR ''-'', CHR ''.'', CHR ''_'', dquote, backslash, newline})"

lemma sep_ok_comma: "sep_ok CHR '',''"
  by (simp add: sep_ok_def is_digit_def is_letter_def)

text \<open>The value a cell stands for: its text without the quoting.\<close>

fun cell_value :: "bool \<Rightarrow> cval \<Rightarrow> string" where
  "cell_value ubt (V_string V) = V"
| "cell_value ubt (V_enum e V) = enum_name e V"
| "cell_value ubt c = csv_text ubt CHR '','' c"

definition plain_char :: "char \<Rightarrow> bool" where
  "plain_char c = (is_digit c \<or> is_letter c \<or> c = CHR ''-'' \<or> c = CHR ''.'' \<or> c = CHR ''_'')"

definition plain_text :: "string \<Rightarrow> bool" where
  "plain_text s = (s \<noteq> [] \<and> (\<forall>c \<in> set s. plain_char c))"

lemma plain_char_neq:
  assumes "plain_char c"
  shows "c \<noteq> dquote" "c \<noteq> backslash" "c \<noteq> newline"
  using assms by (auto simp: plain_char_def is_digit_def is_letter_def)

lemma plain_char_sep: "plain_char c \<Longrightarrow> sep_ok sep \<Longrightarrow> c \<noteq> sep"
  by (auto simp: plain_char_def sep_ok_def)

lemma load_escape_other: "\<not> is_digit c \<Longrightarrow> \<not> is_letter c \<Longrightarrow> load_escape c = c"
proof -
  assume "\<not> is_digit c" and "\<not> is_letter c"
  then have "c \<noteq> CHR ''0''" "c \<noteq> CHR ''b''" "c \<noteq> CHR ''n''" "c \<noteq> CHR ''r''" "c \<noteq> CHR ''t''" "c \<noteq> CHR ''Z''"
    by (auto simp: is_digit_def is_letter_def)
  then show "load_escape c = c" by (simp add: load_escape_def)
qed

lemma load_escape_written:
  assumes "sep_ok sep" and "c = dquote \<or> c = backslash \<or> c = sep"
  shows "load_escape c = c"
proof (rule load_escape_other)
  have quoting: "\<not> is_digit dquote" "\<not> is_letter dquote" "\<not> is_digit backslash" "\<not> is_letter backslash"
    by (simp_all add: is_digit_def is_letter_def)
  from assms(1) have "\<not> is_digit sep" "\<not> is_letter sep" by (simp_all add: sep_ok_def)
  with quoting assms(2) show "\<not> is_digit c" "\<not> is_letter c" by metis+
qed

lemma load_plain:
  "\<forall>c \<in> set s. plain_char c \<Longrightarrow> sep_ok sep \<Longrightarrow>
     load_line sep Plain acc (s @ rest) = load_line sep Plain (acc @ s) rest"
  by (induction s arbitrary: acc) (auto simp: plain_char_neq plain_char_sep)

lemma load_start_plain:
  assumes "plain_text s" and "sep_ok sep"
  shows "load_line sep Start [] (s @ rest) = load_line sep Plain s rest"
proof -
  from assms(1) obtain c cs where s: "s = c # cs" and "plain_char c" and "\<forall>d \<in> set cs. plain_char d"
    by (cases s) (auto simp: plain_text_def)
  with assms(2) show ?thesis
    by (simp add: plain_char_neq plain_char_sep load_plain)
qed

lemma load_quoted:
  assumes "sep_ok sep" and "ends_field sep rest"
  shows "load_line sep Quoted acc (escape_text sep s @ dquote # rest)
      = load_line sep Closed (acc @ s) rest"
proof (induction s arbitrary: acc)
  case Nil
  show ?case using assms(2) by simp
next
  case (Cons c s)
  then show ?case
    using load_escape_written [OF assms(1), of c] by (auto simp: escape_char_def)
qed

text \<open>Enumerator names hold no quote and no backslash, so that they need no escaping.\<close>

definition name_ok :: "string \<Rightarrow> bool" where
  "name_ok n = list_all (\<lambda>c. c \<noteq> dquote \<and> c \<noteq> backslash) n"

lemma enumerators_ok: "list_all name_ok (enumerators e)"
  by (cases e) (simp_all add: name_ok_def PublicSymbol_Type_enumerators_def
    AddrSection_Kind_enumerators_def Language_enumerators_def UserType_Semantics_enumerators_def
    Thunk_Ordinal_enumerators_def Tag_enumerators_def Data_Kind_enumerators_def
    BuiltinType_Kind_enumerators_def FunctionType_CallConv_enumerators_def
    UserType_Kind_enumerators_def UserType_Aggregate_enumerators_def Pointer_Kind_enumerators_def
    Pointer_Inheritance_enumerators_def Pointer_MemberType_enumerators_def
    Function_Virtuality_enumerators_def Access_enumerators_def CPU_enumerators_def
    Location_enumerators_def)

lemma enum_name_cases: "enum_name e v = [] \<or> enum_name e v \<in> set (enumerators e)"
  by (auto simp: enum_name_def find_Some_iff split: option.split)

lemma enum_name_ok: "name_ok (enum_name e v)"
proof -
  have "name_ok []" by (simp add: name_ok_def)
  then show ?thesis
    using enum_name_cases [of e v] enumerators_ok [of e] unfolding list_all_iff by metis
qed

lemma load_name:
  "name_ok n \<Longrightarrow> ends_field sep rest \<Longrightarrow>
     load_line sep Quoted acc (n @ dquote # rest) = load_line sep Closed (acc @ n) rest"
  by (induction n arbitrary: acc) (auto simp: name_ok_def)

lemma plain_dec: "plain_text (dec n)"
  by (auto simp: plain_text_def plain_char_def dest: dec_digits)

lemma plain_dec_int: "plain_text (dec_int i)"
  by (auto simp: plain_text_def plain_char_def is_num_char_def dest: dec_int_chars)

lemma set_fmt_f:
  "set (fmt_f m e) \<subseteq> {CHR ''-'', CHR ''.'', CHR ''0''}
     \<union> set (dec (millionths m e div 10 ^ 6)) \<union> set (dec (millionths m e mod 10 ^ 6))"
  unfolding fmt_f_def Let_def set_append
  by (simp only: set_replicate_conv_if set_simps) (simp, blast)

lemma plain_fmt_f: "plain_text (fmt_f m e)"
proof -
  have digits: "plain_char c" if "c \<in> set (dec n)" for c n
    using dec_digits [OF that] by (simp add: plain_char_def)
  have marks: "plain_char CHR ''-''" "plain_char CHR ''.''" "plain_char CHR ''0''"
    by (simp_all add: plain_char_def is_digit_def)
  have "plain_char c" if "c \<in> set (fmt_f m e)" for c
    using subsetD [OF set_fmt_f that] digits marks by blast
  moreover have "fmt_f m e \<noteq> []" by (simp add: fmt_f_def Let_def)
  ultimately show ?thesis by (simp add: plain_text_def)
qed

lemma plain_bool: "plain_text (bool_text ubt V)"
  by (simp add: plain_text_def bool_text_def plain_char_def is_digit_def is_letter_def)

text \<open>A cell, up to the separator or the line end behind it.\<close>

definition after_cell :: "char \<Rightarrow> string \<Rightarrow> string \<Rightarrow> (string list \<times> string) option" where
  "after_cell sep v rest =
     (case rest of [] \<Rightarrow> None
      | c # cs \<Rightarrow>
          if c = sep then map_option (\<lambda>(fs, r). (v # fs, r)) (load_line sep Start [] cs)
          else if c = newline then Some ([v], cs) else None)"

lemma after_plain:
  "ends_field sep rest \<Longrightarrow> load_line sep Plain v rest = after_cell sep v rest"
  by (cases rest) (auto simp: after_cell_def ends_field_def)

lemma after_closed: "load_line sep Closed v rest = after_cell sep v rest"
  by (cases rest) (auto simp: after_cell_def)

lemma load_cell:
  assumes "sep_ok sep" and "ends_field sep rest"
  shows "load_line sep Start [] (csv_text ubt sep c @ rest) = after_cell sep (cell_value ubt c) rest"
proof -
  have plain: "load_line sep Start [] (t @ rest) = after_cell sep t rest" if "plain_text t" for t
    using load_start_plain [OF that assms(1)] after_plain [OF assms(2)] by simp
  have string: "load_line sep Quoted [] (escape_text sep V @ dquote # rest)
      = after_cell sep V rest" for V
    using load_quoted [OF assms, of "[]"] after_closed by simp
  have name: "load_line sep Quoted [] (enum_name e V @ dquote # rest)
      = after_cell sep (enum_name e V) rest" for e V
    using load_name [OF enum_name_ok assms(2), of "[]"] after_closed by simp
  show ?thesis
    by (cases c) (simp_all add: plain plain_dec plain_dec_int plain_fmt_f plain_bool string name)
qed

theorem load_row:
  assumes "sep_ok sep" and "r \<noteq> []"
  shows "load_line sep Start [] (csv_row ubt sep r @ newline # rest)
      = Some (map (cell_value ubt) r, rest)"
  using assms(2)
proof (induction r)
  case Nil
  then show ?case by simp
next
  case (Cons c r)
  have nl: "newline \<noteq> sep" using assms(1) by (auto simp: sep_ok_def)
  show ?case
  proof (cases r)
    case Nil
    have "ends_field sep (newline # rest)" by (simp add: ends_field_def)
    from load_cell [OF assms(1) this] Nil nl show ?thesis
      by (simp add: csv_row_def after_cell_def)
  next
    case (Cons d ds)
    let ?rest = "sep # csv_row ubt sep r @ newline # rest"
    have "ends_field sep ?rest" by (simp add: ends_field_def)
    from load_cell [OF assms(1) this]
    have "load_line sep Start [] (csv_text ubt sep c @ ?rest) = after_cell sep (cell_value ubt c) ?rest" .
    with Cons Cons.IH show ?thesis
      by (simp add: csv_row_def after_cell_def)
  qed
qed

theorem load_rows:
  assumes "sep_ok sep" and "\<forall>r \<in> set rs. r \<noteq> []"
  shows "load_file sep (csv_rows ubt sep rs) = Some (map (map (cell_value ubt)) rs)"
  using assms(2)
proof (induction rs)
  case Nil
  show ?case by (simp add: csv_rows_def load_file.simps)
next
  case (Cons r rs)
  have step: "load_line sep Start [] (csv_row ubt sep r @ newline # csv_rows ubt sep rs)
      = Some (map (cell_value ubt) r, csv_rows ubt sep rs)"
    using load_row [OF assms(1)] Cons.prems by simp
  have rows: "csv_rows ubt sep (r # rs) = csv_row ubt sep r @ newline # csv_rows ubt sep rs"
    by (simp add: csv_rows_def)
  show ?case
    using Cons by (subst load_file.simps) (simp add: rows step)
qed

end
