(* ===== verification/Sym_Records.thy ===== *)
theory Sym_Records
  imports Sym_Enums
begin

text \<open>
  The row types of \<^verbatim>\<open>drpdb/src/drpdb.h\<close> (\<open>namespace Sym\<close>), one record per struct in the
  header's order, each field under the struct's name and the field's own name (a trailing
  underscore of the C++ name is dropped). A bit field of width one and a \<open>bool\<close> are both
  \<open>bool\<close>; \<open>unsigned long\<close> is 32 bits wide. \<open>SymbolData\<close> holds the vectors the reader fills.
\<close>

record Sym_InputAssembly =
  InputAssembly_filename :: string
  InputAssembly_index :: u32
  InputAssembly_timestamp :: u32
  InputAssembly_uid :: u32
  InputAssembly_pdb_available_at_il_merge :: bool

record Sym_SectionContrib =
  SectionContrib_address :: address_info
  SectionContrib_compiland_symbol :: u32
  SectionContrib_data_crc :: u32
  SectionContrib_length :: u32
  SectionContrib_relocations_crc :: u32
  SectionContrib_code :: bool
  SectionContrib_code_16bit :: bool
  SectionContrib_comdat :: bool
  SectionContrib_executable :: bool
  SectionContrib_discardable :: bool
  SectionContrib_initialized_data :: bool
  SectionContrib_uninitialized_data :: bool
  SectionContrib_cached :: bool
  SectionContrib_paged :: bool
  SectionContrib_readable :: bool
  SectionContrib_writeable :: bool
  SectionContrib_remove :: bool
  SectionContrib_share :: bool

record Sym_Frame =
  Frame_program :: string
  Frame_address :: address_info
  Frame_length_block :: u32
  Frame_length_locals :: u32
  Frame_length_params :: u32
  Frame_max_stack :: u32
  Frame_length_prolog :: u32
  Frame_length_saved_registers :: u32
  Frame_type_symbol :: u32
  Frame_exceptions_system :: bool
  Frame_exceptions_cxx :: bool
  Frame_function_start :: bool
  Frame_allocate_base_pointer :: bool

record Sym_Segment =
  Segment_address_section :: u32
  Segment_address_rv :: u32
  Segment_frame :: u32
  Segment_length :: u32
  Segment_offset :: u32
  Segment_executable :: bool
  Segment_readable :: bool
  Segment_writable :: bool

record Sym_Symbol =
  Symbol_name :: string
  Symbol_symbol :: u32
  Symbol_lexical_parent_symbol :: u32
  Symbol_parent_symbol :: u32
  Symbol_size :: u64
  Symbol_tag :: u8
  Symbol_location_type :: u8

record Sym_Inlined =
  Inlined_symbol :: u32
  Inlined_type_symbol :: u32
  Inlined_address :: address_info
  Inlined_pgo_edges :: u32

record Sym_PublicSymbol =
  PublicSymbol_symbol :: u32
  PublicSymbol_address :: address_info
  PublicSymbol_type :: PublicSymbol_Type
  PublicSymbol_managed :: bool
  PublicSymbol_cil :: bool

record Sym_Compiland =
  Compiland_symbol :: u32
  Compiland_library :: string
  Compiland_compiler :: string
  Compiland_backend_build :: u32
  Compiland_backend_major :: u32
  Compiland_backend_minor :: u32
  Compiland_frontend_build :: u32
  Compiland_frontend_major :: u32
  Compiland_frontend_minor :: u32
  Compiland_frontend_qfe :: u32
  Compiland_backend_qfe :: u32
  Compiland_language :: u8
  Compiland_platform :: u32
  Compiland_sdl :: bool
  Compiland_pgo :: bool
  Compiland_security_check :: bool
  Compiland_managed :: bool
  Compiland_debug_info :: bool
  Compiland_edit_and_continue :: bool
  Compiland_ltcg :: bool
  Compiland_data_aligned :: bool
  Compiland_hotpatchable :: bool
  Compiland_cvtcil :: bool
  Compiland_cil_netmodule :: bool

record Sym_CompilandEnv =
  CompilandEnv_compiland_symbol :: u32
  CompilandEnv_option_name :: string
  CompilandEnv_value :: string

record Sym_Exe =
  Exe_guid :: string
  Exe_symbols_path :: string
  Exe_symbol :: u32
  Exe_age :: u32
  Exe_ctypes :: bool
  Exe_stripped :: bool
  Exe_architecture :: u32
  Exe_signature :: u32

record Sym_Block =
  Block_symbol :: u32
  Block_address :: address_info

record Sym_FunctionArg =
  FunctionArg_symbol :: u32
  FunctionArg_type_symbol :: u32

record Sym_HeapAllocation =
  HeapAllocation_symbol :: u32
  HeapAllocation_address :: address_info
  HeapAllocation_type_symbol :: u32

record Sym_Thunk =
  Thunk_ordinal :: u8
  Thunk_symbol :: u32
  Thunk_address :: address_info
  Thunk_target :: address_info
  Thunk_target_symbol :: u32

record Sym_Data =
  Data_symbol :: u32
  Data_value :: u64
  Data_type_symbol :: u32
  Data_offset :: u32
  Data_address :: address_info
  Data_register_id :: u32
  Data_bit_position :: u32
  Data_kind :: u8
  Data_const_export :: bool

record Sym_Label =
  Label_symbol :: u32
  Label_address :: address_info

record Sym_Function =
  Function_symbol :: u32
  Function_virtual_base_offset :: u32
  Function_type_symbol :: u32
  Function_access :: u8
  Function_virtuality :: Function_Virtuality
  Function_pgo_dyn_instr_count :: u64
  Function_static_size :: u32
  Function_pbp_regid :: u32
  Function_lbp_regid :: u32
  Function_final_live_static_size :: u32
  Function_frame_size :: u32
  Function_address :: address_info
  Function_eh_address :: address_info
  Function_pgo_entry_count :: u32
  Function_control_flow_check :: bool
  Function_alloca :: bool
  Function_exceptions :: bool
  Function_asm :: bool
  Function_sealed :: bool
  Function_security_checks :: bool
  Function_inlined :: bool
  Function_static :: bool
  Function_noinline :: bool
  Function_noreturn :: bool
  Function_unreachable :: bool
  Function_setjmp :: bool
  Function_const_export :: bool
  Function_strict_gs_check :: bool
  Function_longjmp :: bool
  Function_eh :: bool
  Function_eha :: bool
  Function_seh :: bool
  Function_optimized_debug_info :: bool
  Function_frame_pointer :: bool
  Function_interrupt_return :: bool
  Function_pure_virtual :: bool
  Function_far_return :: bool
  Function_naked :: bool
  Function_inline :: bool
  Function_custom_call :: bool
  Function_stack_ordering :: bool
  Function_safebuffers :: bool
  Function_pgo :: bool
  Function_has_pgo_counts :: bool
  Function_optimized_for_speed :: bool
  Function_compiler_generated :: bool

record Sym_VTablePtr =
  VTablePtr_symbol :: u32
  VTablePtr_offset :: u32
  VTablePtr_type_symbol :: u32

record Sym_VTableShape =
  VTableShape_symbol :: u32
  VTableShape_count :: u32

record Sym_Friend =
  Friend_symbol :: u32
  Friend_type_symbol :: u32

record Sym_Export =
  Export_symbol :: u32
  Export_address_offset :: u32
  Export_rank :: u32
  Export_ordinal :: u32
  Export_const_export :: bool
  Export_data_export :: bool
  Export_private_export :: bool
  Export_noname :: bool
  Export_explicit_ordinal :: bool
  Export_forwarder :: bool
  Export_function :: bool
  Export_const :: bool

record Sym_AddrSection =
  AddrSection_section_index :: u32
  AddrSection_line_numbers :: u32
  AddrSection_size :: u32
  AddrSection_relocations :: u32
  AddrSection_comdat :: bool
  AddrSection_executable :: bool
  AddrSection_readable :: bool
  AddrSection_writable :: bool
  AddrSection_discardable :: bool
  AddrSection_name :: string

record Sym_Included =
  Included_compiland_symbol :: u32
  Included_source_id :: u32

record Sym_BuiltinType =
  BuiltinType_symbol :: u32
  BuiltinType_array_index_type_symbol :: u32
  BuiltinType_type_symbol :: u32
  BuiltinType_count :: u32
  BuiltinType_kind :: u8
  BuiltinType_unaligned :: bool
  BuiltinType_const :: bool
  BuiltinType_volatile :: bool
  BuiltinType_const_export :: bool

record Sym_UserType =
  UserType_symbol :: u32
  UserType_src_line :: u32
  UserType_vtable_shape :: u32
  UserType_vtable_count :: u32
  UserType_kind :: u8
  UserType_aggregate_type :: UserType_Aggregate
  UserType_semantics :: UserType_Semantics
  UserType_packed :: bool
  UserType_unaligned :: bool
  UserType_const :: bool
  UserType_volatile :: bool
  UserType_overloaded_operators :: bool
  UserType_nested :: bool
  UserType_has_nested_types :: bool
  UserType_assignment_operator :: bool
  UserType_cast_operator :: bool
  UserType_intrinsic :: bool
  UserType_scoped :: bool
  UserType_constructor :: bool

record Sym_InjectedSource =
  InjectedSource_length :: u64
  InjectedSource_text :: string

record Sym_Enum =
  Enum_symbol :: u32
  Enum_unmodified_type_symbol :: u32
  Enum_type_symbol :: u32
  Enum_type :: u8
  Enum_packed :: bool
  Enum_scoped :: bool

record Sym_SourceFile =
  SourceFile_source_id :: u32
  SourceFile_path :: string

record Sym_Pointer =
  Pointer_symbol :: u32
  Pointer_type_symbol :: u32
  Pointer_unmodified_type_symbol :: u32
  Pointer_kind :: Pointer_Kind
  Pointer_inheritance :: Pointer_Inheritance
  Pointer_member_type :: Pointer_MemberType
  Pointer_unaligned :: bool
  Pointer_const :: bool
  Pointer_volatile :: bool
  Pointer_restrict :: bool
  Pointer_constant_export :: bool
  Pointer_virtual_inheritance :: bool

record Sym_FunctionType =
  FunctionType_symbol :: u32
  FunctionType_this_adjust :: u32
  FunctionType_param_count :: u32
  FunctionType_return_type_symbol :: u32
  FunctionType_this_type_symbol :: u32
  FunctionType_is_constructor :: bool
  FunctionType_volatile :: bool
  FunctionType_const :: bool
  FunctionType_unaligned :: bool
  FunctionType_cxx_return_udt :: bool
  FunctionType_constructor_virtual_base :: bool
  FunctionType_constant_export :: bool
  FunctionType_call_convention :: u8

record Sym_Callsite =
  Callsite_symbol :: u32
  Callsite_target_symbol :: u32
  Callsite_address :: address_info

record Sym_BaseClass =
  BaseClass_child_symbol :: u32
  BaseClass_parent_symbol :: u32
  BaseClass_offset :: u32
  BaseClass_vdisp_index :: u32
  BaseClass_vbase_type_symbol :: u32
  BaseClass_vbase_offset :: u32
  BaseClass_virtual :: bool
  BaseClass_indirect_virtual :: bool
  BaseClass_access :: u8

record Sym_Typedef =
  Typedef_symbol :: u32
  Typedef_type_symbol :: u32
  Typedef_unmodified_type_symbol :: u32

record Sym_Array =
  Array_symbol :: u32
  Array_index_type_symbol :: u32
  Array_count :: u32
  Array_rank :: u32
  Array_type_symbol :: u32

record Sym_SrcRange =
  SrcRange_id :: u32
  SrcRange_compiland_symbol :: u32
  SrcRange_src_file :: u32
  SrcRange_line_begin :: u32
  SrcRange_line_end :: u32
  SrcRange_column_begin :: u32
  SrcRange_column_end :: u32
  SrcRange_address_section :: u32
  SrcRange_address_rv :: u32
  SrcRange_address_offset :: u32
  SrcRange_length :: u32
  SrcRange_statement :: bool

record SymbolData =
  sd_Exe :: "Sym_Exe list"
  sd_Thunk :: "Sym_Thunk list"
  sd_Compiland :: "Sym_Compiland list"
  sd_BuiltinType :: "Sym_BuiltinType list"
  sd_Function :: "Sym_Function list"
  sd_Symbol :: "Sym_Symbol list"
  sd_UserType :: "Sym_UserType list"
  sd_AddrSection :: "Sym_AddrSection list"
  sd_Enum :: "Sym_Enum list"
  sd_FunctionArg :: "Sym_FunctionArg list"
  sd_FunctionType :: "Sym_FunctionType list"
  sd_Data :: "Sym_Data list"
  sd_Pointer :: "Sym_Pointer list"
  sd_BaseClass :: "Sym_BaseClass list"
  sd_Callsite :: "Sym_Callsite list"
  sd_Typedef :: "Sym_Typedef list"
  sd_SrcRange :: "Sym_SrcRange list"
  sd_Array :: "Sym_Array list"
  sd_InjectedSource :: "Sym_InjectedSource list"
  sd_CompilandEnv :: "Sym_CompilandEnv list"
  sd_SourceFile :: "Sym_SourceFile list"
  sd_Label :: "Sym_Label list"
  sd_PublicSymbol :: "Sym_PublicSymbol list"
  sd_Included :: "Sym_Included list"
  sd_Export :: "Sym_Export list"
  sd_InputAssembly :: "Sym_InputAssembly list"
  sd_Segment :: "Sym_Segment list"
  sd_SectionContrib :: "Sym_SectionContrib list"
  sd_HeapAllocation :: "Sym_HeapAllocation list"
  sd_Block :: "Sym_Block list"
  sd_Inlined :: "Sym_Inlined list"
  sd_Frame :: "Sym_Frame list"
  sd_VTablePtr :: "Sym_VTablePtr list"
  sd_VTableShape :: "Sym_VTableShape list"
  sd_Friend :: "Sym_Friend list"

text \<open>A fresh \<open>SymbolData\<close>: its constructor only reserves capacity.\<close>

definition SymbolData_init :: SymbolData where
  "SymbolData_init = \<lparr>
    sd_Exe = [], sd_Thunk = [], sd_Compiland = [], sd_BuiltinType = [], sd_Function = [],
    sd_Symbol = [], sd_UserType = [], sd_AddrSection = [], sd_Enum = [], sd_FunctionArg = [],
    sd_FunctionType = [], sd_Data = [], sd_Pointer = [], sd_BaseClass = [], sd_Callsite = [],
    sd_Typedef = [], sd_SrcRange = [], sd_Array = [], sd_InjectedSource = [],
    sd_CompilandEnv = [], sd_SourceFile = [], sd_Label = [], sd_PublicSymbol = [],
    sd_Included = [], sd_Export = [], sd_InputAssembly = [], sd_Segment = [],
    sd_SectionContrib = [], sd_HeapAllocation = [], sd_Block = [], sd_Inlined = [],
    sd_Frame = [], sd_VTablePtr = [], sd_VTableShape = [], sd_Friend = []\<rparr>"

text \<open>
  The default constructors the program uses: \<open>Symbol()\<close> (the row of symbol 0) and \<open>Included\<close>.
\<close>

definition Symbol_default :: Sym_Symbol where
  "Symbol_default = \<lparr>
    Symbol_name = [], Symbol_symbol = 0, Symbol_lexical_parent_symbol = 0, Symbol_parent_symbol = 0,
    Symbol_size = 0, Symbol_tag = 0, Symbol_location_type = 0 \<rparr>"

definition Included_ctor :: "u32 \<Rightarrow> u32 \<Rightarrow> Sym_Included" where
  "Included_ctor compiland src =
    \<lparr> Included_compiland_symbol = compiland, Included_source_id = src \<rparr>"

section \<open>The table readers of \<open>SymbolData\<close>\<close>

text \<open>
  \<open>emplace_helper\<close> feeds a vector: \<open>init\<close> reserves room for the announced number of rows
  and changes no row, \<open>element\<close> constructs one row at the end from the item.
\<close>

definition emplace_helper_init :: "u32 \<Rightarrow> 'e list \<Rightarrow> 'e list" where
  "emplace_helper_init n contrib = contrib"

definition emplace_helper_element :: "('t \<Rightarrow> 'e) \<Rightarrow> 't \<Rightarrow> 'e list \<Rightarrow> 'e list" where
  "emplace_helper_element ctor item contrib = contrib @ [ctor item]"

end
