(* ===== verification/Reflection_Rows.thy ===== *)
theory Reflection_Rows
  imports Reflection Sym_Records
begin

text \<open>
  The cells of a row: the members that \<^verbatim>\<open>PDBReflection.inl\<close> lists for a struct, in its order,
  each tagged by the C++ type that selects the writer's overload. \<open>reflect\<close> pairs every table
  with the rows of its vector in \<open>SymbolData\<close>, in the order in which the output engines'
  \<open>BEGIN_STRUCT\<close> macro visits them.
\<close>


definition row_Symbol :: "Sym_Symbol \<Rightarrow> cval list" where
  "row_Symbol r = [
    V_string (Symbol_name r), V_ulong (Symbol_symbol r),
    V_ulong (Symbol_lexical_parent_symbol r), V_ulong (Symbol_parent_symbol r),
    V_ullong (Symbol_size r), V_enum E_Tag (unat (Symbol_tag r)),
    V_enum E_Location (unat (Symbol_location_type r))]"

definition row_BuiltinType :: "Sym_BuiltinType \<Rightarrow> cval list" where
  "row_BuiltinType r = [
    V_uint32 (BuiltinType_symbol r), V_enum E_BuiltinType_Kind (unat (BuiltinType_kind r)),
    V_bool (BuiltinType_unaligned r), V_bool (BuiltinType_const r),
    V_bool (BuiltinType_volatile r), V_bool (BuiltinType_const_export r)]"

definition row_Frame :: "Sym_Frame \<Rightarrow> cval list" where
  "row_Frame r = [
    V_string (Frame_program r), V_address (Frame_address r), V_uint32 (Frame_length_block r),
    V_uint32 (Frame_length_locals r), V_uint32 (Frame_length_params r),
    V_uint32 (Frame_max_stack r), V_uint32 (Frame_length_prolog r),
    V_uint32 (Frame_length_saved_registers r), V_uint32 (Frame_type_symbol r),
    V_bool (Frame_exceptions_system r), V_bool (Frame_exceptions_cxx r),
    V_bool (Frame_function_start r), V_bool (Frame_allocate_base_pointer r)]"

definition row_Label :: "Sym_Label \<Rightarrow> cval list" where
  "row_Label r = [
    V_uint32 (Label_symbol r), V_address (Label_address r)]"

definition row_FunctionType :: "Sym_FunctionType \<Rightarrow> cval list" where
  "row_FunctionType r = [
    V_uint32 (FunctionType_symbol r), V_bool (FunctionType_volatile r),
    V_bool (FunctionType_const r), V_bool (FunctionType_unaligned r),
    V_int (FunctionType_this_adjust r), V_uint32 (FunctionType_param_count r),
    V_bool (FunctionType_is_constructor r), V_uint32 (FunctionType_return_type_symbol r),
    V_uint32 (FunctionType_this_type_symbol r), V_bool (FunctionType_cxx_return_udt r),
    V_bool (FunctionType_constructor_virtual_base r), V_bool (FunctionType_constant_export r),
    V_enum E_FunctionType_CallConv (unat (FunctionType_call_convention r))]"

definition row_Function :: "Sym_Function \<Rightarrow> cval list" where
  "row_Function r = [
    V_uint32 (Function_symbol r), V_uint32 (Function_virtual_base_offset r),
    V_uint32 (Function_type_symbol r), V_enum E_Access (unat (Function_access r)),
    V_enum E_Function_Virtuality (Function_Virtuality_value (Function_virtuality r)),
    V_ullong (Function_pgo_dyn_instr_count r), V_uint32 (Function_static_size r),
    V_uint32 (Function_pbp_regid r), V_uint32 (Function_lbp_regid r),
    V_uint32 (Function_final_live_static_size r), V_uint32 (Function_frame_size r),
    V_address (Function_address r), V_address (Function_eh_address r),
    V_uint32 (Function_pgo_entry_count r), V_bool (Function_control_flow_check r),
    V_bool (Function_exceptions r), V_bool (Function_sealed r),
    V_bool (Function_security_checks r), V_bool (Function_static r),
    V_bool (Function_pure_virtual r), V_bool (Function_inline r), V_bool (Function_inlined r),
    V_bool (Function_noinline r), V_bool (Function_noreturn r),
    V_bool (Function_unreachable r), V_bool (Function_setjmp r), V_bool (Function_asm r),
    V_bool (Function_alloca r), V_bool (Function_const_export r),
    V_bool (Function_strict_gs_check r), V_bool (Function_longjmp r), V_bool (Function_eh r),
    V_bool (Function_eha r), V_bool (Function_seh r), V_bool (Function_optimized_debug_info r),
    V_bool (Function_frame_pointer r), V_bool (Function_interrupt_return r),
    V_bool (Function_far_return r), V_bool (Function_naked r), V_bool (Function_custom_call r),
    V_bool (Function_stack_ordering r), V_bool (Function_safebuffers r),
    V_bool (Function_pgo r), V_bool (Function_has_pgo_counts r),
    V_bool (Function_optimized_for_speed r), V_bool (Function_compiler_generated r)]"

definition row_VTablePtr :: "Sym_VTablePtr \<Rightarrow> cval list" where
  "row_VTablePtr r = [
    V_uint32 (VTablePtr_symbol r), V_uint32 (VTablePtr_offset r),
    V_uint32 (VTablePtr_type_symbol r)]"

definition row_VTableShape :: "Sym_VTableShape \<Rightarrow> cval list" where
  "row_VTableShape r = [
    V_uint32 (VTableShape_symbol r), V_uint32 (VTableShape_count r)]"

definition row_Friend :: "Sym_Friend \<Rightarrow> cval list" where
  "row_Friend r = [
    V_uint32 (Friend_symbol r), V_uint32 (Friend_type_symbol r)]"

definition row_PublicSymbol :: "Sym_PublicSymbol \<Rightarrow> cval list" where
  "row_PublicSymbol r = [
    V_uint32 (PublicSymbol_symbol r),
    V_enum E_PublicSymbol_Type (PublicSymbol_Type_value (PublicSymbol_type r)),
    V_address (PublicSymbol_address r), V_bool (PublicSymbol_managed r),
    V_bool (PublicSymbol_cil r)]"

definition row_Data :: "Sym_Data \<Rightarrow> cval list" where
  "row_Data r = [
    V_ulong (Data_symbol r), V_llong (Data_value r), V_uint32 (Data_type_symbol r),
    V_uint32 (Data_offset r), V_address (Data_address r), V_uint32 (Data_register_id r),
    V_uint32 (Data_bit_position r), V_enum E_Data_Kind (unat (Data_kind r)),
    V_bool (Data_const_export r)]"

definition row_Compiland :: "Sym_Compiland \<Rightarrow> cval list" where
  "row_Compiland r = [
    V_uint32 (Compiland_symbol r), V_string (Compiland_library r),
    V_string (Compiland_compiler r), V_uint32 (Compiland_backend_build r),
    V_uint32 (Compiland_backend_major r), V_uint32 (Compiland_backend_minor r),
    V_uint32 (Compiland_frontend_build r), V_uint32 (Compiland_frontend_major r),
    V_uint32 (Compiland_frontend_minor r), V_uint32 (Compiland_frontend_qfe r),
    V_uint32 (Compiland_backend_qfe r), V_enum E_Language (unat (Compiland_language r)),
    V_enum E_CPU (unat (Compiland_platform r)), V_bool (Compiland_security_check r),
    V_bool (Compiland_managed r), V_bool (Compiland_debug_info r),
    V_bool (Compiland_edit_and_continue r), V_bool (Compiland_ltcg r),
    V_bool (Compiland_sdl r), V_bool (Compiland_pgo r), V_bool (Compiland_data_aligned r),
    V_bool (Compiland_hotpatchable r), V_bool (Compiland_cvtcil r),
    V_bool (Compiland_cil_netmodule r)]"

definition row_InjectedSource :: "Sym_InjectedSource \<Rightarrow> cval list" where
  "row_InjectedSource r = [
    V_ullong (InjectedSource_length r), V_string (InjectedSource_text r)]"

definition row_SourceFile :: "Sym_SourceFile \<Rightarrow> cval list" where
  "row_SourceFile r = [
    V_uint32 (SourceFile_source_id r), V_string (SourceFile_path r)]"

definition row_SrcRange :: "Sym_SrcRange \<Rightarrow> cval list" where
  "row_SrcRange r = [
    V_uint32 (SrcRange_id r), V_uint32 (SrcRange_compiland_symbol r),
    V_uint32 (SrcRange_src_file r), V_uint32 (SrcRange_line_begin r),
    V_uint32 (SrcRange_line_end r), V_uint32 (SrcRange_column_begin r),
    V_uint32 (SrcRange_column_end r), V_uint32 (SrcRange_address_rv r),
    V_uint32 (SrcRange_address_offset r), V_uint32 (SrcRange_address_section r),
    V_uint32 (SrcRange_length r), V_bool (SrcRange_statement r)]"

definition row_InputAssembly :: "Sym_InputAssembly \<Rightarrow> cval list" where
  "row_InputAssembly r = [
    V_string (InputAssembly_filename r), V_uint32 (InputAssembly_index r),
    V_uint32 (InputAssembly_timestamp r), V_uint32 (InputAssembly_uid r),
    V_bool (InputAssembly_pdb_available_at_il_merge r)]"

definition row_CompilandEnv :: "Sym_CompilandEnv \<Rightarrow> cval list" where
  "row_CompilandEnv r = [
    V_uint32 (CompilandEnv_compiland_symbol r), V_string (CompilandEnv_option_name r),
    V_string (CompilandEnv_value r)]"

definition row_AddrSection :: "Sym_AddrSection \<Rightarrow> cval list" where
  "row_AddrSection r = [
    V_uint32 (AddrSection_section_index r), V_ulong (AddrSection_size r),
    V_uint32 (AddrSection_line_numbers r), V_string (AddrSection_name r),
    V_ulong (AddrSection_relocations r), V_bool (AddrSection_comdat r),
    V_bool (AddrSection_executable r), V_bool (AddrSection_readable r),
    V_bool (AddrSection_writable r), V_bool (AddrSection_discardable r)]"

definition row_Included :: "Sym_Included \<Rightarrow> cval list" where
  "row_Included r = [
    V_uint32 (Included_compiland_symbol r), V_uint32 (Included_source_id r)]"

definition row_UserType :: "Sym_UserType \<Rightarrow> cval list" where
  "row_UserType r = [
    V_uint32 (UserType_symbol r), V_uint32 (UserType_src_line r),
    V_uint32 (UserType_vtable_shape r), V_uint32 (UserType_vtable_count r),
    V_enum E_UserType_Kind (unat (UserType_kind r)),
    V_enum E_UserType_Semantics (UserType_Semantics_value (UserType_semantics r)),
    V_enum E_UserType_Aggregate (UserType_Aggregate_value (UserType_aggregate_type r)),
    V_bool (UserType_packed r), V_bool (UserType_unaligned r), V_bool (UserType_const r),
    V_bool (UserType_volatile r), V_bool (UserType_overloaded_operators r),
    V_bool (UserType_nested r), V_bool (UserType_has_nested_types r),
    V_bool (UserType_assignment_operator r), V_bool (UserType_cast_operator r),
    V_bool (UserType_scoped r), V_bool (UserType_constructor r)]"

definition row_Enum :: "Sym_Enum \<Rightarrow> cval list" where
  "row_Enum r = [
    V_uint32 (Enum_symbol r), V_uint32 (Enum_unmodified_type_symbol r),
    V_uint32 (Enum_type_symbol r), V_enum E_BuiltinType_Kind (unat (Enum_type r)),
    V_bool (Enum_packed r), V_bool (Enum_scoped r)]"

definition row_Pointer :: "Sym_Pointer \<Rightarrow> cval list" where
  "row_Pointer r = [
    V_uint32 (Pointer_symbol r), V_uint32 (Pointer_type_symbol r),
    V_uint32 (Pointer_unmodified_type_symbol r), V_bool (Pointer_unaligned r),
    V_enum E_Pointer_Kind (Pointer_Kind_value (Pointer_kind r)),
    V_enum E_Pointer_Inheritance (Pointer_Inheritance_value (Pointer_inheritance r)),
    V_enum E_Pointer_MemberType (Pointer_MemberType_value (Pointer_member_type r)),
    V_bool (Pointer_const r), V_bool (Pointer_volatile r), V_bool (Pointer_restrict r),
    V_bool (Pointer_constant_export r), V_bool (Pointer_virtual_inheritance r)]"

definition row_BaseClass :: "Sym_BaseClass \<Rightarrow> cval list" where
  "row_BaseClass r = [
    V_uint32 (BaseClass_child_symbol r), V_uint32 (BaseClass_parent_symbol r),
    V_uint32 (BaseClass_offset r), V_uint32 (BaseClass_vdisp_index r),
    V_uint32 (BaseClass_vbase_type_symbol r), V_uint32 (BaseClass_vbase_offset r),
    V_bool (BaseClass_virtual r), V_bool (BaseClass_indirect_virtual r),
    V_enum E_Access (unat (BaseClass_access r))]"

definition row_Thunk :: "Sym_Thunk \<Rightarrow> cval list" where
  "row_Thunk r = [
    V_uint32 (Thunk_symbol r), V_enum E_Thunk_Ordinal (unat (Thunk_ordinal r)),
    V_address (Thunk_address r), V_address (Thunk_target r), V_uint32 (Thunk_target_symbol r)]"

definition row_FunctionArg :: "Sym_FunctionArg \<Rightarrow> cval list" where
  "row_FunctionArg r = [
    V_uint32 (FunctionArg_symbol r), V_uint32 (FunctionArg_type_symbol r)]"

definition row_Block :: "Sym_Block \<Rightarrow> cval list" where
  "row_Block r = [
    V_uint32 (Block_symbol r), V_address (Block_address r)]"

definition row_HeapAllocation :: "Sym_HeapAllocation \<Rightarrow> cval list" where
  "row_HeapAllocation r = [
    V_uint32 (HeapAllocation_symbol r), V_address (HeapAllocation_address r),
    V_uint32 (HeapAllocation_type_symbol r)]"

definition row_Export :: "Sym_Export \<Rightarrow> cval list" where
  "row_Export r = [
    V_uint32 (Export_symbol r), V_uint32 (Export_address_offset r), V_uint32 (Export_rank r),
    V_uint32 (Export_ordinal r), V_bool (Export_const_export r), V_bool (Export_data_export r),
    V_bool (Export_private_export r), V_bool (Export_noname r),
    V_bool (Export_explicit_ordinal r), V_bool (Export_forwarder r),
    V_bool (Export_function r), V_bool (Export_const r)]"

definition row_Exe :: "Sym_Exe \<Rightarrow> cval list" where
  "row_Exe r = [
    V_string (Exe_guid r), V_string (Exe_symbols_path r), V_uint32 (Exe_symbol r),
    V_uint32 (Exe_age r), V_bool (Exe_ctypes r), V_bool (Exe_stripped r),
    V_uint32 (Exe_architecture r), V_uint32 (Exe_signature r)]"

definition row_Typedef :: "Sym_Typedef \<Rightarrow> cval list" where
  "row_Typedef r = [
    V_uint32 (Typedef_symbol r), V_uint32 (Typedef_type_symbol r),
    V_uint32 (Typedef_unmodified_type_symbol r)]"

definition row_SectionContrib :: "Sym_SectionContrib \<Rightarrow> cval list" where
  "row_SectionContrib r = [
    V_uint32 (SectionContrib_compiland_symbol r), V_uint32 (SectionContrib_data_crc r),
    V_uint32 (SectionContrib_length r), V_address (SectionContrib_address r),
    V_uint32 (SectionContrib_relocations_crc r), V_bool (SectionContrib_code r),
    V_bool (SectionContrib_code_16bit r), V_bool (SectionContrib_comdat r),
    V_bool (SectionContrib_executable r), V_bool (SectionContrib_discardable r),
    V_bool (SectionContrib_initialized_data r), V_bool (SectionContrib_uninitialized_data r),
    V_bool (SectionContrib_cached r), V_bool (SectionContrib_paged r),
    V_bool (SectionContrib_readable r), V_bool (SectionContrib_writeable r),
    V_bool (SectionContrib_remove r), V_bool (SectionContrib_share r)]"

definition row_Inlined :: "Sym_Inlined \<Rightarrow> cval list" where
  "row_Inlined r = [
    V_uint32 (Inlined_symbol r), V_uint32 (Inlined_type_symbol r),
    V_uint32 (Inlined_pgo_edges r), V_address (Inlined_address r)]"

definition row_Array :: "Sym_Array \<Rightarrow> cval list" where
  "row_Array r = [
    V_uint32 (Array_symbol r), V_uint32 (Array_index_type_symbol r), V_uint32 (Array_count r),
    V_uint32 (Array_rank r), V_uint32 (Array_type_symbol r)]"

definition row_Segment :: "Sym_Segment \<Rightarrow> cval list" where
  "row_Segment r = [
    V_uint32 (Segment_address_rv r), V_uint32 (Segment_address_section r),
    V_uint32 (Segment_frame r), V_uint32 (Segment_length r), V_uint32 (Segment_offset r),
    V_bool (Segment_executable r), V_bool (Segment_readable r), V_bool (Segment_writable r)]"

definition row_Callsite :: "Sym_Callsite \<Rightarrow> cval list" where
  "row_Callsite r = [
    V_uint32 (Callsite_symbol r), V_uint32 (Callsite_target_symbol r),
    V_address (Callsite_address r)]"

definition reflect :: "SymbolData \<Rightarrow> (table \<times> cval list list) list" where
  "reflect S = [
    (table_Symbol, map row_Symbol (sd_Symbol S)),
    (table_BuiltinType, map row_BuiltinType (sd_BuiltinType S)),
    (table_Frame, map row_Frame (sd_Frame S)), (table_Label, map row_Label (sd_Label S)),
    (table_FunctionType, map row_FunctionType (sd_FunctionType S)),
    (table_Function, map row_Function (sd_Function S)),
    (table_VTablePtr, map row_VTablePtr (sd_VTablePtr S)),
    (table_VTableShape, map row_VTableShape (sd_VTableShape S)),
    (table_Friend, map row_Friend (sd_Friend S)),
    (table_PublicSymbol, map row_PublicSymbol (sd_PublicSymbol S)),
    (table_Data, map row_Data (sd_Data S)),
    (table_Compiland, map row_Compiland (sd_Compiland S)),
    (table_InjectedSource, map row_InjectedSource (sd_InjectedSource S)),
    (table_SourceFile, map row_SourceFile (sd_SourceFile S)),
    (table_SrcRange, map row_SrcRange (sd_SrcRange S)),
    (table_InputAssembly, map row_InputAssembly (sd_InputAssembly S)),
    (table_CompilandEnv, map row_CompilandEnv (sd_CompilandEnv S)),
    (table_AddrSection, map row_AddrSection (sd_AddrSection S)),
    (table_Included, map row_Included (sd_Included S)),
    (table_UserType, map row_UserType (sd_UserType S)), (table_Enum, map row_Enum (sd_Enum S)),
    (table_Pointer, map row_Pointer (sd_Pointer S)),
    (table_BaseClass, map row_BaseClass (sd_BaseClass S)),
    (table_Thunk, map row_Thunk (sd_Thunk S)),
    (table_FunctionArg, map row_FunctionArg (sd_FunctionArg S)),
    (table_Block, map row_Block (sd_Block S)),
    (table_HeapAllocation, map row_HeapAllocation (sd_HeapAllocation S)),
    (table_Export, map row_Export (sd_Export S)), (table_Exe, map row_Exe (sd_Exe S)),
    (table_Typedef, map row_Typedef (sd_Typedef S)),
    (table_SectionContrib, map row_SectionContrib (sd_SectionContrib S)),
    (table_Inlined, map row_Inlined (sd_Inlined S)), (table_Array, map row_Array (sd_Array S)),
    (table_Segment, map row_Segment (sd_Segment S)),
    (table_Callsite, map row_Callsite (sd_Callsite S))]"

section \<open>Every row fits its table\<close>

text \<open>Cell by cell a row has the types of its table's members.\<close>

definition fits :: "member list \<Rightarrow> cval list \<Rightarrow> bool" where
  "fits ms r = (map cval_type r = map m_type ms)"

lemma fits_Symbol [simp]: "fits members_Symbol (row_Symbol r)"
  by (simp add: fits_def members_Symbol_def row_Symbol_def)

lemma fits_BuiltinType [simp]: "fits members_BuiltinType (row_BuiltinType r)"
  by (simp add: fits_def members_BuiltinType_def row_BuiltinType_def)

lemma fits_Frame [simp]: "fits members_Frame (row_Frame r)"
  by (simp add: fits_def members_Frame_def row_Frame_def)

lemma fits_Label [simp]: "fits members_Label (row_Label r)"
  by (simp add: fits_def members_Label_def row_Label_def)

lemma fits_FunctionType [simp]: "fits members_FunctionType (row_FunctionType r)"
  by (simp add: fits_def members_FunctionType_def row_FunctionType_def)

lemma fits_Function [simp]: "fits members_Function (row_Function r)"
  by (simp add: fits_def members_Function_def row_Function_def)

lemma fits_VTablePtr [simp]: "fits members_VTablePtr (row_VTablePtr r)"
  by (simp add: fits_def members_VTablePtr_def row_VTablePtr_def)

lemma fits_VTableShape [simp]: "fits members_VTableShape (row_VTableShape r)"
  by (simp add: fits_def members_VTableShape_def row_VTableShape_def)

lemma fits_Friend [simp]: "fits members_Friend (row_Friend r)"
  by (simp add: fits_def members_Friend_def row_Friend_def)

lemma fits_PublicSymbol [simp]: "fits members_PublicSymbol (row_PublicSymbol r)"
  by (simp add: fits_def members_PublicSymbol_def row_PublicSymbol_def)

lemma fits_Data [simp]: "fits members_Data (row_Data r)"
  by (simp add: fits_def members_Data_def row_Data_def)

lemma fits_Compiland [simp]: "fits members_Compiland (row_Compiland r)"
  by (simp add: fits_def members_Compiland_def row_Compiland_def)

lemma fits_InjectedSource [simp]: "fits members_InjectedSource (row_InjectedSource r)"
  by (simp add: fits_def members_InjectedSource_def row_InjectedSource_def)

lemma fits_SourceFile [simp]: "fits members_SourceFile (row_SourceFile r)"
  by (simp add: fits_def members_SourceFile_def row_SourceFile_def)

lemma fits_SrcRange [simp]: "fits members_SrcRange (row_SrcRange r)"
  by (simp add: fits_def members_SrcRange_def row_SrcRange_def)

lemma fits_InputAssembly [simp]: "fits members_InputAssembly (row_InputAssembly r)"
  by (simp add: fits_def members_InputAssembly_def row_InputAssembly_def)

lemma fits_CompilandEnv [simp]: "fits members_CompilandEnv (row_CompilandEnv r)"
  by (simp add: fits_def members_CompilandEnv_def row_CompilandEnv_def)

lemma fits_AddrSection [simp]: "fits members_AddrSection (row_AddrSection r)"
  by (simp add: fits_def members_AddrSection_def row_AddrSection_def)

lemma fits_Included [simp]: "fits members_Included (row_Included r)"
  by (simp add: fits_def members_Included_def row_Included_def)

lemma fits_UserType [simp]: "fits members_UserType (row_UserType r)"
  by (simp add: fits_def members_UserType_def row_UserType_def)

lemma fits_Enum [simp]: "fits members_Enum (row_Enum r)"
  by (simp add: fits_def members_Enum_def row_Enum_def)

lemma fits_Pointer [simp]: "fits members_Pointer (row_Pointer r)"
  by (simp add: fits_def members_Pointer_def row_Pointer_def)

lemma fits_BaseClass [simp]: "fits members_BaseClass (row_BaseClass r)"
  by (simp add: fits_def members_BaseClass_def row_BaseClass_def)

lemma fits_Thunk [simp]: "fits members_Thunk (row_Thunk r)"
  by (simp add: fits_def members_Thunk_def row_Thunk_def)

lemma fits_FunctionArg [simp]: "fits members_FunctionArg (row_FunctionArg r)"
  by (simp add: fits_def members_FunctionArg_def row_FunctionArg_def)

lemma fits_Block [simp]: "fits members_Block (row_Block r)"
  by (simp add: fits_def members_Block_def row_Block_def)

lemma fits_HeapAllocation [simp]: "fits members_HeapAllocation (row_HeapAllocation r)"
  by (simp add: fits_def members_HeapAllocation_def row_HeapAllocation_def)

lemma fits_Export [simp]: "fits members_Export (row_Export r)"
  by (simp add: fits_def members_Export_def row_Export_def)

lemma fits_Exe [simp]: "fits members_Exe (row_Exe r)"
  by (simp add: fits_def members_Exe_def row_Exe_def)

lemma fits_Typedef [simp]: "fits members_Typedef (row_Typedef r)"
  by (simp add: fits_def members_Typedef_def row_Typedef_def)

lemma fits_SectionContrib [simp]: "fits members_SectionContrib (row_SectionContrib r)"
  by (simp add: fits_def members_SectionContrib_def row_SectionContrib_def)

lemma fits_Inlined [simp]: "fits members_Inlined (row_Inlined r)"
  by (simp add: fits_def members_Inlined_def row_Inlined_def)

lemma fits_Array [simp]: "fits members_Array (row_Array r)"
  by (simp add: fits_def members_Array_def row_Array_def)

lemma fits_Segment [simp]: "fits members_Segment (row_Segment r)"
  by (simp add: fits_def members_Segment_def row_Segment_def)

lemma fits_Callsite [simp]: "fits members_Callsite (row_Callsite r)"
  by (simp add: fits_def members_Callsite_def row_Callsite_def)

lemmas table_defs =
  table_Symbol_def table_BuiltinType_def table_Frame_def table_Label_def table_FunctionType_def
  table_Function_def table_VTablePtr_def table_VTableShape_def table_Friend_def
  table_PublicSymbol_def table_Data_def table_Compiland_def table_InjectedSource_def
  table_SourceFile_def table_SrcRange_def table_InputAssembly_def table_CompilandEnv_def
  table_AddrSection_def table_Included_def table_UserType_def table_Enum_def table_Pointer_def
  table_BaseClass_def table_Thunk_def table_FunctionArg_def table_Block_def
  table_HeapAllocation_def table_Export_def table_Exe_def table_Typedef_def
  table_SectionContrib_def table_Inlined_def table_Array_def table_Segment_def
  table_Callsite_def

lemma map_fst_reflect: "map fst (reflect S) = tables"
  by (simp add: reflect_def tables_def)

lemma reflect_fits: "\<forall>(t, rs) \<in> set (reflect S). \<forall>r \<in> set rs. fits (tbl_members t) r"
  by (simp add: reflect_def table_defs)

lemma reflect_fitsD: "(t, rs) \<in> set (reflect S) \<Longrightarrow> r \<in> set rs \<Longrightarrow> fits (tbl_members t) r"
  using reflect_fits by fastforce

lemma fits_length: "fits ms r \<Longrightarrow> length r = length ms"
  unfolding fits_def by (metis length_map)

lemma reflect_in_tables: "(t, rs) \<in> set (reflect S) \<Longrightarrow> t \<in> set tables"
  by (metis map_fst_reflect fst_conv image_eqI image_set)

end
