(* ===== verification/Options.thy ===== *)
theory Options
  imports Drpdb_Prelude
begin

text \<open>
  The part of \<^verbatim>\<open>drpdb/src/drpdb.cpp\<close> that every engine calls: the command line (\<open>getOption\<close>,
  \<open>getFlag\<close>) and the accumulated error text (\<open>set_error\<close>, \<open>has_error\<close>). The command line is
  the list of arguments, the program's own path first; \<open>gErr\<close>, the files written and the console are
  fields of the record \<open>world\<close> that the engines pass along. What the operating system
  answers is a parameter: the record \<open>os\<close>.
\<close>

section \<open>The command line\<close>

text \<open>\<open>strchr(s, c)\<close>: the text before the first \<open>c\<close> and the text behind it, if there is one.\<close>

fun split_at :: "char \<Rightarrow> string \<Rightarrow> (string \<times> string) option" where
  "split_at c [] = None"
| "split_at c (x # xs) =
     (if x = c then Some ([], xs) else map_option (\<lambda>(a, b). (x # a, b)) (split_at c xs))"

text \<open>\<open>strncmp(a, b, n) == 0\<close>, for texts without a NUL inside.\<close>

definition strncmp_eq :: "string \<Rightarrow> string \<Rightarrow> nat \<Rightarrow> bool" where
  "strncmp_eq a b n = (take n a = take n b)"

text \<open>
  An argument answers for an option when the text before its first equals sign is the
  beginning of the option's name. The test for a quoted value reads \<open>*found + 1\<close>, the
  code of the equals sign plus one, where \<open>*(found + 1)\<close> was meant.
\<close>

definition option_value :: "string \<Rightarrow> string run" where
  "option_value rest =
     (if (of_char CHR ''='' :: nat) + 1 = of_char dquote
      then (case split_at dquote (tl rest) of
              None \<Rightarrow> Some (Inl (Undefined_Behaviour ''std::string(nullptr)''))
            | Some (inner, _) \<Rightarrow> returns (take (length inner) rest))
      else returns rest)"

fun getOption_run :: "string list \<Rightarrow> string \<Rightarrow> string run" where
  "getOption_run [] name = returns []"
| "getOption_run (arg # args) name =
     (case split_at CHR ''='' arg of
        Some (key, rest) \<Rightarrow>
          (if strncmp_eq arg name (length key) then option_value rest else getOption_run args name)
      | None \<Rightarrow> getOption_run args name)"

definition getOption :: "string list \<Rightarrow> string \<Rightarrow> string" where
  "getOption argv name = projr (the (getOption_run argv name))"

fun getFlag :: "string list \<Rightarrow> string \<Rightarrow> bool" where
  "getFlag [] name = False"
| "getFlag (arg # args) name = (if name = arg then True else getFlag args name)"

lemma getFlag_iff: "getFlag argv name \<longleftrightarrow> name \<in> set argv"
  by (induction argv) auto

lemma option_value_plain [simp]: "option_value rest = returns rest"
  by (simp add: option_value_def)

lemma split_at_Some: "split_at c s = Some (a, b) \<longleftrightarrow> s = a @ c # b \<and> c \<notin> set a"
proof (induction s arbitrary: a)
  case Nil
  then show ?case by simp
next
  case (Cons x xs)
  then show ?case by (cases a) (auto simp: split_paired_all)
qed

lemma split_at_None: "split_at c s = None \<longleftrightarrow> c \<notin> set s"
  by (induction s) auto

text \<open>The quoted branch is dead, so reading an option never faults.\<close>

lemma getOption_returns: "getOption_run argv name = returns (getOption argv name)"
proof -
  have "\<exists>v. getOption_run argv name = returns v"
    by (induction argv) (auto split: option.split)
  then show ?thesis by (auto simp: getOption_def returns_def)
qed

lemma getOption_simps [simp]:
  "getOption [] name = []"
  "getOption (arg # args) name =
     (case split_at CHR ''='' arg of
        Some (key, rest) \<Rightarrow>
          (if strncmp_eq arg name (length key) then rest else getOption args name)
      | None \<Rightarrow> getOption args name)"
  by (auto simp: getOption_def returns_def split: option.split)

text \<open>Whether an argument answers for an option, and what the option then reads.\<close>

definition answers_for :: "string \<Rightarrow> string \<Rightarrow> bool" where
  "answers_for name arg = (\<exists>key rest. arg = key @ CHR ''='' # rest \<and> CHR ''='' \<notin> set key
      \<and> take (length key) name = key)"

lemma answers_for_split:
  "answers_for name arg \<longleftrightarrow>
     (case split_at CHR ''='' arg of None \<Rightarrow> False
      | Some (key, rest) \<Rightarrow> strncmp_eq arg name (length key))"
proof (cases "split_at CHR ''='' arg")
  case None
  then have "CHR ''='' \<notin> set arg" by (simp add: split_at_None)
  with None show ?thesis by (auto simp: answers_for_def)
next
  case (Some kr)
  then obtain key rest where kr: "split_at CHR ''='' arg = Some (key, rest)"
    by (cases kr) auto
  then have arg: "arg = key @ CHR ''='' # rest" and free: "CHR ''='' \<notin> set key"
    by (simp_all add: split_at_Some)
  have "strncmp_eq arg name (length key) \<longleftrightarrow> take (length key) name = key"
    by (auto simp: strncmp_eq_def arg)
  moreover have "answers_for name arg \<longleftrightarrow> take (length key) name = key"
  proof
    assume "answers_for name arg"
    then obtain k r where "split_at CHR ''='' arg = Some (k, r)" and "take (length k) name = k"
      unfolding answers_for_def split_at_Some by blast
    with kr show "take (length key) name = key" by simp
  next
    assume "take (length key) name = key"
    with arg free show "answers_for name arg" unfolding answers_for_def by blast
  qed
  ultimately show ?thesis by (simp add: kr)
qed

lemma getOption_first:
  assumes "\<forall>a \<in> set before. \<not> answers_for name a"
    and "CHR ''='' \<notin> set key" and "take (length key) name = key"
  shows "getOption (before @ (key @ CHR ''='' # rest) # after) name = rest"
  using assms
proof (induction before)
  case Nil
  then have "split_at CHR ''='' (key @ CHR ''='' # rest) = Some (key, rest)"
    by (simp add: split_at_Some)
  with Nil show ?case by (simp add: strncmp_eq_def)
next
  case (Cons a before)
  then have "\<not> answers_for name a" by simp
  with Cons show ?case
    by (auto simp: answers_for_split split: option.split)
qed

lemma getOption_none: "\<forall>a \<in> set argv. \<not> answers_for name a \<Longrightarrow> getOption argv name = []"
  by (induction argv) (auto simp: answers_for_split split: option.split)

lemma behind_sign: "CHR ''='' \<notin> set key \<Longrightarrow> tl (dropWhile (\<lambda>c. c \<noteq> CHR ''='') (key @ CHR ''='' # rest)) = rest"
  by (induction key) auto

text \<open>C33. An option reads as what stands behind the first equals sign of the first argument that
  answers for it, and as the empty text when none does; an argument answers when the text
  before its equals sign is a beginning of the option's name, be it a shorter name or none.\<close>

theorem option_lookup:
  "getOption_run argv name = returns (case find (answers_for name) argv of
     None \<Rightarrow> [] | Some arg \<Rightarrow> tl (dropWhile (\<lambda>c. c \<noteq> CHR ''='') arg))"
proof (induction argv)
  case (Cons arg argv)
  show ?case
  proof (cases "split_at CHR ''='' arg")
    case None
    with Cons show ?thesis by (simp add: answers_for_split)
  next
    case (Some kr)
    then obtain key rest where kr: "split_at CHR ''='' arg = Some (key, rest)" by (cases kr) auto
    then have "arg = key @ CHR ''='' # rest" "CHR ''='' \<notin> set key" by (simp_all add: split_at_Some)
    with behind_sign [of key rest] kr Cons show ?thesis by (auto simp: answers_for_split)
  qed
qed simp

section \<open>Errors and files\<close>

record world =
  gErr :: string
  files :: "(string \<times> string) list"
  console :: string

definition world_init :: world where
  "world_init = \<lparr> gErr = [], files = [], console = [] \<rparr>"

text \<open>Output to \<open>std::cout\<close>, before the stream's line end translation.\<close>

definition print_text :: "string \<Rightarrow> world \<Rightarrow> world" where
  "print_text t w = w\<lparr> console := console w @ t \<rparr>"

definition set_error :: "string \<Rightarrow> world \<Rightarrow> world" where
  "set_error err w = w\<lparr> gErr := gErr w @ err @ crlf \<rparr>"

definition has_error :: "world \<Rightarrow> bool" where
  "has_error w = (gErr w \<noteq> [])"

text \<open>
  An \<open>ofstream\<close> opened on a path, given the whole text and closed: the disk either takes
  it, and the file then holds the text, or the stream is left bad.
\<close>

definition write_file :: "string \<Rightarrow> string \<Rightarrow> world \<Rightarrow> world" where
  "write_file path text w = w\<lparr> files := files w @ [(path, text)] \<rparr>"

lemma has_error_set_error [simp]: "has_error (set_error e w)"
  by (simp add: has_error_def set_error_def)

lemma files_set_error [simp]: "files (set_error e w) = files w"
  by (simp add: set_error_def)

lemma gErr_write_file [simp]: "gErr (write_file p t w) = gErr w"
  by (simp add: write_file_def)

lemma files_write_file [simp]: "files (write_file p t w) = files w @ [(p, t)]"
  by (simp add: write_file_def)

lemma has_error_write_file [simp]: "has_error (write_file p t w) = has_error w"
  by (simp add: has_error_def)

lemma print_text_simps [simp]:
  "gErr (print_text t w) = gErr w" "files (print_text t w) = files w"
  "console (print_text t w) = console w @ t" "has_error (print_text t w) = has_error w"
  by (simp_all add: print_text_def has_error_def)

lemma has_error_init [simp]: "\<not> has_error world_init"
  by (simp add: has_error_def world_init_def)

section \<open>The operating system\<close>

text \<open>
  What \<open>GetCurrentDirectoryA\<close> returns for a size of the buffer, and the text that the call leaves
  in the zeroed buffer; whether a stream on a path goes bad; the length and the first character
  of the locale's list separator; the names that match a search pattern; and what a text stream
  opened on a path yields.
\<close>

record os =
  GetCurrentDirectoryA :: "nat \<Rightarrow> nat \<times> string"
  write_bad :: "string \<Rightarrow> bool"
  locale_list_chars :: nat
  locale_list :: "u16 option"
  find_files :: "string \<Rightarrow> string list"
  read_text :: "string \<Rightarrow> string option"

text \<open>
  Opening, writing and closing a stream as one step: the stream is bad when the disk did not take
  the text; otherwise the file holds it. A disk that fails only at the close, after \<open>bad\<close> has been
  asked, is not modelled.
\<close>

definition store :: "os \<Rightarrow> string \<Rightarrow> string \<Rightarrow> world \<Rightarrow> world" where
  "store sys path text w = (if write_bad sys path then w else write_file path text w)"

end
