(* ===== verification/Wide_Text.thy ===== *)
theory Wide_Text
  imports Drpdb_Prelude
begin

text \<open>
  \<open>wstrcvt\<close> of \<^verbatim>\<open>drpdb/src/drpdb.h\<close>, through which every name, path and option that the
  debug interface hands out as wide text reaches a row. On text whose characters have one
  byte each it loses nothing.
\<close>

section \<open>Wide text\<close>

text \<open>
  \<open>wstrcvt\<close> copies \<open>wcslen\<close> characters, keeping the low byte of each; a null pointer gives
  the empty text.
\<close>

definition narrow :: "u16 \<Rightarrow> char" where
  "narrow w = char_of (unat (ucast w :: u8))"

definition wstrcvt :: "wstring option \<Rightarrow> string" where
  "wstrcvt s = (case s of None \<Rightarrow> [] | Some w \<Rightarrow> map narrow (takeWhile (\<lambda>c. c \<noteq> 0) w))"

definition widen :: "string \<Rightarrow> wstring" where
  "widen s = map (\<lambda>c. of_nat (of_char c)) s"

lemma of_char_less_256: "(of_char c :: nat) < 256"
  using nat_of_char_less_256 [of c] by simp

lemma unat_widen_char: "unat (of_nat (of_char c) :: u16) = of_char c"
proof -
  have "(of_char c :: nat) < 65536"
    using of_char_less_256 [of c] by linarith
  then show ?thesis by (simp add: unat_of_nat)
qed

lemma narrow_widen: "narrow (of_nat (of_char c)) = c"
proof -
  have "unat (ucast (of_nat (of_char c) :: u16) :: u8) = of_char c"
    using of_char_less_256 [of c] by (simp add: unsigned_ucast_eq unat_widen_char take_bit_nat_def)
  then show ?thesis by (simp add: narrow_def)
qed

lemma widen_char_zero: "(of_nat (of_char c) :: u16) = 0 \<longleftrightarrow> c = nul"
proof -
  have "(of_nat (of_char c) :: u16) = 0 \<longleftrightarrow> (of_char c :: nat) = 0"
    by (metis unat_widen_char unat_0 unat_eq_zero)
  also have "\<dots> \<longleftrightarrow> (of_char c :: nat) = of_char nul" by simp
  finally show ?thesis by (simp only: of_char_eq_iff)
qed

lemma wstrcvt_widen: "nul \<notin> set s \<Longrightarrow> wstrcvt (Some (widen s)) = s"
  by (induction s) (auto simp: wstrcvt_def widen_def narrow_widen widen_char_zero)

lemma length_wstrcvt: "length (wstrcvt (Some w)) \<le> length w"
  by (simp add: wstrcvt_def length_takeWhile_le)

end
