(* ===== verification/CSV_Output.thy ===== *)
theory CSV_Output
  imports Load_Data Reflection_Rows Options Wide_Text
begin

text \<open>
  The engine of \<^verbatim>\<open>drpdb/src/CSVOutput.cpp\<close>: one file per table in the output directory, with a
  line of column names unless \<open>-nocolumnheaders\<close> is given, the cells separated by a comma or,
  on request, by the list separator of the user's locale.
\<close>

section \<open>The engine\<close>

text \<open>The first byte of the UTF-8 form of a character.\<close>

definition utf8_first :: "u16 \<Rightarrow> char" where
  "utf8_first c =
     (if c < 0x80 then char_of (unat c)
      else if c < 0x800 then char_of (0xC0 + unat c div 0x40)
      else char_of (0xE0 + unat c div 0x1000))"

definition getSeparator :: "os \<Rightarrow> string list \<Rightarrow> char" where
  "getSeparator sys argv =
     (if \<not> getFlag argv ''-uselocaleseparator'' then CHR '',''
      else if locale_list_chars sys = 2 then
        (case locale_list sys of None \<Rightarrow> CHR '','' | Some c \<Rightarrow> utf8_first c)
      else CHR '','')"

record csv_output =
  outdir :: string
  naked :: bool
  separator :: char

definition csv_init :: "os \<Rightarrow> string list \<Rightarrow> csv_output" where
  "csv_init sys argv =
     (let outdir = getOption argv ''-outdir'';
          outdir = (if outdir = [] then snd (GetCurrentDirectoryA sys 260) else outdir)
      in \<lparr> outdir = outdir, naked = getFlag argv ''-nocolumnheaders'',
           separator = getSeparator sys argv \<rparr>)"

text \<open>
  \<open>AppendHeader\<close>: the macros test the table's name against every table of the list, add
  the members' names of the one that matches and take the last separator off.
\<close>

definition header_member :: "char \<Rightarrow> string \<Rightarrow> member \<Rightarrow> string" where
  "header_member sep out m = out @ m_name m @ [sep]"

definition header_end :: "char \<Rightarrow> string \<Rightarrow> string run" where
  "header_end sep out =
     (if out = [] then Some (Inl (Undefined_Behaviour ''back''))
      else returns ((if last out = sep then butlast out else out) @ [newline]))"

definition AppendHeader :: "char \<Rightarrow> string \<Rightarrow> string \<Rightarrow> string run" where
  "AppendHeader sep table out =
     run_fold (\<lambda>t out. if table = tbl_name t
         then header_end sep (foldl (header_member sep) out (tbl_members t)) else returns out)
       tables out"

definition csv_PopulateTable ::
    "os \<Rightarrow> csv_output \<Rightarrow> cval list list \<Rightarrow> string \<Rightarrow> world \<Rightarrow> world run" where
  "csv_PopulateTable sys st rows name w =
     (let Ar = writer_init (outdir st @ name @ ''.csv'') True (separator st) in
      run_bind (if \<not> naked st then AppendHeader (separator st) name (w_out Ar) else returns (w_out Ar))
        (\<lambda>out. run_bind (write_rows rows (Ar\<lparr> w_out := out \<rparr>))
          (\<lambda>Ar. let w = store sys (w_outPath Ar) (w_out Ar) w in
             returns (if write_bad sys (w_outPath Ar)
               then set_error (''Write to '' @ w_outPath Ar @ '' failed'') w else w))))"

definition csv_GenerateCommands :: "os \<Rightarrow> csv_output \<Rightarrow> SymbolData \<Rightarrow> world \<Rightarrow> world run" where
  "csv_GenerateCommands sys st S w =
     run_fold (\<lambda>(t, rows). csv_PopulateTable sys st rows (tbl_name t)) (reflect S) w"

definition csv_engine_output :: "os \<Rightarrow> string list \<Rightarrow> SymbolData \<Rightarrow> world \<Rightarrow> world run" where
  "csv_engine_output sys argv S w = csv_GenerateCommands sys (csv_init sys argv) S w"

section \<open>The tables as a whole\<close>

lemma distinct_table_names: "distinct (map tbl_name tables)"
  by (simp add: tables_def table_defs)

lemmas members_defs =
  members_Symbol_def members_BuiltinType_def members_Frame_def members_Label_def
  members_FunctionType_def members_Function_def members_VTablePtr_def members_VTableShape_def
  members_Friend_def members_PublicSymbol_def members_Data_def members_Compiland_def
  members_InjectedSource_def members_SourceFile_def members_SrcRange_def
  members_InputAssembly_def members_CompilandEnv_def members_AddrSection_def
  members_Included_def members_UserType_def members_Enum_def members_Pointer_def
  members_BaseClass_def members_Thunk_def members_FunctionArg_def members_Block_def
  members_HeapAllocation_def members_Export_def members_Exe_def members_Typedef_def
  members_SectionContrib_def members_Inlined_def members_Array_def members_Segment_def
  members_Callsite_def

lemma members_nonempty: "t \<in> set tables \<Longrightarrow> tbl_members t \<noteq> []"
  by (auto simp: tables_def table_defs members_defs)

lemma reflect_rows_nonempty: "(t, rs) \<in> set (reflect S) \<Longrightarrow> \<forall>r \<in> set rs. r \<noteq> []"
  by (metis fits_length length_0_conv members_nonempty reflect_fitsD reflect_in_tables)

section \<open>What the engine writes\<close>

interpretation header_record: record_writer "header_member sep" "\<lambda>out. out" "\<lambda>_. m_name" "\<lambda>_. sep"
  for sep
  by unfold_locales (simp_all add: header_member_def)

definition header_text :: "char \<Rightarrow> table \<Rightarrow> string" where
  "header_text sep t = join_with [sep] (map m_name (tbl_members t)) @ [newline]"

lemma last_header:
  "ms \<noteq> [] \<Longrightarrow> foldl (header_member sep) out ms \<noteq> [] \<and> last (foldl (header_member sep) out ms) = sep"
  by (induction ms rule: rev_induct) (simp_all add: header_member_def)

lemma AppendHeader_table:
  assumes "t \<in> set tables"
  shows "AppendHeader sep (tbl_name t) out = returns (out @ header_text sep t)"
proof -
  note ne = members_nonempty [OF assms]
  have "AppendHeader sep (tbl_name t) out
      = header_end sep (foldl (header_member sep) out (tbl_members t))"
    unfolding AppendHeader_def
    by (rule run_fold_single [OF distinct_table_names assms,
          where f = "\<lambda>t out. header_end sep (foldl (header_member sep) out (tbl_members t))"])
  also have "\<dots> = returns (out @ header_text sep t)"
    using last_header [OF ne, of sep out] header_record.out_record [OF ne, of sep out]
    by (simp add: header_end_def header_text_def)
  finally show ?thesis .
qed

definition csv_path :: "csv_output \<Rightarrow> table \<Rightarrow> string" where
  "csv_path st t = outdir st @ tbl_name t @ ''.csv''"

definition csv_file :: "csv_output \<Rightarrow> table \<Rightarrow> cval list list \<Rightarrow> string" where
  "csv_file st t rows =
     (if naked st then [] else header_text (separator st) t) @ csv_rows True (separator st) rows"

definition csv_step :: "os \<Rightarrow> csv_output \<Rightarrow> table \<times> cval list list \<Rightarrow> world \<Rightarrow> world" where
  "csv_step sys st = (\<lambda>(t, rows) w.
     if write_bad sys (csv_path st t) then set_error (''Write to '' @ csv_path st t @ '' failed'') w
     else write_file (csv_path st t) (csv_file st t rows) w)"

lemma csv_PopulateTable_returns:
  assumes "t \<in> set tables" and "\<forall>r \<in> set rows. r \<noteq> []"
  shows "csv_PopulateTable sys st rows (tbl_name t) w = returns (csv_step sys st (t, rows) w)"
  using assms(2)
  by (simp add: csv_PopulateTable_def AppendHeader_table [OF assms(1)] write_rows_returns
      writer_init_def csv_step_def csv_path_def csv_file_def store_def Let_def)

theorem csv_engine_output_returns:
  "csv_engine_output sys argv S w = returns (fold (csv_step sys (csv_init sys argv)) (reflect S) w)"
  unfolding csv_engine_output_def csv_GenerateCommands_def
proof (rule run_fold_total)
  fix x s
  assume "x \<in> set (reflect S)"
  moreover obtain t rows where x: "x = (t, rows)" by (cases x)
  ultimately have "(t, rows) \<in> set (reflect S)" by simp
  then show "(case x of (t, rows) \<Rightarrow> csv_PopulateTable sys (csv_init sys argv) rows (tbl_name t)) s
      = returns (csv_step sys (csv_init sys argv) x s)"
    by (simp add: x csv_PopulateTable_returns reflect_in_tables reflect_rows_nonempty)
qed

lemma files_fold_csv_step:
  "files (fold (csv_step sys st) ts w) = files w
     @ map (\<lambda>(t, rows). (csv_path st t, csv_file st t rows))
         (filter (\<lambda>(t, rows). \<not> write_bad sys (csv_path st t)) ts)"
  by (induction ts arbitrary: w) (auto simp: csv_step_def)

lemma has_error_fold_csv_step:
  "has_error (fold (csv_step sys st) ts w) \<longleftrightarrow>
     has_error w \<or> (\<exists>(t, rows) \<in> set ts. write_bad sys (csv_path st t))"
  by (induction ts arbitrary: w) (auto simp: csv_step_def)

section \<open>Reading the files back\<close>

lemma member_names_plain: "t \<in> set tables \<Longrightarrow> m \<in> set (tbl_members t) \<Longrightarrow> plain_text (m_name m)"
proof -
  have "list_all (\<lambda>t. list_all (\<lambda>m. plain_text (m_name m)) (tbl_members t)) tables"
    by (simp add: tables_def table_defs members_defs plain_text_def plain_char_def is_digit_def
        is_letter_def)
  then show "t \<in> set tables \<Longrightarrow> m \<in> set (tbl_members t) \<Longrightarrow> plain_text (m_name m)"
    by (simp add: list_all_iff)
qed

lemma load_names:
  assumes "sep_ok sep" and "ns \<noteq> []" and "\<forall>n \<in> set ns. plain_text n"
  shows "load_line sep Start [] (join_with [sep] ns @ newline # rest) = Some (ns, rest)"
  using assms(2,3)
proof (induction ns)
  case Nil
  then show ?case by simp
next
  case (Cons n ns)
  have nl: "newline \<noteq> sep" using assms(1) by (auto simp: sep_ok_def)
  from Cons.prems have plain: "plain_text n" by simp
  show ?case
  proof (cases ns)
    case Nil
    with load_start_plain [OF plain assms(1), of "newline # rest"] nl show ?thesis by simp
  next
    case (Cons m ms)
    with load_start_plain [OF plain assms(1), of "sep # join_with [sep] ns @ newline # rest"]
      Cons.IH Cons.prems show ?thesis by simp
  qed
qed

lemma load_file_line:
  assumes "load_line sep Start [] s = Some (fs, r)"
  shows "load_file sep s = map_option (Cons fs) (load_file sep r)"
proof -
  from assms have "s \<noteq> []" by auto
  with assms show ?thesis by (subst load_file.simps) simp
qed

lemma load_csv_table:
  assumes "sep_ok (separator st)" and t: "t \<in> set tables" and "\<forall>r \<in> set rows. r \<noteq> []"
  shows "load_file (separator st) (csv_file st t rows)
    = Some ((if naked st then [] else [map m_name (tbl_members t)]) @ map (map (cell_value True)) rows)"
proof -
  have rows: "load_file (separator st) (csv_rows True (separator st) rows) = Some (map (map (cell_value True)) rows)"
    by (rule load_rows [OF assms(1,3)])
  have header: "load_line (separator st) Start [] (header_text (separator st) t @ rest)
      = Some (map m_name (tbl_members t), rest)" for rest
    unfolding header_text_def append_assoc append.simps
    by (rule load_names [OF assms(1)]) (use members_nonempty [OF t] member_names_plain [OF t] in auto)
  show ?thesis
    using rows load_file_line [OF header] by (simp add: csv_file_def)
qed

lemma load_csv_file:
  assumes "sep_ok (separator st)" and "(t, rows) \<in> set (reflect S)"
  shows "load_file (separator st) (csv_file st t rows)
    = Some ((if naked st then [] else [map m_name (tbl_members t)]) @ map (map (cell_value True)) rows)"
  by (rule load_csv_table [OF assms(1) reflect_in_tables [OF assms(2)] reflect_rows_nonempty [OF assms(2)]])

section \<open>Properties\<close>

text \<open>C17. The CSV engine always runs to its end without undefined behaviour. It writes, in the
  order of the tables, one file per table whose stream does not go bad, holding the header and
  the rows of that table, and it reports an error exactly when some stream went bad.\<close>

theorem csv_engine_writes:
  "\<exists>w'. csv_engine_output sys argv S w = returns w' \<and>
     files w' = files w @ map (\<lambda>(t, rows). (csv_path (csv_init sys argv) t, csv_file (csv_init sys argv) t rows))
       (filter (\<lambda>(t, rows). \<not> write_bad sys (csv_path (csv_init sys argv) t)) (reflect S)) \<and>
     (has_error w' \<longleftrightarrow> has_error w \<or> (\<exists>t. t \<in> set tables \<and> write_bad sys (csv_path (csv_init sys argv) t)))"
proof -
  have "(\<exists>(t, rows) \<in> set (reflect S). write_bad sys (csv_path (csv_init sys argv) t))
      \<longleftrightarrow> (\<exists>t. t \<in> set tables \<and> write_bad sys (csv_path (csv_init sys argv) t))"
    unfolding map_fst_reflect [of S, symmetric] by force
  then show ?thesis
    by (simp add: csv_engine_output_returns files_fold_csv_step has_error_fold_csv_step)
qed

text \<open>C9. Writing a table whose stream does not go bad adds one file to the output directory, and that
  file reads back, under the database's reading rules, as the line of the table's column names
  (unless they are switched off) followed by the values of the rows, whatever quotes,
  backslashes, separators and line ends the names in the program contain, for every separator
  that is a usable one.\<close>

theorem csv_file_reads_back:
  assumes "sep_ok (separator st)" and "t \<in> set tables" and "list_all (\<lambda>r. r \<noteq> []) rows"
    and "\<not> write_bad sys (outdir st @ tbl_name t @ ''.csv'')"
  shows "\<exists>w' text. csv_PopulateTable sys st rows (tbl_name t) w = returns w' \<and> gErr w' = gErr w
    \<and> files w' = files w @ [(outdir st @ tbl_name t @ ''.csv'', text)]
    \<and> load_file (separator st) text
      = Some ((if naked st then [] else [map m_name (tbl_members t)]) @ map (map (cell_value True)) rows)"
proof -
  from assms(3) have rows: "\<forall>r \<in> set rows. r \<noteq> []" by (simp add: list_all_iff)
  with assms(4) show ?thesis
    by (simp add: csv_PopulateTable_returns [OF assms(2)] csv_step_def csv_path_def load_csv_table [OF assms(1,2)])
qed

definition sample_symbols :: SymbolData where
  "sample_symbols = SymbolData_init\<lparr> sd_Symbol :=
     [Symbol_default\<lparr> Symbol_name := ''f<'' @ [dquote] @ '','' @ [backslash, newline] @ ''>'' \<rparr>] \<rparr>"

text \<open>A table of one symbol whose name holds a quote, a backslash, a line end and the separator in use.\<close>

theorem csv_file_reads_back_witness:
  "\<exists>w' text. csv_PopulateTable \<lparr> GetCurrentDirectoryA = \<lambda>_. (0, []), write_bad = \<lambda>_. False, locale_list_chars = 2,
         locale_list = None, find_files = \<lambda>_. [], read_text = \<lambda>_. None \<rparr>
       \<lparr> outdir = ''d'', naked = False, separator = CHR '';'' \<rparr>
       (map row_Symbol (sd_Symbol sample_symbols)) ''symbols'' world_init = returns w'
     \<and> files w' = [(''dsymbols.csv'', text)]
     \<and> load_file CHR '';'' text = Some [map m_name members_Symbol,
         map (cell_value True) (row_Symbol (hd (sd_Symbol sample_symbols)))]"
proof -
  let ?st = "\<lparr> outdir = ''d'', naked = False, separator = CHR '';'' \<rparr>"
  have "sep_ok (separator ?st)" by (simp add: sep_ok_def is_digit_def is_letter_def)
  moreover have "table_Symbol \<in> set tables" by (simp add: tables_def)
  moreover have "list_all (\<lambda>r. r \<noteq> []) (map row_Symbol (sd_Symbol sample_symbols))"
    by (simp add: sample_symbols_def row_Symbol_def)
  ultimately show ?thesis
    using csv_file_reads_back [of ?st table_Symbol "map row_Symbol (sd_Symbol sample_symbols)"
        "\<lparr> GetCurrentDirectoryA = \<lambda>_. (0, []), write_bad = \<lambda>_. False, locale_list_chars = 2,
           locale_list = None, find_files = \<lambda>_. [], read_text = \<lambda>_. None \<rparr>" world_init]
    by (auto simp: table_Symbol_def sample_symbols_def world_init_def)
qed

end
