(* ===== verification/SQL_Schema.thy ===== *)
theory SQL_Schema
  imports Stringutils Reflection
begin

text \<open>
  \<open>SQL::schema_writer\<close> of \<^verbatim>\<open>drpdb/src/SQLSchemaWriter.h\<close> and \<^verbatim>\<open>drpdb/src/SQL.cpp\<close>: it walks the
  members of a struct and collects four texts, the column definitions (\<open>Result\<close>), the key
  definitions (\<open>Keys\<close>), the column list of the load statement (\<open>LoadClause\<close>) and the
  assignments behind it (\<open>SetClause\<close>). The second half describes the four texts by the
  members alone.
\<close>

section \<open>The writer\<close>

datatype db_index = NOTKEY | PRIMARYKEY | KEY

record cell =
  index_type :: db_index
  c_name :: string
  c_desc :: string

record schema_writer =
  s_Result :: string
  s_Keys :: string
  s_LoadClause :: string
  s_SetClause :: string
  s_UseBitType :: bool

definition schema_writer_init :: "bool \<Rightarrow> schema_writer" where
  "schema_writer_init UseBitType =
     \<lparr> s_Result = [], s_Keys = [], s_LoadClause = (if UseBitType then '' ('' else []),
       s_SetClause = [], s_UseBitType = UseBitType \<rparr>"

definition add_result :: "string \<Rightarrow> schema_writer \<Rightarrow> schema_writer" where
  "add_result t s = s\<lparr> s_Result := s_Result s @ t \<rparr>"

definition column_desc :: "db_index \<Rightarrow> string \<Rightarrow> schema_writer \<Rightarrow> schema_writer" where
  "column_desc type name s =
     (let s = (if type = PRIMARYKEY then s\<lparr> s_Keys := s_Keys s @ ''PRIMARY '' \<rparr> else s);
          s = (if type \<noteq> NOTKEY then s\<lparr> s_Keys := s_Keys s @ ''KEY ('' @ name @ ''),'' \<rparr> else s);
          s = add_result '' '' s;
          s = add_result name s
      in if s_UseBitType s then s\<lparr> s_LoadClause := s_LoadClause s @ name @ '','' \<rparr> else s)"

definition column_comment :: "string \<Rightarrow> string \<Rightarrow> string" where
  "column_comment comment out =
     out @ '' COMMENT '' @ [squote] @ replace comment [squote] [squote, squote] @ [squote] @ '',''"

definition add_comment :: "string \<Rightarrow> schema_writer \<Rightarrow> schema_writer" where
  "add_comment desc s = s\<lparr> s_Result := column_comment desc (s_Result s) \<rparr>"

text \<open>The overloads whose whole body is a type name between the name and the comment.\<close>

definition simple_column :: "string \<Rightarrow> cell \<Rightarrow> schema_writer \<Rightarrow> schema_writer" where
  "simple_column type V s =
     add_comment (c_desc V) (add_result type (column_desc (index_type V) (c_name V) s))"

definition bool_column :: "cell \<Rightarrow> schema_writer \<Rightarrow> schema_writer" where
  "bool_column V s =
     (let s = add_result (c_name V) (add_result '' '' s) in
      if s_UseBitType s then
        (let s = add_comment (c_desc V) (add_result '' BIT(1) NOT NULL'' s);
             s = s\<lparr> s_LoadClause := s_LoadClause s @ ''@tmp_'' @ c_name V @ '','' \<rparr>;
             s = (if s_SetClause s = [] then s\<lparr> s_SetClause := ''SET '' \<rparr>
                  else s\<lparr> s_SetClause := s_SetClause s @ '', '' \<rparr>)
         in s\<lparr> s_SetClause := s_SetClause s @ c_name V @ ''= CAST(@tmp_'' @ c_name V @ '' AS UNSIGNED)'' \<rparr>)
      else add_comment (c_desc V) (add_result '' BOOLEAN'' s))"

text \<open>
  An enumeration: the quoted enumerators, each followed by a comma, the last comma taken off
  again; such a column has no comment.
\<close>

definition put_enumerator :: "schema_writer \<Rightarrow> string \<Rightarrow> schema_writer" where
  "put_enumerator s n = add_result ([squote] @ n @ [squote] @ '','') s"

definition enum_column :: "etype \<Rightarrow> cell \<Rightarrow> schema_writer \<Rightarrow> schema_writer" where
  "enum_column e V s =
     (let s = add_result '' ENUM('' (column_desc (index_type V) (c_name V) s);
          s = foldl put_enumerator s (enumerators e);
          s = s\<lparr> s_Result := butlast (s_Result s) \<rparr>
      in add_result '')NOT NULL,'' s)"

primrec put_column :: "ctype \<Rightarrow> cell \<Rightarrow> schema_writer \<Rightarrow> schema_writer" where
  "put_column T_float V s = simple_column '' FLOAT NOT NULL'' V s"
| "put_column T_int V s = simple_column '' INT NOT NULL'' V s"
| "put_column T_uint32 V s = simple_column '' INT UNSIGNED NOT NULL'' V s"
| "put_column T_long V s = simple_column '' BIGINT NOT NULL'' V s"
| "put_column T_ulong V s = simple_column '' INT UNSIGNED NOT NULL'' V s"
| "put_column T_ullong V s = simple_column '' BIGINT UNSIGNED NOT NULL'' V s"
| "put_column T_string V s = simple_column '' VARCHAR(2047) NOT NULL'' V s"
| "put_column T_uchar V s = simple_column '' INT(3) UNSIGNED NOT NULL'' V s"
| "put_column T_llong V s = simple_column '' BIGINT NOT NULL'' V s"
| "put_column T_address V s =
     simple_column '' INT UNSIGNED NOT NULL''
       \<lparr> index_type = NOTKEY, c_name = (c_name V @ ''_'') @ ''rv'', c_desc = c_desc V \<rparr> s"
| "put_column T_bool V s = bool_column V s"
| "put_column (T_enum e) V s = enum_column e V s"

text \<open>The struct macros: a column per member, a primary key for a \<open>UNIQUE_MEMBER\<close>.\<close>

definition member_cell :: "member \<Rightarrow> cell" where
  "member_cell m =
     \<lparr> index_type = (if is_unique m then PRIMARYKEY else NOTKEY), c_name = m_name m, c_desc = m_desc m \<rparr>"

definition put_member :: "schema_writer \<Rightarrow> member \<Rightarrow> schema_writer" where
  "put_member s m = put_column (m_type m) (member_cell m) s"

definition put_struct :: "member list \<Rightarrow> schema_writer \<Rightarrow> schema_writer" where
  "put_struct ms s = foldl put_member s ms"

section \<open>The four texts\<close>

text \<open>The name of the column that a member becomes, and its type in the database.\<close>

definition column_name :: "member \<Rightarrow> string" where
  "column_name m = (case m_type m of T_address \<Rightarrow> m_name m @ ''_rv'' | _ \<Rightarrow> m_name m)"

definition quoted :: "string \<Rightarrow> string" where
  "quoted n = [squote] @ n @ [squote]"

fun column_type :: "bool \<Rightarrow> ctype \<Rightarrow> string" where
  "column_type ubt T_float = '' FLOAT NOT NULL''"
| "column_type ubt T_int = '' INT NOT NULL''"
| "column_type ubt T_uint32 = '' INT UNSIGNED NOT NULL''"
| "column_type ubt T_long = '' BIGINT NOT NULL''"
| "column_type ubt T_ulong = '' INT UNSIGNED NOT NULL''"
| "column_type ubt T_ullong = '' BIGINT UNSIGNED NOT NULL''"
| "column_type ubt T_string = '' VARCHAR(2047) NOT NULL''"
| "column_type ubt T_uchar = '' INT(3) UNSIGNED NOT NULL''"
| "column_type ubt T_llong = '' BIGINT NOT NULL''"
| "column_type ubt T_address = '' INT UNSIGNED NOT NULL''"
| "column_type ubt T_bool = (if ubt then '' BIT(1) NOT NULL'' else '' BOOLEAN'')"
| "column_type ubt (T_enum e) = '' ENUM('' @ join_with '','' (map quoted (enumerators e)) @ '')NOT NULL''"

definition comment_text :: "string \<Rightarrow> string" where
  "comment_text d = '' COMMENT '' @ [squote] @ replace d [squote] [squote, squote] @ [squote]"

definition is_enum :: "ctype \<Rightarrow> bool" where
  "is_enum t = (case t of T_enum e \<Rightarrow> True | _ \<Rightarrow> False)"

definition column_text :: "bool \<Rightarrow> member \<Rightarrow> string" where
  "column_text ubt m = '' '' @ column_name m @ column_type ubt (m_type m)
     @ (if is_enum (m_type m) then [] else comment_text (m_desc m))"

text \<open>A key is recorded for a unique member that is neither an address nor a flag.\<close>

definition has_key :: "member \<Rightarrow> bool" where
  "has_key m = (is_unique m \<and> m_type m \<noteq> T_address \<and> m_type m \<noteq> T_bool)"

definition key_text :: "member \<Rightarrow> string" where
  "key_text m = (if has_key m then ''PRIMARY KEY ('' @ m_name m @ ''),'' else [])"

definition load_name :: "member \<Rightarrow> string" where
  "load_name m = (if m_type m = T_bool then ''@tmp_'' @ m_name m else column_name m)"

definition set_text :: "member \<Rightarrow> string" where
  "set_text m = m_name m @ ''= CAST(@tmp_'' @ m_name m @ '' AS UNSIGNED)''"

definition flags :: "member list \<Rightarrow> member list" where
  "flags ms = filter (\<lambda>m. m_type m = T_bool) ms"

lemma column_desc_simps [out_simps]:
  "s_Result (column_desc k n s) = s_Result s @ '' '' @ n"
  "s_Keys (column_desc k n s) = s_Keys s @ (if k = PRIMARYKEY then ''PRIMARY '' else [])
     @ (if k = NOTKEY then [] else ''KEY ('' @ n @ ''),'')"
  "s_LoadClause (column_desc k n s) = s_LoadClause s @ (if s_UseBitType s then n @ '','' else [])"
  "s_SetClause (column_desc k n s) = s_SetClause s"
  "s_UseBitType (column_desc k n s) = s_UseBitType s"
  by (simp_all add: column_desc_def add_result_def Let_def)

lemma add_simps [out_simps]:
  "s_Result (add_result t s) = s_Result s @ t"
  "s_Keys (add_result t s) = s_Keys s"
  "s_LoadClause (add_result t s) = s_LoadClause s"
  "s_SetClause (add_result t s) = s_SetClause s"
  "s_UseBitType (add_result t s) = s_UseBitType s"
  "s_Result (add_comment d s) = s_Result s @ comment_text d @ '',''"
  "s_Keys (add_comment d s) = s_Keys s"
  "s_LoadClause (add_comment d s) = s_LoadClause s"
  "s_SetClause (add_comment d s) = s_SetClause s"
  "s_UseBitType (add_comment d s) = s_UseBitType s"
  by (simp_all add: add_result_def add_comment_def column_comment_def comment_text_def)

lemma enumerators_nonempty: "enumerators e \<noteq> []"
  by (cases e) (simp_all add: PublicSymbol_Type_enumerators_def
    AddrSection_Kind_enumerators_def Language_enumerators_def UserType_Semantics_enumerators_def
    Thunk_Ordinal_enumerators_def Tag_enumerators_def Data_Kind_enumerators_def
    BuiltinType_Kind_enumerators_def FunctionType_CallConv_enumerators_def
    UserType_Kind_enumerators_def UserType_Aggregate_enumerators_def Pointer_Kind_enumerators_def
    Pointer_Inheritance_enumerators_def Pointer_MemberType_enumerators_def
    Function_Virtuality_enumerators_def Access_enumerators_def CPU_enumerators_def
    Location_enumerators_def)

lemma enum_fold_frame [out_simps]:
  "s_Result (foldl put_enumerator s ns)
     = s_Result s @ concat (map (\<lambda>q. q @ '','') (map quoted ns))"
  "s_Keys (foldl put_enumerator s ns) = s_Keys s"
  "s_LoadClause (foldl put_enumerator s ns) = s_LoadClause s"
  "s_SetClause (foldl put_enumerator s ns) = s_SetClause s"
  "s_UseBitType (foldl put_enumerator s ns) = s_UseBitType s"
  by (induction ns arbitrary: s) (simp_all add: put_enumerator_def out_simps quoted_def)

lemma enum_list_text:
  "butlast (t @ concat (map (\<lambda>q. q @ '','') (map quoted (enumerators e))))
     = t @ join_with '','' (map quoted (enumerators e))"
proof -
  have ne: "map quoted (enumerators e) \<noteq> []" by (simp add: enumerators_nonempty)
  then have "concat (map (\<lambda>q. q @ '','') (map quoted (enumerators e))) \<noteq> []"
    by (cases "map quoted (enumerators e)") simp_all
  then show ?thesis
    by (simp only: butlast_append if_False butlast_terminated [OF ne])
qed

lemma enum_column_simps:
  "s_Result (enum_column e V s) = s_Result s @ '' '' @ c_name V @ column_type ubt (T_enum e) @ '',''"
  "s_Keys (enum_column e V s) = s_Keys (column_desc (index_type V) (c_name V) s)"
  "s_LoadClause (enum_column e V s) = s_LoadClause (column_desc (index_type V) (c_name V) s)"
  "s_SetClause (enum_column e V s) = s_SetClause s"
  "s_UseBitType (enum_column e V s) = s_UseBitType s"
  by (simp_all add: enum_column_def Let_def out_simps enum_list_text del: map_map)

text \<open>One member: what it adds to each of the four texts.\<close>

definition set_sep :: "string \<Rightarrow> string" where
  "set_sep set_clause = (if set_clause = [] then ''SET '' else set_clause @ '', '')"

lemma put_member_simps [out_simps]:
  "s_Result (put_member s m) = s_Result s @ column_text (s_UseBitType s) m @ '',''"
  "s_Keys (put_member s m) = s_Keys s @ key_text m"
  "s_LoadClause (put_member s m)
     = s_LoadClause s @ (if s_UseBitType s then load_name m @ '','' else [])"
  "s_SetClause (put_member s m) = (if s_UseBitType s \<and> m_type m = T_bool
     then set_sep (s_SetClause s) @ set_text m else s_SetClause s)"
  "s_UseBitType (put_member s m) = s_UseBitType s"
proof -
  note defs = put_member_def simple_column_def bool_column_def member_cell_def Let_def
    column_text_def column_name_def key_text_def has_key_def load_name_def is_enum_def
  show "s_Result (put_member s m) = s_Result s @ column_text (s_UseBitType s) m @ '',''"
    by (cases "m_type m") (simp_all add: defs out_simps enum_column_simps(1) [where ubt = "s_UseBitType s"])
  show "s_Keys (put_member s m) = s_Keys s @ key_text m"
    by (cases "m_type m") (simp_all add: defs out_simps enum_column_simps(2-))
  show "s_LoadClause (put_member s m)
     = s_LoadClause s @ (if s_UseBitType s then load_name m @ '','' else [])"
    by (cases "m_type m") (simp_all add: defs out_simps enum_column_simps(2-))
  show "s_SetClause (put_member s m) = (if s_UseBitType s \<and> m_type m = T_bool
     then set_sep (s_SetClause s) @ set_text m else s_SetClause s)"
    by (cases "m_type m") (simp_all add: defs out_simps enum_column_simps(2-) set_sep_def set_text_def)
  show "s_UseBitType (put_member s m) = s_UseBitType s"
    by (cases "m_type m") (simp_all add: defs out_simps enum_column_simps(2-))
qed

lemma put_struct_texts [out_simps]:
  "s_UseBitType (put_struct ms s) = s_UseBitType s"
  "s_Result (put_struct ms s)
     = s_Result s @ concat (map (\<lambda>m. column_text (s_UseBitType s) m @ '','') ms)"
  "s_Keys (put_struct ms s) = s_Keys s @ concat (map key_text ms)"
  "s_LoadClause (put_struct ms s) = s_LoadClause s
     @ (if s_UseBitType s then concat (map (\<lambda>m. load_name m @ '','') ms) else [])"
  unfolding put_struct_def
  by (induction ms arbitrary: s) (simp_all add: out_simps)

lemma set_text_nonempty: "set_text m \<noteq> []"
  by (simp add: set_text_def)

lemma put_struct_set_from:
  "s_UseBitType s \<Longrightarrow> s_SetClause s = ''SET '' @ join_with '', '' (x # xs) \<Longrightarrow> x \<noteq> [] \<Longrightarrow>
     s_SetClause (put_struct ms s)
       = ''SET '' @ join_with '', '' ((x # xs) @ map set_text (flags ms))"
proof (induction ms arbitrary: s xs)
  case Nil
  then show ?case by (simp add: put_struct_def flags_def)
next
  case (Cons m ms)
  show ?case
  proof (cases "m_type m = T_bool")
    case True
    with Cons.prems have "s_SetClause (put_member s m)
        = ''SET '' @ join_with '', '' (x # (xs @ [set_text m]))"
      by (simp add: out_simps set_sep_def join_with_Cons)
    with Cons.IH [of "put_member s m"] Cons.prems True show ?thesis
      by (simp add: put_struct_def flags_def out_simps)
  next
    case False
    with Cons.IH [of "put_member s m" xs] Cons.prems show ?thesis
      by (simp add: put_struct_def flags_def out_simps)
  qed
qed

definition set_clause :: "member list \<Rightarrow> string" where
  "set_clause ms =
     (if flags ms = [] then [] else ''SET '' @ join_with '', '' (map set_text (flags ms)))"

lemma put_struct_set:
  "s_UseBitType s \<Longrightarrow> s_SetClause s = [] \<Longrightarrow> s_SetClause (put_struct ms s) = set_clause ms"
proof (induction ms arbitrary: s)
  case Nil
  then show ?case by (simp add: put_struct_def flags_def set_clause_def)
next
  case (Cons m ms)
  show ?case
  proof (cases "m_type m = T_bool")
    case True
    with Cons.prems have "s_SetClause (put_member s m) = ''SET '' @ join_with '', '' (set_text m # [])"
      by (simp add: out_simps set_sep_def)
    with put_struct_set_from [of "put_member s m" "set_text m" "[]" ms] Cons.prems True show ?thesis
      by (simp add: put_struct_def flags_def set_clause_def out_simps set_text_nonempty)
  next
    case False
    with Cons.IH [of "put_member s m"] Cons.prems show ?thesis
      by (simp add: put_struct_def flags_def set_clause_def out_simps)
  qed
qed

lemma put_struct_no_set:
  "\<not> s_UseBitType s \<Longrightarrow> s_SetClause (put_struct ms s) = s_SetClause s"
  unfolding put_struct_def by (induction ms arbitrary: s) (simp_all add: out_simps)

section \<open>Statements\<close>

text \<open>\<open>std::string::pop_back\<close>, and the test of \<open>back\<close> that the engines make before it.\<close>

definition pop_back :: "string \<Rightarrow> string run" where
  "pop_back s = (if s = [] then Some (Inl (Undefined_Behaviour ''pop_back'')) else returns (butlast s))"

definition drop_comma :: "string \<Rightarrow> string run" where
  "drop_comma s =
     (if s = [] then Some (Inl (Undefined_Behaviour ''back''))
      else if last s = CHR '','' then pop_back s else returns s)"

text \<open>The first half of \<open>CreateTable\<close>, the same in both engines.\<close>

definition create_writer :: "bool \<Rightarrow> member list \<Rightarrow> string \<Rightarrow> schema_writer" where
  "create_writer UseBitType ms tablename =
     (let Ar = schema_writer_init UseBitType;
          Ar = add_result ''CREATE TABLE '' Ar;
          Ar = add_result tablename Ar;
          Ar = add_result ''('' Ar;
          Ar = put_struct ms Ar
      in add_result (s_Keys Ar) Ar)"

text \<open>A statement made of the texts: columns, then keys, joined by commas.\<close>

definition key_def :: "member \<Rightarrow> string" where
  "key_def m = ''PRIMARY KEY ('' @ m_name m @ '')''"

definition create_columns :: "bool \<Rightarrow> member list \<Rightarrow> string list" where
  "create_columns ubt ms = map (column_text ubt) ms @ map key_def (filter has_key ms)"

definition create_text :: "bool \<Rightarrow> table \<Rightarrow> string" where
  "create_text ubt t = ''CREATE TABLE '' @ tbl_name t @ ''(''
     @ join_with '','' (create_columns ubt (tbl_members t))"

definition drop_text :: "table \<Rightarrow> string" where
  "drop_text t = ''DROP TABLE IF EXISTS '' @ tbl_name t @ '';''"

definition load_columns :: "member list \<Rightarrow> string" where
  "load_columns ms = '' ('' @ join_with '','' (map load_name ms)"

lemma key_texts: "concat (map key_text ms) = concat (map (\<lambda>k. k @ '','') (map key_def (filter has_key ms)))"
  by (induction ms) (simp_all add: key_text_def key_def_def)

lemma drop_comma_joined:
  assumes "cs \<noteq> []"
  shows "drop_comma (pre @ concat (map (\<lambda>c. c @ '','') cs)) = returns (pre @ join_with '','' cs)"
proof -
  let ?t = "concat (map (\<lambda>c. c @ '','') cs)"
  from assms obtain bs c where cs: "cs = bs @ [c]" by (metis rev_exhaust)
  then have "?t \<noteq> []" and "last ?t = CHR '',''" by simp_all
  moreover have "butlast ?t = join_with '','' cs" by (rule butlast_terminated [OF assms])
  ultimately show ?thesis
    by (simp add: drop_comma_def pop_back_def butlast_append del: concat_map_single)
qed

lemma create_writer_result:
  assumes "tbl_members t \<noteq> []"
  shows "drop_comma (s_Result (create_writer ubt (tbl_members t) (tbl_name t)))
    = returns (create_text ubt t)"
proof -
  let ?ms = "tbl_members t"
  define pre where "pre = ''CREATE TABLE '' @ tbl_name t @ ''(''"
  have "s_Result (create_writer ubt ?ms (tbl_name t))
      = pre @ concat (map (\<lambda>c. c @ '','') (create_columns ubt ?ms))"
    by (simp add: create_writer_def Let_def out_simps schema_writer_init_def create_columns_def
        key_texts comp_def pre_def)
  moreover have ne: "create_columns ubt ?ms \<noteq> []" using assms by (simp add: create_columns_def)
  moreover from drop_comma_joined [OF ne] have "drop_comma (pre @ concat (map (\<lambda>c. c @ '','') (create_columns ubt ?ms)))
      = returns (pre @ join_with '','' (create_columns ubt ?ms))" .
  moreover have "create_text ubt t = pre @ join_with '','' (create_columns ubt ?ms)"
    by (simp add: create_text_def pre_def)
  ultimately show ?thesis by (simp only:)
qed

lemma create_writer_load:
  assumes "ms \<noteq> []"
  shows "pop_back (s_LoadClause (create_writer True ms n)) = returns (load_columns ms)"
proof -
  have ne: "map load_name ms \<noteq> []" using assms by simp
  define pre :: string where "pre = '' (''"
  let ?t = "concat (map (\<lambda>c. c @ '','') (map load_name ms))"
  have "s_LoadClause (create_writer True ms n) = pre @ ?t"
    by (simp add: create_writer_def Let_def out_simps schema_writer_init_def pre_def comp_def)
  moreover have "?t \<noteq> []" using ne by (cases "map load_name ms") simp_all
  moreover have "butlast ?t = join_with '','' (map load_name ms)" by (rule butlast_terminated [OF ne])
  ultimately show ?thesis
    by (simp add: pop_back_def butlast_append load_columns_def pre_def del: map_map)
qed

lemma create_writer_rest:
  "s_SetClause (create_writer True ms n) = set_clause ms"
  "s_SetClause (create_writer False ms n) = []"
  "s_LoadClause (create_writer False ms n) = []"
  by (simp_all add: create_writer_def Let_def out_simps put_struct_set put_struct_no_set
      schema_writer_init_def)

end
