(* ===== verification/MySQL_Output.thy ===== *)
theory MySQL_Output
  imports CSV_Output SQL_Schema
begin

text \<open>
  The engine of \<^verbatim>\<open>drpdb/src/MySQLOutput.cpp\<close>. \<open>OutputData_init\<close> reads the settings, turns the
  procedure files into commands and adds for every table a drop, a create and a load command,
  writing the table's rows to a file beside; \<open>mysql_output\<close> then sends the commands to the
  server one by one until one fails. The client library is a parameter: the record
  \<open>mysql_api\<close> over the state \<open>'c\<close> of a connection.
\<close>

section \<open>Settings\<close>

record mysql_data =
  UploadCommands :: "string list"
  tempdir_escaped :: string
  tempdir :: string
  port :: int
  host :: string
  user :: string
  pass :: string
  db :: string
  made_directories :: "string list"

text \<open>\<open>atoi\<close>: white space, a sign, digits; a value out of range is clamped by the C runtime.\<close>

definition is_space :: "char \<Rightarrow> bool" where
  "is_space c = (c = CHR '' '' \<or> (9 \<le> (of_char c :: nat) \<and> (of_char c :: nat) \<le> 13))"

definition clamp_int :: "int \<Rightarrow> int" where
  "clamp_int i = max (- (2 ^ 31)) (min (2 ^ 31 - 1) i)"

definition atoi :: "string \<Rightarrow> int" where
  "atoi s =
     (let s = dropWhile is_space s;
          neg = (s \<noteq> [] \<and> hd s = CHR ''-'');
          s = (if s \<noteq> [] \<and> (hd s = CHR ''-'' \<or> hd s = CHR ''+'') then tl s else s);
          n = int (undec (takeWhile is_digit s))
      in clamp_int (if neg then - n else n))"

definition push_command :: "string \<Rightarrow> mysql_data \<Rightarrow> mysql_data" where
  "push_command c d = d\<lparr> UploadCommands := UploadCommands d @ [c] \<rparr>"

section \<open>Commands\<close>

definition LoadTable :: "string \<Rightarrow> string \<Rightarrow> mysql_data \<Rightarrow> mysql_data" where
  "LoadTable name end_clause d =
     push_command (''load data local infile '' @ [squote] @ tempdir_escaped d @ name
       @ ''_values.txt'' @ [squote] @ '' into table '' @ name
       @ '' fields terminated by '' @ [squote] @ '','' @ [squote]
       @ '' optionally enclosed by '' @ [squote, dquote, squote]
       @ '' lines terminated by '' @ [squote, backslash] @ ''n'' @ [squote]
       @ end_clause @ '';'') d"

text \<open>The statements that \<open>CreateTable\<close> adds, and the end clause it hands back.\<close>

definition mysql_CreateTable ::
    "member list \<Rightarrow> string \<Rightarrow> string \<Rightarrow> mysql_data \<Rightarrow> (mysql_data \<times> string) run" where
  "mysql_CreateTable ms tablename desc d =
     (let d = push_command (''DROP TABLE IF EXISTS '' @ tablename @ '';'') d;
          Ar = create_writer True ms tablename
      in run_bind (drop_comma (s_Result Ar)) (\<lambda>res.
           let res = res @ '') Engine=MyISAM'';
               res = res @ '' COMMENT='' @ [squote];
               temp_desc = replace desc [squote] [squote, squote];
               res = res @ temp_desc @ [squote] @ '';'';
               d = push_command res d
           in run_bind (pop_back (s_LoadClause Ar)) (\<lambda>load.
                returns (d, load @ '') '' @ s_SetClause Ar))))"

definition mysql_PopulateTable ::
    "os \<Rightarrow> mysql_data \<Rightarrow> cval list list \<Rightarrow> string \<Rightarrow> world \<Rightarrow> world run" where
  "mysql_PopulateTable sys d rows name w =
     (let Ar = writer_init (tempdir d @ name @ ''_values.txt'') True CHR '','' in
      run_bind (write_rows rows Ar) (\<lambda>Ar. returns (store sys (w_outPath Ar) (w_out Ar) w)))"

definition mysql_BuildTable ::
    "os \<Rightarrow> table \<times> cval list list \<Rightarrow> mysql_data \<times> world \<Rightarrow> (mysql_data \<times> world) run" where
  "mysql_BuildTable sys = (\<lambda>(t, rows) (d, w).
     run_bind (mysql_CreateTable (tbl_members t) (tbl_name t) (tbl_desc t) d) (\<lambda>(d, EndClause).
       run_bind (mysql_PopulateTable sys d rows (tbl_name t) w) (\<lambda>w.
         returns (LoadTable (tbl_name t) EndClause d, w))))"

text \<open>
  \<open>ParseProcedure\<close> cuts a file at each separator line. The separator has 13 characters
  and the line end one more; the second argument of \<open>substr\<close> is a length.
\<close>

definition then_execute :: string where
  "then_execute = ''#then_execute''"

definition substr :: "string \<Rightarrow> nat \<Rightarrow> nat \<Rightarrow> string run" where
  "substr s pos n =
     (if length s < pos then Some (Inl (Uncaught ''std::out_of_range''))
      else returns (take n (drop pos s)))"

lemma find_from_bounds:
  assumes "find_from s pat pos = Some i"
  shows "pos \<le> i" "pos \<le> length s"
  using assms by (auto simp: find_from_def split: if_splits)

function ParseProcedure_loop :: "string \<Rightarrow> nat \<Rightarrow> mysql_data \<Rightarrow> mysql_data run" where
  "ParseProcedure_loop s prev d =
     (case find_from s then_execute prev of
        None \<Rightarrow> run_bind (substr s prev (length s)) (\<lambda>c. returns (push_command c d))
      | Some next \<Rightarrow>
          run_bind (substr s prev next) (\<lambda>c.
            ParseProcedure_loop s (next + 14) (push_command c d)))"
  by pat_completeness auto
termination
  by (relation "measure (\<lambda>(s, prev, d). Suc (length s) - prev)") (auto, frule find_from_bounds(1), drule find_from_bounds(2), simp)

declare ParseProcedure_loop.simps [simp del]

definition ParseProcedure :: "string \<Rightarrow> mysql_data \<Rightarrow> mysql_data run" where
  "ParseProcedure sequence d = ParseProcedure_loop sequence 0 d"

definition GenerateProcedures :: "os \<Rightarrow> mysql_data \<Rightarrow> mysql_data run" where
  "GenerateProcedures sys d =
     run_fold (\<lambda>name d.
         case read_text sys (''../../config/mysql/'' @ name) of
           None \<Rightarrow> returns d
         | Some file_contents \<Rightarrow> ParseProcedure file_contents d)
       (find_files sys ''../../config/mysql/*.sql'') d"

definition mysql_GenerateCommands ::
    "os \<Rightarrow> SymbolData \<Rightarrow> mysql_data \<Rightarrow> world \<Rightarrow> (mysql_data \<times> world) run" where
  "mysql_GenerateCommands sys S d w =
     run_bind (GenerateProcedures sys d) (\<lambda>d.
       run_fold (mysql_BuildTable sys) (reflect S) (d, w))"

definition OutputData_init ::
    "os \<Rightarrow> string list \<Rightarrow> SymbolData \<Rightarrow> world \<Rightarrow> (mysql_data \<times> world) run" where
  "OutputData_init sys argv S w =
     (let host = getOption argv ''-host''; user = getOption argv ''-user'';
          pass = getOption argv ''-pass''; db = getOption argv ''-db'' in
      if host = [] \<or> user = [] \<or> db = []
      then Some (Inl (Thrown ''MySQL requires -host, -user, and -db settings.''))
      else
        let portstr = getOption argv ''-port'';
            port = (if portstr = [] then 3306 else atoi portstr) in
        if portstr \<noteq> [] \<and> port = 0 then Some (Inl (Thrown ''Invalid -port specified.''))
        else
          let tempdir = getOption argv ''-tempdir'';
              cwd = GetCurrentDirectoryA sys 260 in
          if tempdir = [] \<and> 260 < fst cwd then Some (Inl (Thrown ''tempdir path too long''))
          else
            let tempdir = (if tempdir = [] then snd cwd @ [backslash] @ ''temp'' @ [backslash]
                           else tempdir);
                d = \<lparr> UploadCommands = [],
                      tempdir_escaped = replace tempdir [backslash] [backslash, backslash]
                        @ [backslash, backslash],
                      tempdir = tempdir, port = port, host = host, user = user, pass = pass,
                      db = db, made_directories = [tempdir] \<rparr>
            in mysql_GenerateCommands sys S d w)"

section \<open>The connection\<close>

record 'c mysql_api =
  mysql_init :: "'c option"
  mysql_options_reconnect :: "'c \<Rightarrow> 'c"
  mysql_real_connect :: "'c \<Rightarrow> string \<Rightarrow> string \<Rightarrow> string \<Rightarrow> string \<Rightarrow> int \<Rightarrow> bool \<times> 'c"
  mysql_real_query :: "'c \<Rightarrow> string \<Rightarrow> bool \<times> 'c"
  mysql_error :: "'c \<Rightarrow> string"
  mysql_close :: "'c \<Rightarrow> 'c"

definition connect :: "'c mysql_api \<Rightarrow> mysql_data \<Rightarrow> world \<Rightarrow> 'c option \<times> world" where
  "connect api d w =
     (case mysql_init api of
        None \<Rightarrow> (None, set_error ''Failed to initialize mysql'' w)
      | Some c \<Rightarrow>
          let c = mysql_options_reconnect api c in
          case mysql_real_connect api c (host d) (user d) (pass d) (db d) (port d) of
            (ok, c) \<Rightarrow> (Some c, if ok then w else set_error (mysql_error api c) w))"

text \<open>The length of a command goes through \<open>unsigned long\<close>, which has 32 bits.\<close>

definition query_text :: "string \<Rightarrow> string" where
  "query_text cmd = take (unat (of_nat (length cmd) :: u32)) cmd"

definition execute :: "'c mysql_api \<Rightarrow> string \<Rightarrow> 'c option \<times> world \<Rightarrow> 'c option \<times> world" where
  "execute api cmd = (\<lambda>(mysql, w).
     case mysql of
       None \<Rightarrow> (None, w)
     | Some c \<Rightarrow>
         (case mysql_real_query api c (query_text cmd) of
            (ok, c) \<Rightarrow> (Some c, if ok then w else set_error (mysql_error api c) w)))"

function upload :: "'c mysql_api \<Rightarrow> string list \<Rightarrow> nat \<Rightarrow> 'c option \<times> world \<Rightarrow> 'c option \<times> world" where
  "upload api cmds i st =
     (if \<not> has_error (snd st) \<and> i < length cmds
      then upload api cmds (i + 1) (execute api (cmds ! i) st) else st)"
  by pat_completeness auto
termination
  by (relation "measure (\<lambda>(api, cmds, i, st). length cmds - i)") auto

declare upload.simps [simp del]

definition mysql_output ::
    "'c mysql_api \<Rightarrow> os \<Rightarrow> string list \<Rightarrow> SymbolData \<Rightarrow> world \<Rightarrow> ('c option \<times> world) run" where
  "mysql_output api sys argv S w =
     run_bind (OutputData_init sys argv S w) (\<lambda>(Result, w).
       case upload api (UploadCommands Result) 0 (connect api Result w) of
         (conn, w) \<Rightarrow> returns (map_option (mysql_close api) conn, w))"

section \<open>The commands of a procedure file\<close>

text \<open>
  A file of pieces joined by separator lines. The first command is the first piece; a later
  one that is not the last starts with its piece but has the length of the position where
  its separator was found.
\<close>

definition separator_line :: string where
  "separator_line = then_execute @ [newline]"

definition piece :: "string \<Rightarrow> bool" where
  "piece p = (CHR ''#'' \<notin> set p)"

fun piece_commands :: "nat \<Rightarrow> string list \<Rightarrow> string list" where
  "piece_commands pos [] = []"
| "piece_commands pos [p] = [p]"
| "piece_commands pos (p # q # ps) =
     take (pos + length p) (join_with separator_line (p # q # ps))
       # piece_commands (pos + length p + 14) (q # ps)"

definition push_commands :: "string list \<Rightarrow> mysql_data \<Rightarrow> mysql_data" where
  "push_commands cs d = d\<lparr> UploadCommands := UploadCommands d @ cs \<rparr>"

lemma push_commands_simps [simp]:
  "push_commands [] d = d"
  "push_commands cs (push_command c d) = push_commands (c # cs) d"
  "push_commands cs (push_commands bs d) = push_commands (bs @ cs) d"
  "push_command c (push_commands cs d) = push_commands (cs @ [c]) d"
  "UploadCommands (push_commands cs d) = UploadCommands d @ cs"
  "tempdir (push_commands cs d) = tempdir d"
  "tempdir_escaped (push_commands cs d) = tempdir_escaped d"
  by (simp_all add: push_commands_def push_command_def)

lemma push_command_single: "push_command c d = push_commands [c] d"
  by (simp add: push_commands_def push_command_def)

lemma not_marker: "CHR ''#'' \<noteq> c \<Longrightarrow> take (length then_execute) (c # s) \<noteq> then_execute"
  by (auto simp: then_execute_def)

lemma find_marker_piece: "piece p \<Longrightarrow> find_prefix then_execute p = None"
proof (induction p)
  case Nil
  then show ?case by (simp add: then_execute_def)
next
  case (Cons c p)
  then show ?case using not_marker [of c p] by (simp add: piece_def)
qed

lemma find_marker: "piece p \<Longrightarrow> find_prefix then_execute (p @ then_execute @ s) = Some (length p)"
proof (induction p)
  case Nil
  show ?case by (simp add: then_execute_def)
next
  case (Cons c p)
  then show ?case using not_marker [of c "p @ then_execute @ s"] by (simp add: piece_def)
qed

lemma find_from_append: "find_from (pre @ s) pat (length pre) = map_option (\<lambda>i. length pre + i) (find_prefix pat s)"
  by (simp add: find_from_def)

lemma length_separator_line [simp]: "length separator_line = 14"
  by (simp add: separator_line_def then_execute_def)

lemma ParseProcedure_loop_pieces:
  "ps \<noteq> [] \<Longrightarrow> \<forall>p \<in> set ps. piece p \<Longrightarrow>
     ParseProcedure_loop (pre @ join_with separator_line ps) (length pre) d
       = returns (push_commands (piece_commands (length pre) ps) d)"
proof (induction "length pre" ps arbitrary: pre d rule: piece_commands.induct)
  case 1
  then show ?case by simp
next
  case (2 p)
  then show ?case
    by (subst ParseProcedure_loop.simps)
      (simp add: find_from_append find_marker_piece substr_def push_command_single)
next
  case (3 p q ps)
  let ?s = "join_with separator_line (p # q # ps)"
  have s: "?s = p @ then_execute @ newline # join_with separator_line (q # ps)"
    by (simp add: separator_line_def)
  define u where "u = pre @ ?s"
  have u: "u = (pre @ p @ separator_line) @ join_with separator_line (q # ps)"
    by (simp add: u_def)
  have found: "find_from u then_execute (length pre) = Some (length pre + length p)"
    using 3 unfolding u_def find_from_append s by (simp add: find_marker)
  have cut: "substr u (length pre) (length pre + length p) = returns (take (length pre + length p) ?s)"
    by (simp add: u_def substr_def del: join_with.simps take_append)
  have IH: "ParseProcedure_loop u (length pre + length p + 14) e
    = returns (push_commands (piece_commands (length pre + length p + 14) (q # ps)) e)" for e
    using "3.hyps" [of "pre @ p @ separator_line" e] "3.prems" by (simp add: u add.assoc)
  have "ParseProcedure_loop u (length pre) d
      = returns (push_commands (piece_commands (length pre) (p # q # ps)) d)"
    by (subst ParseProcedure_loop.simps) (simp add: found cut IH del: join_with.simps)
  then show ?case by (simp only: u_def)
qed

lemma ParseProcedure_pieces:
  assumes "ps \<noteq> []" and "\<forall>p \<in> set ps. piece p"
  shows "ParseProcedure (join_with separator_line ps) d = returns (push_commands (piece_commands 0 ps) d)"
  using ParseProcedure_loop_pieces [OF assms, of "[]" d] by (simp add: ParseProcedure_def)

lemma length_piece_commands: "length (piece_commands n ps) = length ps"
  by (induction n ps rule: piece_commands.induct) simp_all

lemma piece_commands_first: "piece_commands 0 (p # ps) = p # (case ps of [] \<Rightarrow> [] | _ \<Rightarrow> piece_commands (length p + 14) ps)"
  by (cases ps) simp_all

lemma piece_commands_prefix:
  "i < length ps \<Longrightarrow> take (length (ps ! i)) (piece_commands n ps ! i) = ps ! i"
proof (induction n ps arbitrary: i rule: piece_commands.induct)
  case (3 n p q ps)
  then show ?case by (cases i) (simp_all add: min_def)
qed simp_all

lemma ParseProcedure_cut_short:
  assumes "piece p"
  shows "ParseProcedure (p @ then_execute) d = Some (Inl (Uncaught ''std::out_of_range''))"
proof -
  have "find_from (p @ then_execute) then_execute 0 = Some (length p)"
    using find_marker [OF assms, of "[]"] by (simp add: find_from_def)
  moreover have "length (p @ then_execute) = length p + 13" by (simp add: then_execute_def)
  moreover from this have "find_from (p @ then_execute) then_execute (length p + 14) = None"
    by (simp add: find_from_def)
  ultimately show ?thesis
    unfolding ParseProcedure_def
    by (subst ParseProcedure_loop.simps, simp only: option.case)
      (subst ParseProcedure_loop.simps, simp add: substr_def)
qed

section \<open>The commands of a table\<close>

definition mysql_create_text :: "table \<Rightarrow> string" where
  "mysql_create_text t = create_text True t @ '') Engine=MyISAM COMMENT=''
     @ quoted (replace (tbl_desc t) [squote] [squote, squote]) @ '';''"

definition end_clause :: "table \<Rightarrow> string" where
  "end_clause t = load_columns (tbl_members t) @ '') '' @ set_clause (tbl_members t)"

definition infile_text :: "mysql_data \<Rightarrow> table \<Rightarrow> string" where
  "infile_text d t = tempdir_escaped d @ tbl_name t @ ''_values.txt''"

definition mysql_load_text :: "mysql_data \<Rightarrow> table \<Rightarrow> string" where
  "mysql_load_text d t = ''load data local infile '' @ quoted (infile_text d t)
     @ '' into table '' @ tbl_name t @ '' fields terminated by '' @ quoted '',''
     @ '' optionally enclosed by '' @ quoted [dquote]
     @ '' lines terminated by '' @ quoted [backslash, CHR ''n''] @ end_clause t @ '';''"

definition mysql_table_commands :: "mysql_data \<Rightarrow> table \<Rightarrow> string list" where
  "mysql_table_commands d t =
     [drop_text t, mysql_create_text t, mysql_load_text d t]"

definition mysql_path :: "mysql_data \<Rightarrow> table \<Rightarrow> string" where
  "mysql_path d t = tempdir d @ tbl_name t @ ''_values.txt''"

lemma mysql_CreateTable_returns:
  assumes "tbl_members t \<noteq> []"
  shows "mysql_CreateTable (tbl_members t) (tbl_name t) (tbl_desc t) d
    = returns (push_commands [drop_text t, mysql_create_text t] d, end_clause t)"
  by (simp add: mysql_CreateTable_def Let_def create_writer_result [OF assms]
      create_writer_load [OF assms] create_writer_rest mysql_create_text_def drop_text_def
      end_clause_def quoted_def push_command_single)

lemma mysql_PopulateTable_returns:
  assumes "\<forall>r \<in> set rows. r \<noteq> []"
  shows "mysql_PopulateTable sys d rows (tbl_name t) w
    = returns (store sys (mysql_path d t) (csv_rows True CHR '','' rows) w)"
  by (simp add: mysql_PopulateTable_def write_rows_returns [OF assms] writer_init_def mysql_path_def)

lemma LoadTable_eq: "LoadTable (tbl_name t) (end_clause t) d = push_commands [mysql_load_text d t] d"
  by (simp add: LoadTable_def mysql_load_text_def infile_text_def quoted_def push_command_single)

lemma mysql_load_text_push [simp]: "mysql_load_text (push_commands cs d) t = mysql_load_text d t"
  by (simp add: mysql_load_text_def infile_text_def)

lemma mysql_path_push [simp]: "mysql_path (push_commands cs d) t = mysql_path d t"
  by (simp add: mysql_path_def)

definition mysql_step ::
    "os \<Rightarrow> table \<times> cval list list \<Rightarrow> mysql_data \<times> world \<Rightarrow> mysql_data \<times> world" where
  "mysql_step sys = (\<lambda>(t, rows) (d, w).
     (push_commands (mysql_table_commands d t) d,
      store sys (mysql_path d t) (csv_rows True CHR '','' rows) w))"

lemma mysql_BuildTable_returns:
  assumes "t \<in> set tables" and "\<forall>r \<in> set rows. r \<noteq> []"
  shows "mysql_BuildTable sys (t, rows) (d, w) = returns (mysql_step sys (t, rows) (d, w))"
  using assms(2) members_nonempty [OF assms(1)]
  by (simp add: mysql_BuildTable_def mysql_CreateTable_returns mysql_PopulateTable_returns
      LoadTable_eq mysql_step_def mysql_table_commands_def)

lemma mysql_tables_returns:
  "run_fold (mysql_BuildTable sys) (reflect S) (d, w) = returns (fold (mysql_step sys) (reflect S) (d, w))"
proof (rule run_fold_total)
  fix x and s :: "mysql_data \<times> world"
  assume "x \<in> set (reflect S)"
  moreover obtain t rows where x: "x = (t, rows)" by (cases x)
  moreover obtain d w where s: "s = (d, w)" by (cases s)
  ultimately have "(t, rows) \<in> set (reflect S)" by simp
  then show "mysql_BuildTable sys x s = returns (mysql_step sys x s)"
    unfolding x s by (intro mysql_BuildTable_returns reflect_in_tables reflect_rows_nonempty)
qed

lemma fold_mysql_step:
  "fold (mysql_step sys) ts (d, w) =
     (push_commands (concat (map (\<lambda>(t, rows). mysql_table_commands d t) ts)) d,
      fold (\<lambda>(t, rows). store sys (mysql_path d t) (csv_rows True CHR '','' rows)) ts w)"
  by (induction ts arbitrary: d w)
    (auto simp: mysql_step_def mysql_table_commands_def mysql_path_def)

section \<open>Faults\<close>

text \<open>What can stop the engine: a thrown text, or \<open>substr\<close> behind the end of a file.\<close>

definition benign :: "'a run \<Rightarrow> bool" where
  "benign r = (\<exists>x. r = Some x
     \<and> (\<forall>e. x = Inl e \<longrightarrow> (\<exists>t. e = Thrown t) \<or> e = Uncaught ''std::out_of_range''))"

lemma benign_simps [simp]:
  "benign (returns x)" "benign (Some (Inl (Thrown e)))" "benign (Some (Inl (Uncaught ''std::out_of_range'')))"
  "\<not> benign None" "\<not> benign (Some (Inl (Undefined_Behaviour e)))" "\<not> benign (Some (Inl (Exit n t fs)))"
  by (simp_all add: benign_def returns_def)

lemma benign_bind: "benign r \<Longrightarrow> (\<And>x. r = returns x \<Longrightarrow> benign (f x)) \<Longrightarrow> benign (run_bind r f)"
  by (auto simp: benign_def run_bind_def returns_def split: sum.splits option.splits)

lemma benign_fold: "(\<And>x s. x \<in> set xs \<Longrightarrow> benign (f x s)) \<Longrightarrow> benign (run_fold f xs s)"
  by (induction xs arbitrary: s) (auto intro!: benign_bind)

lemma benign_ParseProcedure_loop: "benign (ParseProcedure_loop s prev d)"
proof (induction s prev d rule: ParseProcedure_loop.induct)
  case (1 s prev d)
  show ?case
    by (subst ParseProcedure_loop.simps)
      (auto simp: substr_def intro!: benign_bind 1 split: option.split)
qed

lemma benign_GenerateProcedures: "benign (GenerateProcedures sys d)"
  unfolding GenerateProcedures_def ParseProcedure_def
  by (rule benign_fold) (simp add: benign_ParseProcedure_loop split: option.split)

section \<open>The upload\<close>

text \<open>A sequence of commands that the server accepts one after the other.\<close>

inductive accepts :: "'c mysql_api \<Rightarrow> 'c \<Rightarrow> string list \<Rightarrow> 'c \<Rightarrow> bool" for api where
  accepts_Nil: "accepts api c [] c"
| accepts_Cons: "mysql_real_query api c (query_text cmd) = (True, c') \<Longrightarrow> accepts api c' cmds c'' \<Longrightarrow>
    accepts api c (cmd # cmds) c''"

lemma upload_stop: "has_error w \<or> length cmds \<le> i \<Longrightarrow> upload api cmds i (conn, w) = (conn, w)"
  by (subst upload.simps) auto

lemma upload_from:
  assumes "\<not> has_error w" and "upload api (pre @ cmds) (length pre) (Some c, w) = (conn, w')"
  shows "\<exists>c'. conn = Some c' \<and>
     (accepts api c cmds c' \<and> w' = w
      \<or> (\<exists>before cmd after c1. cmds = before @ cmd # after \<and> accepts api c before c1
           \<and> mysql_real_query api c1 (query_text cmd) = (False, c')
           \<and> w' = set_error (mysql_error api c') w))"
  using assms(2)
proof (induction cmds arbitrary: pre c)
  case Nil
  then show ?case by (auto simp: upload_stop intro: accepts_Nil)
next
  case (Cons cmd cmds)
  obtain ok c1 where q: "mysql_real_query api c (query_text cmd) = (ok, c1)" by fastforce
  show ?case
  proof (cases ok)
    case True
    with Cons.prems assms(1) q have "upload api ((pre @ [cmd]) @ cmds) (length (pre @ [cmd])) (Some c1, w) = (conn, w')"
      by (subst (asm) upload.simps) (simp add: execute_def)
    from Cons.IH [OF this] obtain c' where conn: "conn = Some c'" and
      "accepts api c1 cmds c' \<and> w' = w
       \<or> (\<exists>before cm after c2. cmds = before @ cm # after \<and> accepts api c1 before c2
           \<and> mysql_real_query api c2 (query_text cm) = (False, c')
           \<and> w' = set_error (mysql_error api c') w)"
      by blast
    then show ?thesis
    proof (elim disjE exE conjE)
      assume "accepts api c1 cmds c'" and "w' = w"
      with conn q True show ?thesis by (auto intro: accepts_Cons)
    next
      fix before cm after c2
      assume "cmds = before @ cm # after" and "accepts api c1 before c2"
        and "mysql_real_query api c2 (query_text cm) = (False, c')"
        and "w' = set_error (mysql_error api c') w"
      moreover from this q True have "accepts api c (cmd # before) c2" by (auto intro: accepts_Cons)
      moreover from calculation have "cmd # cmds = (cmd # before) @ cm # after" by simp
      ultimately show ?thesis using conn by blast
    qed
  next
    case False
    with Cons.prems assms(1) q have "(conn, w') = (Some c1, set_error (mysql_error api c1) w)"
      by (subst (asm) upload.simps) (simp add: execute_def upload_stop)
    with q False have "conn = Some c1 \<and> cmd # cmds = [] @ cmd # cmds \<and> accepts api c [] c
        \<and> mysql_real_query api c (query_text cmd) = (False, c1)
        \<and> w' = set_error (mysql_error api c1) w"
      by (simp add: accepts_Nil)
    then show ?thesis by blast
  qed
qed

section \<open>The engine as a whole\<close>

text \<open>The commands that a file becomes do not depend on what has been built before.\<close>

lemma ParseProcedure_loop_frame:
  "ParseProcedure_loop s prev d = returns e \<Longrightarrow>
     \<exists>cs. e = push_commands cs d \<and> (\<forall>d'. ParseProcedure_loop s prev d' = returns (push_commands cs d'))"
proof (induction s prev d arbitrary: e rule: ParseProcedure_loop.induct)
  case (1 s prev d)
  show ?case
  proof (cases "find_from s then_execute prev")
    case None
    with "1.prems" obtain c where "substr s prev (length s) = returns c" and "e = push_command c d"
      by (subst (asm) ParseProcedure_loop.simps) (auto simp: run_bind_eq_returns)
    with None have "e = push_commands [c] d \<and> (\<forall>d'. ParseProcedure_loop s prev d' = returns (push_commands [c] d'))"
      by (subst ParseProcedure_loop.simps) (simp add: push_command_single)
    then show ?thesis by blast
  next
    case (Some i)
    with "1.prems" obtain c where c: "substr s prev i = returns c"
      and "ParseProcedure_loop s (i + 14) (push_command c d) = returns e"
      by (subst (asm) ParseProcedure_loop.simps) (auto simp: run_bind_eq_returns)
    from "1.IH" [OF Some this(2)] obtain cs where e: "e = push_commands cs (push_command c d)"
      and rest: "\<forall>d'. ParseProcedure_loop s (i + 14) d' = returns (push_commands cs d')" by blast
    from Some c rest have "ParseProcedure_loop s prev d' = returns (push_commands (c # cs) d')" for d'
      by (subst ParseProcedure_loop.simps) simp
    moreover from e have "e = push_commands (c # cs) d" by simp
    ultimately show ?thesis by blast
  qed
qed

text \<open>The commands \<open>cs\<close> of a file with the text \<open>t\<close>, a file that cannot be read giving none.\<close>

definition file_commands :: "string option \<Rightarrow> string list \<Rightarrow> bool" where
  "file_commands t cs =
     (case t of None \<Rightarrow> cs = [] | Some t \<Rightarrow> (\<forall>d. ParseProcedure t d = returns (push_commands cs d)))"

lemma file_commands_pieces:
  assumes "ps \<noteq> []" and "\<forall>p \<in> set ps. piece p"
  shows "file_commands (Some (join_with separator_line ps)) cs \<longleftrightarrow> cs = piece_commands 0 ps"
proof
  assume "file_commands (Some (join_with separator_line ps)) cs"
  then have "push_commands cs undefined = push_commands (piece_commands 0 ps) undefined"
    using ParseProcedure_pieces [OF assms, of undefined] by (simp add: file_commands_def)
  then show "cs = piece_commands 0 ps" by (metis push_commands_simps(5) same_append_eq)
qed (simp add: file_commands_def ParseProcedure_pieces [OF assms])

lemma GenerateProcedures_commands:
  assumes "GenerateProcedures sys d = returns e"
  shows "\<exists>css. list_all2 (\<lambda>name cs. file_commands (read_text sys (''../../config/mysql/'' @ name)) cs)
       (find_files sys ''../../config/mysql/*.sql'') css
     \<and> e = push_commands (concat css) d"
proof -
  have "\<exists>css. list_all2 (\<lambda>name cs. file_commands (read_text sys (''../../config/mysql/'' @ name)) cs) names css
     \<and> e = push_commands (concat css) d"
    if "run_fold (\<lambda>name d. case read_text sys (''../../config/mysql/'' @ name) of
      None \<Rightarrow> returns d | Some file_contents \<Rightarrow> ParseProcedure file_contents d) names d = returns e" for names d
    using that
  proof (induction names arbitrary: d)
    case Nil
    then show ?case by simp
  next
    case (Cons name names)
    let ?t = "read_text sys (''../../config/mysql/'' @ name)"
    from Cons.prems obtain d1 where first: "(case ?t of None \<Rightarrow> returns d
        | Some file_contents \<Rightarrow> ParseProcedure file_contents d) = returns d1"
      and rest: "run_fold (\<lambda>name d. case read_text sys (''../../config/mysql/'' @ name) of
      None \<Rightarrow> returns d | Some file_contents \<Rightarrow> ParseProcedure file_contents d) names d1 = returns e"
      by (auto simp: run_bind_eq_returns)
    have "\<exists>cs. file_commands ?t cs \<and> d1 = push_commands cs d"
    proof (cases ?t)
      case None
      with first show ?thesis by (intro exI [of _ "[]"]) (simp add: file_commands_def)
    next
      case (Some t)
      with first ParseProcedure_loop_frame [of t 0 d d1] show ?thesis
        by (auto simp: ParseProcedure_def file_commands_def)
    qed
    then obtain cs where cs: "file_commands ?t cs" "d1 = push_commands cs d" by blast
    from Cons.IH [OF rest] obtain css where "list_all2 (\<lambda>name cs.
        file_commands (read_text sys (''../../config/mysql/'' @ name)) cs) names css"
      and "e = push_commands (concat css) d1" by blast
    with cs show ?case by (intro exI [of _ "cs # css"]) simp
  qed
  then show ?thesis using assms by (simp only: GenerateProcedures_def)
qed

lemma GenerateProcedures_frame:
  assumes "GenerateProcedures sys d = returns e"
  shows "\<exists>cs. e = push_commands cs d"
  using GenerateProcedures_commands [OF assms] by blast

lemma mysql_table_commands_push [simp]:
  "mysql_table_commands (push_commands cs d) = mysql_table_commands d"
  by (rule ext) (simp add: mysql_table_commands_def)

definition mysql_files :: "mysql_data \<Rightarrow> SymbolData \<Rightarrow> (string \<times> string) list" where
  "mysql_files d S = map (\<lambda>(t, rows). (mysql_path d t, csv_rows True CHR '','' rows)) (reflect S)"

definition store_all :: "os \<Rightarrow> (string \<times> string) list \<Rightarrow> world \<Rightarrow> world" where
  "store_all sys fs w = fold (\<lambda>(path, text). store sys path text) fs w"

lemma store_all_eq:
  "files (store_all sys fs w) = files w @ filter (\<lambda>(path, text). \<not> write_bad sys path) fs"
  "gErr (store_all sys fs w) = gErr w"
  unfolding store_all_def by (induction fs arbitrary: w) (auto simp: store_def)

lemma mysql_GenerateCommands_returns:
  assumes "GenerateProcedures sys d = returns e"
  shows "mysql_GenerateCommands sys S d w =
    returns (push_commands (concat (map (mysql_table_commands e) tables)) e,
      store_all sys (mysql_files e S) w)"
proof -
  have "map (\<lambda>(t, rows). mysql_table_commands e t) (reflect S) = map (mysql_table_commands e) tables"
    unfolding map_fst_reflect [of S, symmetric] by simp (auto simp: split_beta)
  then show ?thesis
    by (simp add: mysql_GenerateCommands_def assms mysql_tables_returns fold_mysql_step
        store_all_def mysql_files_def fold_map comp_def case_prod_unfold)
qed

end
