(* ===== verification/MySQL_Server.thy ===== *)
theory MySQL_Server
  imports MySQL_Output
begin

text \<open>
  The server's side of the engine: how it reads a quoted literal, and which texts a column of
  a declared type takes. With these, what the commands say is compared with what the files
  hold: the columns of a load statement with the cells of a row, the cells with the declared
  types, the quoted comments and paths with the texts they stand for.
\<close>

section \<open>Literals\<close>

text \<open>The body of a single-quoted literal: a doubled quote, and the escapes of the backslash.\<close>

fun literal_value :: "string \<Rightarrow> string option" where
  "literal_value [] = Some []"
| "literal_value (c # cs) =
     (if c = backslash then
        (case cs of [] \<Rightarrow> None | d # ds \<Rightarrow> map_option (Cons (load_escape d)) (literal_value ds))
      else if c = squote then
        (case cs of [] \<Rightarrow> None
         | d # ds \<Rightarrow> if d = squote then map_option (Cons squote) (literal_value ds) else None)
      else map_option (Cons c) (literal_value cs))"

lemma literal_plain: "backslash \<notin> set s \<Longrightarrow> squote \<notin> set s \<Longrightarrow> literal_value s = Some s"
  by (induction s) auto

lemma load_escape_backslash [simp]: "load_escape backslash = backslash"
  by (simp add: load_escape_def)

lemma literal_doubled_quotes: "backslash \<notin> set s \<Longrightarrow> literal_value (replace s [squote] [squote, squote]) = Some s"
  unfolding replace_char_eq by (induction s) auto

lemma literal_doubled_backslashes:
  "squote \<notin> set s \<Longrightarrow>
     literal_value (replace s [backslash] [backslash, backslash] @ rest)
       = map_option (\<lambda>r. s @ r) (literal_value rest)"
  unfolding replace_char_eq
  by (cases "literal_value rest"; induction s) auto

section \<open>Columns\<close>

definition undec_int :: "string \<Rightarrow> int" where
  "undec_int s = (if s \<noteq> [] \<and> hd s = CHR ''-'' then - int (undec (tl s)) else int (undec s))"

lemma undec_int_dec_int [simp]: "undec_int (dec_int i) = i"
proof (cases "i < 0")
  case True
  then show ?thesis by (simp add: undec_int_def dec_int_def undec_dec)
next
  case False
  then have "hd (dec (nat i)) \<noteq> CHR ''-''"
    using dec_no_minus [of "nat i"] by (metis dec_nonempty hd_in_set)
  with False show ?thesis by (simp add: undec_int_def dec_int_def undec_dec)
qed

definition in_range :: "int \<Rightarrow> int \<Rightarrow> string \<Rightarrow> bool" where
  "in_range lo hi s = (s = dec_int (undec_int s) \<and> lo \<le> undec_int s \<and> undec_int s \<le> hi)"

text \<open>The enumerators in the declaration of an enumeration: what stands between the quotes.\<close>

function quoted_items :: "string \<Rightarrow> string list" where
  "quoted_items s =
     (case dropWhile (\<lambda>c. c \<noteq> squote) s of
        [] \<Rightarrow> []
      | q # r \<Rightarrow> takeWhile (\<lambda>c. c \<noteq> squote) r # quoted_items (drop 1 (dropWhile (\<lambda>c. c \<noteq> squote) r)))"
  by pat_completeness auto
termination
proof (relation "measure length")
  fix s q r
  assume "dropWhile (\<lambda>c. c \<noteq> squote) s = q # r"
  then have "Suc (length r) \<le> length s"
    using length_dropWhile_le [of "\<lambda>c. c \<noteq> squote" s] by simp
  moreover have "length (dropWhile (\<lambda>c. c \<noteq> squote) r) \<le> length r" by (rule length_dropWhile_le)
  ultimately show "(drop 1 (dropWhile (\<lambda>c. c \<noteq> squote) r), s) \<in> measure length" by simp
qed simp

declare quoted_items.simps [simp del]

lemma quoted_items_none: "squote \<notin> set s \<Longrightarrow> quoted_items s = []"
proof -
  assume "squote \<notin> set s"
  then have "dropWhile (\<lambda>c. c \<noteq> squote) s = []" by (induction s) auto
  then show "quoted_items s = []" by (subst quoted_items.simps) (simp only: list.case)
qed

lemma quoted_items_item:
  assumes "squote \<notin> set pre" and "squote \<notin> set n"
  shows "quoted_items (pre @ quoted n @ rest) = n # quoted_items rest"
proof -
  have "dropWhile (\<lambda>c. c \<noteq> squote) (pre @ squote # r) = squote # r" if "squote \<notin> set pre" for pre r
    using that by (induction pre) auto
  moreover have "takeWhile (\<lambda>c. c \<noteq> squote) (n @ squote # r) = n" if "squote \<notin> set n" for n r
    using that by (induction n) auto
  ultimately show ?thesis
    using assms by (subst quoted_items.simps) (simp add: quoted_def)
qed

lemma quoted_items_list:
  assumes "\<forall>n \<in> set ns. squote \<notin> set n" and "squote \<notin> set rest"
  shows "quoted_items (join_with '','' (map quoted ns) @ rest) = ns"
  using assms(1)
proof (induction ns)
  case Nil
  with assms(2) show ?case by (simp add: quoted_items_none)
next
  case (Cons n ns)
  show ?case
  proof (cases ns)
    case Nil
    with Cons.prems assms(2) quoted_items_item [of "[]" n rest] show ?thesis by (simp add: quoted_items_none)
  next
    case (Cons k ks)
    let ?r = "join_with '','' (map quoted ns) @ rest"
    have "quoted_items (CHR '','' # ?r) = quoted_items ?r"
      by (subst (1 2) quoted_items.simps) simp
    with Cons.IH Cons.prems Cons quoted_items_item [of "[]" n "CHR '','' # ?r"] show ?thesis by simp
  qed
qed

lemma enumerators_unquoted: "n \<in> set (enumerators e) \<Longrightarrow> squote \<notin> set n"
proof -
  have "list_all (\<lambda>n. list_all (\<lambda>c. c \<noteq> squote) n) (enumerators e)" by (induction e) code_simp+
  then show "n \<in> set (enumerators e) \<Longrightarrow> squote \<notin> set n" unfolding list_all_iff by blast
qed

text \<open>A number with a fraction.\<close>

definition is_decimal :: "string \<Rightarrow> bool" where
  "is_decimal s =
     (let u = (if s \<noteq> [] \<and> hd s = CHR ''-'' then tl s else s);
          frac = dropWhile is_digit u
      in takeWhile is_digit u \<noteq> [] \<and> frac \<noteq> [] \<and> hd frac = CHR ''.'' \<and> tl frac \<noteq> [] \<and> list_all is_digit (tl frac))"

text \<open>
  The texts that a column admits without loss, by the text of its declaration: the ranges of the
  database's integer types, the length of a text, a bit, the enumerators of an enumeration or
  the empty text, which stands for a value that is not in its list.
\<close>

definition declaration_accepts :: "string \<Rightarrow> string \<Rightarrow> bool" where
  "declaration_accepts decl s =
     (if decl = '' FLOAT NOT NULL'' then is_decimal s
      else if decl = '' INT NOT NULL'' then in_range (- (2 ^ 31)) (2 ^ 31 - 1) s
      else if decl = '' INT UNSIGNED NOT NULL'' then in_range 0 (2 ^ 32 - 1) s
      else if decl = '' INT(3) UNSIGNED NOT NULL'' then in_range 0 (2 ^ 32 - 1) s
      else if decl = '' BIGINT NOT NULL'' then in_range (- (2 ^ 63)) (2 ^ 63 - 1) s
      else if decl = '' BIGINT UNSIGNED NOT NULL'' then in_range 0 (2 ^ 64 - 1) s
      else if decl = '' VARCHAR(2047) NOT NULL'' then length s \<le> 2047
      else if decl = '' BIT(1) NOT NULL'' then s = ''0'' \<or> s = ''1''
      else if take 6 decl = '' ENUM('' then s = [] \<or> s \<in> set (quoted_items (drop 6 decl))
      else False)"

definition column_accepts :: "ctype \<Rightarrow> string \<Rightarrow> bool" where
  "column_accepts ty s = declaration_accepts (column_type True ty) s"

lemma column_accepts_simps [simp]:
  "column_accepts T_float s = is_decimal s"
  "column_accepts T_int s = in_range (- (2 ^ 31)) (2 ^ 31 - 1) s"
  "column_accepts T_uint32 s = in_range 0 (2 ^ 32 - 1) s"
  "column_accepts T_long s = in_range (- (2 ^ 63)) (2 ^ 63 - 1) s"
  "column_accepts T_ulong s = in_range 0 (2 ^ 32 - 1) s"
  "column_accepts T_ullong s = in_range 0 (2 ^ 64 - 1) s"
  "column_accepts T_string s = (length s \<le> 2047)"
  "column_accepts T_uchar s = in_range 0 (2 ^ 32 - 1) s"
  "column_accepts T_llong s = in_range (- (2 ^ 63)) (2 ^ 63 - 1) s"
  "column_accepts T_address s = in_range 0 (2 ^ 32 - 1) s"
  "column_accepts T_bool s = (s = ''0'' \<or> s = ''1'')"
  "column_accepts (T_enum e) s = (s = [] \<or> s \<in> set (enumerators e))"
  using quoted_items_list [of "enumerators e" "'')NOT NULL''"] enumerators_unquoted [of _ e]
  by (simp_all add: column_accepts_def declaration_accepts_def)

lemma is_decimal_fmt_f: "is_decimal (fmt_f m e)"
proof -
  let ?a = "dec (millionths m e div 10 ^ 6)" and ?f = "dec (millionths m e mod 10 ^ 6)"
  define b where "b = replicate (6 - length ?f) CHR ''0'' @ ?f"
  have fmt: "fmt_f m e = (if m < 0 then ''-'' else []) @ ?a @ CHR ''.'' # b"
    by (simp add: fmt_f_def Let_def b_def)
  have digits: "\<forall>c \<in> set ?a. is_digit c" and "b \<noteq> []" and frac: "list_all is_digit b"
    by (auto simp: b_def list_all_iff is_digit_def dest: dec_digits)
  have head: "hd ?a \<noteq> CHR ''-''" using dec_no_minus by (metis dec_nonempty hd_in_set)
  have "takeWhile is_digit (?a @ CHR ''.'' # b) = ?a" "dropWhile is_digit (?a @ CHR ''.'' # b) = CHR ''.'' # b"
    using digits by (simp_all add: takeWhile_append2 dropWhile_append2 is_digit_def)
  moreover have "(if fmt_f m e \<noteq> [] \<and> hd (fmt_f m e) = CHR ''-'' then tl (fmt_f m e) else fmt_f m e) = ?a @ CHR ''.'' # b"
    using head by (simp add: fmt)
  ultimately show ?thesis
    unfolding is_decimal_def Let_def using \<open>b \<noteq> []\<close> frac by simp
qed

lemma in_range_dec_int: "in_range lo hi (dec_int i) \<longleftrightarrow> lo \<le> i \<and> i \<le> hi"
  by (simp add: in_range_def)

lemma in_range_dec: "in_range lo hi (dec n) \<longleftrightarrow> lo \<le> int n \<and> int n \<le> hi"
  using in_range_dec_int [of lo hi "int n"] by (simp add: dec_int_def)

lemma unat_bound32: "int (unat (v :: u32)) \<le> 2 ^ 32 - 1"
  using unsigned_less [of v, where 'a = int] by simp

lemma unat_bound64: "int (unat (v :: u64)) \<le> 2 ^ 64 - 1"
  using unsigned_less [of v, where 'a = int] by simp

lemma sint_bound32: "- (2 ^ 31) \<le> sint (v :: u32)" "sint (v :: u32) \<le> 2 ^ 31 - 1"
  using sint_greater_eq [of v] sint_less [of v] by simp_all

lemma sint_bound64: "- (2 ^ 63) \<le> sint (v :: u64)" "sint (v :: u64) \<le> 2 ^ 63 - 1"
  using sint_greater_eq [of v] sint_less [of v] by simp_all

definition short_text :: "cval \<Rightarrow> bool" where
  "short_text c = (case c of V_string s \<Rightarrow> length s \<le> 2047 | _ \<Rightarrow> True)"

lemma cell_accepted:
  assumes "short_text c"
  shows "column_accepts (cval_type c) (cell_value True c)"
proof (cases c)
  case (V_enum e v)
  then show ?thesis using enum_name_cases [of e v] by simp
next
  case (V_long v)
  then show ?thesis
    using sint_bound32 [of v] by (simp add: in_range_dec_int)
qed (use assms in \<open>simp_all add: in_range_dec in_range_dec_int unat_bound32 unat_bound64
      sint_bound32 sint_bound64 is_decimal_fmt_f bool_text_def short_text_def
      unat_bound32 [simplified] unat_bound64 [simplified]
      sint_bound32 [simplified] sint_bound64 [simplified]\<close>)

lemma fits_cell_types: "fits ms r \<Longrightarrow> list_all2 (\<lambda>m c. cval_type c = m_type m) ms r"
  unfolding fits_def by (simp add: list_all2_conv_all_nth) (metis length_map nth_map)

lemma row_accepted:
  assumes "fits ms r" and "list_all short_text r"
  shows "list_all2 (\<lambda>m c. column_accepts (m_type m) (cell_value True c)) ms r"
  using fits_cell_types [OF assms(1)] assms(2)
proof (induction ms r rule: list_all2_induct)
  case Nil
  then show ?case by simp
next
  case (Cons m ms c r)
  then show ?case using cell_accepted [of c] by simp
qed

lemma distinct_columns:
  "list_all (\<lambda>t. distinct (map column_name (tbl_members t))) tables"
  by (simp add: tables_def table_defs members_defs column_name_def)

lemma distinct_load_names:
  "list_all (\<lambda>t. distinct (map load_name (tbl_members t))) tables"
  by (simp add: tables_def table_defs members_defs load_name_def column_name_def)

lemma few_keys: "list_all (\<lambda>t. length (filter has_key (tbl_members t)) \<le> 1) tables"
  by (simp add: tables_def table_defs members_defs has_key_def is_unique_def)

lemma no_backslash_table_desc: "list_all (\<lambda>t. backslash \<notin> set (tbl_desc t)) tables"
  by (simp add: tables_def table_defs)

lemma no_backslash_member_desc:
  "list_all (\<lambda>t. list_all (\<lambda>m. list_all (\<lambda>c. c \<noteq> backslash) (m_desc m)) (tbl_members t)) tables"
  by code_simp

lemma infile_value:
  assumes "squote \<notin> set (tempdir d)"
    and "tempdir_escaped d = replace (tempdir d) [backslash] [backslash, backslash] @ [backslash, backslash]"
    and "t \<in> set tables"
  shows "literal_value (infile_text d t) = Some (tempdir d @ [backslash] @ tbl_name t @ ''_values.txt'')"
proof -
  have "list_all (\<lambda>t. list_all (\<lambda>c. c \<noteq> backslash \<and> c \<noteq> squote) (tbl_name t)) tables"
    by (simp add: tables_def table_defs)
  with assms(3) have "backslash \<notin> set (tbl_name t)" and "squote \<notin> set (tbl_name t)"
    unfolding list_all_iff by blast+
  then have "literal_value (tbl_name t @ ''_values.txt'') = Some (tbl_name t @ ''_values.txt'')"
    by (intro literal_plain) simp_all
  then have "literal_value ([backslash, backslash] @ tbl_name t @ ''_values.txt'')
      = Some ([backslash] @ tbl_name t @ ''_values.txt'')"
    by (simp add: load_escape_def)
  then show ?thesis
    unfolding infile_text_def assms(2) append_assoc
    by (simp only: literal_doubled_backslashes [OF assms(1)]) simp
qed

text \<open>The temporary directory: the one given, or a directory below the working directory.\<close>

definition temp_directory :: "os \<Rightarrow> string list \<Rightarrow> string" where
  "temp_directory sys argv =
     (if getOption argv ''-tempdir'' = []
      then snd (GetCurrentDirectoryA sys 260) @ [backslash] @ ''temp'' @ [backslash]
      else getOption argv ''-tempdir'')"

lemma OutputData_init_procedures:
  assumes "OutputData_init sys argv S w = returns (d, w')"
  shows "\<exists>css. list_all2 (\<lambda>name cs. file_commands (read_text sys (''../../config/mysql/'' @ name)) cs)
      (find_files sys ''../../config/mysql/*.sql'') css
    \<and> UploadCommands d = concat css @ concat (map (mysql_table_commands d) tables)
    \<and> w' = store_all sys (mysql_files d S) w
    \<and> tempdir d = temp_directory sys argv
    \<and> tempdir_escaped d = replace (tempdir d) [backslash] [backslash, backslash] @ [backslash, backslash]
    \<and> host d = getOption argv ''-host'' \<and> host d \<noteq> [] \<and> user d \<noteq> [] \<and> db d \<noteq> [] \<and> port d \<noteq> 0"
proof -
  from assms obtain d0 where gen: "mysql_GenerateCommands sys S d0 w = returns (d, w')"
    and d0: "tempdir_escaped d0 = replace (tempdir d0) [backslash] [backslash, backslash] @ [backslash, backslash]"
      "host d0 = getOption argv ''-host''" "host d0 \<noteq> []" "user d0 \<noteq> []" "db d0 \<noteq> []" "port d0 \<noteq> 0"
      "UploadCommands d0 = []" "tempdir d0 = temp_directory sys argv"
    by (auto simp: OutputData_init_def Let_def returns_def temp_directory_def split: if_splits)
  from gen obtain e where e: "GenerateProcedures sys d0 = returns e"
    by (auto simp: mysql_GenerateCommands_def run_bind_eq_returns)
  from GenerateProcedures_commands [OF e] obtain css
    where css: "list_all2 (\<lambda>name cs. file_commands (read_text sys (''../../config/mysql/'' @ name)) cs)
      (find_files sys ''../../config/mysql/*.sql'') css"
    and cs: "e = push_commands (concat css) d0" by blast
  from gen mysql_GenerateCommands_returns [OF e, of S w]
  have d: "d = push_commands (concat (map (mysql_table_commands e) tables)) e"
    and w': "w' = store_all sys (mysql_files e S) w" by simp_all
  have "mysql_files d S = mysql_files e S" by (simp add: d mysql_files_def)
  moreover have "UploadCommands d = concat css @ concat (map (mysql_table_commands d) tables)"
    by (simp add: d cs d0)
  moreover have "host d = host d0" "user d = user d0" "db d = db d0" "port d = port d0"
    "tempdir d = tempdir d0" "tempdir_escaped d = tempdir_escaped d0"
    by (simp_all add: d cs push_commands_def)
  ultimately show ?thesis using d0 w' css by (intro exI [of _ css]) simp
qed

lemma OutputData_init_returns:
  assumes "OutputData_init sys argv S w = returns (d, w')"
  shows "(\<exists>cs. UploadCommands d = cs @ concat (map (mysql_table_commands d) tables))
    \<and> w' = store_all sys (mysql_files d S) w
    \<and> tempdir_escaped d = replace (tempdir d) [backslash] [backslash, backslash] @ [backslash, backslash]
    \<and> host d = getOption argv ''-host'' \<and> host d \<noteq> [] \<and> user d \<noteq> [] \<and> db d \<noteq> [] \<and> port d \<noteq> 0"
  using OutputData_init_procedures [OF assms] by blast

section \<open>Properties\<close>

text \<open>C13. When the MySQL engine gets past its settings, the commands it will send are, for each
  procedure file in the order in which they are found, the commands \<open>ParseProcedure\<close> cuts its text
  into (none for a file that cannot be read; for a file of pieces joined by separator lines,
  those of \<open>piece_commands\<close>), followed, table by table, by a drop, a create and a load command. The
  files it has written are one per table with the rows of that table; no error is reported even
  for a file the disk did not take.\<close>

theorem mysql_commands_and_files:
  assumes "OutputData_init sys argv S w = returns (d, w')"
  shows "\<exists>css. UploadCommands d = concat css @ concat (map (mysql_table_commands d) tables)
    \<and> list_all2 (\<lambda>name cs. case read_text sys (''../../config/mysql/'' @ name) of
          None \<Rightarrow> cs = []
        | Some t \<Rightarrow> (\<forall>e. ParseProcedure t e = returns (push_commands cs e))
            \<and> (\<forall>ps. ps \<noteq> [] \<and> (\<forall>p \<in> set ps. piece p) \<and> t = join_with separator_line ps \<longrightarrow> cs = piece_commands 0 ps))
        (find_files sys ''../../config/mysql/*.sql'') css
    \<and> files w' = files w @ filter (\<lambda>(path, text). \<not> write_bad sys path) (mysql_files d S)
    \<and> gErr w' = gErr w"
proof -
  from OutputData_init_procedures [OF assms] obtain css
    where css: "list_all2 (\<lambda>name cs. file_commands (read_text sys (''../../config/mysql/'' @ name)) cs)
      (find_files sys ''../../config/mysql/*.sql'') css"
    and rest: "UploadCommands d = concat css @ concat (map (mysql_table_commands d) tables)"
      "w' = store_all sys (mysql_files d S) w" by blast
  have "case t of None \<Rightarrow> cs = []
      | Some t \<Rightarrow> (\<forall>e. ParseProcedure t e = returns (push_commands cs e))
            \<and> (\<forall>ps. ps \<noteq> [] \<and> (\<forall>p \<in> set ps. piece p) \<and> t = join_with separator_line ps \<longrightarrow> cs = piece_commands 0 ps)"
    if "file_commands t cs" for t cs
    using that file_commands_pieces by (auto simp: file_commands_def split: option.splits)
  with css have "list_all2 (\<lambda>name cs. case read_text sys (''../../config/mysql/'' @ name) of
          None \<Rightarrow> cs = []
        | Some t \<Rightarrow> (\<forall>e. ParseProcedure t e = returns (push_commands cs e))
            \<and> (\<forall>ps. ps \<noteq> [] \<and> (\<forall>p \<in> set ps. piece p) \<and> t = join_with separator_line ps \<longrightarrow> cs = piece_commands 0 ps))
        (find_files sys ''../../config/mysql/*.sql'') css"
    by (elim list_all2_mono)
  with rest show ?thesis by (auto simp: store_all_eq)
qed

definition sample_os :: os where
  "sample_os = \<lparr> GetCurrentDirectoryA = \<lambda>_. (2, ''c:''), write_bad = \<lambda>_. False, locale_list_chars = 2,
     locale_list = None, find_files = \<lambda>_. [''a.sql''],
     read_text = \<lambda>_. Some (''drop x;'' @ separator_line @ ''create x;'') \<rparr>"

definition sample_argv :: "string list" where
  "sample_argv = [''drpdb'', ''-out=mysql'', ''-host=h'', ''-user=u'', ''-db=d'', ''-port=3307'']"

lemma sample_procedures:
  "GenerateProcedures sample_os d = returns (push_commands [''drop x;'', ''create x;''] d)"
  using ParseProcedure_pieces [of "[''drop x;'', ''create x;'']" d]
  by (simp add: GenerateProcedures_def sample_os_def piece_def)

lemma sample_init: "\<exists>d w'. OutputData_init sample_os sample_argv S w = returns (d, w')"
proof -
  have port: "atoi ''3307'' = 3307"
    by (simp add: atoi_def is_space_def is_digit_def undec_def undigit_def clamp_int_def)
  have cwd: "GetCurrentDirectoryA sample_os 260 = (2, ''c:'')"
    by (simp add: sample_os_def)
  show ?thesis
    by (simp add: OutputData_init_def sample_argv_def strncmp_eq_def port cwd Let_def
        mysql_GenerateCommands_returns [OF sample_procedures])
qed

lemma sample_init_tempdir:
  "\<exists>d w'. OutputData_init sample_os (sample_argv @ [''-tempdir=t'']) S w = returns (d, w') \<and> tempdir d = ''t''"
proof -
  have port: "atoi ''3307'' = 3307"
    by (simp add: atoi_def is_space_def is_digit_def undec_def undigit_def clamp_int_def)
  show ?thesis
    by (simp add: OutputData_init_def sample_argv_def strncmp_eq_def port Let_def
        mysql_GenerateCommands_returns [OF sample_procedures])
qed

theorem mysql_commands_and_files_witness:
  "\<exists>d w'. OutputData_init sample_os sample_argv sample_symbols world_init = returns (d, w')
    \<and> UploadCommands d = [''drop x;'', ''create x;''] @ concat (map (mysql_table_commands d) tables)
    \<and> files w' = mysql_files d sample_symbols"
proof -
  obtain d w' where init: "OutputData_init sample_os sample_argv sample_symbols world_init = returns (d, w')"
    using sample_init by blast
  have disk: "\<not> write_bad sample_os path" for path by (simp add: sample_os_def)
  from mysql_commands_and_files [OF init] obtain css
    where cmds: "UploadCommands d = concat css @ concat (map (mysql_table_commands d) tables)"
    and each: "list_all2 (\<lambda>name cs. case read_text sample_os (''../../config/mysql/'' @ name) of
          None \<Rightarrow> cs = []
        | Some t \<Rightarrow> (\<forall>e. ParseProcedure t e = returns (push_commands cs e))
            \<and> (\<forall>ps. ps \<noteq> [] \<and> (\<forall>p \<in> set ps. piece p) \<and> t = join_with separator_line ps \<longrightarrow> cs = piece_commands 0 ps))
        (find_files sample_os ''../../config/mysql/*.sql'') css"
    and fs: "files w' = files world_init @ filter (\<lambda>(path, text). \<not> write_bad sample_os path) (mysql_files d sample_symbols)"
    by blast
  have body: "read_text sample_os path = Some (join_with separator_line [''drop x;'', ''create x;''])" for path
    by (simp add: sample_os_def)
  have names: "find_files sample_os pat = [''a.sql'']" for pat by (simp add: sample_os_def)
  from each obtain cs where css: "css = [cs]" and pieces: "\<forall>ps. ps \<noteq> [] \<and> (\<forall>p \<in> set ps. piece p)
      \<and> join_with separator_line [''drop x;'', ''create x;''] = join_with separator_line ps \<longrightarrow> cs = piece_commands 0 ps"
    unfolding names body option.case by (auto simp: list_all2_Cons1)
  have "cs = piece_commands 0 [''drop x;'', ''create x;'']"
    by (rule pieces [THEN spec, THEN mp]) (simp add: piece_def del: join_with.simps)
  then have "cs = [''drop x;'', ''create x;'']" by simp
  with css cmds have "UploadCommands d = [''drop x;'', ''create x;''] @ concat (map (mysql_table_commands d) tables)"
    by (simp only: concat.simps append_Nil2)
  moreover from fs have "files w' = mysql_files d sample_symbols" by (simp add: disk world_init_def case_prod_unfold)
  ultimately show ?thesis using init by blast
qed

lemma mysql_output_benign: "benign (mysql_output api sys argv S w)"
proof -
  have "benign (mysql_GenerateCommands sys S d w)" for d
    unfolding mysql_GenerateCommands_def
    by (rule benign_bind [OF benign_GenerateProcedures]) (simp add: mysql_tables_returns)
  then have "benign (OutputData_init sys argv S w)"
    by (simp add: OutputData_init_def Let_def)
  then show ?thesis
    unfolding mysql_output_def by (rule benign_bind) (simp split: prod.split)
qed

text \<open>C19. Whatever the settings, the procedure files, the symbols and the server's answers, the
  MySQL engine comes to an end and never reaches undefined behaviour: it returns, it throws
  one of its texts, or a procedure file that ends in a separator stops it with an
  out-of-range exception.\<close>

theorem mysql_no_undefined_behaviour: "benign (mysql_output api sys argv S w)"
  by (rule mysql_output_benign)

text \<open>The engine throws a text only for its settings, so before it has written or sent anything.\<close>

definition no_throw :: "'a run \<Rightarrow> bool" where
  "no_throw r = (\<forall>e. r \<noteq> Some (Inl (Thrown e)))"

lemma no_throw_simps [simp]: "no_throw (returns x)" "no_throw (Some (Inl (Uncaught e)))"
  by (simp_all add: no_throw_def returns_def)

lemma no_throw_bind: "no_throw r \<Longrightarrow> (\<And>x. no_throw (f x)) \<Longrightarrow> no_throw (run_bind r f)"
  by (auto simp: no_throw_def run_bind_def split: option.split sum.split)

lemma no_throw_fold: "(\<And>x s. no_throw (f x s)) \<Longrightarrow> no_throw (run_fold f xs s)"
  by (induction xs arbitrary: s) (auto intro!: no_throw_bind)

lemma no_throw_ParseProcedure_loop: "no_throw (ParseProcedure_loop s prev d)"
proof (induction s prev d rule: ParseProcedure_loop.induct)
  case (1 s prev d)
  show ?case
    by (subst ParseProcedure_loop.simps)
      (auto simp: substr_def intro!: no_throw_bind 1 split: option.split)
qed

lemma no_throw_GenerateCommands: "no_throw (mysql_GenerateCommands sys S d w)"
proof -
  have "no_throw (GenerateProcedures sys d)"
    unfolding GenerateProcedures_def ParseProcedure_def
    by (rule no_throw_fold) (simp add: no_throw_ParseProcedure_loop split: option.split)
  then show ?thesis
    unfolding mysql_GenerateCommands_def by (rule no_throw_bind) (simp add: mysql_tables_returns)
qed

text \<open>C32. The MySQL engine throws a text exactly when the host, the user or the database is missing,
  the port reads as zero, or the working directory that stands in for a missing temporary
  directory is too long; whatever the symbols, the procedure files and the server.\<close>

theorem mysql_throws_iff:
  "(\<exists>e. mysql_output api sys argv S w = Some (Inl (Thrown e))) \<longleftrightarrow>
     getOption argv ''-host'' = [] \<or> getOption argv ''-user'' = [] \<or> getOption argv ''-db'' = []
     \<or> getOption argv ''-port'' \<noteq> [] \<and> atoi (getOption argv ''-port'') = 0
     \<or> getOption argv ''-tempdir'' = [] \<and> 260 < fst (GetCurrentDirectoryA sys 260)"
proof -
  have "(\<exists>e. mysql_output api sys argv S w = Some (Inl (Thrown e)))
      \<longleftrightarrow> (\<exists>e. OutputData_init sys argv S w = Some (Inl (Thrown e)))"
    by (auto simp: mysql_output_def run_bind_def returns_def split: option.splits sum.splits prod.splits)
  then show ?thesis
    using no_throw_GenerateCommands by (simp add: OutputData_init_def Let_def no_throw_def)
qed

lemma OutputData_init_throws:
  assumes "getOption argv ''-host'' = [] \<or> getOption argv ''-user'' = [] \<or> getOption argv ''-db'' = []
    \<or> getOption argv ''-port'' \<noteq> [] \<and> atoi (getOption argv ''-port'') = 0"
  shows "OutputData_init sys argv S w = Some (Inl (Thrown
    (if getOption argv ''-host'' = [] \<or> getOption argv ''-user'' = [] \<or> getOption argv ''-db'' = []
     then ''MySQL requires -host, -user, and -db settings.'' else ''Invalid -port specified.'')))"
  using assms unfolding OutputData_init_def Let_def by presburger

definition log_api :: "(string list) mysql_api" where
  "log_api = \<lparr> mysql_init = Some [], mysql_options_reconnect = \<lambda>c. c,
     mysql_real_connect = \<lambda>c _ _ _ _ _. (True, c),
     mysql_real_query = \<lambda>c q. (q \<noteq> ''bad'', c @ [q]), mysql_error = \<lambda>_. ''refused'',
     mysql_close = \<lambda>c. c \<rparr>"

text \<open>C11. The commands are sent in order and the first refusal is the last command sent: either the
  server accepts them all and no error is reported, or it accepts those before some command,
  refuses that one, and nothing after it is sent; the server's message is then the error.\<close>

theorem mysql_upload_outcome:
  assumes "\<not> has_error w" and "upload api cmds 0 (Some c, w) = (conn, w')"
  shows "\<exists>c'. conn = Some c' \<and>
     (accepts api c cmds c' \<and> w' = w
      \<or> (\<exists>before cmd after c1. cmds = before @ cmd # after \<and> accepts api c before c1
           \<and> mysql_real_query api c1 (query_text cmd) = (False, c')
           \<and> w' = set_error (mysql_error api c') w))"
  using upload_from [OF assms(1), of api "[]" cmds c conn w'] assms(2) by simp

theorem mysql_upload_outcome_witness:
  "upload log_api [''one'', ''bad'', ''two''] 0 (Some [], world_init)
     = (Some [''one'', ''bad''], set_error ''refused'' world_init)"
proof -
  obtain conn w' where run: "upload log_api [''one'', ''bad'', ''two''] 0 (Some [], world_init) = (conn, w')"
    by fastforce
  have queries: "upload log_api [''one'', ''bad'', ''two''] 0 (Some [], world_init)
      = (Some [''one'', ''bad''], set_error ''refused'' world_init)"
    by (simp add: upload.simps [of _ _ 0] upload.simps [of _ _ "Suc 0"] upload.simps [of _ _ "Suc (Suc 0)"]
        execute_def log_api_def query_text_def)
  from mysql_upload_outcome [OF has_error_init run] have "\<exists>c'. conn = Some c'" by blast
  with queries show ?thesis by blast
qed

text \<open>When the library cannot be initialised or the server refuses the connection, the error is
  reported and none of the commands is sent.\<close>

lemma mysql_no_connection:
  assumes "mysql_init api = None
    \<or> (\<exists>c. mysql_init api = Some c \<and> \<not> fst (mysql_real_connect api (mysql_options_reconnect api c)
         (host d) (user d) (pass d) (db d) (port d)))"
  shows "has_error (snd (connect api d w)) \<and> upload api cmds 0 (connect api d w) = connect api d w"
proof -
  have err: "has_error (snd (connect api d w))"
    using assms by (auto simp: connect_def Let_def split: prod.split)
  then show ?thesis
    by (cases "connect api d w") (simp add: upload_stop)
qed

lemma BuildTable_reflect:
  assumes "(t, rows) \<in> set (reflect S)"
  shows "mysql_BuildTable sys (t, rows) (d, w) = returns (push_commands (mysql_table_commands d t) d,
      store sys (mysql_path d t) (csv_rows True CHR '','' rows) w)"
    and "load_file CHR '','' (csv_rows True CHR '','' rows) = Some (map (map (cell_value True)) rows)"
  using mysql_BuildTable_returns [OF reflect_in_tables [OF assms] reflect_rows_nonempty [OF assms]]
    load_rows [OF sep_ok_comma reflect_rows_nonempty [OF assms], of True]
  by (simp_all add: mysql_step_def)

text \<open>C20. Building a table on a disk that takes its file pushes three commands and writes one file,
  and the third command, the load command, fits the file: it names one column (or, for a flag,
  one variable that its last clause turns into the column) per cell of a row, all of them
  distinct, and the file reads back, under the reading rules that the command states, as the
  values of the rows.\<close>

theorem mysql_load_fits_file:
  assumes "(t, rows) \<in> set (reflect S)" and "\<not> write_bad sys (tempdir d @ tbl_name t @ ''_values.txt'')"
  shows "\<exists>d' w' drop_cmd create_cmd infile columns file_text.
     mysql_BuildTable sys (t, rows) (d, w) = returns (d', w')
     \<and> UploadCommands d' = UploadCommands d @ [drop_cmd, create_cmd,
         ''load data local infile '' @ quoted infile @ '' into table '' @ tbl_name t
         @ '' fields terminated by '' @ quoted '','' @ '' optionally enclosed by '' @ quoted [dquote]
         @ '' lines terminated by '' @ quoted [backslash, CHR ''n'']
         @ '' ('' @ join_with '','' columns @ '') '' @ set_clause (tbl_members t) @ '';'']
     \<and> columns = map (\<lambda>m. if m_type m = T_bool then ''@tmp_'' @ m_name m else column_name m) (tbl_members t)
     \<and> distinct columns \<and> distinct (map column_name (tbl_members t))
     \<and> list_all (\<lambda>r. length r = length columns) rows
     \<and> files w' = files w @ [(tempdir d @ tbl_name t @ ''_values.txt'', file_text)]
     \<and> load_file CHR '','' file_text = Some (map (map (cell_value True)) rows)"
proof -
  note t = reflect_in_tables [OF assms(1)]
  have names: "map load_name (tbl_members t)
      = map (\<lambda>m. if m_type m = T_bool then ''@tmp_'' @ m_name m else column_name m) (tbl_members t)"
    by (simp add: load_name_def)
  have "distinct (map load_name (tbl_members t))" and "distinct (map column_name (tbl_members t))"
    using distinct_load_names distinct_columns t unfolding list_all_iff by blast+
  moreover have "list_all (\<lambda>r. length r = length (map load_name (tbl_members t))) rows"
    using reflect_fitsD [OF assms(1)] by (simp add: list_all_iff fits_length)
  moreover have "files (store sys (mysql_path d t) (csv_rows True CHR '','' rows) w)
      = files w @ [(tempdir d @ tbl_name t @ ''_values.txt'', csv_rows True CHR '','' rows)]"
    using assms(2) by (simp add: store_def mysql_path_def)
  ultimately show ?thesis
    using BuildTable_reflect(1) [OF assms(1), of sys d w] BuildTable_reflect(2) [OF assms(1)] unfolding names
    by (intro exI conjI) (auto simp: mysql_table_commands_def mysql_load_text_def end_clause_def load_columns_def names)
qed

definition sample_data :: mysql_data where
  "sample_data = \<lparr> UploadCommands = [], tempdir_escaped = [], tempdir = ''t'' @ [backslash], port = 3306, host = ''h'',
     user = ''u'', pass = [], db = ''d'', made_directories = [] \<rparr>"

lemma sample_table:
  "(table_Symbol, map row_Symbol (sd_Symbol sample_symbols)) \<in> set (reflect sample_symbols)"
  "tbl_name table_Symbol = ''symbols''" "\<not> write_bad sample_os path"
  by (simp_all add: reflect_def table_Symbol_def sample_os_def)

theorem mysql_load_fits_file_witness:
  "\<exists>d' w' file_text. mysql_BuildTable sample_os (table_Symbol, map row_Symbol (sd_Symbol sample_symbols)) (sample_data, world_init)
       = returns (d', w')
     \<and> files w' = [(''t'' @ [backslash] @ ''symbols_values.txt'', file_text)]
     \<and> load_file CHR '','' file_text = Some [map (cell_value True) (row_Symbol (hd (sd_Symbol sample_symbols)))]"
proof -
  let ?rows = "map row_Symbol (sd_Symbol sample_symbols)"
  from mysql_load_fits_file [OF sample_table(1,3), of sample_data world_init] obtain d' w' file_text
    where "mysql_BuildTable sample_os (table_Symbol, ?rows) (sample_data, world_init) = returns (d', w')"
    and "files w' = files world_init @ [(tempdir sample_data @ tbl_name table_Symbol @ ''_values.txt'', file_text)]"
    and "load_file CHR '','' file_text = Some (map (map (cell_value True)) ?rows)"
    by blast
  moreover have "map (map (cell_value True)) ?rows = [map (cell_value True) (row_Symbol (hd (sd_Symbol sample_symbols)))]"
    by (simp add: sample_symbols_def)
  moreover have "tempdir sample_data = ''t'' @ [backslash]" "files world_init = []"
    by (simp_all add: sample_data_def world_init_def)
  ultimately show ?thesis by (simp add: sample_table(2))
qed

text \<open>C18. The create command and the file of a table, built on a disk that takes the file, fit: the
  command declares one column per member, and every value that the file holds is admitted
  without loss by the declaration of its column, when the texts have at most 2047 characters.
  What a declaration admits is decided by its text alone (\<open>declaration_accepts\<close>).\<close>

theorem mysql_cells_fit_columns:
  assumes "(t, rows) \<in> set (reflect S)" and "list_all (list_all short_text) rows"
    and "\<not> write_bad sys (tempdir d @ tbl_name t @ ''_values.txt'')"
  shows "\<exists>d' w' decls keys drop_cmd load_cmd file_text recs.
     mysql_BuildTable sys (t, rows) (d, w) = returns (d', w')
     \<and> UploadCommands d' = UploadCommands d @ [drop_cmd,
         ''CREATE TABLE '' @ tbl_name t @ ''('' @ join_with '','' (map2 (\<lambda>m decl. '' '' @ column_name m @ decl
             @ (if is_enum (m_type m) then [] else comment_text (m_desc m))) (tbl_members t) decls @ keys)
         @ '') Engine=MyISAM COMMENT='' @ quoted (replace (tbl_desc t) [squote] [squote, squote]) @ '';'',
         load_cmd]
     \<and> files w' = files w @ [(tempdir d @ tbl_name t @ ''_values.txt'', file_text)]
     \<and> load_file CHR '','' file_text = Some recs \<and> length recs = length rows
     \<and> list_all (list_all2 declaration_accepts decls) recs"
proof -
  note t = reflect_in_tables [OF assms(1)]
  let ?decls = "map (\<lambda>m. column_type True (m_type m)) (tbl_members t)"
  have columns: "map (column_text True) ms = map2 (\<lambda>m decl. '' '' @ column_name m @ decl
      @ (if is_enum (m_type m) then [] else comment_text (m_desc m))) ms (map (\<lambda>m. column_type True (m_type m)) ms)" for ms
    by (induction ms) (simp_all add: column_text_def)
  have row: "list_all2 declaration_accepts ?decls (map (cell_value True) r)" if "r \<in> set rows" for r
  proof -
    from assms(2) that have "list_all short_text r" by (simp add: list_all_iff)
    from row_accepted [OF reflect_fitsD [OF assms(1) that] this] show ?thesis
      by (simp add: list_all2_map1 list_all2_map2 column_accepts_def)
  qed
  have "files (store sys (mysql_path d t) (csv_rows True CHR '','' rows) w)
      = files w @ [(tempdir d @ tbl_name t @ ''_values.txt'', csv_rows True CHR '','' rows)]"
    using assms(3) by (simp add: store_def mysql_path_def)
  with row show ?thesis
    using BuildTable_reflect(1) [OF assms(1), of sys d w] BuildTable_reflect(2) [OF assms(1)]
    by (intro exI [of _ "push_commands (mysql_table_commands d t) d"]
        exI [of _ "store sys (mysql_path d t) (csv_rows True CHR '','' rows) w"] exI [of _ ?decls]
        exI [of _ "map key_def (filter has_key (tbl_members t))"] exI [of _ "drop_text t"]
        exI [of _ "mysql_load_text d t"] exI [of _ "csv_rows True CHR '','' rows"]
        exI [of _ "map (map (cell_value True)) rows"])
      (simp add: mysql_table_commands_def mysql_create_text_def create_text_def create_columns_def columns list_all_iff)
qed

theorem mysql_cells_fit_columns_witness:
  "\<exists>d' w' file_text recs. mysql_BuildTable sample_os (table_Symbol, map row_Symbol (sd_Symbol sample_symbols)) (sample_data, world_init)
       = returns (d', w')
     \<and> files w' = [(''t'' @ [backslash] @ ''symbols_values.txt'', file_text)]
     \<and> load_file CHR '','' file_text = Some recs \<and> length recs = 1"
proof -
  let ?rows = "map row_Symbol (sd_Symbol sample_symbols)"
  have "list_all (list_all short_text) ?rows"
    by (simp add: sample_symbols_def row_Symbol_def short_text_def Symbol_default_def)
  from mysql_cells_fit_columns [OF sample_table(1) this sample_table(3), of sample_data world_init] obtain d' w' file_text recs
    where "mysql_BuildTable sample_os (table_Symbol, ?rows) (sample_data, world_init) = returns (d', w')"
    and "files w' = files world_init @ [(tempdir sample_data @ tbl_name table_Symbol @ ''_values.txt'', file_text)]"
    and "load_file CHR '','' file_text = Some recs" and "length recs = length ?rows"
    by blast
  moreover have "length ?rows = 1" by (simp add: sample_symbols_def)
  moreover have "tempdir sample_data = ''t'' @ [backslash]" "files world_init = []"
    by (simp_all add: sample_data_def world_init_def)
  ultimately show ?thesis by (simp add: sample_table(2))
qed

text \<open>The comments of every table and of every column, as quoted in the create command, are
  literals whose value is the description in the source, single quotes included.\<close>

lemma mysql_comments_read_back:
  "list_all (\<lambda>t. literal_value (replace (tbl_desc t) [squote] [squote, squote]) = Some (tbl_desc t)
     \<and> list_all (\<lambda>m. literal_value (replace (m_desc m) [squote] [squote, squote]) = Some (m_desc m))
         (tbl_members t)) tables"
  using no_backslash_table_desc no_backslash_member_desc
  unfolding list_all_iff by (metis literal_doubled_quotes)

text \<open>C37. The files go to the text of the temporary directory followed directly by their names, and
  nowhere else. In the load command of a table the path is a literal that stands for that
  directory, a backslash, and the file's name: the two agree only up to a doubled backslash,
  and a directory given without a final backslash is read at another place than it is written
  to.\<close>

theorem mysql_infile_path:
  assumes "OutputData_init sys argv S w = returns (d, w')" and "t \<in> set tables"
    and "squote \<notin> set (temp_directory sys argv)"
  shows "map fst (files w') = map fst (files w)
        @ filter (\<lambda>path. \<not> write_bad sys path) (map (\<lambda>t. temp_directory sys argv @ tbl_name t @ ''_values.txt'') tables)
    \<and> (\<exists>infile rest. (''load data local infile '' @ quoted infile @ '' into table '' @ tbl_name t @ rest) \<in> set (UploadCommands d)
        \<and> literal_value infile = Some (temp_directory sys argv @ [backslash] @ tbl_name t @ ''_values.txt''))"
proof -
  from OutputData_init_procedures [OF assms(1)] obtain css
    where cmds: "UploadCommands d = concat css @ concat (map (mysql_table_commands d) tables)"
    and w': "w' = store_all sys (mysql_files d S) w" and dir: "tempdir d = temp_directory sys argv"
    and esc: "tempdir_escaped d = replace (tempdir d) [backslash] [backslash, backslash] @ [backslash, backslash]"
    by blast
  have "mysql_load_text d t \<in> set (UploadCommands d)"
    using assms(2) by (auto simp: cmds mysql_table_commands_def)
  moreover have "literal_value (infile_text d t) = Some (temp_directory sys argv @ [backslash] @ tbl_name t @ ''_values.txt'')"
    using infile_value [OF _ esc assms(2)] assms(3) by (simp add: dir)
  moreover have "map fst (filter (\<lambda>(path, text). \<not> write_bad sys path) fs) = filter (\<lambda>path. \<not> write_bad sys path) (map fst fs)" for fs
    by (induction fs) auto
  moreover have "map fst (mysql_files d S) = map (\<lambda>t. temp_directory sys argv @ tbl_name t @ ''_values.txt'') tables"
    unfolding map_fst_reflect [of S, symmetric] by (simp add: mysql_files_def mysql_path_def dir case_prod_unfold)
  ultimately show ?thesis unfolding mysql_load_text_def w' store_all_eq map_append by metis
qed

theorem mysql_infile_path_witness:
  "\<exists>d w' infile rest. OutputData_init sample_os (sample_argv @ [''-tempdir=t'']) sample_symbols world_init = returns (d, w')
    \<and> ''t'' @ tbl_name table_Symbol @ ''_values.txt'' \<in> fst ` set (files w')
    \<and> (''load data local infile '' @ quoted infile @ '' into table '' @ tbl_name table_Symbol @ rest) \<in> set (UploadCommands d)
    \<and> literal_value infile = Some (''t'' @ [backslash] @ tbl_name table_Symbol @ ''_values.txt'')"
proof -
  obtain d w' where init: "OutputData_init sample_os (sample_argv @ [''-tempdir=t'']) sample_symbols world_init = returns (d, w')"
    using sample_init_tempdir by blast
  have dir: "temp_directory sample_os (sample_argv @ [''-tempdir=t'']) = ''t''"
    by (simp add: temp_directory_def sample_argv_def strncmp_eq_def)
  have disk: "\<not> write_bad sample_os path" for path by (simp add: sample_os_def)
  have t: "table_Symbol \<in> set tables" "tbl_name table_Symbol = ''symbols''"
    by (simp_all add: tables_def table_Symbol_def)
  have "squote \<notin> set (temp_directory sample_os (sample_argv @ [''-tempdir=t'']))" by (simp add: dir)
  note claim = mysql_infile_path [OF init t(1) this]
  have keep: "filter (\<lambda>path. \<not> write_bad sample_os path) xs = xs" for xs by (simp add: disk)
  from claim have "map fst (files w') = map fst (files world_init) @ map (\<lambda>t. ''t'' @ tbl_name t @ ''_values.txt'') tables"
    unfolding dir keep by blast
  then have "fst ` set (files w') = fst ` set (files world_init) \<union> (\<lambda>t. ''t'' @ tbl_name t @ ''_values.txt'') ` set tables"
    by (metis set_append set_map)
  with t(1) have written: "''t'' @ tbl_name table_Symbol @ ''_values.txt'' \<in> fst ` set (files w')" by blast
  from claim obtain infile rest
    where "(''load data local infile '' @ quoted infile @ '' into table '' @ tbl_name table_Symbol @ rest) \<in> set (UploadCommands d)"
    and "literal_value infile = Some (''t'' @ [backslash] @ tbl_name table_Symbol @ ''_values.txt'')"
    unfolding dir by blast
  with init written show ?thesis by blast
qed

text \<open>C31. A procedure file of pieces joined by separator lines becomes one command per piece. With
  at most one separator the commands are the pieces; a command that is neither the first nor
  the last runs on past its separator, by as many characters as stand before it.\<close>

theorem mysql_procedure_commands:
  assumes "ps \<noteq> []" and "\<forall>p \<in> set ps. piece p"
  shows "\<exists>cs. ParseProcedure (join_with separator_line ps) d = returns (push_commands cs d)
    \<and> length cs = length ps \<and> (length ps \<le> 2 \<longrightarrow> cs = ps)
    \<and> (\<forall>i < length ps. take (length (ps ! i)) (cs ! i) = ps ! i)"
proof -
  have "length ps \<le> 2 \<Longrightarrow> piece_commands 0 ps = ps"
    by (cases "(0 :: nat, ps)" rule: piece_commands.cases) (auto simp: piece_commands_first split: list.splits)
  then show ?thesis
    using ParseProcedure_pieces [OF assms, of d] length_piece_commands [of 0 ps] piece_commands_prefix [of _ ps 0]
    by blast
qed

theorem mysql_procedure_commands_witness:
  "\<forall>d. \<exists>cs. ParseProcedure (join_with separator_line [''drop a;'', ''create b;'']) d = returns (push_commands cs d)
     \<and> cs = [''drop a;'', ''create b;'']"
proof
  fix d
  show "\<exists>cs. ParseProcedure (join_with separator_line [''drop a;'', ''create b;'']) d = returns (push_commands cs d)
     \<and> cs = [''drop a;'', ''create b;'']"
    using mysql_procedure_commands [of "[''drop a;'', ''create b;'']" d] by (auto simp: piece_def)
qed

text \<open>With two separators the middle command is not the middle piece.\<close>

lemma mysql_procedure_overrun:
  "ParseProcedure (join_with separator_line [''drop a;'', ''create b;'', ''call c;'']) d
     = returns (push_commands
         [''drop a;'', ''create b;'' @ separator_line @ ''call c;'', ''call c;''] d)"
  by (subst ParseProcedure_pieces) (simp_all add: piece_def separator_line_def then_execute_def)

end
