(* ===== verification/ODBC_Output.thy ===== *)
theory ODBC_Output
  imports MySQL_Server
begin

text \<open>
  The engine of \<^verbatim>\<open>drpdb/src/ODBCOutput.cpp\<close>, marked incomplete by its own usage text: it writes
  the row files into the working directory, builds a drop and a create command per table and,
  given a connection string, sends them, ignoring what the statements answer. The driver
  manager is a parameter: the record \<open>odbc_api\<close> over the state \<open>'c\<close> of a connection.
\<close>

section \<open>The engine\<close>

record odbc_data =
  odbc_ConnectionString :: string
  odbc_UploadCommands :: "string list"
  odbc_TempDir :: string

record 'c odbc_api =
  driver_list :: "string list"
  odbc_handle :: 'c
  SQLDriverConnectA :: "'c \<Rightarrow> string \<Rightarrow> int \<times> 'c"
  SQLAllocHandle :: "'c \<Rightarrow> int \<times> 'c"
  SQLPrepareA :: "'c \<Rightarrow> string \<Rightarrow> u32 \<Rightarrow> int \<times> 'c"
  SQLExecute :: "'c \<Rightarrow> int \<times> 'c"
  SQLFreeHandle :: "'c \<Rightarrow> 'c"
  SQLDisconnect :: "'c \<Rightarrow> 'c"

definition listDrivers :: "'c odbc_api \<Rightarrow> world \<Rightarrow> world" where
  "listDrivers api w =
     foldl (\<lambda>w desc. print_text (''   '' @ desc @ crlf) w)
       (print_text (''Available ODBC drivers:'' @ crlf) w) (driver_list api)"

definition odbc_push :: "string \<Rightarrow> odbc_data \<Rightarrow> odbc_data" where
  "odbc_push c d = d\<lparr> odbc_UploadCommands := odbc_UploadCommands d @ [c] \<rparr>"

text \<open>\<open>LoadTable\<close> is never called by this engine.\<close>

definition odbc_LoadTable :: "string \<Rightarrow> string \<Rightarrow> odbc_data \<Rightarrow> odbc_data" where
  "odbc_LoadTable name EndClause d =
     odbc_push (''load data local infile '' @ [squote] @ name
       @ ''_values.txt'' @ [squote] @ '' into table '' @ name
       @ '' fields terminated by '' @ [squote] @ '','' @ [squote]
       @ '' optionally enclosed by '' @ [squote, dquote, squote]
       @ '' lines terminated by '' @ [squote, backslash] @ ''n'' @ [squote]
       @ EndClause @ '';'') d"

definition odbc_CreateTable ::
    "member list \<Rightarrow> string \<Rightarrow> odbc_data \<Rightarrow> (odbc_data \<times> string) run" where
  "odbc_CreateTable ms tablename d =
     (let d = odbc_push (''DROP TABLE IF EXISTS '' @ tablename @ '';'') d;
          Ar = create_writer False ms tablename
      in run_bind (drop_comma (s_Result Ar)) (\<lambda>res.
           let d = odbc_push (res @ '')'') d in
           run_bind (if s_UseBitType Ar
               then run_bind (pop_back (s_LoadClause Ar)) (\<lambda>l. returns (l @ '') ''))
               else returns (s_LoadClause Ar)) (\<lambda>load.
             returns (d, load @ s_SetClause Ar))))"

definition odbc_PopulateTable ::
    "os \<Rightarrow> odbc_data \<Rightarrow> cval list list \<Rightarrow> string \<Rightarrow> world \<Rightarrow> world run" where
  "odbc_PopulateTable sys d rows name w =
     (let Ar = writer_init (odbc_TempDir d @ name @ ''_values.txt'') False CHR '','' in
      run_bind (write_rows rows Ar) (\<lambda>Ar. returns (store sys (w_outPath Ar) (w_out Ar) w)))"

definition odbc_BuildTable ::
    "os \<Rightarrow> table \<times> cval list list \<Rightarrow> odbc_data \<times> world \<Rightarrow> (odbc_data \<times> world) run" where
  "odbc_BuildTable sys = (\<lambda>(t, rows) (d, w).
     run_bind (odbc_CreateTable (tbl_members t) (tbl_name t) d) (\<lambda>(d, EndClause).
       run_bind (odbc_PopulateTable sys d rows (tbl_name t) w) (\<lambda>w. returns (d, w))))"

text \<open>The body of the loop over the commands: one statement, whatever it answers.\<close>

definition send_command :: "'c odbc_api \<Rightarrow> 'c \<Rightarrow> string \<Rightarrow> 'c" where
  "send_command api c cmd =
     (case SQLAllocHandle api c of
        (r, c) \<Rightarrow>
          if SUCCEEDED r then
            (case SQLPrepareA api c cmd (of_nat (length cmd)) of
               (r, c) \<Rightarrow>
                 if SUCCEEDED r then SQLFreeHandle api (snd (SQLExecute api c)) else c)
          else c)"

definition Send :: "'c odbc_api \<Rightarrow> os \<Rightarrow> SymbolData \<Rightarrow> odbc_data \<Rightarrow> world \<Rightarrow> ('c \<times> world) run" where
  "Send api sys S d w =
     run_bind (run_fold (odbc_BuildTable sys) (reflect S) (d, w)) (\<lambda>(d, w).
       if 0 < length (odbc_ConnectionString d) then
         (case SQLDriverConnectA api (odbc_handle api) (odbc_ConnectionString d) of
            (r, c) \<Rightarrow>
              if SUCCEEDED r
              then returns (SQLDisconnect api (foldl (send_command api) c (odbc_UploadCommands d)), w)
              else returns (c, w))
       else returns (odbc_handle api, w))"

definition odbc_output ::
    "'c odbc_api \<Rightarrow> os \<Rightarrow> string list \<Rightarrow> SymbolData \<Rightarrow> world \<Rightarrow> ('c \<times> world) run" where
  "odbc_output api sys argv S w =
     (let d = \<lparr> odbc_ConnectionString = getOption argv ''-connect'', odbc_UploadCommands = [],
                odbc_TempDir = [] \<rparr> in
      if getFlag argv ''-drivers'' then Some (Inl (Exit 0 (console (listDrivers api w)) (files (listDrivers api w))))
      else Send api sys S d w)"

section \<open>What it builds\<close>

definition odbc_table_commands :: "table \<Rightarrow> string list" where
  "odbc_table_commands t = [drop_text t, create_text False t @ '')'']"

definition odbc_path :: "odbc_data \<Rightarrow> table \<Rightarrow> string" where
  "odbc_path d t = odbc_TempDir d @ tbl_name t @ ''_values.txt''"

definition odbc_push_all :: "string list \<Rightarrow> odbc_data \<Rightarrow> odbc_data" where
  "odbc_push_all cs d = d\<lparr> odbc_UploadCommands := odbc_UploadCommands d @ cs \<rparr>"

lemma odbc_push_all_simps [simp]:
  "odbc_push_all [] d = d"
  "odbc_push_all cs (odbc_push_all bs d) = odbc_push_all (bs @ cs) d"
  "odbc_UploadCommands (odbc_push_all cs d) = odbc_UploadCommands d @ cs"
  "odbc_TempDir (odbc_push_all cs d) = odbc_TempDir d"
  "odbc_ConnectionString (odbc_push_all cs d) = odbc_ConnectionString d"
  "odbc_path (odbc_push_all cs d) = odbc_path d"
  by (simp_all add: odbc_push_all_def odbc_path_def fun_eq_iff)

lemma odbc_push_single: "odbc_push c d = odbc_push_all [c] d"
  by (simp add: odbc_push_def odbc_push_all_def)

lemma create_writer_bit [simp]: "s_UseBitType (create_writer ubt ms n) = ubt"
  by (simp add: create_writer_def Let_def out_simps schema_writer_init_def)

lemma odbc_CreateTable_returns:
  assumes "tbl_members t \<noteq> []"
  shows "odbc_CreateTable (tbl_members t) (tbl_name t) d = returns (odbc_push_all (odbc_table_commands t) d, [])"
  by (simp add: odbc_CreateTable_def Let_def create_writer_result [OF assms] create_writer_rest
      odbc_table_commands_def drop_text_def odbc_push_single)

definition odbc_step ::
    "os \<Rightarrow> table \<times> cval list list \<Rightarrow> odbc_data \<times> world \<Rightarrow> odbc_data \<times> world" where
  "odbc_step sys = (\<lambda>(t, rows) (d, w).
     (odbc_push_all (odbc_table_commands t) d,
      store sys (odbc_path d t) (csv_rows False CHR '','' rows) w))"

lemma odbc_BuildTable_returns:
  assumes "t \<in> set tables" and "\<forall>r \<in> set rows. r \<noteq> []"
  shows "odbc_BuildTable sys (t, rows) (d, w) = returns (odbc_step sys (t, rows) (d, w))"
  using members_nonempty [OF assms(1)]
  by (simp add: odbc_BuildTable_def odbc_CreateTable_returns odbc_PopulateTable_def
      write_rows_returns [OF assms(2)] writer_init_def odbc_step_def odbc_path_def)

lemma odbc_tables_returns:
  "run_fold (odbc_BuildTable sys) (reflect S) (d, w) = returns (fold (odbc_step sys) (reflect S) (d, w))"
proof (rule run_fold_total)
  fix x and s :: "odbc_data \<times> world"
  assume "x \<in> set (reflect S)"
  moreover obtain t rows where x: "x = (t, rows)" by (cases x)
  moreover obtain d w where s: "s = (d, w)" by (cases s)
  ultimately have "(t, rows) \<in> set (reflect S)" by simp
  then show "odbc_BuildTable sys x s = returns (odbc_step sys x s)"
    unfolding x s by (intro odbc_BuildTable_returns reflect_in_tables reflect_rows_nonempty)
qed

definition odbc_files :: "odbc_data \<Rightarrow> SymbolData \<Rightarrow> (string \<times> string) list" where
  "odbc_files d S = map (\<lambda>(t, rows). (odbc_path d t, csv_rows False CHR '','' rows)) (reflect S)"

lemma fold_odbc_step:
  "fold (odbc_step sys) ts (d, w) =
     (odbc_push_all (concat (map (\<lambda>(t, rows). odbc_table_commands t) ts)) d,
      fold (\<lambda>(t, rows). store sys (odbc_path d t) (csv_rows False CHR '','' rows)) ts w)"
  by (induction ts arbitrary: d w) (auto simp: odbc_step_def)

lemma odbc_tables_result:
  "fold (odbc_step sys) (reflect S) (d, w) =
     (odbc_push_all (concat (map odbc_table_commands tables)) d, store_all sys (odbc_files d S) w)"
proof -
  have "map (\<lambda>(t, rows). odbc_table_commands t) (reflect S) = map odbc_table_commands tables"
    unfolding map_fst_reflect [of S, symmetric] by simp (auto simp: split_beta)
  then show ?thesis
    by (simp add: fold_odbc_step store_all_def odbc_files_def fold_map comp_def case_prod_unfold)
qed

section \<open>Properties\<close>

text \<open>C35. Without \<^verbatim>\<open>-drivers\<close> the ODBC engine always comes to its end. It has then written one file
  per table with the rows of that table, flags as words, and, exactly when a connection
  string is given and the driver takes it, it has sent a drop and a create command for every
  table in the order of the tables, whatever each of them answered.\<close>

theorem odbc_engine:
  assumes "\<not> getFlag argv ''-drivers''"
  shows "\<exists>c w'. odbc_output api sys argv S w = returns (c, w')
    \<and> files w' = files w @ filter (\<lambda>(path, text). \<not> write_bad sys path)
        (map (\<lambda>(t, rows). (tbl_name t @ ''_values.txt'', csv_rows False CHR '','' rows)) (reflect S))
    \<and> gErr w' = gErr w
    \<and> (getOption argv ''-connect'' = [] \<longrightarrow> c = odbc_handle api)
    \<and> (\<forall>r c0. getOption argv ''-connect'' \<noteq> []
        \<and> SQLDriverConnectA api (odbc_handle api) (getOption argv ''-connect'') = (r, c0) \<longrightarrow>
        c = (if SUCCEEDED r
             then SQLDisconnect api (foldl (send_command api) c0 (concat (map odbc_table_commands tables)))
             else c0))"
  using assms
  by (cases "SQLDriverConnectA api (odbc_handle api) (getOption argv ''-connect'')")
    (simp add: odbc_output_def Send_def Let_def odbc_tables_returns odbc_tables_result store_all_eq
      odbc_files_def odbc_path_def)

definition log_odbc :: "(string list) odbc_api" where
  "log_odbc = \<lparr> driver_list = [], odbc_handle = [], SQLDriverConnectA = \<lambda>c s. (0, c @ [s]),
     SQLAllocHandle = \<lambda>c. (0, c), SQLPrepareA = \<lambda>c s _. (0, c @ [s]), SQLExecute = \<lambda>c. (-1, c),
     SQLFreeHandle = \<lambda>c. c, SQLDisconnect = \<lambda>c. c \<rparr>"

lemma log_odbc_send: "foldl (send_command log_odbc) c cs = c @ cs"
  by (induction cs arbitrary: c) (simp_all add: send_command_def log_odbc_def SUCCEEDED_def)

theorem odbc_engine_witness:
  "\<exists>c w'. odbc_output log_odbc sample_os [''drpdb'', ''-connect=DSN''] sample_symbols world_init = returns (c, w')
     \<and> c = ''DSN'' # concat (map odbc_table_commands tables)"
proof -
  have opts: "\<not> getFlag [''drpdb'', ''-connect=DSN''] ''-drivers''"
    "getOption [''drpdb'', ''-connect=DSN''] ''-connect'' = ''DSN''"
    by (simp_all add: getFlag_iff strncmp_eq_def)
  obtain c w' where run: "odbc_output log_odbc sample_os [''drpdb'', ''-connect=DSN''] sample_symbols world_init = returns (c, w')"
    and "\<forall>r c0. ''DSN'' \<noteq> [] \<and> SQLDriverConnectA log_odbc (odbc_handle log_odbc) ''DSN'' = (r, c0) \<longrightarrow>
        c = (if SUCCEEDED r
             then SQLDisconnect log_odbc (foldl (send_command log_odbc) c0 (concat (map odbc_table_commands tables)))
             else c0)"
    using odbc_engine [OF opts(1), of log_odbc sample_os sample_symbols world_init] unfolding opts(2) by blast
  moreover have "SQLDriverConnectA log_odbc (odbc_handle log_odbc) ''DSN'' = (0, [''DSN''])"
    "SQLDisconnect log_odbc c = c" for c
    by (simp_all add: log_odbc_def)
  ultimately show ?thesis by (simp add: log_odbc_send SUCCEEDED_def)
qed

end
