(* ===== verification/DIA_Object.thy ===== *)
theory DIA_Object
  imports Wide_Text Sym_Records
begin

text \<open>
  The debug interface (DIA) as the reader sees it. A COM object is what its methods answer:
  \<open>dia\<close> holds, by method name, the result code and the value that an out-parameter receives,
  \<open>None\<close> when the call leaves it alone. So a getter \<open>x->get_f(&V)\<close> is \<open>V = get x ''get_f'' V\<close>: the
  old value of \<open>V\<close> stays when nothing is written. \<open>DWORD\<close>, \<open>BOOL\<close> and \<open>LONG\<close> out-parameters
  are all 32-bit words; a null \<open>BSTR\<close> and a null object pointer are \<open>None\<close>.

  Locals that the code declares without a value, and the memory in which a row is
  constructed, hold whatever they hold: the record \<open>junk\<close>.
\<close>

section \<open>Objects\<close>

type_synonym guid = "u8 list"

text \<open>A finite float is \<open>Some (m, e)\<close>, with the value \<open>m * 2 ^ e\<close>; \<open>None\<close> is not a number or infinite.\<close>

type_synonym float_value = "(int \<times> int) option"

datatype variant =
    VT_I8 u64
  | VT_I4 u32
  | VT_R4 float_value
  | VT_R8 float_value
  | VT_BSTR "wstring option"
  | VT_OTHER nat

datatype dia = Dia
  (dword: "string \<Rightarrow> hresult \<times> u32 option")
  (qword: "string \<Rightarrow> hresult \<times> u64 option")
  (bstr: "string \<Rightarrow> hresult \<times> wstring option")
  (variant_of: "string \<Rightarrow> variant")
  (guid_of: "hresult \<times> guid option")
  (related: "string \<Rightarrow> hresult \<times> dia option")
  (source_bytes: "u32 option \<times> u8 list")
  (compilands: "hresult \<times> (nat \<Rightarrow> hresult \<times> dia list) option")

definition hr :: "dia \<Rightarrow> string \<Rightarrow> hresult" where
  "hr x m = fst (dword x m)"

definition get :: "dia \<Rightarrow> string \<Rightarrow> u32 \<Rightarrow> u32" where
  "get x m V = (case snd (dword x m) of None \<Rightarrow> V | Some v \<Rightarrow> v)"

definition getQ :: "dia \<Rightarrow> string \<Rightarrow> u64 \<Rightarrow> u64" where
  "getQ x m V = (case snd (qword x m) of None \<Rightarrow> V | Some v \<Rightarrow> v)"

text \<open>The value a method always has, for objects whose methods all answer.\<close>

definition val :: "dia \<Rightarrow> string \<Rightarrow> u32" where
  "val x m = the (snd (dword x m))"

definition complete :: "dia \<Rightarrow> bool" where
  "complete x = ((\<forall>m. snd (dword x m) \<noteq> None) \<and> (\<forall>m. snd (qword x m) \<noteq> None))"

lemma get_complete: "complete x \<Longrightarrow> get x m V = val x m"
  unfolding complete_def get_def val_def by (metis option.case_eq_if)

lemma getQ_complete: "complete x \<Longrightarrow> getQ x m V = the (snd (qword x m))"
  unfolding complete_def getQ_def by (metis option.case_eq_if)

section \<open>What the readers rely on\<close>

record env =
  no_addresses :: bool
  StringFromCLSID :: "guid \<Rightarrow> wstring"
  VariantChangeType_I8 :: "variant \<Rightarrow> variant"
  findSymbolByRVA :: "u32 \<Rightarrow> hresult \<times> dia option"

record junk =
  junk_D :: u32
  junk_B :: u32
  junk_L :: u32
  junk_LL :: u64
  junk_guid :: guid
  junk_buf :: "nat \<Rightarrow> u8"
  raw_InputAssembly :: Sym_InputAssembly
  raw_SectionContrib :: Sym_SectionContrib
  raw_Frame :: Sym_Frame
  raw_Segment :: Sym_Segment
  raw_Symbol :: Sym_Symbol
  raw_Inlined :: Sym_Inlined
  raw_PublicSymbol :: Sym_PublicSymbol
  raw_Compiland :: Sym_Compiland
  raw_CompilandEnv :: Sym_CompilandEnv
  raw_Exe :: Sym_Exe
  raw_Block :: Sym_Block
  raw_FunctionArg :: Sym_FunctionArg
  raw_HeapAllocation :: Sym_HeapAllocation
  raw_Thunk :: Sym_Thunk
  raw_Data :: Sym_Data
  raw_Label :: Sym_Label
  raw_Function :: Sym_Function
  raw_VTablePtr :: Sym_VTablePtr
  raw_Friend :: Sym_Friend
  raw_Export :: Sym_Export
  raw_BuiltinType :: Sym_BuiltinType
  raw_UserType :: Sym_UserType
  raw_InjectedSource :: Sym_InjectedSource
  raw_Enum :: Sym_Enum
  raw_SourceFile :: Sym_SourceFile
  raw_Pointer :: Sym_Pointer
  raw_FunctionType :: Sym_FunctionType
  raw_Callsite :: Sym_Callsite
  raw_BaseClass :: Sym_BaseClass
  raw_Typedef :: Sym_Typedef
  raw_Array :: Sym_Array
  raw_SrcRange :: Sym_SrcRange

text \<open>\<open>address_info::init\<close>: the relative virtual address, unless addresses are switched off.\<close>

definition address_info_init :: "env \<Rightarrow> dia \<Rightarrow> address_info" where
  "address_info_init env s =
     (let D = 0;
          D = (if no_addresses env = False then get s ''get_relativeVirtualAddress'' D else D)
      in \<lparr> address_rv = D \<rparr>)"

text \<open>The conversion of a float to a 64-bit integer, undefined outside the integer's range.\<close>

definition truncated :: "int \<Rightarrow> int \<Rightarrow> int" where
  "truncated m e = sgn m * (if 0 \<le> e then \<bar>m\<bar> * 2 ^ nat e else \<bar>m\<bar> div 2 ^ nat (- e))"

definition float_to_int64 :: "float_value \<Rightarrow> u64 result" where
  "float_to_int64 f =
     (case f of
        None \<Rightarrow> Inl (Undefined_Behaviour ''float to integer'')
      | Some (m, e) \<Rightarrow>
          let t = truncated m e in
          if - (2 ^ 63) \<le> t \<and> t < 2 ^ 63 then Inr (of_int t)
          else Inl (Undefined_Behaviour ''float to integer''))"

end
