(* ===== verification/DIA_Ctors.thy ===== *)
theory DIA_Ctors
  imports DIA_Object
begin

text \<open>
  The row constructors of \<^verbatim>\<open>drpdb/src/DIA2Input.cpp\<close>, in the file's order. Each is the C++
  body statement by statement: \<open>D\<close>, \<open>B\<close>, \<open>L\<close> and \<open>LL\<close> are the locals that the getters write,
  \<open>this\<close> is the row, which starts as the memory \<open>raw_X \<sigma>\<close> it is constructed in (its
  \<open>std::string\<close> members are empty by then). A constructor that can run into undefined
  behaviour gives a \<open>result\<close>.
\<close>

section \<open>Constructors\<close>

text \<open>\<open>enum UdtKind\<close> of the interface.\<close>

definition UdtStruct :: u32 where "UdtStruct = 0"
definition UdtClass :: u32 where "UdtClass = 1"
definition UdtUnion :: u32 where "UdtUnion = 2"
definition UdtInterface :: u32 where "UdtInterface = 3"

text \<open>A buffer of bytes read as a C string.\<close>

definition c_string :: "u8 list \<Rightarrow> string" where
  "c_string buf = map (\<lambda>b. char_of (unat b)) (takeWhile (\<lambda>b. b \<noteq> 0) buf)"

text \<open>
  A getter of the object that another method hands out, called without a check that there is one.
\<close>

definition from_related :: "dia \<Rightarrow> string \<Rightarrow> string \<Rightarrow> u32 \<Rightarrow> u32 result" where
  "from_related x method getter V =
     (case related x method of
        (h, y) \<Rightarrow>
          if h = S_OK then
            (case y of
               None \<Rightarrow> Inl (Undefined_Behaviour method)
             | Some y \<Rightarrow> Inr (get y getter V))
          else Inr V)"

definition BaseClass_ctor ::
    "env \<Rightarrow> junk \<Rightarrow> dia \<Rightarrow> Sym_BaseClass" where
  "BaseClass_ctor env \<sigma> dia =
     (let this = raw_BaseClass \<sigma>; D = junk_D \<sigma>; B = junk_B \<sigma>;
          Offset = junk_L \<sigma>; this = this\<lparr> BaseClass_access := 0 \<rparr>;
          D = get dia ''get_access'' D;
          this = this\<lparr> BaseClass_access := (if hr dia ''get_access'' = S_OK then ucast D else BaseClass_access this) \<rparr>;
          Offset = get dia ''get_offset'' Offset;
          this = this\<lparr> BaseClass_offset := Offset \<rparr>;
          D = get dia ''get_classParentId'' D;
          this = this\<lparr> BaseClass_child_symbol := D \<rparr>;
          B = get dia ''get_virtualBaseClass'' B;
          this = this\<lparr> BaseClass_virtual := (B \<noteq> 0) \<rparr>;
          D = get dia ''get_typeId'' D; this = this\<lparr> BaseClass_parent_symbol := D \<rparr>;
          D = get dia ''get_virtualBaseDispIndex'' D;
          this = this\<lparr> BaseClass_vdisp_index := D \<rparr>;
          D = get dia ''get_virtualBaseOffset'' D;
          this = this\<lparr> BaseClass_vbase_offset := D \<rparr>; B = 0;
          B = get dia ''get_indirectVirtualBaseClass'' B;
          this = this\<lparr> BaseClass_indirect_virtual := (B \<noteq> 0) \<rparr>; D = 0;
          this = this\<lparr> BaseClass_vbase_type_symbol := 0 \<rparr>;
          vbase_type = (case related dia ''get_virtualBaseTableType'' of
               (h, None) \<Rightarrow> BaseClass_vbase_type_symbol this
             | (h, Some vbase) \<Rightarrow>
                 if h = S_OK \<and> hr vbase ''get_symIndexId'' = S_OK then get vbase ''get_symIndexId'' D
                 else BaseClass_vbase_type_symbol this);
          this = this\<lparr> BaseClass_vbase_type_symbol := vbase_type \<rparr>
      in this)"

definition Array_ctor ::
    "env \<Rightarrow> junk \<Rightarrow> dia \<Rightarrow> u32 \<Rightarrow> Sym_Array" where
  "Array_ctor env \<sigma> dia symIndexId =
     (let this = raw_Array \<sigma>; this = this\<lparr> Array_symbol := symIndexId \<rparr>;
          D = junk_D \<sigma>; D = get dia ''get_arrayIndexTypeId'' D;
          this = this\<lparr> Array_index_type_symbol := D \<rparr>;
          D = get dia ''get_count'' D; this = this\<lparr> Array_count := D \<rparr>;
          D = get dia ''get_rank'' D; this = this\<lparr> Array_rank := D \<rparr>;
          D = get dia ''get_typeId'' D; this = this\<lparr> Array_type_symbol := D \<rparr>
      in this)"

definition SectionContrib_ctor ::
    "env \<Rightarrow> junk \<Rightarrow> dia \<Rightarrow> Sym_SectionContrib" where
  "SectionContrib_ctor env \<sigma> dia =
     (let this = raw_SectionContrib \<sigma>; B = (0 :: u32); D = (0 :: u32);
          this = this\<lparr> SectionContrib_address := address_info_init env dia \<rparr>;
          B = get dia ''get_code'' B;
          this = this\<lparr> SectionContrib_code := (B \<noteq> 0) \<rparr>;
          B = get dia ''get_code16bit'' B;
          this = this\<lparr> SectionContrib_code_16bit := (B \<noteq> 0) \<rparr>;
          B = get dia ''get_comdat'' B;
          this = this\<lparr> SectionContrib_comdat := (B \<noteq> 0) \<rparr>;
          D = get dia ''get_compilandId'' D;
          this = this\<lparr> SectionContrib_compiland_symbol := D \<rparr>;
          D = get dia ''get_dataCrc'' D; this = this\<lparr> SectionContrib_data_crc := D \<rparr>;
          B = get dia ''get_discardable'' B;
          this = this\<lparr> SectionContrib_discardable := (B \<noteq> 0) \<rparr>;
          B = get dia ''get_execute'' B;
          this = this\<lparr> SectionContrib_executable := (B \<noteq> 0) \<rparr>;
          B = get dia ''get_initializedData'' B;
          this = this\<lparr> SectionContrib_initialized_data := (B \<noteq> 0) \<rparr>;
          D = get dia ''get_length'' D;
          this = this\<lparr> SectionContrib_length := of_bool (D \<noteq> 0) \<rparr>;
          B = get dia ''get_notCached'' B;
          this = this\<lparr> SectionContrib_cached := (B = 0) \<rparr>;
          B = get dia ''get_notPaged'' B;
          this = this\<lparr> SectionContrib_paged := (B = 0) \<rparr>;
          B = get dia ''get_read'' B;
          this = this\<lparr> SectionContrib_readable := (B \<noteq> 0) \<rparr>;
          D = get dia ''get_relocationsCrc'' D;
          this = this\<lparr> SectionContrib_relocations_crc := D \<rparr>;
          B = get dia ''get_remove'' B;
          this = this\<lparr> SectionContrib_remove := (B \<noteq> 0) \<rparr>;
          B = get dia ''get_share'' B;
          this = this\<lparr> SectionContrib_share := (B \<noteq> 0) \<rparr>;
          B = get dia ''get_uninitializedData'' B;
          this = this\<lparr> SectionContrib_uninitialized_data := (B \<noteq> 0) \<rparr>;
          B = get dia ''get_write'' B;
          this = this\<lparr> SectionContrib_writeable := (B \<noteq> 0) \<rparr>
      in this)"

definition Block_ctor ::
    "env \<Rightarrow> junk \<Rightarrow> dia \<Rightarrow> u32 \<Rightarrow> Sym_Block" where
  "Block_ctor env \<sigma> dia symIndexId =
     (let this = raw_Block \<sigma>; this = this\<lparr> Block_symbol := symIndexId \<rparr>;
          this = this\<lparr> Block_address := address_info_init env dia \<rparr>
      in this)"

definition HeapAllocation_ctor ::
    "env \<Rightarrow> junk \<Rightarrow> dia \<Rightarrow> u32 \<Rightarrow> Sym_HeapAllocation" where
  "HeapAllocation_ctor env \<sigma> dia symIndexId =
     (let this = raw_HeapAllocation \<sigma>;
          this = this\<lparr> HeapAllocation_symbol := symIndexId \<rparr>;
          this = this\<lparr> HeapAllocation_address := address_info_init env dia \<rparr>;
          D = (0 :: u32); D = get dia ''get_typeId'' D;
          this = this\<lparr> HeapAllocation_type_symbol := D \<rparr>
      in this)"

definition Segment_ctor ::
    "env \<Rightarrow> junk \<Rightarrow> dia \<Rightarrow> Sym_Segment" where
  "Segment_ctor env \<sigma> dia =
     (let this = raw_Segment \<sigma>; B = (0 :: u32); D = (0 :: u32); LL = (0 :: u64);
          D = get dia ''get_addressSection'' D;
          this = this\<lparr> Segment_address_section := D \<rparr>;
          D = get dia ''get_relativeVirtualAddress'' D;
          this = this\<lparr> Segment_address_rv := D \<rparr>;
          D = get dia ''get_frame'' D; this = this\<lparr> Segment_frame := D \<rparr>;
          D = get dia ''get_length'' D; this = this\<lparr> Segment_length := D \<rparr>;
          D = get dia ''get_offset'' D; this = this\<lparr> Segment_offset := D \<rparr>;
          B = get dia ''get_read'' B;
          this = this\<lparr> Segment_readable := (B \<noteq> 0) \<rparr>;
          B = get dia ''get_write'' B;
          this = this\<lparr> Segment_writable := (B \<noteq> 0) \<rparr>;
          B = get dia ''get_execute'' B;
          this = this\<lparr> Segment_executable := (B \<noteq> 0) \<rparr>
      in this)"

definition Inlined_ctor ::
    "env \<Rightarrow> junk \<Rightarrow> dia \<Rightarrow> u32 \<Rightarrow> Sym_Inlined" where
  "Inlined_ctor env \<sigma> dia symIndexId =
     (let this = raw_Inlined \<sigma>; this = this\<lparr> Inlined_symbol := symIndexId \<rparr>;
          this = this\<lparr> Inlined_address := address_info_init env dia \<rparr>;
          D = (0 :: u32); D = get dia ''get_PGOEdgeCount'' D;
          this = this\<lparr> Inlined_pgo_edges := D \<rparr>; D = 0;
          D = get dia ''get_typeId'' D; this = this\<lparr> Inlined_type_symbol := D \<rparr>
      in this)"

definition Export_ctor ::
    "env \<Rightarrow> junk \<Rightarrow> dia \<Rightarrow> u32 \<Rightarrow> Sym_Export" where
  "Export_ctor env \<sigma> dia symIndexId =
     (let this = raw_Export \<sigma>; this = this\<lparr> Export_symbol := symIndexId \<rparr>;
          D = (0 :: u32); D = get dia ''get_relativeVirtualAddress'' D;
          this = this\<lparr> Export_address_offset := D \<rparr>;
          D = get dia ''get_rank'' D; this = this\<lparr> Export_rank := D \<rparr>;
          D = get dia ''get_ordinal'' D; this = this\<lparr> Export_ordinal := D \<rparr>;
          B = (0 :: u32); B = get dia ''get_constantExport'' B;
          this = this\<lparr> Export_const_export := (B \<noteq> 0) \<rparr>;
          B = get dia ''get_dataExport'' B;
          this = this\<lparr> Export_data_export := (B \<noteq> 0) \<rparr>;
          B = get dia ''get_privateExport'' B;
          this = this\<lparr> Export_private_export := (B \<noteq> 0) \<rparr>;
          B = get dia ''get_noNameExport'' B;
          this = this\<lparr> Export_noname := (B \<noteq> 0) \<rparr>;
          B = get dia ''get_exportHasExplicitlyAssignedOrdinal'' B;
          this = this\<lparr> Export_explicit_ordinal := (B \<noteq> 0) \<rparr>;
          B = get dia ''get_exportIsForwarder'' B;
          this = this\<lparr> Export_forwarder := (B \<noteq> 0) \<rparr>;
          B = get dia ''get_function'' B;
          this = this\<lparr> Export_function := (B \<noteq> 0) \<rparr>;
          B = get dia ''get_constType'' B;
          this = this\<lparr> Export_const := (B \<noteq> 0) \<rparr>
      in this)"

definition Typedef_ctor ::
    "env \<Rightarrow> junk \<Rightarrow> dia \<Rightarrow> u32 \<Rightarrow> Sym_Typedef" where
  "Typedef_ctor env \<sigma> dia symIndexId =
     (let this = raw_Typedef \<sigma>; this = this\<lparr> Typedef_symbol := symIndexId \<rparr>;
          D = junk_D \<sigma>; D = get dia ''get_typeId'' D;
          this = this\<lparr> Typedef_type_symbol := D \<rparr>;
          D = get dia ''get_unmodifiedTypeId'' D;
          this = this\<lparr> Typedef_unmodified_type_symbol := D \<rparr>
      in this)"

definition PublicSymbol_ctor ::
    "env \<Rightarrow> junk \<Rightarrow> dia \<Rightarrow> u32 \<Rightarrow> Sym_PublicSymbol" where
  "PublicSymbol_ctor env \<sigma> dia symIndexId =
     (let this = raw_PublicSymbol \<sigma>;
          this = this\<lparr> PublicSymbol_symbol := symIndexId \<rparr>;
          this = this\<lparr> PublicSymbol_address := address_info_init env dia \<rparr>; B = 0;
          T = PublicType_FUNCTION; B = get dia ''get_function'' B;
          (T, B) = (if B = 0
             then (let T = PublicType_OTHER;
                       B = get dia ''get_dataExport'' B
                   in (if B \<noteq> 0 then PublicType_DATA else T, B))
             else (T, B));
          B = get dia ''get_managed'' B;
          this = this\<lparr> PublicSymbol_managed := (B \<noteq> 0) \<rparr>;
          B = get dia ''get_msil'' B;
          this = this\<lparr> PublicSymbol_cil := (B \<noteq> 0) \<rparr>;
          this = this\<lparr> PublicSymbol_type := T \<rparr>
      in this)"

definition FunctionArg_ctor ::
    "env \<Rightarrow> junk \<Rightarrow> dia \<Rightarrow> u32 \<Rightarrow> Sym_FunctionArg" where
  "FunctionArg_ctor env \<sigma> dia symIndexId =
     (let this = raw_FunctionArg \<sigma>;
          this = this\<lparr> FunctionArg_symbol := symIndexId \<rparr>; D = (0 :: u32);
          D = get dia ''get_typeId'' D; this = this\<lparr> FunctionArg_type_symbol := D \<rparr>
      in this)"

definition Exe_ctor ::
    "env \<Rightarrow> junk \<Rightarrow> dia \<Rightarrow> Sym_Exe" where
  "Exe_ctor env \<sigma> dia =
     (let this = (raw_Exe \<sigma>)\<lparr> Exe_guid := [], Exe_symbols_path := [] \<rparr>;
          this = this\<lparr> Exe_ctypes := False \<rparr>;
          this = this\<lparr> Exe_architecture := 0 \<rparr>; D = junk_D \<sigma>;
          G = (case snd (guid_of dia) of None \<Rightarrow> junk_guid \<sigma> | Some g \<Rightarrow> g);
          this = this\<lparr> Exe_guid := wstrcvt (Some (StringFromCLSID env G)) \<rparr>;
          D = get dia ''get_symIndexId'' D; this = this\<lparr> Exe_symbol := D \<rparr>;
          D = get dia ''get_signature'' D; this = this\<lparr> Exe_signature := D \<rparr>;
          D = get dia ''get_age'' D; this = this\<lparr> Exe_age := D \<rparr>;
          this = this\<lparr> Exe_symbols_path := (if SUCCEEDED (fst (bstr dia ''get_symbolsFileName''))
             then wstrcvt (snd (bstr dia ''get_symbolsFileName'')) else Exe_symbols_path this) \<rparr>;
          B = (0 :: u32); B = get dia ''get_isCTypes'' B;
          this = this\<lparr> Exe_ctypes := (B \<noteq> 0) \<rparr>;
          B = get dia ''get_isStripped'' B;
          this = this\<lparr> Exe_stripped := (B \<noteq> 0) \<rparr>; D = 0;
          D = get dia ''get_machineType'' D; this = this\<lparr> Exe_architecture := D \<rparr>
      in this)"

definition Function_ctor ::
    "env \<Rightarrow> junk \<Rightarrow> dia \<Rightarrow> u32 \<Rightarrow> Sym_Function" where
  "Function_ctor env \<sigma> dia symIndexId =
     (let this = raw_Function \<sigma>;
          this = this\<lparr> Function_virtuality := Virtuality_NONE \<rparr>; D = junk_D \<sigma>;
          B = junk_B \<sigma>; LL = junk_LL \<sigma>;
          this = this\<lparr> Function_symbol := symIndexId \<rparr>; B = 0;
          B = get dia ''get_hasAlloca'' B;
          this = this\<lparr> Function_alloca := (B \<noteq> 0) \<rparr>; B = 0;
          B = get dia ''get_isSafeBuffers'' B;
          this = this\<lparr> Function_safebuffers := (B \<noteq> 0) \<rparr>; B = 0;
          B = get dia ''get_isPGO'' B; this = this\<lparr> Function_pgo := (B \<noteq> 0) \<rparr>;
          B = 0; B = get dia ''get_compilerGenerated'' B;
          this = this\<lparr> Function_compiler_generated := (B \<noteq> 0) \<rparr>;
          B = get dia ''get_hasValidPGOCounts'' B;
          this = this\<lparr> Function_has_pgo_counts := (B \<noteq> 0) \<rparr>;
          B = get dia ''get_isOptimizedForSpeed'' B;
          this = this\<lparr> Function_optimized_for_speed := (B \<noteq> 0) \<rparr>;
          D = get dia ''get_PGOEntryCount'' D;
          this = this\<lparr> Function_pgo_entry_count := D \<rparr>;
          LL = getQ dia ''get_PGODynamicInstructionCount'' LL;
          this = this\<lparr> Function_pgo_dyn_instr_count := LL \<rparr>;
          D = get dia ''get_staticSize'' D; this = this\<lparr> Function_static_size := D \<rparr>;
          D = get dia ''get_finalLiveStaticSize'' D;
          this = this\<lparr> Function_final_live_static_size := D \<rparr>;
          B = get dia ''get_hasControlFlowCheck'' B;
          this = this\<lparr> Function_control_flow_check := (B \<noteq> 0) \<rparr>;
          D = get dia ''get_frameSize'' D; this = this\<lparr> Function_frame_size := D \<rparr>;
          D = get dia ''get_exceptionHandlerRelativeVirtualAddress'' D;
          this = this\<lparr> Function_eh_address := \<lparr> address_rv = D \<rparr> \<rparr>;
          B = get dia ''get_hasInlAsm'' B;
          this = this\<lparr> Function_asm := (B \<noteq> 0) \<rparr>;
          B = get dia ''get_hasEH'' B; this = this\<lparr> Function_eh := (B \<noteq> 0) \<rparr>;
          B = get dia ''get_hasEHa'' B;
          this = this\<lparr> Function_eha := (B \<noteq> 0) \<rparr>;
          B = get dia ''get_hasSEH'' B;
          this = this\<lparr> Function_seh := (B \<noteq> 0) \<rparr>;
          D = get dia ''get_typeId'' D; this = this\<lparr> Function_type_symbol := D \<rparr>;
          B = get dia ''get_hasLongJump'' B;
          this = this\<lparr> Function_longjmp := (B \<noteq> 0) \<rparr>;
          B = get dia ''get_hasSetJump'' B;
          this = this\<lparr> Function_setjmp := (B \<noteq> 0) \<rparr>;
          B = get dia ''get_hasSecurityChecks'' B;
          this = this\<lparr> Function_security_checks := (B \<noteq> 0) \<rparr>;
          B = get dia ''get_wasInlined'' B;
          this = this\<lparr> Function_inlined := (B \<noteq> 0) \<rparr>;
          B = get dia ''get_noInline'' B;
          this = this\<lparr> Function_noinline := (B \<noteq> 0) \<rparr>;
          B = get dia ''get_noReturn'' B;
          this = this\<lparr> Function_noreturn := (B \<noteq> 0) \<rparr>;
          B = get dia ''get_isStatic'' B;
          this = this\<lparr> Function_static := (B \<noteq> 0) \<rparr>;
          B = get dia ''get_sealed'' B;
          this = this\<lparr> Function_sealed := (B \<noteq> 0) \<rparr>;
          B = get dia ''get_constantExport'' B;
          this = this\<lparr> Function_const_export := (B \<noteq> 0) \<rparr>;
          B = get dia ''get_strictGSCheck'' B;
          this = this\<lparr> Function_strict_gs_check := (B \<noteq> 0) \<rparr>;
          B = get dia ''get_pure'' B;
          this = this\<lparr> Function_pure_virtual := (B \<noteq> 0) \<rparr>;
          this = this\<lparr> Function_virtuality := Virtuality_NONE \<rparr>;
          B = get dia ''get_virtual'' B;
          (virtuality, B) = (if B \<noteq> 0
             then (let B = get dia ''get_intro'' B
                   in (if B \<noteq> 0 then Virtuality_INTRO else Virtuality_OVERRIDE, B))
             else (Virtuality_NONE, B));
          this = this\<lparr> Function_virtuality := virtuality \<rparr>;
          B = get dia ''get_notReached'' B;
          this = this\<lparr> Function_unreachable := (B \<noteq> 0) \<rparr>;
          D = get dia ''get_paramBasePointerRegisterId'' D;
          this = this\<lparr> Function_pbp_regid := D \<rparr>;
          this = this\<lparr> Function_access := 0 \<rparr>;
          D = get dia ''get_access'' D;
          this = this\<lparr> Function_access := (if hr dia ''get_access'' = S_OK then ucast D else Function_access this) \<rparr>;
          B = get dia ''get_customCallingConvention'' B;
          this = this\<lparr> Function_custom_call := (B \<noteq> 0) \<rparr>;
          D = get dia ''get_virtualBaseOffset'' D;
          this = this\<lparr> Function_virtual_base_offset := D \<rparr>;
          B = get dia ''get_noStackOrdering'' B;
          this = this\<lparr> Function_stack_ordering := (B = 0) \<rparr>;
          B = get dia ''get_isNaked'' B;
          this = this\<lparr> Function_naked := (B \<noteq> 0) \<rparr>;
          B = get dia ''get_farReturn'' B;
          this = this\<lparr> Function_far_return := (B \<noteq> 0) \<rparr>;
          B = get dia ''get_optimizedCodeDebugInfo'' B;
          this = this\<lparr> Function_optimized_debug_info := (B \<noteq> 0) \<rparr>;
          B = get dia ''get_interruptReturn'' B;
          this = this\<lparr> Function_interrupt_return := (B \<noteq> 0) \<rparr>;
          B = get dia ''get_inlSpec'' B;
          this = this\<lparr> Function_inline := (B \<noteq> 0) \<rparr>;
          B = get dia ''get_notReached'' B;
          this = this\<lparr> Function_unreachable := (B \<noteq> 0) \<rparr>;
          B = get dia ''get_framePointerPresent'' B;
          this = this\<lparr> Function_frame_pointer := (B \<noteq> 0) \<rparr>;
          this = this\<lparr> Function_address := address_info_init env dia \<rparr>;
          D = get dia ''get_localBasePointerRegisterId'' D;
          this = this\<lparr> Function_lbp_regid := D \<rparr>
      in this)"

definition InputAssembly_ctor ::
    "env \<Rightarrow> junk \<Rightarrow> dia \<Rightarrow> Sym_InputAssembly" where
  "InputAssembly_ctor env \<sigma> dia =
     (let this = (raw_InputAssembly \<sigma>)\<lparr> InputAssembly_filename := [] \<rparr>;
          this = this\<lparr> InputAssembly_filename := (if fst (bstr dia ''get_fileName'') = S_OK
             then wstrcvt (snd (bstr dia ''get_fileName'')) else InputAssembly_filename this) \<rparr>;
          D = (0 :: u32); D = get dia ''get_index'' D;
          this = this\<lparr> InputAssembly_index := D \<rparr>; B = (0 :: u32);
          B = get dia ''get_pdbAvailableAtILMerge'' B;
          this = this\<lparr> InputAssembly_pdb_available_at_il_merge := (B \<noteq> 0) \<rparr>;
          D = 0; D = get dia ''get_timestamp'' D;
          this = this\<lparr> InputAssembly_timestamp := D \<rparr>; D = 0;
          D = get dia ''get_uniqueId'' D; this = this\<lparr> InputAssembly_uid := D \<rparr>
      in this)"

definition Enum_ctor ::
    "env \<Rightarrow> junk \<Rightarrow> dia \<Rightarrow> u32 \<Rightarrow> Sym_Enum" where
  "Enum_ctor env \<sigma> dia symIndexId =
     (let this = raw_Enum \<sigma>; B = junk_B \<sigma>; BaseType = junk_D \<sigma>;
          BaseType = get dia ''get_baseType'' BaseType;
          this = this\<lparr> Enum_type := ucast BaseType \<rparr>;
          this = this\<lparr> Enum_symbol := symIndexId \<rparr>;
          B = get dia ''get_packed'' B; this = this\<lparr> Enum_packed := (B \<noteq> 0) \<rparr>;
          B = get dia ''get_scoped'' B; this = this\<lparr> Enum_scoped := (B \<noteq> 0) \<rparr>
      in this)"

definition SourceFile_ctor ::
    "env \<Rightarrow> junk \<Rightarrow> dia \<Rightarrow> Sym_SourceFile" where
  "SourceFile_ctor env \<sigma> dia =
     (let this = (raw_SourceFile \<sigma>)\<lparr> SourceFile_path := [] \<rparr>; id = (0 :: u32);
          id = get dia ''get_uniqueId'' id;
          this = this\<lparr> SourceFile_source_id := id \<rparr>;
          this = this\<lparr> SourceFile_path := (if SUCCEEDED (fst (bstr dia ''get_fileName''))
             then wstrcvt (snd (bstr dia ''get_fileName'')) else SourceFile_path this) \<rparr>
      in this)"

text \<open>\<open>memset(this, 0, sizeof(*this))\<close>; an all-zero \<open>std::string\<close> is taken as empty.\<close>

definition Compiland_zero :: Sym_Compiland where
  "Compiland_zero = \<lparr>
     Compiland_symbol = 0, Compiland_library = [], Compiland_compiler = [],
     Compiland_backend_build = 0, Compiland_backend_major = 0, Compiland_backend_minor = 0,
     Compiland_frontend_build = 0, Compiland_frontend_major = 0, Compiland_frontend_minor = 0,
     Compiland_frontend_qfe = 0, Compiland_backend_qfe = 0, Compiland_language = 0,
     Compiland_platform = 0, Compiland_sdl = False, Compiland_pgo = False,
     Compiland_security_check = False, Compiland_managed = False, Compiland_debug_info = False,
     Compiland_edit_and_continue = False, Compiland_ltcg = False, Compiland_data_aligned =
     False, Compiland_hotpatchable = False, Compiland_cvtcil = False, Compiland_cil_netmodule =
     False \<rparr>"

definition Compiland_ctor ::
    "env \<Rightarrow> junk \<Rightarrow> dia \<Rightarrow> u32 \<Rightarrow> Sym_Compiland" where
  "Compiland_ctor env \<sigma> dia symIndexId =
     (let this = Compiland_zero; this = this\<lparr> Compiland_symbol := symIndexId \<rparr>;
          EditAndContinue = (0 :: u32);
          EditAndContinue = get dia ''get_editAndContinueEnabled'' EditAndContinue;
          this = this\<lparr> Compiland_edit_and_continue := (EditAndContinue \<noteq> 0) \<rparr>;
          this = this\<lparr> Compiland_library := (if fst (bstr dia ''get_libraryName'') = S_OK
             then wstrcvt (snd (bstr dia ''get_libraryName'')) else Compiland_library this) \<rparr>;
          this = this\<lparr> Compiland_compiler := (if fst (bstr dia ''get_compilerName'') = S_OK
             then wstrcvt (snd (bstr dia ''get_compilerName'')) else Compiland_compiler this) \<rparr>;
          IsLTCG = (0 :: u32); IsLTCG = get dia ''get_isLTCG'' IsLTCG;
          this = this\<lparr> Compiland_ltcg := (IsLTCG \<noteq> 0) \<rparr>
      in this)"

definition Compiland_AppendDetails ::
    "env \<Rightarrow> junk \<Rightarrow> Sym_Compiland \<Rightarrow> dia \<Rightarrow> Sym_Compiland" where
  "Compiland_AppendDetails env \<sigma> this dia =
     (let D = junk_D \<sigma>; B = junk_B \<sigma>;
          this = this\<lparr> Compiland_platform := 0 \<rparr>; D = 0;
          D = get dia ''get_backEndBuild'' D;
          this = this\<lparr> Compiland_backend_build := D \<rparr>; D = 0;
          D = get dia ''get_backEndMajor'' D;
          this = this\<lparr> Compiland_backend_major := D \<rparr>; D = 0;
          D = get dia ''get_backEndMinor'' D;
          this = this\<lparr> Compiland_backend_minor := D \<rparr>; D = 0;
          D = get dia ''get_frontEndBuild'' D;
          this = this\<lparr> Compiland_frontend_build := D \<rparr>; D = 0;
          D = get dia ''get_frontEndMajor'' D;
          this = this\<lparr> Compiland_frontend_major := D \<rparr>; D = 0;
          D = get dia ''get_frontEndMinor'' D;
          this = this\<lparr> Compiland_frontend_minor := D \<rparr>; B = 0;
          B = get dia ''get_hasDebugInfo'' B;
          this = this\<lparr> Compiland_debug_info := (B \<noteq> 0) \<rparr>; B = 0;
          B = get dia ''get_isDataAligned'' B;
          this = this\<lparr> Compiland_data_aligned := (B \<noteq> 0) \<rparr>; B = 0;
          B = get dia ''get_isLTCG'' B;
          this = this\<lparr> Compiland_ltcg := (B \<noteq> 0) \<rparr>; B = 0;
          B = get dia ''get_isHotpatchable'' B;
          this = this\<lparr> Compiland_hotpatchable := (B \<noteq> 0) \<rparr>; B = 0;
          B = get dia ''get_isCVTCIL'' B;
          this = this\<lparr> Compiland_cvtcil := (B \<noteq> 0) \<rparr>; B = 0;
          B = get dia ''get_isMSILNetmodule'' B;
          this = this\<lparr> Compiland_cil_netmodule := (B \<noteq> 0) \<rparr>; D = 0;
          D = get dia ''get_language'' D;
          this = this\<lparr> Compiland_language := ucast D \<rparr>; D = 0;
          D = get dia ''get_platform'' D; this = this\<lparr> Compiland_platform := D \<rparr>;
          B = 0; B = get dia ''get_hasSecurityChecks'' B;
          this = this\<lparr> Compiland_security_check := (B \<noteq> 0) \<rparr>; B = 0;
          B = get dia ''get_hasManagedCode'' B;
          this = this\<lparr> Compiland_managed := (B \<noteq> 0) \<rparr>; D = 0;
          D = get dia ''get_backEndQFE'' D;
          this = this\<lparr> Compiland_backend_qfe := D \<rparr>; D = 0;
          D = get dia ''get_frontEndQFE'' D;
          this = this\<lparr> Compiland_frontend_qfe := D \<rparr>; B = 0;
          B = get dia ''get_isSdl'' B;
          this = this\<lparr> Compiland_sdl := (B \<noteq> 0) \<rparr>; B = 0;
          B = get dia ''get_isPGO'' B;
          this = this\<lparr> Compiland_pgo := (B \<noteq> 0) \<rparr>
      in this)"

definition Symbol_ctor ::
    "env \<Rightarrow> junk \<Rightarrow> dia \<Rightarrow> u32 \<Rightarrow> u8 \<Rightarrow> Sym_Symbol" where
  "Symbol_ctor env \<sigma> dia SymbolID SymTag =
     (let this = (raw_Symbol \<sigma>)\<lparr> Symbol_name := [] \<rparr>;
          this = this\<lparr> Symbol_symbol := SymbolID \<rparr>;
          this = this\<lparr> Symbol_tag := ucast SymTag \<rparr>; D = junk_D \<sigma>; D = 0;
          D = get dia ''get_classParentId'' D;
          this = this\<lparr> Symbol_parent_symbol := D \<rparr>; D = 0;
          D = get dia ''get_lexicalParentId'' D;
          this = this\<lparr> Symbol_lexical_parent_symbol := D \<rparr>;
          this = this\<lparr> Symbol_name := (case snd (bstr dia ''get_name'') of None \<Rightarrow> Symbol_name this
             | Some Bstr \<Rightarrow> wstrcvt (Some Bstr)) \<rparr>;
          Size = (0 :: u64); Size = getQ dia ''get_length'' Size;
          this = this\<lparr> Symbol_size := Size \<rparr>; D = 0;
          D = get dia ''get_locationType'' D;
          this = this\<lparr> Symbol_location_type := ucast D \<rparr>
      in this)"

definition FunctionType_ctor ::
    "env \<Rightarrow> junk \<Rightarrow> dia \<Rightarrow> u32 \<Rightarrow> Sym_FunctionType result" where
  "FunctionType_ctor env \<sigma> dia symIndexId =
     (let this = raw_FunctionType \<sigma>;
          this = this\<lparr> FunctionType_symbol := symIndexId \<rparr>; B = (0 :: u32);
          B = get dia ''get_constantExport'' B;
          this = this\<lparr> FunctionType_constant_export := (B \<noteq> 0) \<rparr>; B = 0;
          B = get dia ''get_constType'' B;
          this = this\<lparr> FunctionType_const := (B \<noteq> 0) \<rparr>; B = 0;
          B = get dia ''get_volatileType'' B;
          this = this\<lparr> FunctionType_volatile := (B \<noteq> 0) \<rparr>; B = 0;
          B = get dia ''get_unalignedType'' B;
          this = this\<lparr> FunctionType_unaligned := (B \<noteq> 0) \<rparr>; B = 0;
          B = get dia ''get_constructor'' B;
          this = this\<lparr> FunctionType_is_constructor := (B \<noteq> 0) \<rparr>;
          D = (0 :: u32); D = get dia ''get_count'' D;
          this = this\<lparr> FunctionType_param_count := D \<rparr>; B = 0;
          B = get dia ''get_isCxxReturnUdt'' B;
          this = this\<lparr> FunctionType_cxx_return_udt := (B \<noteq> 0) \<rparr>; B = 0;
          B = get dia ''get_isConstructorVirtualBase'' B;
          this = this\<lparr> FunctionType_constructor_virtual_base := (B \<noteq> 0) \<rparr>;
          B = 0; B = get dia ''get_constantExport'' B;
          this = this\<lparr> FunctionType_constant_export := (B \<noteq> 0) \<rparr>; D = 0;
          D = get dia ''get_typeId'' D;
          this = this\<lparr> FunctionType_return_type_symbol := D \<rparr>; L = (0 :: u32);
          L = get dia ''get_thisAdjust'' L;
          this = this\<lparr> FunctionType_this_adjust := L \<rparr>; thisid = (0 :: u32)
      in result_bind (from_related dia ''get_objectPointerType'' ''get_symIndexId'' thisid) (\<lambda>thisid.
       (let this = this\<lparr> FunctionType_this_type_symbol := thisid \<rparr>; D = 0;
          D = get dia ''get_callingConvention'' D;
          this = this\<lparr> FunctionType_call_convention := ucast D \<rparr>
      in Inr this)))"

definition SrcRange_ctor ::
    "env \<Rightarrow> junk \<Rightarrow> u32 \<Rightarrow> dia \<Rightarrow> Sym_SrcRange" where
  "SrcRange_ctor env \<sigma> ident dia =
     (let this = raw_SrcRange \<sigma>; D = (0 :: u32); B = (0 :: u32);
          this = this\<lparr> SrcRange_id := ident \<rparr>;
          D = get dia ''get_compilandId'' D;
          this = this\<lparr> SrcRange_compiland_symbol := D \<rparr>; D = 0;
          D = get dia ''get_sourceFileId'' D; this = this\<lparr> SrcRange_src_file := D \<rparr>;
          D = 0; D = get dia ''get_lineNumber'' D;
          this = this\<lparr> SrcRange_line_begin := D \<rparr>; D = 0;
          D = get dia ''get_lineNumberEnd'' D; this = this\<lparr> SrcRange_line_end := D \<rparr>;
          D = 0; D = get dia ''get_columnNumber'' D;
          this = this\<lparr> SrcRange_column_begin := D \<rparr>; D = 0;
          D = get dia ''get_columnNumberEnd'' D;
          this = this\<lparr> SrcRange_column_end := D \<rparr>; D = 0;
          D = get dia ''get_length'' D; this = this\<lparr> SrcRange_length := D \<rparr>; B = 0;
          B = get dia ''get_statement'' B;
          this = this\<lparr> SrcRange_statement := (B \<noteq> 0) \<rparr>; D = 0;
          D = get dia ''get_addressOffset'' D;
          this = this\<lparr> SrcRange_address_offset := D \<rparr>; D = 0;
          D = get dia ''get_relativeVirtualAddress'' D;
          this = this\<lparr> SrcRange_address_rv := D \<rparr>; D = 0;
          D = get dia ''get_addressSection'' D;
          this = this\<lparr> SrcRange_address_section := D \<rparr>
      in this)"

definition BuiltinType_ctor ::
    "env \<Rightarrow> junk \<Rightarrow> dia \<Rightarrow> u32 \<Rightarrow> Sym_BuiltinType" where
  "BuiltinType_ctor env \<sigma> dia symIndexId =
     (let this = raw_BuiltinType \<sigma>; B = junk_B \<sigma>; D = junk_D \<sigma>;
          this = this\<lparr> BuiltinType_symbol := symIndexId \<rparr>;
          D = get dia ''get_baseType'' D; this = this\<lparr> BuiltinType_kind := ucast D \<rparr>;
          B = get dia ''get_constType'' B;
          this = this\<lparr> BuiltinType_const := (B \<noteq> 0) \<rparr>;
          B = get dia ''get_volatileType'' B;
          this = this\<lparr> BuiltinType_volatile := (B \<noteq> 0) \<rparr>;
          B = get dia ''get_unalignedType'' B;
          this = this\<lparr> BuiltinType_unaligned := (B \<noteq> 0) \<rparr>;
          B = get dia ''get_constantExport'' B;
          this = this\<lparr> BuiltinType_const_export := (B \<noteq> 0) \<rparr>; D = 0;
          D = get dia ''get_count'' D; this = this\<lparr> BuiltinType_count := D \<rparr>; D = 0;
          D = get dia ''get_arrayIndexTypeId'' D;
          this = this\<lparr> BuiltinType_array_index_type_symbol := D \<rparr>; D = 0;
          D = get dia ''get_typeId'' D; this = this\<lparr> BuiltinType_type_symbol := D \<rparr>
      in this)"

definition UserType_ctor ::
    "env \<Rightarrow> junk \<Rightarrow> dia \<Rightarrow> u32 \<Rightarrow> Sym_UserType result" where
  "UserType_ctor env \<sigma> dia symIndexId =
     (let this = raw_UserType \<sigma>; this = this\<lparr> UserType_src_line := 0 \<rparr>;
          this = this\<lparr> UserType_symbol := symIndexId \<rparr>; UDTKind = (0 :: u32);
          UDTKind = get dia ''get_udtKind'' UDTKind;
          this = this\<lparr> UserType_kind :=
            (if UDTKind = UdtClass then 1 else if UDTKind = UdtInterface then 3
             else if UDTKind = UdtStruct then 0 else if UDTKind = UdtUnion then 2
             else UserType_kind this) \<rparr>;
          B = (0 :: u32); B = get dia ''get_constructor'' B;
          this = this\<lparr> UserType_constructor := (B \<noteq> 0) \<rparr>;
          B = get dia ''get_hfaDouble'' B;
          (aggregate, B) = (if B = 0
             then (let B = get dia ''get_hfaFloat'' B
                   in (if B \<noteq> 0 then Aggregate_HOMOG_FLOAT else Aggregate_NONE, B))
             else (Aggregate_HOMOG_DOUBLE, B));
          this = this\<lparr> UserType_aggregate_type := aggregate \<rparr>;
          B = get dia ''get_isRefUdt'' B;
          (semantics, B) = (if B \<noteq> 0 then (Semantics_REFERENCE, B)
             else (let B = get dia ''get_isValueUdt'' B
                   in if B \<noteq> 0 then (Semantics_VALUE, B)
                      else (let B = get dia ''get_isInterfaceUdt'' B
                            in (if B \<noteq> 0 then Semantics_INTERFACE else Semantics_UNKNOWN, B))));
          this = this\<lparr> UserType_semantics := semantics \<rparr>;
          B = get dia ''get_constType'' B;
          this = this\<lparr> UserType_const := (B \<noteq> 0) \<rparr>;
          B = get dia ''get_volatileType'' B;
          this = this\<lparr> UserType_volatile := (B \<noteq> 0) \<rparr>;
          B = get dia ''get_packed'' B;
          this = this\<lparr> UserType_packed := (B \<noteq> 0) \<rparr>;
          B = get dia ''get_intrinsic'' B;
          this = this\<lparr> UserType_intrinsic := (B \<noteq> 0) \<rparr>;
          B = get dia ''get_overloadedOperator'' B;
          this = this\<lparr> UserType_overloaded_operators := (B \<noteq> 0) \<rparr>;
          B = get dia ''get_nested'' B;
          this = this\<lparr> UserType_nested := (B \<noteq> 0) \<rparr>;
          B = get dia ''get_hasNestedTypes'' B;
          this = this\<lparr> UserType_has_nested_types := (B \<noteq> 0) \<rparr>;
          B = get dia ''get_hasAssignmentOperator'' B;
          this = this\<lparr> UserType_assignment_operator := (B \<noteq> 0) \<rparr>;
          B = get dia ''get_hasCastOperator'' B;
          this = this\<lparr> UserType_cast_operator := (B \<noteq> 0) \<rparr>;
          B = get dia ''get_scoped'' B;
          this = this\<lparr> UserType_scoped := (B \<noteq> 0) \<rparr>;
          B = get dia ''get_unalignedType'' B;
          this = this\<lparr> UserType_unaligned := (B \<noteq> 0) \<rparr>; D = (0 :: u32);
          D = get dia ''get_virtualTableShapeId'' D;
          this = this\<lparr> UserType_vtable_shape := D \<rparr>; D = 0
      in result_bind (from_related dia ''get_virtualTableShape'' ''get_count'' D) (\<lambda>D.
       (let this = this\<lparr> UserType_vtable_count := D \<rparr>
      in Inr this)))"

definition Data_ctor ::
    "env \<Rightarrow> junk \<Rightarrow> dia \<Rightarrow> u32 \<Rightarrow> Sym_Data result" where
  "Data_ctor env \<sigma> dia symIndexId =
     (let this = raw_Data \<sigma>; B = junk_B \<sigma>;
          Val = VariantChangeType_I8 env (variant_of dia ''get_value'')
      in result_bind (case Val of VT_I8 v \<Rightarrow> Inr v | VT_I4 v \<Rightarrow> Inr (scast v) | VT_R4 f \<Rightarrow> float_to_int64 f
             | VT_R8 f \<Rightarrow> float_to_int64 f | _ \<Rightarrow> Inr (Data_value this)) (\<lambda>value.
       (let this = this\<lparr> Data_value := value \<rparr>;
          this = this\<lparr> Data_symbol := symIndexId \<rparr>; D = (0 :: u32);
          D = get dia ''get_dataKind'' D; this = this\<lparr> Data_kind := ucast D \<rparr>;
          D = get dia ''get_typeId'' D; this = this\<lparr> Data_type_symbol := D \<rparr>;
          this = this\<lparr> Data_address :=
            (if Data_kind this = 9 \<or> Data_kind this = 1 \<or> Data_kind this = 3 \<or> Data_kind this = 7
             then \<lparr> address_rv = 0 \<rparr> else address_info_init env dia) \<rparr>;
          D = get dia ''get_registerId'' D; this = this\<lparr> Data_register_id := D \<rparr>;
          B = get dia ''get_constantExport'' B;
          this = this\<lparr> Data_const_export := (B \<noteq> 0) \<rparr>;
          D = get dia ''get_bitPosition'' D; this = this\<lparr> Data_bit_position := D \<rparr>;
          L = (0 :: u32); L = get dia ''get_offset'' L;
          this = this\<lparr> Data_offset := L \<rparr>
      in Inr this)))"

definition Label_ctor ::
    "env \<Rightarrow> junk \<Rightarrow> dia \<Rightarrow> u32 \<Rightarrow> Sym_Label" where
  "Label_ctor env \<sigma> dia symIndexId =
     (let this = raw_Label \<sigma>; this = this\<lparr> Label_symbol := symIndexId \<rparr>;
          this = this\<lparr> Label_address := address_info_init env dia \<rparr>
      in this)"

definition Callsite_ctor ::
    "env \<Rightarrow> junk \<Rightarrow> dia \<Rightarrow> u32 \<Rightarrow> Sym_Callsite" where
  "Callsite_ctor env \<sigma> dia symIndexId =
     (let this = raw_Callsite \<sigma>; this = this\<lparr> Callsite_symbol := symIndexId \<rparr>;
          this = this\<lparr> Callsite_address := address_info_init env dia \<rparr>;
          d = (0 :: u32); d = get dia ''get_lexicalParentId'' d;
          this = this\<lparr> Callsite_target_symbol := d \<rparr>
      in this)"

definition Pointer_ctor ::
    "env \<Rightarrow> junk \<Rightarrow> dia \<Rightarrow> u32 \<Rightarrow> Sym_Pointer" where
  "Pointer_ctor env \<sigma> dia symIndexId =
     (let this = raw_Pointer \<sigma>; this = this\<lparr> Pointer_symbol := symIndexId \<rparr>;
          D = junk_D \<sigma>; B = junk_B \<sigma>; D = get dia ''get_typeId'' D;
          this = this\<lparr> Pointer_type_symbol := D \<rparr>; B = 0;
          B = get dia ''get_isWinRTPointer'' B;
          (kind, B) = (if B \<noteq> 0 then (PointerKind_WINRT_HAT, B)
             else (let B = get dia ''get_RValueReference'' B
                   in if B \<noteq> 0 then (PointerKind_R_REF, B)
                      else (let B = get dia ''get_reference'' B
                            in (if B \<noteq> 0 then PointerKind_L_REF else PointerKind_PTR, B))));
          this = this\<lparr> Pointer_kind := kind \<rparr>; B = 0;
          B = get dia ''get_unalignedType'' B;
          this = this\<lparr> Pointer_unaligned := (B \<noteq> 0) \<rparr>; B = 0;
          B = get dia ''get_volatileType'' B;
          this = this\<lparr> Pointer_volatile := (B \<noteq> 0) \<rparr>; B = 0;
          B = get dia ''get_constType'' B;
          this = this\<lparr> Pointer_const := (B \<noteq> 0) \<rparr>; B = 0;
          B = get dia ''get_restrictedType'' B;
          this = this\<lparr> Pointer_restrict := (B \<noteq> 0) \<rparr>; B = 0;
          B = get dia ''get_constantExport'' B;
          this = this\<lparr> Pointer_constant_export := (B \<noteq> 0) \<rparr>; B = 0;
          B = get dia ''get_isPointerToDataMember'' B;
          (member_type, B) = (if B \<noteq> 0 then (MemberType_DATA, B)
             else (let B = get dia ''get_isPointerToMemberFunction'' B
                   in (if B \<noteq> 0 then MemberType_FUNCTION else MemberType_NONE, B)));
          this = this\<lparr> Pointer_member_type := member_type \<rparr>; B = 0;
          B = get dia ''get_isMultipleInheritance'' B;
          (inheritance, B) = (if B \<noteq> 0 then (Inheritance_MULTIPLE, B)
             else (let B = get dia ''get_isSingleInheritance'' B
                   in (if B \<noteq> 0 then Inheritance_SINGLE else Inheritance_NONE, B)));
          this = this\<lparr> Pointer_inheritance := inheritance \<rparr>; B = 0;
          B = get dia ''get_isVirtualInheritance'' B;
          this = this\<lparr> Pointer_virtual_inheritance := (B \<noteq> 0) \<rparr>; D = 0;
          D = get dia ''get_unmodifiedTypeId'' D;
          this = this\<lparr> Pointer_unmodified_type_symbol := D \<rparr>
      in this)"

definition CompilandEnv_ctor ::
    "env \<Rightarrow> junk \<Rightarrow> dia \<Rightarrow> Sym_CompilandEnv" where
  "CompilandEnv_ctor env \<sigma> dia =
     (let this = (raw_CompilandEnv \<sigma>)\<lparr> CompilandEnv_option_name := [], CompilandEnv_value := [] \<rparr>;
          Compiland = (0 :: u32); Compiland = get dia ''get_lexicalParentId'' Compiland;
          this = this\<lparr> CompilandEnv_compiland_symbol := Compiland \<rparr>;
          this = this\<lparr> CompilandEnv_option_name := wstrcvt (snd (bstr dia ''get_name'')) \<rparr>;
          this = this\<lparr> CompilandEnv_value := (case variant_of dia ''get_value'' of
               VT_BSTR v \<Rightarrow> wstrcvt v | _ \<Rightarrow> CompilandEnv_value this) \<rparr>
      in this)"

definition InjectedSource_ctor ::
    "env \<Rightarrow> junk \<Rightarrow> dia \<Rightarrow> Sym_InjectedSource result" where
  "InjectedSource_ctor env \<sigma> dia =
     (let this = (raw_InjectedSource \<sigma>)\<lparr> InjectedSource_text := [] \<rparr>;
          L = (0 :: u64); L = getQ dia ''get_length'' L;
          this = this\<lparr> InjectedSource_length := L \<rparr>;
          num = (case fst (source_bytes dia) of None \<Rightarrow> 0 | Some n \<Rightarrow> n);
          written = take 255 (snd (source_bytes dia));
          buf = (\<lambda>i. if i < length written then written ! i else junk_buf \<sigma> i)
      in result_bind (if unat num < 256 then Inr (buf(unat num := 0)) else Inl (Undefined_Behaviour ''buf[num]'')) (\<lambda>buf.
       (let this = this\<lparr> InjectedSource_text := c_string (map buf [0..<256]) \<rparr>
      in Inr this)))"

definition Thunk_ctor ::
    "env \<Rightarrow> junk \<Rightarrow> dia \<Rightarrow> u32 \<Rightarrow> Sym_Thunk" where
  "Thunk_ctor env \<sigma> dia symIndexId =
     (let this = raw_Thunk \<sigma>; this = this\<lparr> Thunk_ordinal := 0 \<rparr>;
          this = this\<lparr> Thunk_symbol := symIndexId \<rparr>;
          this = this\<lparr> Thunk_address := address_info_init env dia \<rparr>;
          D = junk_D \<sigma>; D = get dia ''get_thunkOrdinal'' D;
          this = this\<lparr> Thunk_ordinal := ucast D \<rparr>;
          D = get dia ''get_targetRelativeVirtualAddress'' D;
          this = this\<lparr> Thunk_target := \<lparr> address_rv = D \<rparr> \<rparr>;
          this = this\<lparr> Thunk_target_symbol := 0 \<rparr>;
          target_symbol = (case findSymbolByRVA env D of
               (h, Some targetsym) \<Rightarrow>
                 if h = S_OK then get targetsym ''get_symIndexId'' D else Thunk_target_symbol this
             | (h, None) \<Rightarrow> Thunk_target_symbol this);
          this = this\<lparr> Thunk_target_symbol := target_symbol \<rparr>
      in this)"

definition Frame_ctor ::
    "env \<Rightarrow> junk \<Rightarrow> dia \<Rightarrow> Sym_Frame" where
  "Frame_ctor env \<sigma> dia =
     (let this = (raw_Frame \<sigma>)\<lparr> Frame_program := [] \<rparr>;
          this = this\<lparr> Frame_program := (if fst (bstr dia ''get_program'') = S_OK
             then wstrcvt (snd (bstr dia ''get_program'')) else Frame_program this) \<rparr>;
          this = this\<lparr> Frame_address := address_info_init env dia \<rparr>; D = (0 :: u32);
          D = get dia ''get_lengthBlock'' D; this = this\<lparr> Frame_length_block := D \<rparr>;
          D = 0; D = get dia ''get_lengthLocals'' D;
          this = this\<lparr> Frame_length_locals := D \<rparr>; D = 0;
          D = get dia ''get_lengthParams'' D;
          this = this\<lparr> Frame_length_params := D \<rparr>; D = 0;
          D = get dia ''get_maxStack'' D; this = this\<lparr> Frame_max_stack := D \<rparr>; D = 0;
          D = get dia ''get_lengthProlog'' D;
          this = this\<lparr> Frame_length_prolog := D \<rparr>; D = 0;
          D = get dia ''get_lengthSavedRegisters'' D;
          this = this\<lparr> Frame_length_saved_registers := D \<rparr>; D = 0;
          D = get dia ''get_type'' D; this = this\<lparr> Frame_type_symbol := D \<rparr>;
          B = (0 :: u32); B = get dia ''get_systemExceptionHandling'' B;
          this = this\<lparr> Frame_exceptions_system := (B \<noteq> 0) \<rparr>;
          B = get dia ''get_cplusplusExceptionHandling'' B;
          this = this\<lparr> Frame_exceptions_cxx := (B \<noteq> 0) \<rparr>;
          B = get dia ''get_functionStart'' B;
          this = this\<lparr> Frame_function_start := (B \<noteq> 0) \<rparr>;
          B = get dia ''get_allocatesBasePointer'' B;
          this = this\<lparr> Frame_allocate_base_pointer := (B \<noteq> 0) \<rparr>
      in this)"

definition VTablePtr_ctor ::
    "env \<Rightarrow> junk \<Rightarrow> dia \<Rightarrow> u32 \<Rightarrow> Sym_VTablePtr" where
  "VTablePtr_ctor env \<sigma> dia symIndexId =
     (let this = raw_VTablePtr \<sigma>; D = (0 :: u32); B = (0 :: u32); L = (0 :: u32);
          D = get dia ''get_typeId'' D; this = this\<lparr> VTablePtr_type_symbol := D \<rparr>;
          this = this\<lparr> VTablePtr_symbol := symIndexId \<rparr>
      in this)"

definition Friend_ctor ::
    "env \<Rightarrow> junk \<Rightarrow> dia \<Rightarrow> u32 \<Rightarrow> Sym_Friend" where
  "Friend_ctor env \<sigma> dia symIndexId =
     (let this = raw_Friend \<sigma>; this = this\<lparr> Friend_symbol := symIndexId \<rparr>;
          D = (0 :: u32); D = get dia ''get_typeId'' D;
          this = this\<lparr> Friend_type_symbol := D \<rparr>
      in this)"

end
