(* ===== verification/DIA_Common.thy ===== *)
theory DIA_Common
  imports DIA_Object
begin

text \<open>
  \<^verbatim>\<open>drpdb/src/DIACommon.h\<close> and \<^verbatim>\<open>DIA2Common.cpp\<close>: opening a file (\<open>Provider\<close>), the loop that fetches
  a table in batches and hands every item to a sink (\<open>ReadTable\<close>), and the loop over the
  tables of a session that picks a sink by the table's name (\<open>ReadTables\<close>). An enumerator is
  the sequence of its answers to \<open>Next\<close>; a loop over one that never ends is \<open>None\<close>. The locale
  \<open>table_sink\<close> is the contract between a sink and these loops.
\<close>

section \<open>Sessions\<close>

record dia_enum =
  en_Count :: "u32 option"
  en_Next :: "nat \<Rightarrow> hresult \<times> dia list"

record dia_table =
  dt_name :: "wstring option"
  dt_QueryInterface :: "string \<Rightarrow> hresult \<times> dia_enum option"

text \<open>The fields of \<open>IMAGE_SECTION_HEADER\<close> that the reader looks at.\<close>

record section_header =
  sh_Name :: "u8 list"
  sh_SizeOfRawData :: u32
  sh_NumberOfRelocations :: u16
  sh_NumberOfLinenumbers :: u16
  sh_Characteristics :: u32

text \<open>The answer to \<open>Next\<close> of a stream: the header, the bytes read, the items fetched.\<close>

record section_answer =
  sa_header :: "section_header option"
  sa_bytesRead :: "u32 option"
  sa_numFetched :: "u32 option"

record debug_stream =
  ds_name :: "wstring option"
  ds_Next :: "nat \<Rightarrow> section_answer"

record session =
  ses_streams :: "(nat \<Rightarrow> debug_stream option \<times> u32 option) option"
  ses_tables :: "(nat \<Rightarrow> dia_table option \<times> u32 option) option"
  ses_findSymbolByRVA :: "u32 \<Rightarrow> hresult \<times> dia option"

record data_source =
  loadDataFromPdb :: "string \<Rightarrow> hresult"
  loadDataForExe :: "string \<Rightarrow> hresult"
  openSession :: "string \<Rightarrow> session option"

text \<open>The COM runtime: the result of \<open>CoInitialize\<close>, the object \<open>CoCreateInstance\<close> hands out.\<close>

record com_runtime =
  CoInitialize :: hresult
  CoCreateInstance :: "data_source option"

definition Provider_source :: "com_runtime \<Rightarrow> data_source option" where
  "Provider_source com = (if SUCCEEDED (CoInitialize com) then CoCreateInstance com else None)"

text \<open>\<open>load\<close>: whether the file could be read, and the session it opened.\<close>

definition Provider_load :: "data_source option \<Rightarrow> string \<Rightarrow> (bool \<times> session option) result" where
  "Provider_load source inFile =
     (case source of
        None \<Rightarrow> Inl (Undefined_Behaviour ''source is null'')
      | Some src \<Rightarrow>
          if \<not> SUCCEEDED (loadDataFromPdb src inFile) \<and> \<not> SUCCEEDED (loadDataForExe src inFile)
          then Inr (False, None)
          else Inr (True, openSession src inFile))"

section \<open>Tables\<close>

record 's sink =
  sink_init :: "u32 \<Rightarrow> 's \<Rightarrow> 's"
  sink_element :: "dia \<Rightarrow> 's \<Rightarrow> 's run"

partial_function (option) ReadTable_loop ::
    "(dia \<Rightarrow> 's \<Rightarrow> 's run) \<Rightarrow> (nat \<Rightarrow> hresult \<times> dia list) \<Rightarrow> nat \<Rightarrow> 's \<Rightarrow> 's run" where
  "ReadTable_loop element Next k s =
     (case Next k of
        (HR, Fetched) \<Rightarrow>
          if \<not> SUCCEEDED HR \<or> Fetched = [] then returns s
          else
            (case run_fold element Fetched s of
               None \<Rightarrow> None
             | Some r \<Rightarrow>
                 (case r of Inl e \<Rightarrow> Some (Inl e) | Inr s \<Rightarrow> ReadTable_loop element Next (k + 1) s)))"

definition ReadTable :: "dia_enum \<Rightarrow> 's sink \<Rightarrow> 's \<Rightarrow> 's run" where
  "ReadTable enumerator p s =
     (let num = (case en_Count enumerator of None \<Rightarrow> 0 | Some n \<Rightarrow> n) in
      ReadTable_loop (sink_element p) (en_Next enumerator) 0 (sink_init p num s))"

text \<open>The names under which the interface hands out its tables.\<close>

record table_names =
  DiaTable_Sections :: wstring
  DiaTable_InjSrc :: wstring
  DiaTable_SrcFiles :: wstring
  DiaTable_Symbols :: wstring
  DiaTable_SegMap :: wstring
  DiaTable_InputAssemblyFiles :: wstring
  DiaTable_FrameData :: wstring
  DiaTable_LineNums :: wstring

definition wcscmp_eq :: "wstring \<Rightarrow> wstring \<Rightarrow> bool" where
  "wcscmp_eq a b = (takeWhile (\<lambda>c. c \<noteq> 0) a = takeWhile (\<lambda>c. c \<noteq> 0) b)"

text \<open>A table whose interface is there, read into a sink.\<close>

definition ReadInterface :: "dia_table \<Rightarrow> string \<Rightarrow> 's sink \<Rightarrow> 's \<Rightarrow> 's run" where
  "ReadInterface table interface p s =
     (case dt_QueryInterface table interface of
        (h, pEnum) \<Rightarrow>
          if h = S_OK then
            (case pEnum of
               None \<Rightarrow> Some (Inl (Undefined_Behaviour ''enumerator is null''))
             | Some e \<Rightarrow> ReadTable e p s)
          else returns s)"

text \<open>The body of the loop of \<open>ReadTables\<close>: which interface and which sink a table's name selects.\<close>

definition select_sink ::
    "table_names \<Rightarrow> 's sink \<Rightarrow> 's sink \<Rightarrow> 's sink \<Rightarrow> 's sink \<Rightarrow> 's sink \<Rightarrow> 's sink \<Rightarrow> 's sink \<Rightarrow> 's sink
      \<Rightarrow> wstring \<Rightarrow> (string \<times> 's sink) option" where
  "select_sink nm f_contrib f_inj f_src f_syms f_segmap f_inasm f_frame f_lines enumDataName =
     (if wcscmp_eq enumDataName (DiaTable_Sections nm) then Some (''IDiaEnumSectionContribs'', f_contrib)
      else if wcscmp_eq enumDataName (DiaTable_InjSrc nm) then Some (''IDiaEnumInjectedSources'', f_inj)
      else if wcscmp_eq enumDataName (DiaTable_SrcFiles nm) then Some (''IDiaEnumSourceFiles'', f_src)
      else if wcscmp_eq enumDataName (DiaTable_Symbols nm) then Some (''IDiaEnumSymbols'', f_syms)
      else if wcscmp_eq enumDataName (DiaTable_SegMap nm) then Some (''IDiaEnumSegments'', f_segmap)
      else if wcscmp_eq enumDataName (DiaTable_InputAssemblyFiles nm)
        then Some (''IDiaEnumInputAssemblyFiles'', f_inasm)
      else if wcscmp_eq enumDataName (DiaTable_FrameData nm) then Some (''IDiaEnumFrameData'', f_frame)
      else if wcscmp_eq enumDataName (DiaTable_LineNums nm) then Some (''IDiaEnumLineNumbers'', f_lines)
      else None)"

definition ReadOneTable :: "(wstring \<Rightarrow> (string \<times> 's sink) option) \<Rightarrow> dia_table \<Rightarrow> 's \<Rightarrow> 's run" where
  "ReadOneTable select table s =
     (case dt_name table of
        None \<Rightarrow> Some (Inl (Undefined_Behaviour ''wcscmp of a null name''))
      | Some enumDataName \<Rightarrow>
          (case select enumDataName of
             None \<Rightarrow> returns s
           | Some (interface, p) \<Rightarrow> ReadInterface table interface p s))"

text \<open>
  The loop over an enumerator that hands out one item at a time: it ends at a null item or
  when fewer than one was fetched. \<open>fetched0\<close> is the value of the count before the call.
\<close>

partial_function (option) fetch_loop ::
    "u32 \<Rightarrow> ('d \<Rightarrow> 's \<Rightarrow> 's run) \<Rightarrow> (nat \<Rightarrow> 'd option \<times> u32 option) \<Rightarrow> nat \<Rightarrow> 's \<Rightarrow> 's run" where
  "fetch_loop fetched0 read Next k s =
     (case Next k of
        (item, fetched) \<Rightarrow>
          (case item of
             None \<Rightarrow> returns s
           | Some t \<Rightarrow>
               if (case fetched of None \<Rightarrow> fetched0 | Some n \<Rightarrow> n) < 1 then returns s
               else
                 (case read t s of
                    None \<Rightarrow> None
                  | Some r \<Rightarrow>
                      (case r of Inl e \<Rightarrow> Some (Inl e)
                       | Inr s \<Rightarrow> fetch_loop fetched0 read Next (k + 1) s))))"

definition ReadTables ::
    "table_names \<Rightarrow> session \<Rightarrow> 's sink \<Rightarrow> 's sink \<Rightarrow> 's sink \<Rightarrow> 's sink \<Rightarrow> 's sink \<Rightarrow> 's sink \<Rightarrow> 's sink
      \<Rightarrow> 's sink \<Rightarrow> 's \<Rightarrow> 's run" where
  "ReadTables nm session f_contrib f_inj f_src f_syms f_segmap f_inasm f_frame f_lines s =
     (case ses_tables session of
        None \<Rightarrow> returns s
      | Some Next \<Rightarrow>
          fetch_loop 0
            (ReadOneTable (select_sink nm f_contrib f_inj f_src f_syms f_segmap f_inasm f_frame f_lines))
            Next 0 s)"

section \<open>What the loops compute\<close>

text \<open>The first answer to \<open>Next\<close> that ends the loop, and the items before it.\<close>

definition stops :: "hresult \<times> dia list \<Rightarrow> bool" where
  "stops a = (\<not> SUCCEEDED (fst a) \<or> snd a = [])"

definition ends_at :: "(nat \<Rightarrow> hresult \<times> dia list) \<Rightarrow> nat \<Rightarrow> bool" where
  "ends_at Next n = (stops (Next n) \<and> (\<forall>k < n. \<not> stops (Next k)))"

definition items :: "(nat \<Rightarrow> hresult \<times> dia list) \<Rightarrow> nat \<Rightarrow> dia list" where
  "items Next n = concat (map (\<lambda>k. snd (Next k)) [0..<n])"

lemma ReadTable_loop_unfold:
  "ReadTable_loop element Next k s =
     (if stops (Next k) then returns s
      else run_bind (run_fold element (snd (Next k)) s) (ReadTable_loop element Next (k + 1)))"
  by (subst ReadTable_loop.simps)
    (auto simp: stops_def run_bind_def split: prod.split option.split sum.split)

lemma ReadTable_loop_from:
  "stops (Next n) \<Longrightarrow> \<forall>i. k \<le> i \<and> i < n \<longrightarrow> \<not> stops (Next i) \<Longrightarrow> k \<le> n \<Longrightarrow>
     ReadTable_loop element Next k s = run_fold element (concat (map (\<lambda>k. snd (Next k)) [k..<n])) s"
proof (induction "n - k" arbitrary: k s)
  case 0
  then show ?case by (simp add: ReadTable_loop_unfold [of element Next k])
next
  case (Suc m)
  then have "k < n" and "\<not> stops (Next k)" by auto
  moreover have "ReadTable_loop element Next (k + 1) = run_fold element (concat (map (\<lambda>k. snd (Next k)) [k + 1..<n]))"
    using Suc by (intro ext Suc.hyps(1)) auto
  moreover have "[k..<n] = k # [k + 1..<n]" using \<open>k < n\<close> by (simp add: upt_conv_Cons)
  ultimately show ?case
    by (simp add: ReadTable_loop_unfold [of element Next k] run_fold_append)
qed

text \<open>Every item of every batch before the end goes to the sink, in order.\<close>

lemma ReadTable_returns:
  assumes "ends_at (en_Next e) n"
  shows "ReadTable e p s = run_fold (sink_element p) (items (en_Next e) n)
    (sink_init p (case en_Count e of None \<Rightarrow> 0 | Some n \<Rightarrow> n) s)"
  using assms ReadTable_loop_from [of "en_Next e" n 0]
  by (simp add: ReadTable_def ends_at_def items_def)

lemma ReadTable_loop_invariant:
  assumes keep: "\<And>t s s'. P s \<Longrightarrow> element t s = returns s' \<Longrightarrow> P s'"
    and "P s" and "ReadTable_loop element Next k s = returns s'"
  shows "P s'"
proof -
  have "(\<forall>t s s'. P s \<and> element t s = returns s' \<longrightarrow> P s') \<longrightarrow> P s \<longrightarrow> (\<forall>s'. y = Inr s' \<longrightarrow> P s')"
    if "ReadTable_loop element Next k s = Some y" for y
  proof (rule ReadTable_loop.raw_induct [where P = "\<lambda>element Next k s y.
        (\<forall>t s s'. P s \<and> element t s = returns s' \<longrightarrow> P s') \<longrightarrow> P s \<longrightarrow> (\<forall>s'. y = Inr s' \<longrightarrow> P s')", OF _ that],
      intro impI allI)
    fix loop and element :: "dia \<Rightarrow> 'a \<Rightarrow> 'a run" and Next :: "nat \<Rightarrow> hresult \<times> dia list" and k s y s'
    assume IH: "\<And>element Next k s y. loop element Next k s = Some y \<Longrightarrow>
        (\<forall>t s s'. P s \<and> element t s = returns s' \<longrightarrow> P s') \<longrightarrow> P s \<longrightarrow> (\<forall>s'. y = Inr s' \<longrightarrow> P s')"
      and body: "(case Next k of
        (HR, Fetched) \<Rightarrow>
          if \<not> SUCCEEDED HR \<or> Fetched = [] then returns s
          else (case run_fold element Fetched s of None \<Rightarrow> None
             | Some r \<Rightarrow> (case r of Inl e \<Rightarrow> Some (Inl e) | Inr s \<Rightarrow> loop element Next (k + 1) s))) = Some y"
      and keep: "\<forall>t s s'. P s \<and> element t s = returns s' \<longrightarrow> P s'" and P: "P s" and y: "y = Inr s'"
      show "P s'"
      proof (cases "stops (Next k)")
        case True
        with body y P show ?thesis by (auto simp: stops_def returns_def split: prod.splits)
      next
        case False
        with body y obtain s1 where run: "run_fold element (snd (Next k)) s = returns s1"
          and rest: "loop element Next (k + 1) s1 = Some (Inr s')"
          by (auto simp: stops_def returns_def split: prod.splits option.splits sum.splits)
        have "P s1"
          by (rule run_fold_invariant [where P = P, OF _ P run]) (use keep in blast)
        from IH [OF rest, THEN mp, OF keep, THEN mp, OF this] show ?thesis by simp
      qed
  qed
  note claim = this [OF assms(3) [unfolded returns_def]]
  have "\<forall>t s s'. P s \<and> element t s = returns s' \<longrightarrow> P s'" using assms(1) by blast
  from claim [THEN mp, OF this, THEN mp, OF assms(2)] show ?thesis by simp
qed

lemma ReadTable_invariant:
  assumes "\<And>t s s'. P s \<Longrightarrow> sink_element p t s = returns s' \<Longrightarrow> P s'"
    and "\<And>n s. P s \<Longrightarrow> P (sink_init p n s)"
    and "P s" and "ReadTable e p s = returns s'"
  shows "P s'"
proof -
  from assms(4) obtain n where "ReadTable_loop (sink_element p) (en_Next e) 0 (sink_init p n s) = returns s'"
    by (simp add: ReadTable_def)
  from ReadTable_loop_invariant [of P, OF assms(1) assms(2) [OF assms(3)] this] show ?thesis .
qed

section \<open>The loop that fetches one item at a time\<close>

definition fetch_stop :: "u32 \<Rightarrow> 'd option \<times> u32 option \<Rightarrow> bool" where
  "fetch_stop fetched0 a = (fst a = None \<or> (case snd a of None \<Rightarrow> fetched0 | Some n \<Rightarrow> n) < 1)"

lemma fetch_loop_unfold:
  "fetch_loop f0 read Next k s =
     (if fetch_stop f0 (Next k) then returns s
      else run_bind (read (the (fst (Next k))) s) (fetch_loop f0 read Next (k + 1)))"
  by (subst fetch_loop.simps)
    (auto simp: fetch_stop_def run_bind_def split: prod.split option.split sum.split)

lemma fetch_loop_from:
  "fetch_stop f0 (Next n) \<Longrightarrow> \<forall>i. k \<le> i \<and> i < n \<longrightarrow> \<not> fetch_stop f0 (Next i) \<Longrightarrow> k \<le> n \<Longrightarrow>
     fetch_loop f0 read Next k s = run_fold read (map (\<lambda>k. the (fst (Next k))) [k..<n]) s"
proof (induction "n - k" arbitrary: k s)
  case 0
  then show ?case by (simp add: fetch_loop_unfold [of f0 read Next k])
next
  case (Suc m)
  then have "k < n" and "\<not> fetch_stop f0 (Next k)" by auto
  moreover have "fetch_loop f0 read Next (k + 1) = run_fold read (map (\<lambda>k. the (fst (Next k))) [k + 1..<n])"
    using Suc by (intro ext Suc.hyps(1)) auto
  moreover have "[k..<n] = k # [k + 1..<n]" using \<open>k < n\<close> by (simp add: upt_conv_Cons)
  ultimately show ?case by (simp add: fetch_loop_unfold [of f0 read Next k])
qed

lemma fetch_loop_invariant:
  fixes read :: "'d \<Rightarrow> 's \<Rightarrow> 's run"
  assumes "\<And>t s s'. P s \<Longrightarrow> read t s = returns s' \<Longrightarrow> P s'"
    and "P s" and "fetch_loop f0 read Next k s = returns s'"
  shows "P s'"
proof -
  have "(\<forall>t s s'. P s \<and> read t s = returns s' \<longrightarrow> P s') \<longrightarrow> P s \<longrightarrow> (\<forall>s'. y = Inr s' \<longrightarrow> P s')"
    if "fetch_loop f0 read Next k s = Some y" for y
  proof (rule fetch_loop.raw_induct [where P = "\<lambda>f0 read Next k s y.
        (\<forall>t s s'. P s \<and> read t s = returns s' \<longrightarrow> P s') \<longrightarrow> P s \<longrightarrow> (\<forall>s'. y = Inr s' \<longrightarrow> P s')", OF _ that],
      intro impI allI)
    fix loop and f0 :: u32 and read :: "'d \<Rightarrow> 's \<Rightarrow> 's run" and Next :: "nat \<Rightarrow> 'd option \<times> u32 option"
      and k s y s'
    assume IH: "\<And>f0 read Next k s y. loop f0 read Next k s = Some y \<Longrightarrow>
        (\<forall>t s s'. P s \<and> read t s = returns s' \<longrightarrow> P s') \<longrightarrow> P s \<longrightarrow> (\<forall>s'. y = Inr s' \<longrightarrow> P s')"
      and body: "(case Next k of
        (table, fetched) \<Rightarrow>
          (case table of None \<Rightarrow> returns s
           | Some t \<Rightarrow>
               if (case fetched of None \<Rightarrow> f0 | Some n \<Rightarrow> n) < 1 then returns s
               else (case read t s of None \<Rightarrow> None
                  | Some r \<Rightarrow> (case r of Inl e \<Rightarrow> Some (Inl e) | Inr s \<Rightarrow> loop f0 read Next (k + 1) s)))) = Some y"
      and keep: "\<forall>t s s'. P s \<and> read t s = returns s' \<longrightarrow> P s'" and P: "P s" and y: "y = Inr s'"
      show "P s'"
      proof (cases "fetch_stop f0 (Next k)")
        case True
        then have "y = Inr s"
          using body by (cases "Next k"; cases "fst (Next k)") (auto simp: fetch_stop_def returns_def)
        with y P show ?thesis by simp
      next
        case False
        then obtain t fetched where next_k: "Next k = (Some t, fetched)"
          and "\<not> (case fetched of None \<Rightarrow> f0 | Some n \<Rightarrow> n) < 1"
          by (cases "Next k") (auto simp: fetch_stop_def)
        with body y have "(case read t s of None \<Rightarrow> None
            | Some r \<Rightarrow> (case r of Inl e \<Rightarrow> Some (Inl e) | Inr s \<Rightarrow> loop f0 read Next (k + 1) s)) = Some (Inr s')"
          by simp
        then obtain s1 where run: "read t s = returns s1" and rest: "loop f0 read Next (k + 1) s1 = Some (Inr s')"
          by (auto simp: returns_def split: option.splits sum.splits)
        from keep run P have "P s1" by blast
        from IH [OF rest, THEN mp, OF keep, THEN mp, OF this] show ?thesis by simp
      qed
  qed
  note claim = this [OF assms(3) [unfolded returns_def]]
  have "\<forall>t s s'. P s \<and> read t s = returns s' \<longrightarrow> P s'" using assms(1) by blast
  from claim [THEN mp, OF this, THEN mp, OF assms(2)] show ?thesis by simp
qed

text \<open>Only the eight sinks act on the state.\<close>

lemma select_sink_cases:
  "select_sink nm f1 f2 f3 f4 f5 f6 f7 f8 w = Some (i, p) \<Longrightarrow> p \<in> {f1, f2, f3, f4, f5, f6, f7, f8}"
  by (auto simp: select_sink_def split: if_splits)

lemma ReadTables_invariant:
  assumes elements: "\<And>p t s s'. p \<in> {f1, f2, f3, f4, f5, f6, f7, f8} \<Longrightarrow> P s \<Longrightarrow>
      sink_element p t s = returns s' \<Longrightarrow> P s'"
    and inits: "\<And>p n s. p \<in> {f1, f2, f3, f4, f5, f6, f7, f8} \<Longrightarrow> P s \<Longrightarrow> P (sink_init p n s)"
    and "P s" and "ReadTables nm session f1 f2 f3 f4 f5 f6 f7 f8 s = returns s'"
  shows "P s'"
proof (cases "ses_tables session")
  case None
  with assms(3,4) show ?thesis by (simp add: ReadTables_def)
next
  case (Some Next)
  let ?read = "ReadOneTable (select_sink nm f1 f2 f3 f4 f5 f6 f7 f8)"
  have "P s'" if "P s" and run: "?read t s = returns s'" for t s s'
  proof -
    from run obtain w where w: "dt_name t = Some w"
      by (auto simp: ReadOneTable_def returns_def split: option.splits)
    show ?thesis
    proof (cases "select_sink nm f1 f2 f3 f4 f5 f6 f7 f8 w")
      case None
      with run w that(1) show ?thesis by (simp add: ReadOneTable_def)
    next
      case (Some ip)
      then obtain i p where ip: "select_sink nm f1 f2 f3 f4 f5 f6 f7 f8 w = Some (i, p)" by (cases ip) auto
      note p = select_sink_cases [OF ip]
      from run w ip have "ReadInterface t i p s = returns s'" by (simp add: ReadOneTable_def)
      then consider "s' = s" | e where "ReadTable e p s = returns s'"
        by (auto simp: ReadInterface_def returns_def split: prod.splits option.splits if_splits)
      then show ?thesis
      proof cases
        case 1
        with that(1) show ?thesis by simp
      next
        case 2
        show ?thesis
          by (rule ReadTable_invariant [where P = P and p = p, OF _ _ that(1) 2]) (use elements inits p in blast)+
      qed
    qed
  qed
  with assms(3,4) Some show ?thesis
    using fetch_loop_invariant [of P ?read s 0 Next 0 s'] by (simp add: ReadTables_def)
qed

section \<open>The contract of a sink\<close>

text \<open>
  A sink owns a list of rows: announcing a size changes none of them, and an item adds one row
  at the end, made from the item and its position.
\<close>

locale table_sink =
  fixes p :: "'s sink"
    and rows :: "'s \<Rightarrow> 'r list"
    and admits :: "dia \<Rightarrow> nat \<Rightarrow> 'r \<Rightarrow> bool"
  assumes rows_init: "rows (sink_init p n s) = rows s"
    and rows_element: "sink_element p t s = returns s' \<Longrightarrow>
      \<exists>x. rows s' = rows s @ [x] \<and> admits t (length (rows s)) x"
begin

lemma rows_fold:
  "run_fold (sink_element p) ts s = returns s' \<Longrightarrow>
     \<exists>xs. rows s' = rows s @ xs \<and> length xs = length ts
       \<and> (\<forall>i < length ts. admits (ts ! i) (length (rows s) + i) (xs ! i))"
proof (induction ts arbitrary: s)
  case Nil
  then show ?case by simp
next
  case (Cons t ts)
  then obtain s1 where "sink_element p t s = returns s1"
    and rest: "run_fold (sink_element p) ts s1 = returns s'"
    by (auto simp: run_bind_eq_returns)
  with rows_element obtain x where x: "rows s1 = rows s @ [x]" "admits t (length (rows s)) x" by blast
  from Cons.IH [OF rest] obtain xs where xs: "rows s' = rows s1 @ xs" "length xs = length ts"
    "\<forall>i < length ts. admits (ts ! i) (length (rows s1) + i) (xs ! i)"
    by blast
  have "admits ((t # ts) ! i) (length (rows s) + i) ((x # xs) ! i)" if "i < length (t # ts)" for i
    using that x xs by (cases i) auto
  with x xs show ?case by (intro exI [of _ "x # xs"]) simp
qed

text \<open>Reading a table adds exactly one row per item, in the order of the items.\<close>

lemma rows_ReadTable:
  assumes "ends_at (en_Next e) n" and "ReadTable e p s = returns s'"
  shows "\<exists>xs. rows s' = rows s @ xs \<and> length xs = length (items (en_Next e) n)
    \<and> (\<forall>i < length xs. admits (items (en_Next e) n ! i) (length (rows s) + i) (xs ! i))"
proof -
  from assms obtain m where "run_fold (sink_element p) (items (en_Next e) n) (sink_init p m s) = returns s'"
    by (simp add: ReadTable_returns)
  from rows_fold [OF this] show ?thesis by (auto simp: rows_init)
qed

end

end
