(* ===== verification/DIA_Input.thy ===== *)
theory DIA_Input
  imports DIA_Ctors DIA_Common Options
begin

text \<open>
  \<open>Dia2SymbolProvider\<close> of \<^verbatim>\<open>drpdb/src/DIA2Input.cpp\<close>: it fills a \<open>SymbolData\<close> from a session,
  first the sections of the debug streams, then the tables. Its state is the \<open>SymbolData\<close> and
  the map from a compiland's symbol to its row. The row constructors' uninitialised memory is
  \<open>J n\<close>, a \<open>junk\<close> for every row position.
\<close>

section \<open>State\<close>

record reader =
  Result :: SymbolData
  SymCompilandMap :: "u32 \<Rightarrow> u32 option"

definition reader_init :: "SymbolData \<Rightarrow> reader" where
  "reader_init S = \<lparr> Result = S, SymCompilandMap = (\<lambda>_. None) \<rparr>"

definition on_result :: "(SymbolData \<Rightarrow> SymbolData) \<Rightarrow> reader \<Rightarrow> reader" where
  "on_result f r = r\<lparr> Result := f (Result r) \<rparr>"

definition emplace_back :: "'a \<Rightarrow> 'a list \<Rightarrow> 'a list" where
  "emplace_back x xs = xs @ [x]"

text \<open>\<open>SymTagEnum\<close> has the names and values of \<open>Sym::Tag\<close>.\<close>

definition SymTag :: "string \<Rightarrow> u32" where
  "SymTag name = of_nat (the (map_of Tag_values name))"

section \<open>Debug streams\<close>

definition IMAGE_SCN_LNK_COMDAT :: u32 where "IMAGE_SCN_LNK_COMDAT = 0x00001000"
definition IMAGE_SCN_MEM_DISCARDABLE :: u32 where "IMAGE_SCN_MEM_DISCARDABLE = 0x02000000"
definition IMAGE_SCN_MEM_EXECUTE :: u32 where "IMAGE_SCN_MEM_EXECUTE = 0x20000000"
definition IMAGE_SCN_MEM_READ :: u32 where "IMAGE_SCN_MEM_READ = 0x40000000"
definition IMAGE_SCN_MEM_WRITE :: u32 where "IMAGE_SCN_MEM_WRITE = 0x80000000"

definition sizeof_IMAGE_SECTION_HEADER :: u32 where
  "sizeof_IMAGE_SECTION_HEADER = 40"

definition section_header_zero :: section_header where
  "section_header_zero = \<lparr> sh_Name = replicate 8 0, sh_SizeOfRawData = 0, sh_NumberOfRelocations = 0,
     sh_NumberOfLinenumbers = 0, sh_Characteristics = 0 \<rparr>"

definition section_row :: "u32 \<Rightarrow> section_header \<Rightarrow> Sym_AddrSection" where
  "section_row section_index h = \<lparr>
     AddrSection_section_index = section_index,
     AddrSection_line_numbers = ucast (sh_NumberOfLinenumbers h),
     AddrSection_size = sh_SizeOfRawData h,
     AddrSection_relocations = ucast (sh_NumberOfRelocations h),
     AddrSection_comdat = (and (sh_Characteristics h) IMAGE_SCN_LNK_COMDAT \<noteq> 0),
     AddrSection_executable = (and (sh_Characteristics h) IMAGE_SCN_MEM_EXECUTE \<noteq> 0),
     AddrSection_readable = (and (sh_Characteristics h) IMAGE_SCN_MEM_READ \<noteq> 0),
     AddrSection_writable = (and (sh_Characteristics h) IMAGE_SCN_MEM_WRITE \<noteq> 0),
     AddrSection_discardable = (and (sh_Characteristics h) IMAGE_SCN_MEM_DISCARDABLE \<noteq> 0),
     AddrSection_name = c_string (take 8 (sh_Name h)) \<rparr>"

partial_function (option) ReadSections_loop ::
    "(nat \<Rightarrow> section_answer) \<Rightarrow> nat \<Rightarrow> u32 \<Rightarrow> reader \<Rightarrow> reader run" where
  "ReadSections_loop Next k section_index r =
     (let a = Next k;
          numFetched = (case sa_numFetched a of None \<Rightarrow> 1 | Some n \<Rightarrow> n);
          bytesRead = (case sa_bytesRead a of None \<Rightarrow> 0 | Some n \<Rightarrow> n);
          h = (case sa_header a of None \<Rightarrow> section_header_zero | Some h \<Rightarrow> h)
      in if numFetched < 1 \<or> bytesRead \<noteq> sizeof_IMAGE_SECTION_HEADER then returns r
         else ReadSections_loop Next (k + 1) (section_index + 1)
                (on_result (sd_AddrSection_update (emplace_back (section_row section_index h))) r))"

definition ReadSections :: "debug_stream \<Rightarrow> reader \<Rightarrow> reader run" where
  "ReadSections enumSectionHeaders r = ReadSections_loop (ds_Next enumSectionHeaders) 0 1 r"

definition SECTIONHEADERS :: wstring where
  "SECTIONHEADERS = widen ''SECTIONHEADERS''"

definition ReadOneStream :: "debug_stream \<Rightarrow> reader \<Rightarrow> reader run" where
  "ReadOneStream enumStreamData r =
     (case ds_name enumStreamData of
        None \<Rightarrow> Some (Inl (Undefined_Behaviour ''wcscmp of a null name''))
      | Some enumDataName \<Rightarrow>
          if wcscmp_eq enumDataName SECTIONHEADERS then ReadSections enumStreamData r else returns r)"

definition ReadStreams :: "session \<Rightarrow> reader \<Rightarrow> reader run" where
  "ReadStreams session r =
     (case ses_streams session of None \<Rightarrow> returns r | Some Next \<Rightarrow> fetch_loop 1 ReadOneStream Next 0 r)"

section \<open>Lines and sources\<close>

definition ReadLines :: "env \<Rightarrow> (nat \<Rightarrow> junk) \<Rightarrow> dia \<Rightarrow> reader \<Rightarrow> reader run" where
  "ReadLines env J line r =
     (let n = length (sd_SrcRange (Result r)) in
      returns (on_result (sd_SrcRange_update (emplace_back (SrcRange_ctor env (J n) (of_nat n) line))) r))"

partial_function (option) ReadSource_loop ::
    "(nat \<Rightarrow> hresult \<times> dia list) \<Rightarrow> u32 \<Rightarrow> nat \<Rightarrow> Sym_Included list \<Rightarrow> Sym_Included list option" where
  "ReadSource_loop Next file_id k included =
     (case Next k of
        (h, fetched) \<Rightarrow>
          if h = S_OK then
            ReadSource_loop Next file_id (k + 1)
              (foldl (\<lambda>xs c. emplace_back (Included_ctor (get c ''get_symIndexId'' 0) file_id) xs)
                 included fetched)
          else Some included)"

definition ReadSource :: "env \<Rightarrow> (nat \<Rightarrow> junk) \<Rightarrow> dia \<Rightarrow> reader \<Rightarrow> reader run" where
  "ReadSource env J item r =
     (let n = length (sd_SourceFile (Result r));
          r = on_result (sd_SourceFile_update (emplace_back (SourceFile_ctor env (J n) item))) r;
          file_id = get item ''get_uniqueId'' 0
      in case compilands item of
           (h, enumerate_compilands) \<Rightarrow>
             if h = S_OK then
               (case enumerate_compilands of
                  None \<Rightarrow> Some (Inl (Undefined_Behaviour ''enumerate_compilands is null''))
                | Some Next \<Rightarrow>
                    (case ReadSource_loop Next file_id 0 (sd_Included (Result r)) of
                       None \<Rightarrow> None
                     | Some included \<Rightarrow> returns (on_result (sd_Included_update (\<lambda>_. included)) r)))
             else returns r)"

section \<open>Symbols\<close>

definition ReadUDTSymbol :: "env \<Rightarrow> (nat \<Rightarrow> junk) \<Rightarrow> junk \<Rightarrow> dia \<Rightarrow> u32 \<Rightarrow> reader \<Rightarrow> reader run" where
  "ReadUDTSymbol env J \<sigma> dia symIndexId r =
     run_bind (Some (UserType_ctor env \<sigma> dia symIndexId)) (\<lambda>x.
      let r = on_result (sd_UserType_update (emplace_back x)) r in
      case related dia ''getSrcLineOnTypeDefn'' of
        (h, None) \<Rightarrow> returns r
      | (h, Some line) \<Rightarrow>
          if SUCCEEDED h then
            (let n = length (sd_SrcRange (Result r));
                 ident = of_nat n;
                 r = on_result (sd_UserType_update
                       (\<lambda>us. us[length us - 1 := (last us)\<lparr> UserType_src_line := ident \<rparr>])) r
             in returns (on_result (sd_SrcRange_update (emplace_back (SrcRange_ctor env (J n) ident line))) r))
          else returns r)"

text \<open>\<open>operator[]\<close> of the map inserts a zero for a key it does not hold.\<close>

definition ReadCompilandDetailsSymbol :: "env \<Rightarrow> junk \<Rightarrow> dia \<Rightarrow> reader \<Rightarrow> reader run" where
  "ReadCompilandDetailsSymbol env \<sigma> dia r =
     (let Compiland = get dia ''get_lexicalParentId'' 0;
          i = (case SymCompilandMap r Compiland of None \<Rightarrow> 0 | Some i \<Rightarrow> i);
          r = r\<lparr> SymCompilandMap := (SymCompilandMap r)(Compiland \<mapsto> i) \<rparr>
      in if unat i < length (sd_Compiland (Result r))
         then returns (on_result (sd_Compiland_update (\<lambda>cs.
                cs[unat i := Compiland_AppendDetails env \<sigma> (cs ! unat i) dia])) r)
         else Some (Inl (Undefined_Behaviour ''Result.Compiland[]'')))"

definition ReadCompilandSymbol :: "env \<Rightarrow> junk \<Rightarrow> dia \<Rightarrow> u32 \<Rightarrow> reader \<Rightarrow> reader" where
  "ReadCompilandSymbol env \<sigma> dia symIndexId r =
     (let r = r\<lparr> SymCompilandMap :=
            (SymCompilandMap r)(symIndexId \<mapsto> of_nat (length (sd_Compiland (Result r)))) \<rparr>
      in on_result (sd_Compiland_update (emplace_back (Compiland_ctor env \<sigma> dia symIndexId))) r)"

text \<open>The \<open>switch\<close> over the tag; tags that have no table end in \<open>break\<close>.\<close>

definition ReadSymbol_switch ::
    "env \<Rightarrow> (nat \<Rightarrow> junk) \<Rightarrow> junk \<Rightarrow> u32 \<Rightarrow> dia \<Rightarrow> u32 \<Rightarrow> reader \<Rightarrow> reader run" where
  "ReadSymbol_switch env J \<sigma> tag dia symIndexId r =
     (if tag = SymTag ''Exe'' then
        returns (on_result (sd_Exe_update (emplace_back (Exe_ctor env \<sigma> dia))) r)
      else if tag = SymTag ''Compiland'' then
        returns (ReadCompilandSymbol env \<sigma> dia symIndexId r)
      else if tag = SymTag ''CompilandDetails'' then
        ReadCompilandDetailsSymbol env \<sigma> dia r
      else if tag = SymTag ''CompilandEnv'' then
        returns (on_result (sd_CompilandEnv_update (emplace_back (CompilandEnv_ctor env \<sigma> dia))) r)
      else if tag = SymTag ''Function'' then
        returns (on_result (sd_Function_update (emplace_back (Function_ctor env \<sigma> dia symIndexId))) r)
      else if tag = SymTag ''Block'' then
        returns (on_result (sd_Block_update (emplace_back (Block_ctor env \<sigma> dia symIndexId))) r)
      else if tag = SymTag ''Data'' then
        run_bind (Some (Data_ctor env \<sigma> dia symIndexId)) (\<lambda>x.
          returns (on_result (sd_Data_update (emplace_back x)) r))
      else if tag = SymTag ''Label'' then
        returns (on_result (sd_Label_update (emplace_back (Label_ctor env \<sigma> dia symIndexId))) r)
      else if tag = SymTag ''PublicSymbol'' then
        returns (on_result (sd_PublicSymbol_update (emplace_back (PublicSymbol_ctor env \<sigma> dia symIndexId))) r)
      else if tag = SymTag ''UDT'' then
        ReadUDTSymbol env J \<sigma> dia symIndexId r
      else if tag = SymTag ''Enum'' then
        returns (on_result (sd_Enum_update (emplace_back (Enum_ctor env \<sigma> dia symIndexId))) r)
      else if tag = SymTag ''FunctionType'' then
        run_bind (Some (FunctionType_ctor env \<sigma> dia symIndexId)) (\<lambda>x.
          returns (on_result (sd_FunctionType_update (emplace_back x)) r))
      else if tag = SymTag ''PointerType'' then
        returns (on_result (sd_Pointer_update (emplace_back (Pointer_ctor env \<sigma> dia symIndexId))) r)
      else if tag = SymTag ''ArrayType'' then
        returns (on_result (sd_Array_update (emplace_back (Array_ctor env \<sigma> dia symIndexId))) r)
      else if tag = SymTag ''BaseType'' then
        returns (on_result (sd_BuiltinType_update (emplace_back (BuiltinType_ctor env \<sigma> dia symIndexId))) r)
      else if tag = SymTag ''Typedef'' then
        returns (on_result (sd_Typedef_update (emplace_back (Typedef_ctor env \<sigma> dia symIndexId))) r)
      else if tag = SymTag ''BaseClass'' then
        returns (on_result (sd_BaseClass_update (emplace_back (BaseClass_ctor env \<sigma> dia))) r)
      else if tag = SymTag ''Friend'' then
        returns (on_result (sd_Friend_update (emplace_back (Friend_ctor env \<sigma> dia symIndexId))) r)
      else if tag = SymTag ''FunctionArgType'' then
        returns (on_result (sd_FunctionArg_update (emplace_back (FunctionArg_ctor env \<sigma> dia symIndexId))) r)
      else if tag = SymTag ''VTable'' then
        returns (on_result (sd_VTablePtr_update (emplace_back (VTablePtr_ctor env \<sigma> dia symIndexId))) r)
      else if tag = SymTag ''Thunk'' then
        returns (on_result (sd_Thunk_update (emplace_back (Thunk_ctor env \<sigma> dia symIndexId))) r)
      else if tag = SymTag ''CallSite'' then
        returns (on_result (sd_Callsite_update (emplace_back (Callsite_ctor env \<sigma> dia symIndexId))) r)
      else if tag = SymTag ''InlineSite'' then
        returns (on_result (sd_Inlined_update (emplace_back (Inlined_ctor env \<sigma> dia symIndexId))) r)
      else if tag = SymTag ''Export'' then
        returns (on_result (sd_Export_update (emplace_back (Export_ctor env \<sigma> dia symIndexId))) r)
      else if tag = SymTag ''HeapAllocationSite'' then
        returns (on_result (sd_HeapAllocation_update (emplace_back (HeapAllocation_ctor env \<sigma> dia symIndexId))) r)
      else returns r)"

definition ReadSymbol :: "env \<Rightarrow> (nat \<Rightarrow> junk) \<Rightarrow> dia \<Rightarrow> reader \<Rightarrow> reader run" where
  "ReadSymbol env J dia r =
     (let symIndexId = get dia ''get_symIndexId'' 0;
          tag = get dia ''get_symTag'' 0;
          \<sigma> = J (length (sd_Symbol (Result r)));
          r = on_result (sd_Symbol_update (emplace_back (Symbol_ctor env \<sigma> dia symIndexId (ucast tag)))) r
      in ReadSymbol_switch env J \<sigma> tag dia symIndexId r)"

section \<open>Sinks\<close>

text \<open>
  The helpers that \<open>ReadTables\<close> drives. \<open>emplace_helper\<close> works on a vector of the \<open>SymbolData\<close>;
  the three helpers of the provider reserve room and hand the item to a method.
\<close>

definition helper_sink :: "(dia \<Rightarrow> reader \<Rightarrow> reader run) \<Rightarrow> reader sink" where
  "helper_sink method = \<lparr> sink_init = (\<lambda>n r. r), sink_element = method \<rparr>"

definition emplace_sink ::
    "(nat \<Rightarrow> dia \<Rightarrow> 'e result) \<Rightarrow> (SymbolData \<Rightarrow> 'e list) \<Rightarrow> (('e list \<Rightarrow> 'e list) \<Rightarrow> SymbolData \<Rightarrow> SymbolData)
      \<Rightarrow> reader sink" where
  "emplace_sink ctor contrib contrib_update =
     \<lparr> sink_init = (\<lambda>n. on_result (contrib_update (emplace_helper_init n))),
       sink_element = (\<lambda>item r.
         run_bind (Some (ctor (length (contrib (Result r))) item)) (\<lambda>x.
           returns (on_result (contrib_update (emplace_helper_element (\<lambda>_. x) item)) r))) \<rparr>"

definition ReadSectionContrib :: "env \<Rightarrow> (nat \<Rightarrow> junk) \<Rightarrow> reader sink" where
  "ReadSectionContrib env J =
     emplace_sink (\<lambda>n dia. Inr (SectionContrib_ctor env (J n) dia)) sd_SectionContrib sd_SectionContrib_update"

definition ReadInjectedSource :: "env \<Rightarrow> (nat \<Rightarrow> junk) \<Rightarrow> reader sink" where
  "ReadInjectedSource env J =
     emplace_sink (\<lambda>n. InjectedSource_ctor env (J n)) sd_InjectedSource sd_InjectedSource_update"

definition ReadSegment :: "env \<Rightarrow> (nat \<Rightarrow> junk) \<Rightarrow> reader sink" where
  "ReadSegment env J = emplace_sink (\<lambda>n dia. Inr (Segment_ctor env (J n) dia)) sd_Segment sd_Segment_update"

definition ReadInputAssembly :: "env \<Rightarrow> (nat \<Rightarrow> junk) \<Rightarrow> reader sink" where
  "ReadInputAssembly env J =
     emplace_sink (\<lambda>n dia. Inr (InputAssembly_ctor env (J n) dia)) sd_InputAssembly sd_InputAssembly_update"

definition ReadFrame :: "env \<Rightarrow> (nat \<Rightarrow> junk) \<Rightarrow> reader sink" where
  "ReadFrame env J = emplace_sink (\<lambda>n dia. Inr (Frame_ctor env (J n) dia)) sd_Frame sd_Frame_update"

definition ReadSourceHelper :: "env \<Rightarrow> (nat \<Rightarrow> junk) \<Rightarrow> reader sink" where
  "ReadSourceHelper env J = helper_sink (ReadSource env J)"

definition ReadSymbolHelper :: "env \<Rightarrow> (nat \<Rightarrow> junk) \<Rightarrow> reader sink" where
  "ReadSymbolHelper env J = helper_sink (ReadSymbol env J)"

definition ReadLineHelper :: "env \<Rightarrow> (nat \<Rightarrow> junk) \<Rightarrow> reader sink" where
  "ReadLineHelper env J = helper_sink (ReadLines env J)"

section \<open>The whole read\<close>

definition provider_ReadSymbols ::
    "table_names \<Rightarrow> env \<Rightarrow> (nat \<Rightarrow> junk) \<Rightarrow> string list \<Rightarrow> session \<Rightarrow> reader \<Rightarrow> reader run" where
  "provider_ReadSymbols nm env J argv session r =
     (let env = env\<lparr> no_addresses := getFlag argv ''-noaddress'',
                     findSymbolByRVA := ses_findSymbolByRVA session \<rparr>;
          r = on_result (sd_Symbol_update (emplace_back Symbol_default)) r
      in run_bind (ReadStreams session r) (\<lambda>r.
           ReadTables nm session
             (ReadSectionContrib env J) (ReadInjectedSource env J) (ReadSourceHelper env J)
             (ReadSymbolHelper env J) (ReadSegment env J) (ReadInputAssembly env J)
             (ReadFrame env J) (ReadLineHelper env J) r))"

definition DIA2_ReadSymbols ::
    "table_names \<Rightarrow> env \<Rightarrow> (nat \<Rightarrow> junk) \<Rightarrow> com_runtime \<Rightarrow> string list \<Rightarrow> string \<Rightarrow> SymbolData \<Rightarrow> SymbolData run" where
  "DIA2_ReadSymbols nm env J com argv File S =
     run_bind (Some (Provider_load (Provider_source com) File)) (\<lambda>(ok, session).
       if ok then
         (case session of
            None \<Rightarrow> Some (Inl (Undefined_Behaviour ''session is null''))
          | Some ses \<Rightarrow>
              run_bind (provider_ReadSymbols nm env J argv ses (reader_init S)) (\<lambda>r. returns (Result r)))
       else returns S)"

end
