(* ===== verification/DIA_Rows.thy ===== *)
theory DIA_Rows
  imports DIA_Ctors
begin

text \<open>
  What the row constructors put into a row: the symbol a row belongs to, the independence of
  a row from the memory it is built in, and the decisions that some constructors take.
\<close>

section \<open>The symbol of a row\<close>

lemma Array_ctor_symbol [ctor_simps]: "Array_symbol (Array_ctor env \<sigma> dia symIndexId) = symIndexId"
  by (simp add: Array_ctor_def Let_def split_beta)

lemma Block_ctor_symbol [ctor_simps]: "Block_symbol (Block_ctor env \<sigma> dia symIndexId) = symIndexId"
  by (simp add: Block_ctor_def Let_def split_beta)

lemma HeapAllocation_ctor_symbol [ctor_simps]: "HeapAllocation_symbol (HeapAllocation_ctor env \<sigma> dia symIndexId) = symIndexId"
  by (simp add: HeapAllocation_ctor_def Let_def split_beta)

lemma Inlined_ctor_symbol [ctor_simps]: "Inlined_symbol (Inlined_ctor env \<sigma> dia symIndexId) = symIndexId"
  by (simp add: Inlined_ctor_def Let_def split_beta)

lemma Export_ctor_symbol [ctor_simps]: "Export_symbol (Export_ctor env \<sigma> dia symIndexId) = symIndexId"
  by (simp add: Export_ctor_def Let_def split_beta)

lemma Typedef_ctor_symbol [ctor_simps]: "Typedef_symbol (Typedef_ctor env \<sigma> dia symIndexId) = symIndexId"
  by (simp add: Typedef_ctor_def Let_def split_beta)

lemma PublicSymbol_ctor_symbol [ctor_simps]: "PublicSymbol_symbol (PublicSymbol_ctor env \<sigma> dia symIndexId) = symIndexId"
  by (simp add: PublicSymbol_ctor_def Let_def split_beta)

lemma FunctionArg_ctor_symbol [ctor_simps]: "FunctionArg_symbol (FunctionArg_ctor env \<sigma> dia symIndexId) = symIndexId"
  by (simp add: FunctionArg_ctor_def Let_def split_beta)

lemma Function_ctor_symbol [ctor_simps]: "Function_symbol (Function_ctor env \<sigma> dia symIndexId) = symIndexId"
  by (simp add: Function_ctor_def Let_def split_beta)

lemma Enum_ctor_symbol [ctor_simps]: "Enum_symbol (Enum_ctor env \<sigma> dia symIndexId) = symIndexId"
  by (simp add: Enum_ctor_def Let_def split_beta)

lemma Compiland_ctor_symbol [ctor_simps]: "Compiland_symbol (Compiland_ctor env \<sigma> dia symIndexId) = symIndexId"
  by (simp add: Compiland_ctor_def Let_def split_beta)

lemma result_bind_eq_Inr: "result_bind r f = Inr y \<longleftrightarrow> (\<exists>x. r = Inr x \<and> f x = Inr y)"
  and result_bind_eq_Inl: "result_bind r f = Inl e \<longleftrightarrow> r = Inl e \<or> (\<exists>x. r = Inr x \<and> f x = Inl e)"
  by (cases r; simp add: result_bind_def)+

text \<open>The two constructors that follow a pointer: whether they fault depends on the pointer alone.\<close>

lemma UserType_ctor_shape:
  "\<exists>f. UserType_ctor env \<sigma> d i
     = result_bind (from_related d ''get_virtualTableShape'' ''get_count'' 0) (\<lambda>D. Inr (f D))"
  unfolding UserType_ctor_def Let_def split_beta by (rule exI) (rule refl)

lemma FunctionType_ctor_shape:
  "\<exists>f. FunctionType_ctor env \<sigma> d i
     = result_bind (from_related d ''get_objectPointerType'' ''get_symIndexId'' 0) (\<lambda>D. Inr (f D))"
  unfolding FunctionType_ctor_def Let_def by (rule exI) (rule refl)

lemma from_related_faults:
  "from_related d m g V = Inl e \<longleftrightarrow> related d m = (S_OK, None) \<and> e = Undefined_Behaviour m"
  by (auto simp: from_related_def split: prod.split option.split)

lemma UserType_ctor_faults:
  "UserType_ctor env \<sigma> d i = Inl e \<longleftrightarrow>
     related d ''get_virtualTableShape'' = (S_OK, None) \<and> e = Undefined_Behaviour ''get_virtualTableShape''"
proof -
  obtain f where shape: "UserType_ctor env \<sigma> d i
     = result_bind (from_related d ''get_virtualTableShape'' ''get_count'' 0) (\<lambda>D. Inr (f D))"
    using UserType_ctor_shape by blast
  show ?thesis by (simp add: shape result_bind_eq_Inl from_related_faults)
qed

lemma FunctionType_ctor_faults:
  "FunctionType_ctor env \<sigma> d i = Inl e \<longleftrightarrow>
     related d ''get_objectPointerType'' = (S_OK, None) \<and> e = Undefined_Behaviour ''get_objectPointerType''"
proof -
  obtain f where shape: "FunctionType_ctor env \<sigma> d i
     = result_bind (from_related d ''get_objectPointerType'' ''get_symIndexId'' 0) (\<lambda>D. Inr (f D))"
    using FunctionType_ctor_shape by blast
  show ?thesis by (simp add: shape result_bind_eq_Inl from_related_faults)
qed

lemma ctor_not_faulted:
  "UserType_ctor env \<sigma> d i = Inr x \<Longrightarrow> related d ''get_virtualTableShape'' \<noteq> (S_OK, None)"
  "FunctionType_ctor env \<sigma> d i = Inr y \<Longrightarrow> related d ''get_objectPointerType'' \<noteq> (S_OK, None)"
  by (metis UserType_ctor_faults sum.distinct(1), metis FunctionType_ctor_faults sum.distinct(1))

lemma FunctionType_ctor_symbol [ctor_simps]:
  "FunctionType_ctor env \<sigma> dia symIndexId = Inr x \<Longrightarrow> FunctionType_symbol x = symIndexId"
  by (auto simp: FunctionType_ctor_def Let_def result_bind_eq_Inr)

lemma BuiltinType_ctor_symbol [ctor_simps]: "BuiltinType_symbol (BuiltinType_ctor env \<sigma> dia symIndexId) = symIndexId"
  by (simp add: BuiltinType_ctor_def Let_def split_beta)

lemma UserType_ctor_symbol [ctor_simps]:
  assumes "UserType_ctor env \<sigma> dia symIndexId = Inr x"
  shows "UserType_symbol x = symIndexId" "UserType_src_line x = 0"
proof -
  have "map_sum id (\<lambda>x. (UserType_symbol x, UserType_src_line x)) (UserType_ctor env \<sigma> dia symIndexId)
      = map_sum id (\<lambda>_. (symIndexId, 0)) (from_related dia ''get_virtualTableShape'' ''get_count'' 0)"
    unfolding UserType_ctor_def Let_def
    by (cases "from_related dia ''get_virtualTableShape'' ''get_count'' 0") (simp_all add: split_beta)
  with assms show "UserType_symbol x = symIndexId" "UserType_src_line x = 0"
    by (cases "from_related dia ''get_virtualTableShape'' ''get_count'' 0"; simp)+
qed

lemma Label_ctor_symbol [ctor_simps]: "Label_symbol (Label_ctor env \<sigma> dia symIndexId) = symIndexId"
  by (simp add: Label_ctor_def Let_def split_beta)

lemma Callsite_ctor_symbol [ctor_simps]: "Callsite_symbol (Callsite_ctor env \<sigma> dia symIndexId) = symIndexId"
  by (simp add: Callsite_ctor_def Let_def split_beta)

lemma Pointer_ctor_symbol [ctor_simps]: "Pointer_symbol (Pointer_ctor env \<sigma> dia symIndexId) = symIndexId"
  by (simp add: Pointer_ctor_def Let_def split_beta)

lemma Thunk_ctor_symbol [ctor_simps]: "Thunk_symbol (Thunk_ctor env \<sigma> dia symIndexId) = symIndexId"
  by (simp add: Thunk_ctor_def Let_def split_beta)

lemma VTablePtr_ctor_symbol [ctor_simps]: "VTablePtr_symbol (VTablePtr_ctor env \<sigma> dia symIndexId) = symIndexId"
  by (simp add: VTablePtr_ctor_def Let_def split_beta)

lemma Friend_ctor_symbol [ctor_simps]: "Friend_symbol (Friend_ctor env \<sigma> dia symIndexId) = symIndexId"
  by (simp add: Friend_ctor_def Let_def split_beta)

lemma Symbol_ctor_simps [ctor_simps]:
  "Symbol_symbol (Symbol_ctor env \<sigma> dia symIndexId tag) = symIndexId"
  "Symbol_tag (Symbol_ctor env \<sigma> dia symIndexId tag) = tag"
  by (simp_all add: Symbol_ctor_def Let_def)

lemma SrcRange_ctor_id [ctor_simps]: "SrcRange_id (SrcRange_ctor env \<sigma> i dia) = i"
  by (simp add: SrcRange_ctor_def Let_def)

lemma Data_ctor_symbol [ctor_simps]:
  "Data_ctor env \<sigma> dia symIndexId = Inr x \<Longrightarrow> Data_symbol x = symIndexId"
  by (auto simp: Data_ctor_def Let_def result_bind_def split: sum.splits)

lemma AppendDetails_symbol [ctor_simps]:
  "Compiland_symbol (Compiland_AppendDetails env \<sigma> this dia) = Compiland_symbol this"
  by (simp add: Compiland_AppendDetails_def Let_def)

section \<open>Independence of uninitialised memory\<close>

text \<open>A constructor that sets every field from locals that a getter has written.\<close>

lemma BaseClass_ctor_initialised: "complete dia \<Longrightarrow> BaseClass_ctor env \<sigma> dia = BaseClass_ctor env \<sigma>' dia"
  by (rule Sym_BaseClass.equality) (simp_all add: BaseClass_ctor_def Let_def split_beta get_complete getQ_complete
    cong: option.case_cong variant.case_cong if_cong)

lemma Array_ctor_initialised: "complete dia \<Longrightarrow> Array_ctor env \<sigma> dia i = Array_ctor env \<sigma>' dia i"
  by (rule Sym_Array.equality) (simp_all add: Array_ctor_def Let_def split_beta get_complete getQ_complete
    cong: option.case_cong variant.case_cong if_cong)

lemma SectionContrib_ctor_initialised: "complete dia \<Longrightarrow> SectionContrib_ctor env \<sigma> dia = SectionContrib_ctor env \<sigma>' dia"
  by (rule Sym_SectionContrib.equality) (simp_all add: SectionContrib_ctor_def Let_def split_beta get_complete getQ_complete
    cong: option.case_cong variant.case_cong if_cong)

lemma Block_ctor_initialised: "complete dia \<Longrightarrow> Block_ctor env \<sigma> dia i = Block_ctor env \<sigma>' dia i"
  by (rule Sym_Block.equality) (simp_all add: Block_ctor_def Let_def split_beta get_complete getQ_complete
    cong: option.case_cong variant.case_cong if_cong)

lemma HeapAllocation_ctor_initialised: "complete dia \<Longrightarrow> HeapAllocation_ctor env \<sigma> dia i = HeapAllocation_ctor env \<sigma>' dia i"
  by (rule Sym_HeapAllocation.equality) (simp_all add: HeapAllocation_ctor_def Let_def split_beta get_complete getQ_complete
    cong: option.case_cong variant.case_cong if_cong)

lemma Segment_ctor_initialised: "complete dia \<Longrightarrow> Segment_ctor env \<sigma> dia = Segment_ctor env \<sigma>' dia"
  by (rule Sym_Segment.equality) (simp_all add: Segment_ctor_def Let_def split_beta get_complete getQ_complete
    cong: option.case_cong variant.case_cong if_cong)

lemma Inlined_ctor_initialised: "complete dia \<Longrightarrow> Inlined_ctor env \<sigma> dia i = Inlined_ctor env \<sigma>' dia i"
  by (rule Sym_Inlined.equality) (simp_all add: Inlined_ctor_def Let_def split_beta get_complete getQ_complete
    cong: option.case_cong variant.case_cong if_cong)

lemma Export_ctor_initialised: "complete dia \<Longrightarrow> Export_ctor env \<sigma> dia i = Export_ctor env \<sigma>' dia i"
  by (rule Sym_Export.equality) (simp_all add: Export_ctor_def Let_def split_beta get_complete getQ_complete
    cong: option.case_cong variant.case_cong if_cong)

lemma Typedef_ctor_initialised: "complete dia \<Longrightarrow> Typedef_ctor env \<sigma> dia i = Typedef_ctor env \<sigma>' dia i"
  by (rule Sym_Typedef.equality) (simp_all add: Typedef_ctor_def Let_def split_beta get_complete getQ_complete
    cong: option.case_cong variant.case_cong if_cong)

lemma PublicSymbol_ctor_initialised: "complete dia \<Longrightarrow> PublicSymbol_ctor env \<sigma> dia i = PublicSymbol_ctor env \<sigma>' dia i"
  by (rule Sym_PublicSymbol.equality) (simp_all add: PublicSymbol_ctor_def Let_def split_beta get_complete getQ_complete
    cong: option.case_cong variant.case_cong if_cong)

lemma FunctionArg_ctor_initialised: "complete dia \<Longrightarrow> FunctionArg_ctor env \<sigma> dia i = FunctionArg_ctor env \<sigma>' dia i"
  by (rule Sym_FunctionArg.equality) (simp_all add: FunctionArg_ctor_def Let_def split_beta get_complete getQ_complete
    cong: option.case_cong variant.case_cong if_cong)

lemma InputAssembly_ctor_initialised: "complete dia \<Longrightarrow> InputAssembly_ctor env \<sigma> dia = InputAssembly_ctor env \<sigma>' dia"
  by (rule Sym_InputAssembly.equality) (simp_all add: InputAssembly_ctor_def Let_def split_beta get_complete getQ_complete
    cong: option.case_cong variant.case_cong if_cong)

lemma SourceFile_ctor_initialised: "complete dia \<Longrightarrow> SourceFile_ctor env \<sigma> dia = SourceFile_ctor env \<sigma>' dia"
  by (rule Sym_SourceFile.equality) (simp_all add: SourceFile_ctor_def Let_def split_beta get_complete getQ_complete
    cong: option.case_cong variant.case_cong if_cong)

lemma Compiland_ctor_initialised: "complete dia \<Longrightarrow> Compiland_ctor env \<sigma> dia i = Compiland_ctor env \<sigma>' dia i"
  by (rule Sym_Compiland.equality) (simp_all add: Compiland_ctor_def Let_def split_beta get_complete getQ_complete
    cong: option.case_cong variant.case_cong if_cong)

lemma Symbol_ctor_initialised: "complete dia \<Longrightarrow> Symbol_ctor env \<sigma> dia i t = Symbol_ctor env \<sigma>' dia i t"
  by (rule Sym_Symbol.equality) (simp_all add: Symbol_ctor_def Let_def split_beta get_complete getQ_complete
    cong: option.case_cong variant.case_cong if_cong)

lemma FunctionType_ctor_initialised: "complete dia \<Longrightarrow> FunctionType_ctor env \<sigma> dia i = FunctionType_ctor env \<sigma>' dia i"
  unfolding FunctionType_ctor_def Let_def
  by (rule arg_cong [where f = "result_bind _"], intro ext, rule arg_cong [where f = Inr], rule Sym_FunctionType.equality)
    (simp_all add: get_complete)

lemma SrcRange_ctor_initialised: "complete dia \<Longrightarrow> SrcRange_ctor env \<sigma> i dia = SrcRange_ctor env \<sigma>' i dia"
  by (rule Sym_SrcRange.equality) (simp_all add: SrcRange_ctor_def Let_def split_beta get_complete getQ_complete
    cong: option.case_cong variant.case_cong if_cong)

lemma BuiltinType_ctor_initialised: "complete dia \<Longrightarrow> BuiltinType_ctor env \<sigma> dia i = BuiltinType_ctor env \<sigma>' dia i"
  by (rule Sym_BuiltinType.equality) (simp_all add: BuiltinType_ctor_def Let_def split_beta get_complete getQ_complete
    cong: option.case_cong variant.case_cong if_cong)

lemma Label_ctor_initialised: "complete dia \<Longrightarrow> Label_ctor env \<sigma> dia i = Label_ctor env \<sigma>' dia i"
  by (rule Sym_Label.equality) (simp_all add: Label_ctor_def Let_def split_beta get_complete getQ_complete
    cong: option.case_cong variant.case_cong if_cong)

lemma Callsite_ctor_initialised: "complete dia \<Longrightarrow> Callsite_ctor env \<sigma> dia i = Callsite_ctor env \<sigma>' dia i"
  by (rule Sym_Callsite.equality) (simp_all add: Callsite_ctor_def Let_def split_beta get_complete getQ_complete
    cong: option.case_cong variant.case_cong if_cong)

lemma Pointer_ctor_initialised: "complete dia \<Longrightarrow> Pointer_ctor env \<sigma> dia i = Pointer_ctor env \<sigma>' dia i"
  by (rule Sym_Pointer.equality) (simp_all add: Pointer_ctor_def Let_def split_beta get_complete getQ_complete
    cong: option.case_cong variant.case_cong if_cong)

lemma CompilandEnv_ctor_initialised: "complete dia \<Longrightarrow> CompilandEnv_ctor env \<sigma> dia = CompilandEnv_ctor env \<sigma>' dia"
  by (rule Sym_CompilandEnv.equality) (simp_all add: CompilandEnv_ctor_def Let_def split_beta get_complete getQ_complete
    cong: option.case_cong variant.case_cong if_cong)

lemma Thunk_ctor_initialised: "complete dia \<Longrightarrow> Thunk_ctor env \<sigma> dia i = Thunk_ctor env \<sigma>' dia i"
  by (rule Sym_Thunk.equality) (simp_all add: Thunk_ctor_def Let_def split_beta get_complete getQ_complete
    cong: option.case_cong variant.case_cong if_cong)

lemma Frame_ctor_initialised: "complete dia \<Longrightarrow> Frame_ctor env \<sigma> dia = Frame_ctor env \<sigma>' dia"
  by (rule Sym_Frame.equality) (simp_all add: Frame_ctor_def Let_def split_beta get_complete getQ_complete
    cong: option.case_cong variant.case_cong if_cong)

lemma Friend_ctor_initialised: "complete dia \<Longrightarrow> Friend_ctor env \<sigma> dia i = Friend_ctor env \<sigma>' dia i"
  by (rule Sym_Friend.equality) (simp_all add: Friend_ctor_def Let_def split_beta get_complete getQ_complete
    cong: option.case_cong variant.case_cong if_cong)

end
