(* ===== verification/DIA_Reader.thy ===== *)
theory DIA_Reader
  imports DIA_Input DIA_Rows
begin

text \<open>
  What the reader does to the tables, on any session: which table a symbol goes to, the step
  relation whose steps are the calls that change the state, the invariants of every state it
  reaches, and the sinks as instances of the contract \<open>table_sink\<close>.
\<close>

section \<open>One symbol\<close>

lemma SymTag_simps:
  "SymTag ''Exe'' = 1" "SymTag ''Compiland'' = 2" "SymTag ''CompilandDetails'' = 3"
  "SymTag ''CompilandEnv'' = 4" "SymTag ''Function'' = 5" "SymTag ''Block'' = 6"
  "SymTag ''Data'' = 7" "SymTag ''Label'' = 9" "SymTag ''PublicSymbol'' = 10"
  "SymTag ''UDT'' = 11" "SymTag ''Enum'' = 12" "SymTag ''FunctionType'' = 13"
  "SymTag ''PointerType'' = 14" "SymTag ''ArrayType'' = 15" "SymTag ''BaseType'' = 16"
  "SymTag ''Typedef'' = 17" "SymTag ''BaseClass'' = 18" "SymTag ''Friend'' = 19"
  "SymTag ''FunctionArgType'' = 20" "SymTag ''VTable'' = 25" "SymTag ''Thunk'' = 27"
  "SymTag ''CallSite'' = 31" "SymTag ''InlineSite'' = 32" "SymTag ''Export'' = 39"
  "SymTag ''HeapAllocationSite'' = 40"
  by (simp_all add: SymTag_def Tag_values_def)

lemma on_result_simps [simp]:
  "Result (on_result f r) = f (Result r)" "SymCompilandMap (on_result f r) = SymCompilandMap r"
  by (simp_all add: on_result_def)

lemma map_emplace_back [simp]: "map f (emplace_back x xs) = map f xs @ [f x]"
  "length (emplace_back x xs) = Suc (length xs)"
  by (simp_all add: emplace_back_def)

lemma update_last_emplace [simp]:
  "(emplace_back x xs)[length xs := y] = emplace_back y xs" "last (emplace_back x xs) = x"
  by (simp_all add: emplace_back_def)

text \<open>The state after a user type whose row is \<open>x\<close>.\<close>

definition with_UDT :: "env \<Rightarrow> (nat \<Rightarrow> junk) \<Rightarrow> dia \<Rightarrow> Sym_UserType \<Rightarrow> reader \<Rightarrow> reader" where
  "with_UDT env J dia x = on_result (\<lambda>S.
     case related dia ''getSrcLineOnTypeDefn'' of
        (h, Some line) \<Rightarrow>
          if SUCCEEDED h then
            (let n = length (sd_SrcRange S) in
             S\<lparr> sd_UserType := emplace_back (x\<lparr> UserType_src_line := of_nat n \<rparr>) (sd_UserType S),
               sd_SrcRange := emplace_back (SrcRange_ctor env (J n) (of_nat n) line) (sd_SrcRange S) \<rparr>)
          else S\<lparr> sd_UserType := emplace_back x (sd_UserType S) \<rparr>
      | (h, None) \<Rightarrow> S\<lparr> sd_UserType := emplace_back x (sd_UserType S) \<rparr>)"

lemma ReadUDTSymbol_eq:
  "ReadUDTSymbol env J \<sigma> dia i r =
     run_bind (Some (UserType_ctor env \<sigma> dia i)) (\<lambda>x. returns (with_UDT env J dia x r))"
  by (auto simp: ReadUDTSymbol_def with_UDT_def on_result_def Let_def run_bind_def
      split: prod.split option.split sum.split)

lemma SymCompilandMap_with_UDT [simp]: "SymCompilandMap (with_UDT env J dia x r) = SymCompilandMap r"
  by (simp add: with_UDT_def)

lemma Result_with_UDT:
  "Result (with_UDT env J dia x r) =
     (case related dia ''getSrcLineOnTypeDefn'' of
        (h, Some line) \<Rightarrow>
          if SUCCEEDED h then
            (let n = length (sd_SrcRange (Result r)) in
             (Result r)\<lparr>
               sd_UserType := emplace_back (x\<lparr> UserType_src_line := of_nat n \<rparr>) (sd_UserType (Result r)),
               sd_SrcRange := emplace_back (SrcRange_ctor env (J n) (of_nat n) line) (sd_SrcRange (Result r)) \<rparr>)
          else (Result r)\<lparr> sd_UserType := emplace_back x (sd_UserType (Result r)) \<rparr>
      | (h, None) \<Rightarrow> (Result r)\<lparr> sd_UserType := emplace_back x (sd_UserType (Result r)) \<rparr>)"
  by (simp add: with_UDT_def)

lemma map_AppendDetails:
  "n < length cs \<Longrightarrow>
     map Compiland_symbol (cs[n := Compiland_AppendDetails env \<sigma> (cs ! n) dia]) = map Compiland_symbol cs"
  by (metis AppendDetails_symbol list_update_id map_update nth_map)

definition switch_tags :: "string list" where
  "switch_tags = [
     ''Exe'', ''Compiland'', ''CompilandDetails'', ''CompilandEnv'', ''Function'',
     ''Block'', ''Data'', ''Label'', ''PublicSymbol'', ''UDT'',
     ''Enum'', ''FunctionType'', ''PointerType'', ''ArrayType'', ''BaseType'',
     ''Typedef'', ''BaseClass'', ''Friend'', ''FunctionArgType'', ''VTable'',
     ''Thunk'', ''CallSite'', ''InlineSite'', ''Export'', ''HeapAllocationSite'']"

text \<open>
  The tables whose rows are the symbols of one tag, with the column that holds the symbol.
\<close>

definition symbol_tables :: "(string \<times> (SymbolData \<Rightarrow> u32 list)) list" where
  "symbol_tables = [
     (''Compiland'', \<lambda>S. map Compiland_symbol (sd_Compiland S)),
     (''Function'', \<lambda>S. map Function_symbol (sd_Function S)),
     (''Block'', \<lambda>S. map Block_symbol (sd_Block S)),
     (''Data'', \<lambda>S. map Data_symbol (sd_Data S)),
     (''Label'', \<lambda>S. map Label_symbol (sd_Label S)),
     (''PublicSymbol'', \<lambda>S. map PublicSymbol_symbol (sd_PublicSymbol S)),
     (''UDT'', \<lambda>S. map UserType_symbol (sd_UserType S)),
     (''Enum'', \<lambda>S. map Enum_symbol (sd_Enum S)),
     (''FunctionType'', \<lambda>S. map FunctionType_symbol (sd_FunctionType S)),
     (''PointerType'', \<lambda>S. map Pointer_symbol (sd_Pointer S)),
     (''ArrayType'', \<lambda>S. map Array_symbol (sd_Array S)),
     (''BaseType'', \<lambda>S. map BuiltinType_symbol (sd_BuiltinType S)),
     (''Typedef'', \<lambda>S. map Typedef_symbol (sd_Typedef S)),
     (''Friend'', \<lambda>S. map Friend_symbol (sd_Friend S)),
     (''FunctionArgType'', \<lambda>S. map FunctionArg_symbol (sd_FunctionArg S)),
     (''VTable'', \<lambda>S. map VTablePtr_symbol (sd_VTablePtr S)),
     (''Thunk'', \<lambda>S. map Thunk_symbol (sd_Thunk S)),
     (''CallSite'', \<lambda>S. map Callsite_symbol (sd_Callsite S)),
     (''InlineSite'', \<lambda>S. map Inlined_symbol (sd_Inlined S)),
     (''Export'', \<lambda>S. map Export_symbol (sd_Export S)),
     (''HeapAllocationSite'', \<lambda>S. map HeapAllocation_symbol (sd_HeapAllocation S))]"

lemma ReadSymbol_switch_ids:
  assumes "ReadSymbol_switch env J \<sigma> tag dia i r = returns r'"
  shows "list_all (\<lambda>(nm, ids). ids (Result r') = ids (Result r) @ (if tag = SymTag nm then [i] else []))
    symbol_tables"
proof (cases "tag \<in> SymTag ` set switch_tags")
  case True
  then show ?thesis
    using assms unfolding switch_tags_def list.set image_insert image_empty SymTag_simps insert_iff empty_iff
    by (elim disjE)
      (auto simp: ReadSymbol_switch_def symbol_tables_def SymTag_simps ctor_simps map_AppendDetails Let_def
        run_bind_eq_returns ReadCompilandSymbol_def ReadCompilandDetailsSymbol_def ReadUDTSymbol_eq Result_with_UDT
        split: if_split_asm prod.splits option.splits)
next
  case False
  with assms show ?thesis
    by (simp add: ReadSymbol_switch_def switch_tags_def symbol_tables_def)
qed

text \<open>What the other branches leave alone.\<close>

lemma ReadSymbol_switch_frame:
  assumes "ReadSymbol_switch env J \<sigma> tag dia i r = returns r'"
  shows "sd_Symbol (Result r') = sd_Symbol (Result r)"
    and "sd_VTableShape (Result r') = sd_VTableShape (Result r)"
    and "tag \<noteq> SymTag ''UDT'' \<Longrightarrow> sd_SrcRange (Result r') = sd_SrcRange (Result r)
      \<and> sd_UserType (Result r') = sd_UserType (Result r)"
    and "tag \<noteq> SymTag ''Compiland'' \<Longrightarrow> tag \<noteq> SymTag ''CompilandDetails'' \<Longrightarrow>
      sd_Compiland (Result r') = sd_Compiland (Result r) \<and> SymCompilandMap r' = SymCompilandMap r"
proof -
  have "sd_Symbol (Result r') = sd_Symbol (Result r) \<and> sd_VTableShape (Result r') = sd_VTableShape (Result r)
    \<and> (tag \<noteq> SymTag ''UDT'' \<longrightarrow> sd_SrcRange (Result r') = sd_SrcRange (Result r)
        \<and> sd_UserType (Result r') = sd_UserType (Result r))
    \<and> (tag \<noteq> SymTag ''Compiland'' \<and> tag \<noteq> SymTag ''CompilandDetails'' \<longrightarrow>
        sd_Compiland (Result r') = sd_Compiland (Result r) \<and> SymCompilandMap r' = SymCompilandMap r)"
  proof (cases "tag \<in> SymTag ` set switch_tags")
    case True
    then show ?thesis
      using assms unfolding switch_tags_def list.set image_insert image_empty SymTag_simps insert_iff empty_iff
      by (elim disjE)
        (auto simp: ReadSymbol_switch_def SymTag_simps Let_def run_bind_eq_returns
          ReadCompilandSymbol_def ReadCompilandDetailsSymbol_def ReadUDTSymbol_eq Result_with_UDT
          split: if_split_asm prod.splits option.splits)
  next
    case False
    with assms show ?thesis by (simp add: ReadSymbol_switch_def switch_tags_def)
  qed
  then show "sd_Symbol (Result r') = sd_Symbol (Result r)"
    and "sd_VTableShape (Result r') = sd_VTableShape (Result r)"
    and "tag \<noteq> SymTag ''UDT'' \<Longrightarrow> sd_SrcRange (Result r') = sd_SrcRange (Result r)
      \<and> sd_UserType (Result r') = sd_UserType (Result r)"
    and "tag \<noteq> SymTag ''Compiland'' \<Longrightarrow> tag \<noteq> SymTag ''CompilandDetails'' \<Longrightarrow>
      sd_Compiland (Result r') = sd_Compiland (Result r) \<and> SymCompilandMap r' = SymCompilandMap r"
    by blast+
qed

section \<open>The steps of a read\<close>

inductive reader_step :: "env \<Rightarrow> (nat \<Rightarrow> junk) \<Rightarrow> reader \<Rightarrow> reader \<Rightarrow> bool" for env J where
  step_section: "reader_step env J r (on_result (sd_AddrSection_update (emplace_back s)) r)"
| step_symbol: "ReadSymbol env J dia r = returns r' \<Longrightarrow> reader_step env J r r'"
| step_line: "ReadLines env J line r = returns r' \<Longrightarrow> reader_step env J r r'"
| step_source: "ReadSource env J item r = returns r' \<Longrightarrow> reader_step env J r r'"
| step_contrib: "sink_element (ReadSectionContrib env J) t r = returns r' \<Longrightarrow> reader_step env J r r'"
| step_injected: "sink_element (ReadInjectedSource env J) t r = returns r' \<Longrightarrow> reader_step env J r r'"
| step_segment: "sink_element (ReadSegment env J) t r = returns r' \<Longrightarrow> reader_step env J r r'"
| step_assembly: "sink_element (ReadInputAssembly env J) t r = returns r' \<Longrightarrow> reader_step env J r r'"
| step_frame: "sink_element (ReadFrame env J) t r = returns r' \<Longrightarrow> reader_step env J r r'"

lemmas sink_defs =
  ReadSectionContrib_def ReadInjectedSource_def ReadSegment_def ReadInputAssembly_def ReadFrame_def
  emplace_sink_def emplace_helper_init_def emplace_helper_element_def

abbreviation reads :: "env \<Rightarrow> (nat \<Rightarrow> junk) \<Rightarrow> reader \<Rightarrow> reader \<Rightarrow> bool" where
  "reads env J \<equiv> (reader_step env J)\<^sup>*\<^sup>*"

lemma reads_step: "reads env J r s \<Longrightarrow> reader_step env J s t \<Longrightarrow> reads env J r t"
  by (rule rtranclp.rtrancl_into_rtrancl)

lemma ReadSections_loop_reads:
  assumes "ReadSections_loop Next k i s = returns s'" and "reads env J r s"
  shows "reads env J r s'"
proof -
  have "reads env J r s \<longrightarrow> (\<forall>s'. y = Inr s' \<longrightarrow> reads env J r s')"
    if "ReadSections_loop Next k i s = Some y" for y
  proof (rule ReadSections_loop.raw_induct [where P = "\<lambda>Next k i s y.
        reads env J r s \<longrightarrow> (\<forall>s'. y = Inr s' \<longrightarrow> reads env J r s')", OF _ that], intro impI allI)
    fix loop and Next :: "nat \<Rightarrow> section_answer" and k i s y s'
    assume IH: "\<And>Next k i s y. loop Next k i s = Some y \<Longrightarrow>
        reads env J r s \<longrightarrow> (\<forall>s'. y = Inr s' \<longrightarrow> reads env J r s')"
      and body: "(let a = Next k;
          numFetched = (case sa_numFetched a of None \<Rightarrow> 1 | Some n \<Rightarrow> n);
          bytesRead = (case sa_bytesRead a of None \<Rightarrow> 0 | Some n \<Rightarrow> n);
          h = (case sa_header a of None \<Rightarrow> section_header_zero | Some h \<Rightarrow> h)
      in if numFetched < 1 \<or> bytesRead \<noteq> sizeof_IMAGE_SECTION_HEADER then returns s
         else loop Next (k + 1) (i + 1)
                (on_result (sd_AddrSection_update (emplace_back (section_row i h))) s)) = Some y"
      and r: "reads env J r s" and y: "y = Inr s'"
    from body y consider "s' = s"
      | h where "loop Next (k + 1) (i + 1)
          (on_result (sd_AddrSection_update (emplace_back (section_row i h))) s) = Some y"
      unfolding Let_def by (auto simp: returns_def split: if_split_asm)
    then show "reads env J r s'"
    proof cases
      case 1
      with r show ?thesis by simp
    next
      case 2
      from IH [OF 2] reads_step [OF r step_section] y show ?thesis by blast
    qed
  qed
  from this [OF assms(1) [unfolded returns_def], THEN mp, OF assms(2)] show ?thesis by simp
qed

lemma ReadOneStream_reads:
  "ReadOneStream d s = returns s' \<Longrightarrow> reads env J r s \<Longrightarrow> reads env J r s'"
  by (auto simp: ReadOneStream_def ReadSections_def dest: ReadSections_loop_reads
      split: option.splits if_split_asm)

lemma ReadStreams_reads:
  assumes "ReadStreams ses s = returns s'" and "reads env J r s"
  shows "reads env J r s'"
proof (cases "ses_streams ses")
  case None
  with assms show ?thesis by (simp add: ReadStreams_def)
next
  case (Some Next)
  with assms show ?thesis
    using fetch_loop_invariant [of "reads env J r" ReadOneStream s 1 Next 0 s'] ReadOneStream_reads
    unfolding ReadStreams_def by simp
qed

text \<open>Every state that a read reaches is reached by steps.\<close>

lemma sink_init_id [simp]:
  "sink_init (ReadSectionContrib env J) n r = r" "sink_init (ReadInjectedSource env J) n r = r"
  "sink_init (ReadSegment env J) n r = r" "sink_init (ReadInputAssembly env J) n r = r"
  "sink_init (ReadFrame env J) n r = r" "sink_init (ReadSourceHelper env J) n r = r"
  "sink_init (ReadSymbolHelper env J) n r = r" "sink_init (ReadLineHelper env J) n r = r"
  by (simp_all add: sink_defs on_result_def ReadSourceHelper_def ReadSymbolHelper_def
      ReadLineHelper_def helper_sink_def)

lemma sink_element_step:
  assumes "p \<in> {ReadSectionContrib env J, ReadInjectedSource env J, ReadSourceHelper env J,
      ReadSymbolHelper env J, ReadSegment env J, ReadInputAssembly env J, ReadFrame env J, ReadLineHelper env J}"
    and "sink_element p t s = returns s'"
  shows "reader_step env J s s'"
  using assms
  by (auto simp: ReadSourceHelper_def ReadSymbolHelper_def ReadLineHelper_def helper_sink_def
      intro: reader_step.intros)

definition read_env :: "env \<Rightarrow> string list \<Rightarrow> session \<Rightarrow> env" where
  "read_env env argv ses = env\<lparr> no_addresses := getFlag argv ''-noaddress'',
     findSymbolByRVA := ses_findSymbolByRVA ses \<rparr>"

definition first_state :: "reader \<Rightarrow> reader" where
  "first_state r = on_result (sd_Symbol_update (emplace_back Symbol_default)) r"

lemma provider_ReadSymbols_reads:
  assumes "provider_ReadSymbols nm env J argv ses r = returns r'"
  shows "reads (read_env env argv ses) J (first_state r) r'"
proof -
  let ?env = "read_env env argv ses"
  from assms obtain s where streams: "ReadStreams ses (first_state r) = returns s"
    and tables: "ReadTables nm ses
      (ReadSectionContrib ?env J) (ReadInjectedSource ?env J) (ReadSourceHelper ?env J)
      (ReadSymbolHelper ?env J) (ReadSegment ?env J) (ReadInputAssembly ?env J)
      (ReadFrame ?env J) (ReadLineHelper ?env J) s = returns r'"
    by (auto simp: provider_ReadSymbols_def Let_def run_bind_eq_returns read_env_def first_state_def)
  have s: "reads ?env J (first_state r) s"
    by (rule ReadStreams_reads [OF streams]) simp
  show ?thesis
    by (rule ReadTables_invariant [where P = "reads ?env J (first_state r)", OF _ _ s tables])
      (use sink_element_step reads_step in \<open>blast, auto\<close>)
qed

section \<open>What a step changes\<close>

text \<open>The tables that only symbols, type definitions and lines write.\<close>

definition same_core :: "reader \<Rightarrow> reader \<Rightarrow> bool" where
  "same_core r r' =
     (sd_Symbol (Result r') = sd_Symbol (Result r)
      \<and> sd_UserType (Result r') = sd_UserType (Result r)
      \<and> sd_Compiland (Result r') = sd_Compiland (Result r)
      \<and> sd_VTableShape (Result r') = sd_VTableShape (Result r)
      \<and> SymCompilandMap r' = SymCompilandMap r
      \<and> list_all (\<lambda>(nm, ids). ids (Result r') = ids (Result r)) symbol_tables)"

lemma ReadSource_core:
  "ReadSource env J item r = returns r' \<Longrightarrow> same_core r r' \<and> sd_SrcRange (Result r') = sd_SrcRange (Result r)"
  by (auto simp: ReadSource_def Let_def same_core_def symbol_tables_def
      split: prod.splits if_split_asm option.splits)

lemma ReadLines_core:
  "ReadLines env J line r = returns r' \<Longrightarrow> same_core r r'
     \<and> sd_SrcRange (Result r') = emplace_back
         (SrcRange_ctor env (J (length (sd_SrcRange (Result r)))) (of_nat (length (sd_SrcRange (Result r)))) line)
         (sd_SrcRange (Result r))"
  by (auto simp: ReadLines_def Let_def same_core_def symbol_tables_def)

lemma emplace_sinks_core:
  assumes "p \<in> {ReadSectionContrib env J, ReadInjectedSource env J, ReadSegment env J,
      ReadInputAssembly env J, ReadFrame env J}"
    and "sink_element p t r = returns r'"
  shows "same_core r r' \<and> sd_SrcRange (Result r') = sd_SrcRange (Result r)"
  using assms
  by (auto simp: sink_defs run_bind_eq_returns same_core_def symbol_tables_def)

lemma section_core:
  "same_core r (on_result (sd_AddrSection_update f) r)
     \<and> sd_SrcRange (Result (on_result (sd_AddrSection_update f) r)) = sd_SrcRange (Result r)"
  by (simp add: same_core_def symbol_tables_def)

lemma reader_step_cases [consumes 1, case_names symbol line other]:
  assumes "reader_step env J r r'"
  obtains (symbol) dia where "ReadSymbol env J dia r = returns r'"
  | (line) line where "same_core r r'" "sd_SrcRange (Result r') = emplace_back
         (SrcRange_ctor env (J (length (sd_SrcRange (Result r)))) (of_nat (length (sd_SrcRange (Result r)))) line)
         (sd_SrcRange (Result r))"
  | (other) "same_core r r'" "sd_SrcRange (Result r') = sd_SrcRange (Result r)"
  using assms
proof (cases rule: reader_step.cases)
  case (step_section s)
  with other section_core show ?thesis by blast
next
  case (step_symbol dia)
  with symbol show ?thesis by blast
next
  case (step_line line)
  with line ReadLines_core show ?thesis by blast
next
  case (step_source item)
  with other ReadSource_core show ?thesis by blast
qed (use other emplace_sinks_core in blast)+

text \<open>A symbol: its row in the master table, then what the switch does.\<close>

definition with_symbol :: "env \<Rightarrow> (nat \<Rightarrow> junk) \<Rightarrow> dia \<Rightarrow> reader \<Rightarrow> reader" where
  "with_symbol env J dia r = on_result (sd_Symbol_update (emplace_back
     (Symbol_ctor env (J (length (sd_Symbol (Result r)))) dia (get dia ''get_symIndexId'' 0)
       (ucast (get dia ''get_symTag'' 0))))) r"

lemma ReadSymbol_eq:
  "ReadSymbol env J dia r = ReadSymbol_switch env J (J (length (sd_Symbol (Result r))))
     (get dia ''get_symTag'' 0) dia (get dia ''get_symIndexId'' 0) (with_symbol env J dia r)"
  by (simp add: ReadSymbol_def with_symbol_def Let_def)

lemma with_symbol_core [simp]:
  "sd_UserType (Result (with_symbol env J dia r)) = sd_UserType (Result r)"
  "sd_Compiland (Result (with_symbol env J dia r)) = sd_Compiland (Result r)"
  "sd_SrcRange (Result (with_symbol env J dia r)) = sd_SrcRange (Result r)"
  "sd_VTableShape (Result (with_symbol env J dia r)) = sd_VTableShape (Result r)"
  "SymCompilandMap (with_symbol env J dia r) = SymCompilandMap r"
  by (simp_all add: with_symbol_def)

lemma with_symbol_ids: "(nm, ids) \<in> set symbol_tables \<Longrightarrow> ids (Result (with_symbol env J dia r)) = ids (Result r)"
proof -
  have "list_all (\<lambda>(nm, ids). ids (Result (with_symbol env J dia r)) = ids (Result r)) symbol_tables"
    by (simp add: symbol_tables_def with_symbol_def)
  then show "(nm, ids) \<in> set symbol_tables \<Longrightarrow> ids (Result (with_symbol env J dia r)) = ids (Result r)"
    by (auto simp: list_all_iff)
qed

lemma ReadSymbol_ids:
  assumes "ReadSymbol env J dia r = returns r'" and "(nm, ids) \<in> set symbol_tables"
  shows "ids (Result r') = ids (Result r)
    @ (if get dia ''get_symTag'' 0 = SymTag nm then [get dia ''get_symIndexId'' 0] else [])"
  using ReadSymbol_switch_ids [OF assms(1) [unfolded ReadSymbol_eq]] assms(2) with_symbol_ids [OF assms(2)]
  unfolding list_all_iff by fastforce

lemma ReadSymbol_master:
  assumes "ReadSymbol env J dia r = returns r'"
  shows "sd_Symbol (Result r') = emplace_back
     (Symbol_ctor env (J (length (sd_Symbol (Result r)))) dia (get dia ''get_symIndexId'' 0)
       (ucast (get dia ''get_symTag'' 0))) (sd_Symbol (Result r))"
  using ReadSymbol_switch_frame(1) [OF assms [unfolded ReadSymbol_eq]] by (simp add: with_symbol_def)

section \<open>Invariants\<close>

text \<open>Source ranges are numbered by their position.\<close>

definition ranges_numbered :: "reader \<Rightarrow> bool" where
  "ranges_numbered r = (map SrcRange_id (sd_SrcRange (Result r)) = map of_nat [0..<length (sd_SrcRange (Result r))])"

text \<open>Every row that belongs to a symbol has that symbol, with the right tag, in the master table.\<close>

definition has_master :: "SymbolData \<Rightarrow> string \<Rightarrow> u32 \<Rightarrow> bool" where
  "has_master S nm i = (\<exists>s \<in> set (sd_Symbol S). Symbol_symbol s = i \<and> Symbol_tag s = ucast (SymTag nm))"

definition masters_present :: "reader \<Rightarrow> bool" where
  "masters_present r =
     list_all (\<lambda>(nm, ids). list_all (has_master (Result r) nm) (ids (Result r))) symbol_tables"

text \<open>The source line of a user type is 0 or the position of a source range.\<close>

definition src_lines_ok :: "reader \<Rightarrow> bool" where
  "src_lines_ok r = list_all (\<lambda>u. UserType_src_line u = 0
     \<or> unat (UserType_src_line u) < length (sd_SrcRange (Result r))) (sd_UserType (Result r))"

text \<open>The map leads from a compiland's symbol to its row, or holds the default 0.\<close>

definition compiland_map_ok :: "reader \<Rightarrow> bool" where
  "compiland_map_ok r = (\<forall>k i. SymCompilandMap r k = Some i \<longrightarrow>
     i = 0 \<or> unat i < length (sd_Compiland (Result r)))"

lemma unat_of_nat_le: "unat (of_nat n :: u32) \<le> n"
  by (simp add: unat_of_nat)

lemma step_ranges:
  assumes "reader_step env J r r'" and "ranges_numbered r"
  shows "ranges_numbered r'"
  using assms
proof (cases rule: reader_step_cases)
  case (symbol dia)
  let ?r = "with_symbol env J dia r"
  from symbol have switch: "ReadSymbol_switch env J (J (length (sd_Symbol (Result r))))
      (get dia ''get_symTag'' 0) dia (get dia ''get_symIndexId'' 0) ?r = returns r'"
    by (simp only: ReadSymbol_eq)
  show ?thesis
  proof (cases "get dia ''get_symTag'' 0 = SymTag ''UDT''")
    case True
    with switch obtain x where "r' = with_UDT env J dia x ?r"
      by (auto simp: ReadSymbol_switch_def SymTag_simps ReadUDTSymbol_eq run_bind_eq_returns)
    with assms(2) show ?thesis
      by (auto simp: ranges_numbered_def Result_with_UDT Let_def ctor_simps
          split: prod.split option.split)
  next
    case False
    with ReadSymbol_switch_frame(3) [OF switch] assms(2) show ?thesis by (simp add: ranges_numbered_def)
  qed
next
  case (line line)
  with assms(2) show ?thesis by (simp add: ranges_numbered_def ctor_simps)
next
  case other
  with assms(2) show ?thesis by (simp add: ranges_numbered_def)
qed

lemma has_master_mono: "set (sd_Symbol S) \<subseteq> set (sd_Symbol S') \<Longrightarrow> has_master S nm i \<Longrightarrow> has_master S' nm i"
  by (auto simp: has_master_def)

lemma step_masters:
  assumes "reader_step env J r r'" and "masters_present r"
  shows "masters_present r'"
proof -
  have ok: "list_all (has_master (Result r) nm) (ids (Result r))" if "(nm, ids) \<in> set symbol_tables" for nm ids
    using assms(2) that unfolding masters_present_def list_all_iff by blast
  have "list_all (has_master (Result r') nm) (ids (Result r'))" if tab: "(nm, ids) \<in> set symbol_tables" for nm ids
    using assms(1)
  proof (cases rule: reader_step_cases)
    case (symbol dia)
    let ?x = "Symbol_ctor env (J (length (sd_Symbol (Result r)))) dia (get dia ''get_symIndexId'' 0)
       (ucast (get dia ''get_symTag'' 0))"
    note master = ReadSymbol_master [OF symbol]
    then have "?x \<in> set (sd_Symbol (Result r'))" by (simp add: emplace_back_def)
    then have new: "has_master (Result r') nm (get dia ''get_symIndexId'' 0)"
      if "get dia ''get_symTag'' 0 = SymTag nm"
      using that unfolding has_master_def by (metis Symbol_ctor_simps)
    have "set (sd_Symbol (Result r)) \<subseteq> set (sd_Symbol (Result r'))"
      using master by (auto simp: emplace_back_def)
    then have "list_all (has_master (Result r') nm) (ids (Result r))"
      using ok [OF tab] has_master_mono unfolding list_all_iff by metis
    with new ReadSymbol_ids [OF symbol tab] show ?thesis by simp
  next
    case (line line)
    then show ?thesis
      using ok [OF tab] tab has_master_mono [of "Result r" "Result r'"]
      unfolding same_core_def list_all_iff by fastforce
  next
    case other
    then show ?thesis
      using ok [OF tab] tab has_master_mono [of "Result r" "Result r'"]
      unfolding same_core_def list_all_iff by fastforce
  qed
  then show ?thesis unfolding masters_present_def list_all_iff by blast
qed

lemma step_src_lines:
  assumes "reader_step env J r r'" and "src_lines_ok r"
  shows "src_lines_ok r'"
  using assms(1)
proof (cases rule: reader_step_cases)
  case (symbol dia)
  let ?r = "with_symbol env J dia r"
  from symbol have switch: "ReadSymbol_switch env J (J (length (sd_Symbol (Result r))))
      (get dia ''get_symTag'' 0) dia (get dia ''get_symIndexId'' 0) ?r = returns r'"
    by (simp only: ReadSymbol_eq)
  show ?thesis
  proof (cases "get dia ''get_symTag'' 0 = SymTag ''UDT''")
    case True
    with switch obtain x where r': "r' = with_UDT env J dia x ?r"
      and "UserType_ctor env (J (length (sd_Symbol (Result r)))) dia (get dia ''get_symIndexId'' 0) = Inr x"
      by (auto simp: ReadSymbol_switch_def SymTag_simps ReadUDTSymbol_eq run_bind_eq_returns)
    from UserType_ctor_symbol(2) [OF this(2)] assms(2) show ?thesis
      unfolding r' Result_with_UDT src_lines_ok_def list_all_iff Let_def
      by (auto simp: emplace_back_def less_Suc_eq_le unat_of_nat_le intro: le_trans less_imp_le
          split: prod.split option.split)
  next
    case False
    with ReadSymbol_switch_frame(3) [OF switch] assms(2) show ?thesis by (simp add: src_lines_ok_def)
  qed
next
  case (line line)
  with assms(2) show ?thesis by (auto simp: src_lines_ok_def same_core_def list_all_iff less_SucI)
next
  case other
  with assms(2) show ?thesis by (simp add: src_lines_ok_def same_core_def)
qed

lemma step_compiland_map:
  assumes "reader_step env J r r'" and "compiland_map_ok r"
  shows "compiland_map_ok r'"
  using assms(1)
proof (cases rule: reader_step_cases)
  case (symbol dia)
  let ?r = "with_symbol env J dia r"
  from symbol have switch: "ReadSymbol_switch env J (J (length (sd_Symbol (Result r))))
      (get dia ''get_symTag'' 0) dia (get dia ''get_symIndexId'' 0) ?r = returns r'"
    by (simp only: ReadSymbol_eq)
  consider "get dia ''get_symTag'' 0 = SymTag ''Compiland''"
    | "get dia ''get_symTag'' 0 = SymTag ''CompilandDetails''"
    | "get dia ''get_symTag'' 0 \<noteq> SymTag ''Compiland''" "get dia ''get_symTag'' 0 \<noteq> SymTag ''CompilandDetails''"
    by blast
  then show ?thesis
  proof cases
    case 1
    with switch have "r' = ReadCompilandSymbol env (J (length (sd_Symbol (Result r)))) dia
        (get dia ''get_symIndexId'' 0) ?r"
      by (simp add: ReadSymbol_switch_def SymTag_simps)
    with assms(2) show ?thesis
      by (auto simp: compiland_map_ok_def ReadCompilandSymbol_def Let_def less_Suc_eq_le unat_of_nat_le
          intro: less_imp_le)
  next
    case 2
    with switch have "ReadCompilandDetailsSymbol env (J (length (sd_Symbol (Result r)))) dia ?r = returns r'"
      by (simp add: ReadSymbol_switch_def SymTag_simps)
    with assms(2) show ?thesis
      by (auto simp: compiland_map_ok_def ReadCompilandDetailsSymbol_def Let_def
          split: if_split_asm option.splits) blast+
  next
    case 3
    with ReadSymbol_switch_frame(4) [OF switch] assms(2) show ?thesis by (simp add: compiland_map_ok_def)
  qed
next
  case (line line)
  with assms(2) show ?thesis by (simp add: compiland_map_ok_def same_core_def)
next
  case other
  with assms(2) show ?thesis by (simp add: compiland_map_ok_def same_core_def)
qed

lemma step_master_prefix:
  assumes "reader_step env J r r'"
  shows "(\<exists>xs. sd_Symbol (Result r') = sd_Symbol (Result r) @ xs)
    \<and> sd_VTableShape (Result r') = sd_VTableShape (Result r)"
  using assms
proof (cases rule: reader_step_cases)
  case (symbol dia)
  from ReadSymbol_switch_frame(2) [OF symbol [unfolded ReadSymbol_eq]] ReadSymbol_master [OF symbol]
  show ?thesis by (auto simp: emplace_back_def)
qed (auto simp: same_core_def)

definition reader_inv :: "reader \<Rightarrow> bool" where
  "reader_inv r = (ranges_numbered r \<and> masters_present r \<and> src_lines_ok r \<and> compiland_map_ok r)"

lemma reads_inv: "reads env J r r' \<Longrightarrow> reader_inv r \<Longrightarrow> reader_inv r'"
proof (induction rule: rtranclp_induct)
  case (step s t)
  then show ?case
    using step_ranges step_masters step_src_lines step_compiland_map unfolding reader_inv_def by blast
qed simp

lemma reads_prefix:
  "reads env J r r' \<Longrightarrow> (\<exists>xs. sd_Symbol (Result r') = sd_Symbol (Result r) @ xs)
     \<and> sd_VTableShape (Result r') = sd_VTableShape (Result r)"
proof (induction rule: rtranclp_induct)
  case (step s t)
  from step_master_prefix [OF step.hyps(2)] step.IH show ?case by auto
qed simp

lemma first_state_inv: "reader_inv (first_state (reader_init SymbolData_init))"
  by (simp add: reader_inv_def first_state_def reader_init_def SymbolData_init_def ranges_numbered_def
      masters_present_def symbol_tables_def src_lines_ok_def compiland_map_ok_def)

end
