(* ===== verification/DIA_Properties.thy ===== *)
theory DIA_Properties
  imports DIA_Reader
begin

text \<open>
  The properties of the reader: the sinks of a read as instances of \<open>table_sink\<close>, where every
  item of a table goes, what can fault, when a read ends, and what the rows hold.
\<close>

section \<open>The sinks\<close>

interpretation lines: table_sink "ReadLineHelper env J" "\<lambda>r. sd_SrcRange (Result r)"
    "\<lambda>t n x. x = SrcRange_ctor env (J n) (of_nat n) t" for env J
  by unfold_locales
    (auto simp: ReadLineHelper_def helper_sink_def ReadLines_def Let_def emplace_back_def)

interpretation symbols: table_sink "ReadSymbolHelper env J" "\<lambda>r. sd_Symbol (Result r)"
    "\<lambda>t n x. x = Symbol_ctor env (J n) t (get t ''get_symIndexId'' 0) (ucast (get t ''get_symTag'' 0))"
    for env J
  by unfold_locales
    (auto simp: ReadSymbolHelper_def helper_sink_def emplace_back_def dest!: ReadSymbol_master)

lemma ReadSource_row:
  "ReadSource env J item r = returns r' \<Longrightarrow>
     sd_SourceFile (Result r') = sd_SourceFile (Result r) @ [SourceFile_ctor env (J (length (sd_SourceFile (Result r)))) item]"
  by (auto simp: ReadSource_def Let_def emplace_back_def split: prod.splits if_split_asm option.splits)

interpretation sources: table_sink "ReadSourceHelper env J" "\<lambda>r. sd_SourceFile (Result r)"
    "\<lambda>t n x. x = SourceFile_ctor env (J n) t" for env J
  by unfold_locales (auto simp: ReadSourceHelper_def helper_sink_def dest: ReadSource_row)

interpretation contribs: table_sink "ReadSectionContrib env J" "\<lambda>r. sd_SectionContrib (Result r)"
    "\<lambda>t n x. x = SectionContrib_ctor env (J n) t" for env J
  by unfold_locales (auto simp: sink_defs run_bind_eq_returns)

interpretation injected: table_sink "ReadInjectedSource env J" "\<lambda>r. sd_InjectedSource (Result r)"
    "\<lambda>t n x. InjectedSource_ctor env (J n) t = Inr x" for env J
  by unfold_locales (auto simp: sink_defs run_bind_eq_returns)

interpretation segments: table_sink "ReadSegment env J" "\<lambda>r. sd_Segment (Result r)"
    "\<lambda>t n x. x = Segment_ctor env (J n) t" for env J
  by unfold_locales (auto simp: sink_defs run_bind_eq_returns)

interpretation assemblies: table_sink "ReadInputAssembly env J" "\<lambda>r. sd_InputAssembly (Result r)"
    "\<lambda>t n x. x = InputAssembly_ctor env (J n) t" for env J
  by unfold_locales (auto simp: sink_defs run_bind_eq_returns)

interpretation frames: table_sink "ReadFrame env J" "\<lambda>r. sd_Frame (Result r)"
    "\<lambda>t n x. x = Frame_ctor env (J n) t" for env J
  by unfold_locales (auto simp: sink_defs run_bind_eq_returns)

section \<open>Where the symbols go\<close>

lemma run_fold_ReadSymbol_ids:
  "run_fold (ReadSymbol env J) ts r = returns r' \<Longrightarrow> (nm, ids) \<in> set symbol_tables \<Longrightarrow>
     ids (Result r') = ids (Result r) @ map (\<lambda>d. get d ''get_symIndexId'' 0)
       (filter (\<lambda>d. get d ''get_symTag'' 0 = SymTag nm) ts)"
  by (induction ts arbitrary: r) (auto simp: run_bind_eq_returns ReadSymbol_ids)

lemma sink_ReadSymbol [simp]: "sink_element (ReadSymbolHelper env J) = ReadSymbol env J"
  by (simp add: ReadSymbolHelper_def helper_sink_def)

section \<open>When a read ends\<close>

lemma ex_returns [simp]: "\<exists>y. returns s = Some y"
  by (simp add: returns_def)

lemma ends_intros:
  "a \<noteq> None \<Longrightarrow> b \<noteq> None \<Longrightarrow> (if c then a else b) \<noteq> None"
  "r \<noteq> None \<Longrightarrow> (\<And>x. f x \<noteq> None) \<Longrightarrow> run_bind r f \<noteq> None"
  "returns x \<noteq> None" "Some y \<noteq> None"
  by (simp_all add: run_bind_def split: option.split sum.split)

lemma run_fold_ends:
  "(\<And>x s. x \<in> set xs \<Longrightarrow> f x s \<noteq> None) \<Longrightarrow> run_fold f xs s \<noteq> None"
  by (induction xs arbitrary: s) (auto simp: run_bind_def split: option.splits sum.splits)

definition enum_ends :: "dia_enum \<Rightarrow> bool" where
  "enum_ends e = (\<exists>n. ends_at (en_Next e) n)"

definition compilands_end :: "dia \<Rightarrow> bool" where
  "compilands_end d = (\<forall>Next. snd (compilands d) = Some Next \<longrightarrow> (\<exists>n. fst (Next n) \<noteq> S_OK))"

definition section_stop :: "section_answer \<Rightarrow> bool" where
  "section_stop a = ((case sa_numFetched a of None \<Rightarrow> 1 | Some n \<Rightarrow> n) < 1
     \<or> (case sa_bytesRead a of None \<Rightarrow> 0 | Some n \<Rightarrow> n) \<noteq> sizeof_IMAGE_SECTION_HEADER)"

lemma least_stop:
  fixes P :: "nat \<Rightarrow> bool"
  assumes "P n"
  obtains m where "P m" and "\<forall>k < m. \<not> P k"
  using assms by (metis LeastI not_less_Least)

lemma ReadSource_loop_ends:
  assumes "fst (Next n) \<noteq> S_OK" and "k \<le> n"
  shows "ReadSource_loop Next f k xs \<noteq> None"
  using assms(2)
proof (induction "n - k" arbitrary: k xs)
  case 0
  with assms(1) show ?case
    by (subst ReadSource_loop.simps) (auto simp del: not_None_eq split: prod.split)
next
  case (Suc m)
  then have "ReadSource_loop Next f (k + 1) ys \<noteq> None" for ys by simp
  then show ?case
    by (subst ReadSource_loop.simps) (simp del: not_None_eq split: prod.split)
qed

lemma ReadSource_ends: "compilands_end d \<Longrightarrow> ReadSource env J d r \<noteq> None"
proof -
  assume ends: "compilands_end d"
  have "ReadSource_loop Next f 0 xs \<noteq> None" if "snd (compilands d) = Some Next" for Next f xs
  proof -
    from ends that obtain n where "fst (Next n) \<noteq> S_OK" by (auto simp: compilands_end_def)
    then show ?thesis by (rule ReadSource_loop_ends) simp
  qed
  then show "ReadSource env J d r \<noteq> None"
    by (cases "compilands d")
      (auto simp: ReadSource_def Let_def simp del: not_None_eq split: option.split)
qed

lemma ReadSymbol_ends: "ReadSymbol env J d r \<noteq> None"
  unfolding ReadSymbol_def ReadSymbol_switch_def ReadCompilandDetailsSymbol_def ReadUDTSymbol_eq Let_def
  by (intro ends_intros)

lemma emplace_sink_ends:
  "sink_element (ReadSectionContrib env J) t r \<noteq> None" "sink_element (ReadInjectedSource env J) t r \<noteq> None"
  "sink_element (ReadSegment env J) t r \<noteq> None" "sink_element (ReadInputAssembly env J) t r \<noteq> None"
  "sink_element (ReadFrame env J) t r \<noteq> None"
  by (auto simp: sink_defs run_bind_def simp del: not_None_eq split: option.split sum.split)

lemma ReadSections_loop_ends:
  assumes "section_stop (Next n)" and "k \<le> n"
  shows "ReadSections_loop Next k i r \<noteq> None"
  using assms(2)
proof (induction "n - k" arbitrary: k i r)
  case 0
  with assms(1) show ?case
    by (subst ReadSections_loop.simps) (simp add: Let_def section_stop_def)
next
  case (Suc m)
  then have "ReadSections_loop Next (k + 1) j s \<noteq> None" for j s by simp
  then show ?case by (subst ReadSections_loop.simps) (simp add: Let_def)
qed

lemma fetch_loop_ends:
  assumes "fetch_stop f0 (Next n)" and "\<And>k s. \<not> fetch_stop f0 (Next k) \<Longrightarrow> read (the (fst (Next k))) s \<noteq> None"
  shows "fetch_loop f0 read Next 0 s \<noteq> None"
proof -
  from assms(1) obtain m where stop: "fetch_stop f0 (Next m)" and go: "\<forall>k < m. \<not> fetch_stop f0 (Next k)"
    by (rule least_stop)
  have "fetch_loop f0 read Next 0 s = run_fold read (map (\<lambda>k. the (fst (Next k))) [0..<m]) s"
    using fetch_loop_from [of f0 Next m 0 read s] stop go by simp
  also have "\<dots> \<noteq> None"
    using assms(2) go by (intro run_fold_ends) auto
  finally show ?thesis .
qed

text \<open>
  A session that ends: every enumerator it hands out answers, sooner or later, with what ends
  the loop over it.
\<close>

definition table_ends :: "dia_table \<Rightarrow> bool" where
  "table_ends t = (\<forall>i h e. dt_QueryInterface t i = (h, Some e) \<longrightarrow>
     enum_ends e \<and> (\<forall>k. \<forall>d \<in> set (snd (en_Next e k)). compilands_end d))"

definition session_ends :: "session \<Rightarrow> bool" where
  "session_ends ses =
     ((\<forall>Next. ses_streams ses = Some Next \<longrightarrow>
         (\<exists>n. fetch_stop 1 (Next n))
         \<and> (\<forall>k d. fst (Next k) = Some d \<longrightarrow> (\<exists>n. section_stop (ds_Next d n))))
      \<and> (\<forall>Next. ses_tables ses = Some Next \<longrightarrow>
         (\<exists>n. fetch_stop 0 (Next n)) \<and> (\<forall>k t. fst (Next k) = Some t \<longrightarrow> table_ends t)))"

lemma ReadTable_ends:
  assumes "enum_ends e" and "\<And>k d s. d \<in> set (snd (en_Next e k)) \<Longrightarrow> sink_element p d s \<noteq> None"
  shows "ReadTable e p s \<noteq> None"
proof -
  from assms(1) obtain n where "ends_at (en_Next e) n" by (auto simp: enum_ends_def)
  with assms(2) show ?thesis
    unfolding ReadTable_returns [OF \<open>ends_at (en_Next e) n\<close>]
    by (intro run_fold_ends) (auto simp: items_def)
qed

lemma session_ends_ReadStreams:
  assumes "session_ends ses"
  shows "ReadStreams ses r \<noteq> None"
proof (cases "ses_streams ses")
  case None
  then show ?thesis by (simp add: ReadStreams_def)
next
  case (Some Next)
  with assms obtain n where stop: "fetch_stop 1 (Next n)"
    and sections: "\<And>k d. fst (Next k) = Some d \<Longrightarrow> \<exists>n. section_stop (ds_Next d n)"
    by (auto simp: session_ends_def)
  have "ReadOneStream (the (fst (Next k))) s \<noteq> None" if "\<not> fetch_stop 1 (Next k)" for k s
  proof -
    from that obtain d where "fst (Next k) = Some d" by (auto simp: fetch_stop_def)
    with sections obtain n where "section_stop (ds_Next d n)" by blast
    then have "ReadSections d s \<noteq> None" for s
      unfolding ReadSections_def by (intro ReadSections_loop_ends) auto
    with \<open>fst (Next k) = Some d\<close> show ?thesis by (simp add: ReadOneStream_def split: option.split)
  qed
  with Some stop show ?thesis by (simp add: ReadStreams_def fetch_loop_ends)
qed

lemma session_ends_ReadTables:
  assumes "session_ends ses"
    and sinks: "\<And>p d s. p \<in> {f1, f2, f3, f4, f5, f6, f7, f8} \<Longrightarrow> compilands_end d \<Longrightarrow> sink_element p d s \<noteq> None"
  shows "ReadTables nm ses f1 f2 f3 f4 f5 f6 f7 f8 r \<noteq> None"
proof (cases "ses_tables ses")
  case None
  then show ?thesis by (simp add: ReadTables_def)
next
  case (Some Next)
  with assms(1) obtain n where stop: "fetch_stop 0 (Next n)"
    and ends: "\<And>k t. fst (Next k) = Some t \<Longrightarrow> table_ends t"
    by (auto simp: session_ends_def)
  let ?read = "ReadOneTable (select_sink nm f1 f2 f3 f4 f5 f6 f7 f8)"
  have "?read (the (fst (Next k))) s \<noteq> None" if "\<not> fetch_stop 0 (Next k)" for k s
  proof -
    from that obtain t where t: "fst (Next k) = Some t" by (auto simp: fetch_stop_def)
    have "ReadInterface t i p s \<noteq> None" if "p \<in> {f1, f2, f3, f4, f5, f6, f7, f8}" for i p
    proof (cases "dt_QueryInterface t i")
      case (Pair h e)
      show ?thesis
      proof (cases e)
        case None
        with Pair show ?thesis by (simp add: ReadInterface_def)
      next
        case (Some en)
        with Pair ends [OF t] have "enum_ends en" and "\<And>k d. d \<in> set (snd (en_Next en k)) \<Longrightarrow> compilands_end d"
          by (auto simp: table_ends_def)
        then have "ReadTable en p s \<noteq> None" using sinks [OF that] by (intro ReadTable_ends) blast+
        with Pair Some show ?thesis by (simp add: ReadInterface_def)
      qed
    qed
    with t show ?thesis
      using select_sink_cases [of nm f1 f2 f3 f4 f5 f6 f7 f8]
      by (auto simp: ReadOneTable_def split: option.split)
  qed
  with Some stop show ?thesis by (simp add: ReadTables_def fetch_loop_ends)
qed

section \<open>A small session\<close>

text \<open>One symbols table with the given symbols, on which the witnesses run.\<close>

definition sample_dia :: "u32 \<Rightarrow> u32 \<Rightarrow> dia" where
  "sample_dia tag i = Dia
     (\<lambda>m. (S_OK, Some (if m = ''get_symTag'' then tag else if m = ''get_symIndexId'' then i else 0)))
     (\<lambda>m. (S_OK, Some 0)) (\<lambda>m. (S_OK, None)) (\<lambda>m. VT_I8 0) (S_OK, Some []) (\<lambda>m. (1, None))
     (Some 0, []) (1, None)"

definition sample_enum :: "dia list \<Rightarrow> dia_enum" where
  "sample_enum ds = \<lparr> en_Count = Some (of_nat (length ds)),
     en_Next = (\<lambda>k. if k = 0 then (S_OK, ds) else (1, [])) \<rparr>"

definition sample_names :: table_names where
  "sample_names = \<lparr> DiaTable_Sections = widen ''Sections'', DiaTable_InjSrc = widen ''InjectedSource'',
     DiaTable_SrcFiles = widen ''SourceFiles'', DiaTable_Symbols = widen ''Symbols'',
     DiaTable_SegMap = widen ''SegmentMap'', DiaTable_InputAssemblyFiles = widen ''InputAssemblyFiles'',
     DiaTable_FrameData = widen ''FrameData'', DiaTable_LineNums = widen ''LineNumbers'' \<rparr>"

definition sample_session :: "dia list \<Rightarrow> session" where
  "sample_session ds = \<lparr> ses_streams = Some (\<lambda>_. (None, None)),
     ses_tables = Some (\<lambda>k. if k = 0
       then (Some \<lparr> dt_name = Some (widen ''Symbols''),
               dt_QueryInterface = (\<lambda>_. (S_OK, Some (sample_enum ds))) \<rparr>, Some 1)
       else (None, None)),
     ses_findSymbolByRVA = (\<lambda>_. (1, None)) \<rparr>"

definition sample_com :: "dia list \<Rightarrow> com_runtime" where
  "sample_com ds = \<lparr> CoInitialize = S_OK, CoCreateInstance = Some \<lparr> loadDataFromPdb = (\<lambda>_. -1),
     loadDataForExe = (\<lambda>_. S_OK), openSession = (\<lambda>_. Some (sample_session ds)) \<rparr> \<rparr>"

lemma sample_enum_ends: "ds \<noteq> [] \<Longrightarrow> ends_at (en_Next (sample_enum ds)) 1"
  by (simp add: ends_at_def stops_def sample_enum_def SUCCEEDED_def)

lemma sample_items: "items (en_Next (sample_enum ds)) 1 = ds"
  by (simp add: items_def sample_enum_def)

lemma select_symbols:
  "select_sink sample_names f1 f2 f3 f4 f5 f6 f7 f8 (widen ''Symbols'') = Some (''IDiaEnumSymbols'', f4)"
  by (simp add: select_sink_def sample_names_def wcscmp_eq_def widen_def)

lemma sample_provider:
  "provider_ReadSymbols sample_names env J argv (sample_session ds) r
    = run_fold (ReadSymbol (read_env env argv (sample_session ds)) J) ds (first_state r)"
proof -
  have streams: "ReadStreams (sample_session ds) s = returns s" for s
    by (simp add: ReadStreams_def sample_session_def fetch_loop.simps)
  have table: "ReadTable (sample_enum ds) (ReadSymbolHelper env J) s = run_fold (ReadSymbol env J) ds s" for env s
  proof (cases "ds = []")
    case True
    have "ends_at (en_Next (sample_enum [])) 0" by (simp add: ends_at_def stops_def sample_enum_def)
    with True show ?thesis by (simp add: ReadTable_returns items_def ReadSymbolHelper_def helper_sink_def)
  next
    case False
    show ?thesis
      by (simp add: ReadTable_returns [OF sample_enum_ends [OF False]] sample_items [unfolded One_nat_def])
  qed
  have stop: "fetch_loop 0 read Next (Suc 0) s = returns s" if "Next (Suc 0) = (None, None)"
    for read :: "dia_table \<Rightarrow> reader \<Rightarrow> reader run" and Next s
    using that by (simp add: fetch_loop.simps)
  show ?thesis
    unfolding provider_ReadSymbols_def Let_def read_env_def [symmetric] first_state_def [symmetric]
    by (simp add: streams ReadTables_def, subst sample_session_def)
      (simp add: fetch_loop_unfold [of 0 _ _ 0] fetch_stop_def ReadOneTable_def select_symbols
        ReadInterface_def table stop run_bind_def returns_def split: option.split sum.split)
qed

lemma sample_dia_simps [simp]:
  "get (sample_dia tag i) ''get_symTag'' V = tag" "get (sample_dia tag i) ''get_symIndexId'' V = i"
  by (simp_all add: get_def sample_dia_def)

lemma sample_run:
  assumes "tag \<notin> {3, 7}"
  shows "\<exists>r'. ReadSymbol env J (sample_dia tag i) r = returns r'"
proof -
  have "related (sample_dia t i) m \<noteq> (S_OK, None)" for t m by (simp add: sample_dia_def)
  with assms show ?thesis
    unfolding ReadSymbol_def ReadSymbol_switch_def ReadUDTSymbol_eq Let_def sample_dia_simps
    by (simp add: SymTag_simps run_bind_def returns_def UserType_ctor_faults FunctionType_ctor_faults
        split: if_split sum.split)
qed

lemma sample_read:
  assumes "ds = [sample_dia 5 7, sample_dia 11 8]"
  shows "\<exists>S. DIA2_ReadSymbols sample_names env J (sample_com ds) argv f SymbolData_init = returns S
    \<and> sd_Symbol S \<noteq> []"
proof -
  let ?env = "read_env env argv (sample_session ds)" and ?r = "first_state (reader_init SymbolData_init)"
  obtain r1 where r1: "ReadSymbol ?env J (sample_dia 5 7) ?r = returns r1" using sample_run by force
  obtain r2 where "ReadSymbol ?env J (sample_dia 11 8) r1 = returns r2" using sample_run by force
  with r1 assms have run: "run_fold (ReadSymbol ?env J) ds ?r = returns r2" by simp
  then have "run_fold (sink_element (ReadSymbolHelper ?env J)) ds ?r = returns r2"
    by (simp add: ReadSymbolHelper_def helper_sink_def)
  from symbols.rows_fold [OF this] assms have "sd_Symbol (Result r2) \<noteq> []" by auto
  moreover have "DIA2_ReadSymbols sample_names env J (sample_com ds) argv f SymbolData_init = returns (Result r2)"
    using assms run
    by (simp add: DIA2_ReadSymbols_def Provider_load_def Provider_source_def sample_com_def SUCCEEDED_def
        sample_provider run_bind_def returns_def)
  ultimately show ?thesis by blast
qed

section \<open>Properties\<close>

text \<open>C7. Whatever the debug interface answers, a read of a file into fresh tables that comes to an
  end leaves them consistent: unless the file could not be opened, the first symbol is the
  empty one, the source ranges are numbered by their position, every row of a table that
  belongs to a symbol has that symbol, with the table's tag, in the master table, the source
  line of every user type is 0 or the number of an existing source range, and the table of
  virtual function table shapes is empty.\<close>

theorem read_consistent:
  assumes "DIA2_ReadSymbols nm env J com argv f SymbolData_init = returns S"
  shows "S = SymbolData_init \<or>
     (hd (sd_Symbol S) = Symbol_default
      \<and> map SrcRange_id (sd_SrcRange S) = map of_nat [0..<length (sd_SrcRange S)]
      \<and> list_all (\<lambda>(nm, ids). list_all (has_master S nm) (ids S)) symbol_tables
      \<and> list_all (\<lambda>u. UserType_src_line u = 0 \<or> unat (UserType_src_line u) < length (sd_SrcRange S))
          (sd_UserType S)
      \<and> sd_VTableShape S = [])"
proof -
  from assms consider "S = SymbolData_init"
    | ses r where "provider_ReadSymbols nm env J argv ses (reader_init SymbolData_init) = returns r" "S = Result r"
    by (auto simp: DIA2_ReadSymbols_def run_bind_eq_returns split: if_split_asm option.splits prod.splits)
  then show ?thesis
  proof cases
    case 1
    then show ?thesis by simp
  next
    case 2
    note reads = provider_ReadSymbols_reads [OF 2(1)]
    have "sd_Symbol (Result (first_state (reader_init SymbolData_init))) = [Symbol_default]"
      "sd_VTableShape (Result (first_state (reader_init SymbolData_init))) = []"
      by (simp_all add: first_state_def reader_init_def SymbolData_init_def emplace_back_def)
    with reads_inv [OF reads first_state_inv] reads_prefix [OF reads] 2(2) show ?thesis
      by (auto simp: reader_inv_def ranges_numbered_def masters_present_def src_lines_ok_def)
  qed
qed

theorem read_consistent_witness:
  "\<forall>env J argv f. \<exists>S. DIA2_ReadSymbols sample_names env J (sample_com [sample_dia 5 7, sample_dia 11 8]) argv f SymbolData_init
      = returns S \<and> hd (sd_Symbol S) = Symbol_default
     \<and> list_all (has_master S ''Function'') (map Function_symbol (sd_Function S))"
proof (intro allI)
  fix env J argv f
  obtain S where S: "DIA2_ReadSymbols sample_names env J (sample_com [sample_dia 5 7, sample_dia 11 8]) argv f SymbolData_init
      = returns S" and "sd_Symbol S \<noteq> []" using sample_read [OF refl] by blast
  then have "S \<noteq> SymbolData_init" by (auto simp: SymbolData_init_def)
  with read_consistent [OF S] have "hd (sd_Symbol S) = Symbol_default
      \<and> list_all (has_master S ''Function'') (map Function_symbol (sd_Function S))"
    by (simp add: symbol_tables_def)
  with S show "\<exists>S. DIA2_ReadSymbols sample_names env J (sample_com [sample_dia 5 7, sample_dia 11 8]) argv f SymbolData_init
      = returns S \<and> hd (sd_Symbol S) = Symbol_default
     \<and> list_all (has_master S ''Function'') (map Function_symbol (sd_Function S))" by blast
qed

text \<open>On a session whose enumerators all come to an end, the read comes to an end: it returns or
  it faults, but it does not run for ever.\<close>

lemma provider_ReadSymbols_ends:
  assumes "session_ends ses"
  shows "provider_ReadSymbols nm env J argv ses r \<noteq> None"
proof -
  have "sink_element p d s \<noteq> None"
    if "p \<in> {ReadSectionContrib e J, ReadInjectedSource e J, ReadSourceHelper e J, ReadSymbolHelper e J,
          ReadSegment e J, ReadInputAssembly e J, ReadFrame e J, ReadLineHelper e J}" and "compilands_end d"
    for p d s e
    using that(1)
    by (elim insertE)
      (simp_all add: ReadSourceHelper_def ReadSymbolHelper_def ReadLineHelper_def helper_sink_def
        ReadLines_def Let_def ReadSource_ends [OF that(2)] ReadSymbol_ends emplace_sink_ends del: not_None_eq)
  then show ?thesis
    unfolding provider_ReadSymbols_def Let_def
    by (intro ends_intros(2) session_ends_ReadStreams session_ends_ReadTables assms)
qed

text \<open>C30. Reading a symbol faults in exactly four cases: the details of a compiland arrive when the
  row that the map gives for it does not exist; the value of a data symbol is a float that no
  64-bit integer holds; a user type answers \<open>S_OK\<close> for its table of virtual functions, or a
  function type for the type of its object, and hands out no object.\<close>

theorem symbol_faults:
  "(\<exists>e. ReadSymbol env J d r = Some (Inl e)) \<longleftrightarrow>
     get d ''get_symTag'' 0 = SymTag ''CompilandDetails''
       \<and> length (sd_Compiland (Result r)) \<le> unat (case SymCompilandMap r (get d ''get_lexicalParentId'' 0) of
           None \<Rightarrow> 0 | Some i \<Rightarrow> i)
     \<or> get d ''get_symTag'' 0 = SymTag ''Data''
       \<and> (\<exists>f. (VariantChangeType_I8 env (variant_of d ''get_value'') = VT_R4 f
             \<or> VariantChangeType_I8 env (variant_of d ''get_value'') = VT_R8 f)
           \<and> (\<exists>e. float_to_int64 f = Inl e))
     \<or> get d ''get_symTag'' 0 = SymTag ''UDT'' \<and> related d ''get_virtualTableShape'' = (S_OK, None)
     \<or> get d ''get_symTag'' 0 = SymTag ''FunctionType'' \<and> related d ''get_objectPointerType'' = (S_OK, None)"
proof -
  have data: "(\<exists>e. Data_ctor env \<sigma> d i = Inl e) \<longleftrightarrow>
      (\<exists>f. (VariantChangeType_I8 env (variant_of d ''get_value'') = VT_R4 f
         \<or> VariantChangeType_I8 env (variant_of d ''get_value'') = VT_R8 f) \<and> (\<exists>e. float_to_int64 f = Inl e))" for \<sigma> i
    by (cases "VariantChangeType_I8 env (variant_of d ''get_value'')")
      (auto simp: Data_ctor_def Let_def result_bind_def split: sum.split)
  consider (details) "get d ''get_symTag'' 0 = SymTag ''CompilandDetails''"
    | (data) "get d ''get_symTag'' 0 = SymTag ''Data''"
    | (udt) "get d ''get_symTag'' 0 = SymTag ''UDT''"
    | (funtype) "get d ''get_symTag'' 0 = SymTag ''FunctionType''"
    | (other) "get d ''get_symTag'' 0 \<noteq> SymTag ''CompilandDetails''" "get d ''get_symTag'' 0 \<noteq> SymTag ''Data''"
      "get d ''get_symTag'' 0 \<noteq> SymTag ''UDT''" "get d ''get_symTag'' 0 \<noteq> SymTag ''FunctionType''"
    by blast
  then show ?thesis
  proof cases
    case details
    then show ?thesis
      by (auto simp: ReadSymbol_eq ReadSymbol_switch_def SymTag_simps ReadCompilandDetailsSymbol_def Let_def
          returns_def split: option.split)
  next
    case data
    then have "(\<exists>e. ReadSymbol env J d r = Some (Inl e)) \<longleftrightarrow>
        (\<exists>e. Data_ctor env (J (length (sd_Symbol (Result r)))) d (get d ''get_symIndexId'' 0) = Inl e)"
      by (auto simp: ReadSymbol_eq ReadSymbol_switch_def SymTag_simps run_bind_def returns_def split: sum.split)
    with data \<open>get d ''get_symTag'' 0 = SymTag ''Data''\<close> show ?thesis
      using \<open>\<And>\<sigma> i. (\<exists>e. Data_ctor env \<sigma> d i = Inl e) \<longleftrightarrow> _\<close> by (simp add: SymTag_simps)
  next
    case udt
    then show ?thesis
      by (auto simp: ReadSymbol_eq ReadSymbol_switch_def SymTag_simps ReadUDTSymbol_eq run_bind_def returns_def
          UserType_ctor_faults dest: ctor_not_faulted split: sum.split)
  next
    case funtype
    then show ?thesis
      by (auto simp: ReadSymbol_eq ReadSymbol_switch_def SymTag_simps run_bind_def returns_def
          FunctionType_ctor_faults dest: ctor_not_faulted split: sum.split)
  next
    case other
    then show ?thesis
      unfolding ReadSymbol_eq ReadSymbol_switch_def by (simp add: returns_def)
  qed
qed

lemma sint_scast_64: "sint (scast (v :: u32) :: u64) = sint v"
proof -
  have "- (2 ^ 63) \<le> sint v" and "sint v < 2 ^ 63"
    using sint_greater_eq [of v] sint_less [of v] by simp_all
  then have "signed_take_bit 63 (sint v) = sint v" by (simp add: signed_take_bit_int_eq_self)
  then show ?thesis by (simp add: signed_scast_eq)
qed

text \<open>A value of an integer type is kept: 64-bit values as they are, 32-bit values with their
  sign.\<close>

lemma data_value_kept:
  assumes "Data_ctor env \<sigma> d i = Inr x"
  shows "(\<forall>v. VariantChangeType_I8 env (variant_of d ''get_value'') = VT_I8 v \<longrightarrow> Data_value x = v)
    \<and> (\<forall>v. VariantChangeType_I8 env (variant_of d ''get_value'') = VT_I4 v \<longrightarrow> sint (Data_value x) = sint v)"
  using assms by (auto simp: Data_ctor_def Let_def sint_scast_64)

lemma InjectedSource_text_updated:
  "InjectedSource_text (r\<lparr> InjectedSource_length := l, InjectedSource_text := t \<rparr>) = t"
  by simp

lemma InjectedSource_text_eq:
  assumes "InjectedSource_ctor env \<sigma> d = Inr x"
  obtains buf :: "nat \<Rightarrow> u8" and n where "n < 256"
    and "InjectedSource_text x = c_string (map (buf(n := 0)) [0..<256])"
proof -
  let ?src = "snd (source_bytes d)"
  let ?num = "case fst (source_bytes d) of None \<Rightarrow> 0 | Some n \<Rightarrow> n"
  from assms have num: "unat ?num < 256"
    by (auto simp: InjectedSource_ctor_def Let_def result_bind_def split: if_split_asm)
  let ?f = "\<lambda>i. if i < length ?src \<and> i < 255 then take 255 ?src ! i else junk_buf \<sigma> i"
  from assms num have "InjectedSource_text x = c_string (map (?f(unat ?num := 0)) [0..<256])"
    unfolding InjectedSource_ctor_def Let_def by (simp del: fun_upd_apply upt_conv_Cons map_fun_upd cong: if_weak_cong) (erule subst, rule InjectedSource_text_updated)
  with num show thesis by (rule that)
qed

lemma length_c_string:
  fixes buf :: "nat \<Rightarrow> u8"
  assumes "n < m"
  shows "length (c_string (map (buf(n := 0)) [0..<m])) \<le> n"
proof -
  define bs where "bs = map (buf(n := 0)) [0..<m]"
  from assms have zero: "bs ! n = 0" by (simp add: bs_def)
  have "length (takeWhile (\<lambda>b. b \<noteq> 0) bs) \<le> n"
  proof (rule ccontr)
    assume "\<not> length (takeWhile (\<lambda>b. b \<noteq> 0) bs) \<le> n"
    then have len: "n < length (takeWhile (\<lambda>b. b \<noteq> 0) bs)" by simp
    from nth_mem [OF len] have "takeWhile (\<lambda>b. b \<noteq> 0) bs ! n \<noteq> 0"
      by (blast dest: set_takeWhileD)
    with takeWhile_nth [OF len] zero show False by simp
  qed
  then show ?thesis by (simp add: c_string_def flip: bs_def)
qed

text \<open>C38. The text of an injected source has at most 255 characters, whatever the interface reports:
  it is a prefix of the bytes received, or the constructor has written behind its buffer.\<close>

theorem injected_text_bound:
  assumes "InjectedSource_ctor env \<sigma> d = Inr x"
  shows "length (InjectedSource_text x) \<le> 255"
proof -
  from assms obtain buf :: "nat \<Rightarrow> u8" and n where n: "n < 256"
    and eq: "InjectedSource_text x = c_string (map (buf(n := 0)) [0..<256])"
    by (rule InjectedSource_text_eq)
  have "length (InjectedSource_text x) \<le> n" unfolding eq by (rule length_c_string [OF n])
  with n show ?thesis by linarith
qed

theorem injected_text_bound_witness:
  "\<forall>env \<sigma>. \<exists>x. InjectedSource_ctor env \<sigma> (sample_dia 0 0) = Inr x \<and> length (InjectedSource_text x) \<le> 255"
proof (intro allI)
  fix env \<sigma>
  obtain x where x: "InjectedSource_ctor env \<sigma> (sample_dia 0 0) = Inr x"
    by (simp add: InjectedSource_ctor_def Let_def sample_dia_def)
  with injected_text_bound [OF x] show "\<exists>x. InjectedSource_ctor env \<sigma> (sample_dia 0 0) = Inr x \<and> length (InjectedSource_text x) \<le> 255" by blast
qed

lemma complete_sample: "complete (sample_dia tag i)"
  by (simp add: complete_def sample_dia_def)

text \<open>Two fields of an enumeration's row and the offset of a virtual function table pointer are
  never set: they keep what the memory held.\<close>

lemma fields_never_set:
  "Enum_type_symbol (Enum_ctor env \<sigma> d i) = Enum_type_symbol (raw_Enum \<sigma>)
   \<and> Enum_unmodified_type_symbol (Enum_ctor env \<sigma> d i) = Enum_unmodified_type_symbol (raw_Enum \<sigma>)
   \<and> VTablePtr_offset (VTablePtr_ctor env \<sigma> d i) = VTablePtr_offset (raw_VTablePtr \<sigma>)
   \<and> Function_exceptions (Function_ctor env \<sigma> d i) = Function_exceptions (raw_Function \<sigma>)"
  by (simp add: Enum_ctor_def VTablePtr_ctor_def Function_ctor_def Let_def split_beta)

text \<open>The length of a section contribution is stored as 0 or 1, so the table has the reported
  length only for contributions of at most one byte.\<close>

lemma contrib_length_lost:
  assumes "complete d"
  shows "SectionContrib_length (SectionContrib_ctor env \<sigma> d) = val d ''get_length'' \<longleftrightarrow> val d ''get_length'' \<le> 1"
proof -
  have "SectionContrib_length (SectionContrib_ctor env \<sigma> d) = of_bool (val d ''get_length'' \<noteq> 0)"
    by (simp add: SectionContrib_ctor_def Let_def get_complete [OF assms])
  moreover have "(x :: u32) \<le> 1 \<longleftrightarrow> x = 0 \<or> x = 1" for x
    by (simp add: order.order_iff_strict)
  ultimately show ?thesis by auto
qed

text \<open>With \<^verbatim>\<open>-noaddress\<close> the addresses that go through \<open>address_info::init\<close> are 0, but exports,
  segments and source ranges still carry the relative virtual address.\<close>

lemma noaddress_leaks:
  assumes "no_addresses env" and "complete d"
  shows "Block_address (Block_ctor env \<sigma> d i) = \<lparr> address_rv = 0 \<rparr>
    \<and> Function_address (Function_ctor env \<sigma> d i) = \<lparr> address_rv = 0 \<rparr>
    \<and> Export_address_offset (Export_ctor env \<sigma> d i) = val d ''get_relativeVirtualAddress''
    \<and> Segment_address_rv (Segment_ctor env \<sigma> d) = val d ''get_relativeVirtualAddress''
    \<and> SrcRange_address_rv (SrcRange_ctor env \<sigma> i d) = val d ''get_relativeVirtualAddress''"
  using assms(1)
  by (simp add: Block_ctor_def Function_ctor_def Export_ctor_def Segment_ctor_def SrcRange_ctor_def Let_def
      split_beta address_info_init_def get_complete [OF assms(2)])

text \<open>The kind of a pointer and of a pointer to member, from the flags of the interface.\<close>

lemma pointer_classified:
  assumes "complete d"
  shows "Pointer_kind (Pointer_ctor env \<sigma> d i) =
      (if val d ''get_isWinRTPointer'' \<noteq> 0 then PointerKind_WINRT_HAT
       else if val d ''get_RValueReference'' \<noteq> 0 then PointerKind_R_REF
       else if val d ''get_reference'' \<noteq> 0 then PointerKind_L_REF else PointerKind_PTR)
    \<and> Pointer_member_type (Pointer_ctor env \<sigma> d i) =
      (if val d ''get_isPointerToDataMember'' \<noteq> 0 then MemberType_DATA
       else if val d ''get_isPointerToMemberFunction'' \<noteq> 0 then MemberType_FUNCTION else MemberType_NONE)"
  by (simp add: Pointer_ctor_def Let_def split_beta get_complete [OF assms])

lemma ReadSections_loop_from:
  assumes "section_stop (Next n)" and "\<forall>j < n. \<not> section_stop (Next j)" and "k \<le> n"
  shows "ReadSections_loop Next k i r = returns (on_result (sd_AddrSection_update (\<lambda>xs. xs
      @ map (\<lambda>j. section_row (i + of_nat (j - k)) (case sa_header (Next j) of None \<Rightarrow> section_header_zero | Some h \<Rightarrow> h))
          [k..<n])) r)"
  using assms(3)
proof (induction "n - k" arbitrary: k i r)
  case 0
  with assms(1) show ?case
    by (subst ReadSections_loop.simps) (simp add: Let_def section_stop_def on_result_def)
next
  case (Suc m)
  let ?h = "\<lambda>j. case sa_header (Next j) of None \<Rightarrow> section_header_zero | Some h \<Rightarrow> h"
  from Suc have "k < n" and go: "\<not> section_stop (Next k)" using assms(2) by auto
  then have upt: "[k..<n] = k # [k + 1..<n]" by (simp add: upt_conv_Cons)
  have step: "ReadSections_loop Next k i r = ReadSections_loop Next (k + 1) (i + 1)
      (on_result (sd_AddrSection_update (emplace_back (section_row i (?h k)))) r)"
    using go by (subst ReadSections_loop.simps) (simp add: Let_def section_stop_def)
  have IH: "ReadSections_loop Next (k + 1) (i + 1) r' = returns (on_result (sd_AddrSection_update (\<lambda>xs. xs
      @ map (\<lambda>j. section_row (i + 1 + of_nat (j - (k + 1))) (?h j)) [k + 1..<n])) r')" for r'
    using Suc.hyps(2) \<open>k < n\<close> by (intro Suc.hyps(1)) simp_all
  have "i + 1 + of_nat (j - (k + 1)) = i + of_nat (j - k)" if "j \<in> set [k + 1..<n]" for j
    using that by (simp add: of_nat_diff)
  then have rows: "map (\<lambda>j. section_row (i + 1 + of_nat (j - (k + 1))) (?h j)) [k + 1..<n]
      = map (\<lambda>j. section_row (i + of_nat (j - k)) (?h j)) [k + 1..<n]"
    by (intro map_cong refl) simp
  show ?case unfolding step IH rows upt by (simp add: on_result_def emplace_back_def comp_def)
qed

text \<open>C22. The sections of a stream of section headers: every header before the first answer that
  is empty or of another size becomes a row, in the order of the stream, numbered from 1.\<close>

theorem sections_read:
  assumes "section_stop (ds_Next stream n)" and "\<forall>k < n. \<not> section_stop (ds_Next stream k)"
  shows "\<exists>r'. ReadSections stream r = returns r'
    \<and> sd_AddrSection (Result r') = sd_AddrSection (Result r) @ map (\<lambda>k. section_row (of_nat (k + 1))
        (case sa_header (ds_Next stream k) of None \<Rightarrow> section_header_zero | Some h \<Rightarrow> h)) [0..<n]"
  using ReadSections_loop_from [OF assms, of 0 1 r]
  by (simp add: ReadSections_def on_result_def add.commute)

definition sample_header :: section_header where
  "sample_header = section_header_zero\<lparr> sh_Name := [0x2E, 0x74, 0], sh_Characteristics := 0x60000000 \<rparr>"

definition sample_stream :: debug_stream where
  "sample_stream = \<lparr> ds_name = Some SECTIONHEADERS, ds_Next = (\<lambda>k. \<lparr> sa_header = Some sample_header,
     sa_bytesRead = Some 40, sa_numFetched = Some (if k < 1 then 1 else 0) \<rparr>) \<rparr>"

theorem sections_read_witness:
  "\<exists>r'. ReadSections sample_stream (reader_init SymbolData_init) = returns r'
     \<and> map AddrSection_name (sd_AddrSection (Result r')) = [''.t'']
     \<and> map AddrSection_section_index (sd_AddrSection (Result r')) = [1]
     \<and> map AddrSection_executable (sd_AddrSection (Result r')) = [True]"
proof -
  have "section_stop (ds_Next sample_stream 1)" and "\<forall>k < 1. \<not> section_stop (ds_Next sample_stream k)"
    by (simp_all add: section_stop_def sample_stream_def sizeof_IMAGE_SECTION_HEADER_def)
  from sections_read [OF this, of "reader_init SymbolData_init"]
  obtain r' where "ReadSections sample_stream (reader_init SymbolData_init) = returns r'"
    and "sd_AddrSection (Result r') = [section_row 1 sample_header]"
    by (auto simp: reader_init_def SymbolData_init_def sample_stream_def)
  moreover have "char_of (46 :: nat) = CHR ''.''" "char_of (116 :: nat) = CHR ''t''" by code_simp+
  ultimately show ?thesis
    by (simp add: section_row_def sample_header_def c_string_def IMAGE_SCN_MEM_EXECUTE_def)
qed

lemma ReadSource_loop_from:
  assumes "fst (Next n) \<noteq> S_OK" and "\<forall>j < n. fst (Next j) = S_OK" and "k \<le> n"
  shows "ReadSource_loop Next f k xs = Some (xs
    @ map (\<lambda>c. Included_ctor (get c ''get_symIndexId'' 0) f) (concat (map (\<lambda>j. snd (Next j)) [k..<n])))"
  using assms(3)
proof (induction "n - k" arbitrary: k xs)
  case 0
  with assms(1) show ?case by (subst ReadSource_loop.simps) (auto split: prod.split)
next
  case (Suc m)
  then have "k < n" and go: "fst (Next k) = S_OK" using assms(2) by auto
  then have upt: "[k..<n] = k # [k + 1..<n]" by (simp add: upt_conv_Cons)
  have fold: "foldl (\<lambda>xs c. emplace_back (g c) xs) xs cs = xs @ map g cs" for g :: "dia \<Rightarrow> Sym_Included" and xs cs
    by (induction cs arbitrary: xs) (simp_all add: emplace_back_def)
  have step: "ReadSource_loop Next f k xs = ReadSource_loop Next f (k + 1)
      (xs @ map (\<lambda>c. Included_ctor (get c ''get_symIndexId'' 0) f) (snd (Next k)))"
    using go by (subst ReadSource_loop.simps) (auto simp: fold split: prod.split)
  have IH: "ReadSource_loop Next f (k + 1) ys = Some (ys
    @ map (\<lambda>c. Included_ctor (get c ''get_symIndexId'' 0) f) (concat (map (\<lambda>j. snd (Next j)) [k + 1..<n])))" for ys
    using Suc.hyps(2) \<open>k < n\<close> by (intro Suc.hyps(1)) simp_all
  show ?case unfolding step IH upt by simp
qed

text \<open>C23. The inclusions of a source file: one row per compiland of the batches that answered
  \<open>S_OK\<close>, in order, with the file's number. The compilands of the first answer that is not
  \<open>S_OK\<close> are dropped, also when it holds the rest of the list.\<close>

theorem source_inclusions:
  assumes "compilands item = (S_OK, Some Next)" and "fst (Next n) \<noteq> S_OK" and "\<forall>k < n. fst (Next k) = S_OK"
  shows "\<exists>r'. ReadSource env J item r = returns r'
    \<and> sd_Included (Result r') = sd_Included (Result r)
        @ map (\<lambda>c. Included_ctor (get c ''get_symIndexId'' 0) (get item ''get_uniqueId'' 0))
            (concat (map (\<lambda>k. snd (Next k)) [0..<n]))"
  using assms(1) ReadSource_loop_from [OF assms(2,3), of 0]
  by (simp add: ReadSource_def Let_def on_result_def)

definition sample_source :: dia where
  "sample_source = Dia (\<lambda>m. (S_OK, Some 9)) (\<lambda>m. (S_OK, Some 0)) (\<lambda>m. (S_OK, None)) (\<lambda>m. VT_I8 0)
     (S_OK, Some []) (\<lambda>m. (1, None)) (Some 0, [])
     (S_OK, Some (\<lambda>k. if k = 0 then (S_OK, [sample_dia 2 4]) else (1, [sample_dia 2 5])))"

theorem source_inclusions_witness:
  "\<forall>env J. \<exists>r'. ReadSource env J sample_source (reader_init SymbolData_init) = returns r'
     \<and> sd_Included (Result r') = [Included_ctor 4 9]"
proof (intro allI)
  fix env J
  let ?Next = "\<lambda>k :: nat. if k = 0 then (S_OK, [sample_dia 2 4]) else (1, [sample_dia 2 5])"
  have "compilands sample_source = (S_OK, Some ?Next)" "fst (?Next 1) \<noteq> S_OK" "\<forall>k < 1. fst (?Next k) = S_OK"
    by (simp_all add: sample_source_def)
  from source_inclusions [OF this, of env J "reader_init SymbolData_init"]
  obtain r' where "ReadSource env J sample_source (reader_init SymbolData_init) = returns r'"
    and "sd_Included (Result r') = [Included_ctor 4 (get sample_source ''get_uniqueId'' 0)]"
    by (auto simp: reader_init_def SymbolData_init_def)
  moreover have "get sample_source ''get_uniqueId'' 0 = 9" by (simp add: get_def sample_source_def)
  ultimately show "\<exists>r'. ReadSource env J sample_source (reader_init SymbolData_init) = returns r'
     \<and> sd_Included (Result r') = [Included_ctor 4 9]"
    by auto
qed

end
