(* ===== verification/DIA_Session.thy ===== *)
theory DIA_Session
  imports DIA_Properties
begin

text \<open>
  A session as the list of what it hands out. \<open>session_events\<close> asks the enumerators first and
  lists the sections and items in the order in which they come; \<open>deliver\<close> is what the reader does
  with one of them. A whole read, with its nested loops over enumerators that are asked while the
  tables grow, is the fold of \<open>deliver\<close> over that list (\<open>read_is_fold\<close>), and what a read leaves in the
  tables is described by filtering the list (\<open>contents_read\<close>).
\<close>

section \<open>What a session hands out\<close>

text \<open>The kinds of tables, with the name, the interface and the sink of each.\<close>

datatype kind = KContrib | KInjected | KSource | KSymbol | KSegment | KAssembly | KFrame | KLine

datatype event =
    Section u32 section_header
  | Item kind dia
  | Fails fault

fun interface_of :: "kind \<Rightarrow> string" where
  "interface_of KContrib = ''IDiaEnumSectionContribs''"
| "interface_of KInjected = ''IDiaEnumInjectedSources''"
| "interface_of KSource = ''IDiaEnumSourceFiles''"
| "interface_of KSymbol = ''IDiaEnumSymbols''"
| "interface_of KSegment = ''IDiaEnumSegments''"
| "interface_of KAssembly = ''IDiaEnumInputAssemblyFiles''"
| "interface_of KFrame = ''IDiaEnumFrameData''"
| "interface_of KLine = ''IDiaEnumLineNumbers''"

fun sink_of :: "env \<Rightarrow> (nat \<Rightarrow> junk) \<Rightarrow> kind \<Rightarrow> reader sink" where
  "sink_of env J KContrib = ReadSectionContrib env J"
| "sink_of env J KInjected = ReadInjectedSource env J"
| "sink_of env J KSource = ReadSourceHelper env J"
| "sink_of env J KSymbol = ReadSymbolHelper env J"
| "sink_of env J KSegment = ReadSegment env J"
| "sink_of env J KAssembly = ReadInputAssembly env J"
| "sink_of env J KFrame = ReadFrame env J"
| "sink_of env J KLine = ReadLineHelper env J"

text \<open>The kind of a table is that of the first name it equals.\<close>

definition kind_names :: "table_names \<Rightarrow> (wstring \<times> kind) list" where
  "kind_names nm = [(DiaTable_Sections nm, KContrib), (DiaTable_InjSrc nm, KInjected),
     (DiaTable_SrcFiles nm, KSource), (DiaTable_Symbols nm, KSymbol), (DiaTable_SegMap nm, KSegment),
     (DiaTable_InputAssemblyFiles nm, KAssembly), (DiaTable_FrameData nm, KFrame),
     (DiaTable_LineNums nm, KLine)]"

definition table_kind :: "table_names \<Rightarrow> wstring \<Rightarrow> kind option" where
  "table_kind nm w = map_option snd (find (\<lambda>(n, k). wcscmp_eq w n) (kind_names nm))"

text \<open>What the answers of an enumerator yield up to the one that ends it.\<close>

partial_function (option) collect ::
    "('a \<Rightarrow> bool) \<Rightarrow> (nat \<Rightarrow> 'a \<Rightarrow> 'b list option) \<Rightarrow> (nat \<Rightarrow> 'a) \<Rightarrow> nat \<Rightarrow> 'b list option" where
  "collect stop yields Next k =
     (if stop (Next k) then Some []
      else
        Option.bind (yields k (Next k)) (\<lambda>xs.
          Option.bind (collect stop yields Next (k + 1)) (\<lambda>ys. Some (xs @ ys))))"

definition header_of :: "section_answer \<Rightarrow> section_header" where
  "header_of a = (case sa_header a of None \<Rightarrow> section_header_zero | Some h \<Rightarrow> h)"

definition stream_events :: "debug_stream \<Rightarrow> event list option" where
  "stream_events d =
     (case ds_name d of
        None \<Rightarrow> Some [Fails (Undefined_Behaviour ''wcscmp of a null name'')]
      | Some w \<Rightarrow>
          if wcscmp_eq w SECTIONHEADERS
          then collect section_stop (\<lambda>k a. Some [Section (of_nat (k + 1)) (header_of a)]) (ds_Next d) 0
          else Some [])"

definition table_events :: "table_names \<Rightarrow> dia_table \<Rightarrow> event list option" where
  "table_events nm t =
     (case dt_name t of
        None \<Rightarrow> Some [Fails (Undefined_Behaviour ''wcscmp of a null name'')]
      | Some w \<Rightarrow>
          (case table_kind nm w of
             None \<Rightarrow> Some []
           | Some kd \<Rightarrow>
               (case dt_QueryInterface t (interface_of kd) of
                  (h, e) \<Rightarrow>
                    if h = S_OK then
                      (case e of
                         None \<Rightarrow> Some [Fails (Undefined_Behaviour ''enumerator is null'')]
                       | Some e \<Rightarrow> collect stops (\<lambda>k a. Some (map (Item kd) (snd a))) (en_Next e) 0)
                    else Some [])))"

definition session_events :: "table_names \<Rightarrow> session \<Rightarrow> event list option" where
  "session_events nm ses =
     (case (case ses_streams ses of
              None \<Rightarrow> Some []
            | Some Next \<Rightarrow> collect (fetch_stop 1) (\<lambda>k a. stream_events (the (fst a))) Next 0) of
        None \<Rightarrow> None
      | Some xs \<Rightarrow>
          (case (case ses_tables ses of
                   None \<Rightarrow> Some []
                 | Some Next \<Rightarrow> collect (fetch_stop 0) (\<lambda>k a. table_events nm (the (fst a))) Next 0) of
             None \<Rightarrow> None
           | Some ys \<Rightarrow> Some (xs @ ys)))"

fun deliver :: "env \<Rightarrow> (nat \<Rightarrow> junk) \<Rightarrow> event \<Rightarrow> reader \<Rightarrow> reader run" where
  "deliver env J (Section i h) r = returns (on_result (sd_AddrSection_update (emplace_back (section_row i h))) r)"
| "deliver env J (Item kd d) r = sink_element (sink_of env J kd) d r"
| "deliver env J (Fails f) r = Some (Inl f)"

lemma deliver_item: "(\<lambda>d. deliver env J (Item kd d)) = sink_element (sink_of env J kd)"
  by (intro ext) simp

section \<open>Collecting\<close>

lemma collect_from:
  assumes "stop (Next n)" and "\<forall>i. k \<le> i \<and> i < n \<longrightarrow> \<not> stop (Next i)"
    and "\<forall>i. k \<le> i \<and> i < n \<longrightarrow> yields i (Next i) \<noteq> None" and "k \<le> n"
  shows "collect stop yields Next k = Some (concat (map (\<lambda>i. the (yields i (Next i))) [k..<n]))"
  using assms(2-4)
proof (induction "n - k" arbitrary: k)
  case 0
  with assms(1) show ?case by (subst collect.simps) simp
next
  case (Suc m)
  then have k: "k < n" "\<not> stop (Next k)" and "yields k (Next k) \<noteq> None" by auto
  then obtain xs where xs: "yields k (Next k) = Some xs" by blast
  have IH: "collect stop yields Next (k + 1) = Some (concat (map (\<lambda>i. the (yields i (Next i))) [k + 1..<n]))"
    using Suc by (intro Suc.hyps(1)) auto
  from k(1) have upt: "[k..<n] = k # [k + 1..<n]" by (simp add: upt_conv_Cons)
  show ?case by (subst collect.simps) (simp only: k(2) xs IH upt if_False bind.bind_lunit list.map concat.simps option.sel)
qed

lemma collect_ends:
  fixes stop :: "'a \<Rightarrow> bool" and yields :: "nat \<Rightarrow> 'a \<Rightarrow> 'b list option"
  assumes "collect stop yields Next k = Some zs"
  obtains n where "k \<le> n" and "stop (Next n)" and "\<forall>i. k \<le> i \<and> i < n \<longrightarrow> \<not> stop (Next i)"
    and "\<forall>i. k \<le> i \<and> i < n \<longrightarrow> yields i (Next i) \<noteq> None"
    and "zs = concat (map (\<lambda>i. the (yields i (Next i))) [k..<n])"
proof -
  let ?good = "\<lambda>stop Next yields k zs n. k \<le> n \<and> stop (Next n) \<and> (\<forall>i. k \<le> i \<and> i < n \<longrightarrow> \<not> stop (Next i))
      \<and> (\<forall>i. k \<le> i \<and> i < n \<longrightarrow> yields i (Next i) \<noteq> None)
      \<and> zs = concat (map (\<lambda>i. the (yields i (Next i))) [k..<n])"
  have "\<exists>n. ?good stop Next yields k zs n"
  proof (rule collect.raw_induct [where P = "\<lambda>stop yields Next k zs. \<exists>n. ?good stop Next yields k zs n", OF _ assms])
    fix loop and stop :: "'a \<Rightarrow> bool" and yields :: "nat \<Rightarrow> 'a \<Rightarrow> 'b list option" and Next :: "nat \<Rightarrow> 'a" and k zs
    assume IH: "\<And>stop yields Next k zs. loop stop yields Next k = Some zs \<Longrightarrow> \<exists>n. ?good stop Next yields k zs n"
      and body: "(if stop (Next k) then Some []
        else Option.bind (yields k (Next k)) (\<lambda>xs.
          Option.bind (loop stop yields Next (k + 1)) (\<lambda>ys. Some (xs @ ys)))) = Some zs"
    show "\<exists>n. ?good stop Next yields k zs n"
    proof (cases "stop (Next k)")
      case True
      with body show ?thesis by (intro exI [of _ k]) auto
    next
      case False
      with body obtain xs ys where xs: "yields k (Next k) = Some xs" and ys: "loop stop yields Next (k + 1) = Some ys"
        and zs: "zs = xs @ ys"
        by (auto simp: bind_eq_Some_conv)
      from IH [OF ys] obtain n where n: "?good stop Next yields (k + 1) ys n" by blast
      then have upt: "[k..<n] = k # [k + 1..<n]" by (simp add: upt_conv_Cons)
      have split: "i = k \<or> k + 1 \<le> i" if "k \<le> i" for i using that by auto
      have "zs = concat (map (\<lambda>i. the (yields i (Next i))) [k..<n])" unfolding upt using n xs zs by simp
      moreover have "\<forall>i. k \<le> i \<and> i < n \<longrightarrow> \<not> stop (Next i)" "\<forall>i. k \<le> i \<and> i < n \<longrightarrow> yields i (Next i) \<noteq> None"
        using n False xs by (auto dest!: split simp del: Suc_eq_plus1)
      ultimately show ?thesis using n by (intro exI [of _ n]) simp
    qed
  qed
  with that show thesis by blast
qed

lemma run_fold_concat:
  "run_fold f (concat xss) s = run_fold (\<lambda>xs. run_fold f xs) xss s"
proof (induction xss arbitrary: s)
  case (Cons xs xss)
  then have "run_fold f (concat xss) = run_fold (\<lambda>xs. run_fold f xs) xss" by (intro ext)
  then show ?case by (simp add: run_fold_append)
qed simp

lemma run_fold_map: "run_fold f (map g xs) s = run_fold (\<lambda>x. f (g x)) xs s"
proof (induction xs arbitrary: s)
  case (Cons x xs)
  then have "run_fold f (map g xs) = run_fold (\<lambda>x. f (g x)) xs" by (intro ext)
  then show ?case by simp
qed simp

section \<open>A read is a fold\<close>

lemma select_sink_kind:
  "select_sink nm (ReadSectionContrib env J) (ReadInjectedSource env J) (ReadSourceHelper env J)
     (ReadSymbolHelper env J) (ReadSegment env J) (ReadInputAssembly env J) (ReadFrame env J) (ReadLineHelper env J) w
   = map_option (\<lambda>kd. (interface_of kd, sink_of env J kd)) (table_kind nm w)"
  by (simp add: select_sink_def table_kind_def kind_names_def)

lemma collect_items:
  assumes "collect stops (\<lambda>k a. Some (map (Item kd) (snd a))) (en_Next e) 0 = Some evs"
  shows "ReadTable e (sink_of env J kd) r = run_fold (deliver env J) evs r"
proof -
  from assms obtain n where n: "stops (en_Next e n)" "\<forall>i. 0 \<le> i \<and> i < n \<longrightarrow> \<not> stops (en_Next e i)"
    and evs: "evs = concat (map (\<lambda>i. the (Some (map (Item kd) (snd (en_Next e i))))) [0..<n])"
    by (elim collect_ends)
  then have "ends_at (en_Next e) n" by (simp add: ends_at_def)
  moreover have "evs = map (Item kd) (items (en_Next e) n)"
    by (simp add: evs items_def map_concat comp_def)
  moreover have "sink_init (sink_of env J kd) m r = r" for m by (cases kd) simp_all
  ultimately show ?thesis by (simp add: ReadTable_returns run_fold_map deliver_item)
qed

lemma table_events_deliver:
  assumes "table_events nm t = Some evs"
  shows "ReadOneTable (select_sink nm (ReadSectionContrib env J) (ReadInjectedSource env J) (ReadSourceHelper env J)
      (ReadSymbolHelper env J) (ReadSegment env J) (ReadInputAssembly env J) (ReadFrame env J) (ReadLineHelper env J)) t r
    = run_fold (deliver env J) evs r"
  using assms
  by (auto simp: table_events_def ReadOneTable_def select_sink_kind ReadInterface_def collect_items
      split: option.splits prod.splits if_split_asm)

lemma stream_events_deliver:
  assumes "stream_events d = Some evs"
  shows "ReadOneStream d r = run_fold (deliver env J) evs r"
proof (cases "\<exists>w. ds_name d = Some w \<and> wcscmp_eq w SECTIONHEADERS")
  case True
  with assms have "collect section_stop (\<lambda>k a. Some [Section (of_nat (k + 1)) (header_of a)]) (ds_Next d) 0 = Some evs"
    by (auto simp: stream_events_def)
  then obtain n where n: "section_stop (ds_Next d n)" "\<forall>i. 0 \<le> i \<and> i < n \<longrightarrow> \<not> section_stop (ds_Next d i)"
    and evs: "evs = concat (map (\<lambda>i. the (Some [Section (of_nat (i + 1)) (header_of (ds_Next d i))])) [0..<n])"
    by (rule collect_ends)
  have fold: "run_fold (deliver env J) (map (\<lambda>i. Section (f i) (g i)) ks) s
      = returns (on_result (sd_AddrSection_update (\<lambda>xs. xs @ map (\<lambda>i. section_row (f i) (g i)) ks)) s)" for f g ks s
    by (induction ks arbitrary: s) (simp_all add: on_result_def emplace_back_def comp_def)
  have "concat (map (\<lambda>i. [h i]) ks) = map h ks" for h :: "nat \<Rightarrow> event" and ks by (induction ks) simp_all
  then have "evs = map (\<lambda>i. Section (of_nat (i + 1)) (header_of (ds_Next d i))) [0..<n]" by (simp add: evs)
  with True n show ?thesis
    using ReadSections_loop_from [of "ds_Next d" n 0 1 r]
    by (auto simp: ReadOneStream_def ReadSections_def fold header_of_def add.commute)
next
  case False
  with assms show ?thesis by (auto simp: stream_events_def ReadOneStream_def split: option.splits)
qed

lemma fetch_loop_deliver:
  assumes "collect (fetch_stop f0) (\<lambda>k a. evs_of (the (fst a))) Next 0 = Some evs"
    and "\<And>t evs s. evs_of t = Some evs \<Longrightarrow> read t s = run_fold g evs s"
  shows "fetch_loop f0 read Next 0 s = run_fold g evs s"
proof -
  from assms(1) obtain n where n: "fetch_stop f0 (Next n)" "\<forall>i. 0 \<le> i \<and> i < n \<longrightarrow> \<not> fetch_stop f0 (Next i)"
    and some: "\<forall>i. 0 \<le> i \<and> i < n \<longrightarrow> evs_of (the (fst (Next i))) \<noteq> None"
    and evs: "evs = concat (map (\<lambda>i. the (evs_of (the (fst (Next i))))) [0..<n])"
    by (elim collect_ends)
  have "read (the (fst (Next i))) s = run_fold g (the (evs_of (the (fst (Next i))))) s" if "i \<in> set [0..<n]" for i s
    using some that by (intro assms(2)) auto
  then have "run_fold (\<lambda>i. read (the (fst (Next i)))) [0..<n] s
      = run_fold (\<lambda>i. run_fold g (the (evs_of (the (fst (Next i)))))) [0..<n] s"
    by (rule run_fold_cong)
  then show ?thesis
    using fetch_loop_from [of f0 Next n 0 read s] n by (simp add: evs run_fold_concat run_fold_map)
qed

text \<open>The read of a session whose enumerators end is the fold over what they hand out.\<close>

lemma read_is_fold:
  assumes "session_events nm ses = Some evs"
  shows "provider_ReadSymbols nm env J argv ses r
    = run_fold (deliver (read_env env argv ses) J) evs (first_state r)"
proof -
  let ?env = "read_env env argv ses"
  from assms obtain xs ys where evs: "evs = xs @ ys"
    and xs: "(case ses_streams ses of None \<Rightarrow> Some []
      | Some Next \<Rightarrow> collect (fetch_stop 1) (\<lambda>k a. stream_events (the (fst a))) Next 0) = Some xs"
    and ys: "(case ses_tables ses of None \<Rightarrow> Some []
      | Some Next \<Rightarrow> collect (fetch_stop 0) (\<lambda>k a. table_events nm (the (fst a))) Next 0) = Some ys"
    by (auto simp: session_events_def split: option.splits)
  have "ReadStreams ses s = run_fold (deliver ?env J) xs s" for s
    using xs fetch_loop_deliver [of 1 stream_events _ xs ReadOneStream "deliver ?env J"] stream_events_deliver
    by (auto simp: ReadStreams_def split: option.splits)
  moreover have "ReadTables nm ses (ReadSectionContrib ?env J) (ReadInjectedSource ?env J) (ReadSourceHelper ?env J)
      (ReadSymbolHelper ?env J) (ReadSegment ?env J) (ReadInputAssembly ?env J) (ReadFrame ?env J)
      (ReadLineHelper ?env J) = run_fold (deliver ?env J) ys"
    using ys fetch_loop_deliver [of 0 "table_events nm" _ ys _ "deliver ?env J"] table_events_deliver
    by (auto simp: ReadTables_def split: option.splits)
  ultimately show ?thesis
    unfolding evs run_fold_append provider_ReadSymbols_def Let_def read_env_def [symmetric] first_state_def [symmetric]
    by (simp only:)
qed


text \<open>A session whose enumerators all end has such a list.\<close>

lemma collect_not_None:
  assumes "stop (Next n)" and "\<And>i. \<not> stop (Next i) \<Longrightarrow> yields i (Next i) \<noteq> None"
  shows "collect stop yields Next 0 \<noteq> None"
proof -
  from assms(1) obtain m where "stop (Next m)" and "\<forall>i < m. \<not> stop (Next i)"
    by (rule least_stop [where P = "\<lambda>i. stop (Next i)"])
  with assms(2) show ?thesis using collect_from [of stop Next m 0 yields] by simp
qed

lemma session_events_exist:
  assumes "session_ends ses"
  obtains evs where "session_events nm ses = Some evs"
proof -
  have streams: "(case ses_streams ses of None \<Rightarrow> Some []
      | Some Next \<Rightarrow> collect (fetch_stop 1) (\<lambda>k a. stream_events (the (fst a))) Next 0) \<noteq> None"
  proof (cases "ses_streams ses")
    case (Some Next)
    with assms obtain n where stop: "fetch_stop 1 (Next n)"
      and sections: "\<And>k d. fst (Next k) = Some d \<Longrightarrow> \<exists>n. section_stop (ds_Next d n)"
      by (auto simp: session_ends_def)
    have evs: "stream_events (the (fst (Next i))) \<noteq> None" if "\<not> fetch_stop 1 (Next i)" for i
    proof -
      from that obtain d where d: "fst (Next i) = Some d" by (auto simp: fetch_stop_def)
      with sections obtain n where "section_stop (ds_Next d n)" by blast
      then have "collect section_stop (\<lambda>k a. Some [Section (of_nat (k + 1)) (header_of a)]) (ds_Next d) 0 \<noteq> None"
        by (rule collect_not_None) simp
      with d show ?thesis by (auto simp: stream_events_def split: option.splits)
    qed
    from stop evs have "collect (fetch_stop 1) (\<lambda>k a. stream_events (the (fst a))) Next 0 \<noteq> None"
      by (rule collect_not_None)
    with Some show ?thesis by simp
  qed simp
  have tables: "(case ses_tables ses of None \<Rightarrow> Some []
      | Some Next \<Rightarrow> collect (fetch_stop 0) (\<lambda>k a. table_events nm (the (fst a))) Next 0) \<noteq> None"
  proof (cases "ses_tables ses")
    case (Some Next)
    with assms obtain n where stop: "fetch_stop 0 (Next n)" and ends: "\<And>k t. fst (Next k) = Some t \<Longrightarrow> table_ends t"
      by (auto simp: session_ends_def)
    have evs: "table_events nm (the (fst (Next i))) \<noteq> None" if "\<not> fetch_stop 0 (Next i)" for i
    proof -
      from that obtain t where t: "fst (Next i) = Some t" by (auto simp: fetch_stop_def)
      have "collect stops (\<lambda>k a. Some (map (Item kd) (snd a))) (en_Next e) 0 \<noteq> None"
        if "dt_QueryInterface t (interface_of kd) = (S_OK, Some e)" for kd e
      proof -
        from ends [OF t] that have "enum_ends e" by (auto simp: table_ends_def)
        then obtain n where "stops (en_Next e n)" by (auto simp: enum_ends_def ends_at_def)
        then show ?thesis by (rule collect_not_None) simp
      qed
      with t show ?thesis by (auto simp: table_events_def split: option.splits prod.splits)
    qed
    from stop evs have "collect (fetch_stop 0) (\<lambda>k a. table_events nm (the (fst a))) Next 0 \<noteq> None"
      by (rule collect_not_None)
    with Some show ?thesis by simp
  qed simp
  from streams tables have "session_events nm ses \<noteq> None" by (auto simp: session_events_def)
  with that show thesis by blast
qed

section \<open>What a read leaves behind\<close>

text \<open>
  The tables, as far as they are decided by what was handed out and not by the columns of the rows: the
  symbols and tags of the master table, the symbols of every table of symbols, the sections, the
  numbers of the source files, which compiland included which file, the numbers of the source
  ranges, and the sizes of the tables whose rows have no number of their own.
\<close>

record contents =
  c_master :: "(u32 \<times> u8) list"
  c_rows :: "(string \<times> u32 list) list"
  c_sections :: "Sym_AddrSection list"
  c_sources :: "u32 list"
  c_included :: "(u32 \<times> u32) list"
  c_ranges :: "u32 list"
  c_sizes :: "nat list"

definition contents_of :: "SymbolData \<Rightarrow> contents" where
  "contents_of S = \<lparr>
     c_master = map (\<lambda>s. (Symbol_symbol s, Symbol_tag s)) (sd_Symbol S),
     c_rows = map (\<lambda>(nm, ids). (nm, ids S)) symbol_tables,
     c_sections = sd_AddrSection S,
     c_sources = map SourceFile_source_id (sd_SourceFile S),
     c_included = map (\<lambda>i. (Included_compiland_symbol i, Included_source_id i)) (sd_Included S),
     c_ranges = map SrcRange_id (sd_SrcRange S),
     c_sizes = [length (sd_Exe S), length (sd_CompilandEnv S), length (sd_BaseClass S), length (sd_VTableShape S),
       length (sd_SectionContrib S), length (sd_InjectedSource S), length (sd_Segment S),
       length (sd_InputAssembly S), length (sd_Frame S)] \<rparr>"

text \<open>What one event adds.\<close>

fun items_in :: "kind \<Rightarrow> event \<Rightarrow> dia list" where
  "items_in kd (Item kd' d) = (if kd' = kd then [d] else [])"
| "items_in kd _ = []"

definition id_of :: "dia \<Rightarrow> u32" where "id_of d = get d ''get_symIndexId'' 0"
definition tag_of :: "dia \<Rightarrow> u32" where "tag_of d = get d ''get_symTag'' 0"
definition file_of :: "dia \<Rightarrow> u32" where "file_of d = get d ''get_uniqueId'' 0"

fun sections_in :: "event \<Rightarrow> Sym_AddrSection list" where
  "sections_in (Section i h) = [section_row i h]"
| "sections_in _ = []"

text \<open>The compilands of a source file, in the batches before the first that is not \<open>S_OK\<close>.\<close>

definition compilands_of :: "dia \<Rightarrow> dia list" where
  "compilands_of d =
     (case compilands d of
        (h, Some Next) \<Rightarrow>
          if h = S_OK
          then (case collect (\<lambda>a. fst a \<noteq> S_OK) (\<lambda>k a. Some (snd a)) Next 0 of None \<Rightarrow> [] | Some cs \<Rightarrow> cs)
          else []
      | (h, None) \<Rightarrow> [])"

text \<open>The line of a type's definition, if the interface has one.\<close>

definition definition_line :: "dia \<Rightarrow> dia list" where
  "definition_line d =
     (case related d ''getSrcLineOnTypeDefn'' of
        (h, Some line) \<Rightarrow> if SUCCEEDED h then [line] else []
      | (h, None) \<Rightarrow> [])"

definition ranges_in :: "event \<Rightarrow> dia list" where
  "ranges_in ev = items_in KLine ev
     @ concat (map definition_line (filter (\<lambda>d. tag_of d = SymTag ''UDT'') (items_in KSymbol ev)))"

definition handed :: "kind \<Rightarrow> event list \<Rightarrow> dia list" where
  "handed kd evs = concat (map (items_in kd) evs)"

definition with_tag :: "string \<Rightarrow> event list \<Rightarrow> dia list" where
  "with_tag nm evs = filter (\<lambda>d. tag_of d = SymTag nm) (handed KSymbol evs)"

definition contents_read :: "event list \<Rightarrow> contents" where
  "contents_read evs = \<lparr>
     c_master = (0, 0) # map (\<lambda>d. (id_of d, ucast (tag_of d))) (handed KSymbol evs),
     c_rows = map (\<lambda>(nm, _). (nm, map id_of (with_tag nm evs))) symbol_tables,
     c_sections = concat (map sections_in evs),
     c_sources = map file_of (handed KSource evs),
     c_included = concat (map (\<lambda>d. map (\<lambda>c. (id_of c, file_of d)) (compilands_of d)) (handed KSource evs)),
     c_ranges = map of_nat [0..<length (concat (map ranges_in evs))],
     c_sizes = [length (with_tag ''Exe'' evs), length (with_tag ''CompilandEnv'' evs), length (with_tag ''BaseClass'' evs),
       0, length (handed KContrib evs), length (handed KInjected evs), length (handed KSegment evs),
       length (handed KAssembly evs), length (handed KFrame evs)] \<rparr>"

text \<open>Every operation appends; a fold of appending steps appends everything.\<close>

lemma run_fold_appends:
  fixes f :: "'s \<Rightarrow> 'b list"
  assumes "\<And>x s s'. g x s = returns s' \<Longrightarrow> f s' = f s @ h x"
    and "run_fold g xs s = returns s'"
  shows "f s' = f s @ concat (map h xs)"
  using assms(2)
proof (induction xs arbitrary: s)
  case (Cons x xs)
  then obtain t where "g x s = returns t" and "run_fold g xs t = returns s'" by (auto simp: run_bind_eq_returns)
  with Cons.IH [of t] assms(1) [of x s t] show ?case by simp
qed simp

lemma ReadSymbol_switch_others:
  assumes "ReadSymbol_switch env J \<sigma> tag dia i r = returns r'"
  shows "sd_AddrSection (Result r') = sd_AddrSection (Result r)
    \<and> sd_SourceFile (Result r') = sd_SourceFile (Result r) \<and> sd_Included (Result r') = sd_Included (Result r)
    \<and> sd_SectionContrib (Result r') = sd_SectionContrib (Result r)
    \<and> sd_InjectedSource (Result r') = sd_InjectedSource (Result r)
    \<and> sd_Segment (Result r') = sd_Segment (Result r) \<and> sd_InputAssembly (Result r') = sd_InputAssembly (Result r)
    \<and> sd_Frame (Result r') = sd_Frame (Result r)
    \<and> length (sd_Exe (Result r')) = length (sd_Exe (Result r)) + of_bool (tag = SymTag ''Exe'')
    \<and> length (sd_CompilandEnv (Result r')) = length (sd_CompilandEnv (Result r)) + of_bool (tag = SymTag ''CompilandEnv'')
    \<and> length (sd_BaseClass (Result r')) = length (sd_BaseClass (Result r)) + of_bool (tag = SymTag ''BaseClass'')
    \<and> length (sd_SrcRange (Result r')) = length (sd_SrcRange (Result r))
        + (if tag = SymTag ''UDT'' then length (definition_line dia) else 0)"
proof (cases "tag \<in> SymTag ` set switch_tags")
  case True
  then show ?thesis
    using assms unfolding switch_tags_def list.set image_insert image_empty SymTag_simps insert_iff empty_iff
    by (elim disjE)
      (auto simp: ReadSymbol_switch_def SymTag_simps Let_def run_bind_eq_returns definition_line_def
        ReadCompilandSymbol_def ReadCompilandDetailsSymbol_def ReadUDTSymbol_eq Result_with_UDT
        split: if_split_asm prod.splits option.splits)
next
  case False
  with assms show ?thesis by (simp add: ReadSymbol_switch_def switch_tags_def)
qed


lemma compilands_read:
  assumes "ReadSource_loop Next f 0 xs = Some ys"
  obtains cs where "collect (\<lambda>a. fst a \<noteq> S_OK) (\<lambda>k a. Some (snd a)) Next 0 = Some cs"
    and "ys = xs @ map (\<lambda>c. Included_ctor (get c ''get_symIndexId'' 0) f) cs"
proof -
  have "\<exists>n. fst (Next n) \<noteq> S_OK"
  proof (rule ReadSource_loop.raw_induct [where P = "\<lambda>Next f k xs ys. \<exists>n. fst (Next n) \<noteq> S_OK", OF _ assms])
    fix loop and Next :: "nat \<Rightarrow> hresult \<times> dia list" and f k xs ys
    assume IH: "\<And>Next f k xs ys. loop Next f k xs = Some ys \<Longrightarrow> \<exists>n. fst (Next n) \<noteq> S_OK"
      and body: "(case Next k of (h, fetched) \<Rightarrow>
          if h = S_OK then loop Next f (k + 1)
            (foldl (\<lambda>xs c. emplace_back (Included_ctor (get c ''get_symIndexId'' 0) f) xs) xs fetched)
          else Some xs) = Some ys"
    show "\<exists>n. fst (Next n) \<noteq> S_OK"
    proof (cases "fst (Next k) = S_OK")
      case True
      with body IH show ?thesis by (auto split: prod.splits)
    qed blast
  qed
  then obtain n where n: "fst (Next n) \<noteq> S_OK" and go: "\<forall>i < n. \<not> fst (Next i) \<noteq> S_OK"
    using least_stop [where P = "\<lambda>n. fst (Next n) \<noteq> S_OK"] by metis
  then have "collect (\<lambda>a. fst a \<noteq> S_OK) (\<lambda>k a. Some (snd a)) Next 0 = Some (concat (map (\<lambda>i. snd (Next i)) [0..<n]))"
    using collect_from [of "\<lambda>a. fst a \<noteq> S_OK" Next n 0 "\<lambda>k a. Some (snd a)"] by simp
  moreover from n go ReadSource_loop_from [of Next n 0 f xs] assms
  have "ys = xs @ map (\<lambda>c. Included_ctor (get c ''get_symIndexId'' 0) f) (concat (map (\<lambda>i. snd (Next i)) [0..<n]))"
    by simp
  ultimately show thesis by (rule that)
qed

lemma ReadSource_contents:
  assumes "ReadSource env J d r = returns r'"
  shows "map SourceFile_source_id (sd_SourceFile (Result r')) = map SourceFile_source_id (sd_SourceFile (Result r)) @ [file_of d]
    \<and> sd_Included (Result r') = sd_Included (Result r) @ map (\<lambda>c. Included_ctor (id_of c) (file_of d)) (compilands_of d)
    \<and> sd_AddrSection (Result r') = sd_AddrSection (Result r) \<and> sd_Exe (Result r') = sd_Exe (Result r)
    \<and> sd_CompilandEnv (Result r') = sd_CompilandEnv (Result r) \<and> sd_BaseClass (Result r') = sd_BaseClass (Result r)
    \<and> sd_SectionContrib (Result r') = sd_SectionContrib (Result r)
    \<and> sd_InjectedSource (Result r') = sd_InjectedSource (Result r) \<and> sd_Segment (Result r') = sd_Segment (Result r)
    \<and> sd_InputAssembly (Result r') = sd_InputAssembly (Result r) \<and> sd_Frame (Result r') = sd_Frame (Result r)"
proof -
  have id: "SourceFile_source_id (SourceFile_ctor env \<sigma> d) = file_of d" for \<sigma>
    by (simp add: SourceFile_ctor_def Let_def file_of_def)
  from assms show ?thesis
    unfolding ReadSource_def Let_def compilands_of_def
    by (auto simp: id id_of_def file_of_def elim: compilands_read split: prod.splits if_split_asm option.splits)
qed

lemma emplace_sinks_others:
  assumes "kd \<in> {KContrib, KInjected, KSegment, KAssembly, KFrame}"
    and "sink_element (sink_of env J kd) d r = returns r'"
  shows "sd_AddrSection (Result r') = sd_AddrSection (Result r) \<and> sd_SourceFile (Result r') = sd_SourceFile (Result r)
    \<and> sd_Included (Result r') = sd_Included (Result r) \<and> sd_Exe (Result r') = sd_Exe (Result r)
    \<and> sd_CompilandEnv (Result r') = sd_CompilandEnv (Result r) \<and> sd_BaseClass (Result r') = sd_BaseClass (Result r)
    \<and> length (sd_SectionContrib (Result r')) = length (sd_SectionContrib (Result r)) + of_bool (kd = KContrib)
    \<and> length (sd_InjectedSource (Result r')) = length (sd_InjectedSource (Result r)) + of_bool (kd = KInjected)
    \<and> length (sd_Segment (Result r')) = length (sd_Segment (Result r)) + of_bool (kd = KSegment)
    \<and> length (sd_InputAssembly (Result r')) = length (sd_InputAssembly (Result r)) + of_bool (kd = KAssembly)
    \<and> length (sd_Frame (Result r')) = length (sd_Frame (Result r)) + of_bool (kd = KFrame)"
  using assms by (cases kd) (simp_all add: sink_defs run_bind_eq_returns, auto simp: emplace_helper_element_def)

text \<open>What one event does to the contents.\<close>

definition adds :: "event \<Rightarrow> SymbolData \<Rightarrow> SymbolData \<Rightarrow> bool" where
  "adds ev S S' = (
     map (\<lambda>s. (Symbol_symbol s, Symbol_tag s)) (sd_Symbol S') = map (\<lambda>s. (Symbol_symbol s, Symbol_tag s)) (sd_Symbol S)
       @ map (\<lambda>d. (id_of d, ucast (tag_of d))) (items_in KSymbol ev)
     \<and> (\<forall>(nm, ids) \<in> set symbol_tables. ids S' = ids S @ map id_of (filter (\<lambda>d. tag_of d = SymTag nm) (items_in KSymbol ev)))
     \<and> sd_AddrSection S' = sd_AddrSection S @ sections_in ev
     \<and> map SourceFile_source_id (sd_SourceFile S') = map SourceFile_source_id (sd_SourceFile S) @ map file_of (items_in KSource ev)
     \<and> map (\<lambda>i. (Included_compiland_symbol i, Included_source_id i)) (sd_Included S')
         = map (\<lambda>i. (Included_compiland_symbol i, Included_source_id i)) (sd_Included S)
         @ concat (map (\<lambda>d. map (\<lambda>c. (id_of c, file_of d)) (compilands_of d)) (items_in KSource ev))
     \<and> length (sd_SrcRange S') = length (sd_SrcRange S) + length (ranges_in ev)
     \<and> length (sd_Exe S') = length (sd_Exe S) + length (filter (\<lambda>d. tag_of d = SymTag ''Exe'') (items_in KSymbol ev))
     \<and> length (sd_CompilandEnv S') = length (sd_CompilandEnv S)
         + length (filter (\<lambda>d. tag_of d = SymTag ''CompilandEnv'') (items_in KSymbol ev))
     \<and> length (sd_BaseClass S') = length (sd_BaseClass S)
         + length (filter (\<lambda>d. tag_of d = SymTag ''BaseClass'') (items_in KSymbol ev))
     \<and> length (sd_SectionContrib S') = length (sd_SectionContrib S) + length (items_in KContrib ev)
     \<and> length (sd_InjectedSource S') = length (sd_InjectedSource S) + length (items_in KInjected ev)
     \<and> length (sd_Segment S') = length (sd_Segment S) + length (items_in KSegment ev)
     \<and> length (sd_InputAssembly S') = length (sd_InputAssembly S) + length (items_in KAssembly ev)
     \<and> length (sd_Frame S') = length (sd_Frame S) + length (items_in KFrame ev))"

lemma symbol_tables_frame:
  "(nm, ids) \<in> set symbol_tables \<Longrightarrow> same_core r r' \<Longrightarrow> ids (Result r') = ids (Result r)"
  by (auto simp: same_core_def list_all_iff)

lemma deliver_adds:
  assumes "deliver env J ev r = returns r'"
  shows "adds ev (Result r) (Result r')"
proof (cases ev)
  case (Section i h)
  with assms have r': "r' = on_result (sd_AddrSection_update (emplace_back (section_row i h))) r" by simp
  have "ids (Result r') = ids (Result r)" if "(nm, ids) \<in> set symbol_tables" for nm ids
    using that section_core symbol_tables_frame unfolding r' by blast
  with Section r' show ?thesis by (auto simp: adds_def ranges_in_def emplace_back_def)
next
  case (Item kd d)
  with assms have sink: "sink_element (sink_of env J kd) d r = returns r'" by simp
  consider (symbol) "kd = KSymbol" | (source) "kd = KSource" | (line) "kd = KLine"
    | (emplace) "kd \<in> {KContrib, KInjected, KSegment, KAssembly, KFrame}"
    by (cases kd) auto
  then show ?thesis
  proof cases
    case symbol
    with sink have run: "ReadSymbol env J d r = returns r'" by simp
    have frame: "sd_AddrSection (Result (with_symbol env J d r)) = sd_AddrSection (Result r)"
      "sd_SourceFile (Result (with_symbol env J d r)) = sd_SourceFile (Result r)"
      "sd_Included (Result (with_symbol env J d r)) = sd_Included (Result r)"
      "sd_SectionContrib (Result (with_symbol env J d r)) = sd_SectionContrib (Result r)"
      "sd_InjectedSource (Result (with_symbol env J d r)) = sd_InjectedSource (Result r)"
      "sd_Segment (Result (with_symbol env J d r)) = sd_Segment (Result r)"
      "sd_InputAssembly (Result (with_symbol env J d r)) = sd_InputAssembly (Result r)"
      "sd_Frame (Result (with_symbol env J d r)) = sd_Frame (Result r)"
      "sd_Exe (Result (with_symbol env J d r)) = sd_Exe (Result r)"
      "sd_CompilandEnv (Result (with_symbol env J d r)) = sd_CompilandEnv (Result r)"
      "sd_BaseClass (Result (with_symbol env J d r)) = sd_BaseClass (Result r)"
      by (simp_all add: with_symbol_def)
    have ids: "\<forall>(nm, ids) \<in> set symbol_tables. ids (Result r') = ids (Result r)
        @ map id_of (filter (\<lambda>d. tag_of d = SymTag nm) (items_in KSymbol ev))"
      by (clarsimp simp: Item symbol id_of_def tag_of_def ReadSymbol_ids [OF run])
    have master: "map (\<lambda>s. (Symbol_symbol s, Symbol_tag s)) (sd_Symbol (Result r'))
        = map (\<lambda>s. (Symbol_symbol s, Symbol_tag s)) (sd_Symbol (Result r)) @ [(id_of d, ucast (tag_of d))]"
      by (simp add: ReadSymbol_master [OF run] Symbol_ctor_simps id_of_def tag_of_def)
    show ?thesis
      using ReadSymbol_switch_others [OF run [unfolded ReadSymbol_eq]] ids master
      unfolding adds_def frame tag_of_def [symmetric] ranges_in_def by (simp add: Item symbol)
  next
    case source
    with sink have run: "ReadSource env J d r = returns r'" by (simp add: ReadSourceHelper_def helper_sink_def)
    note core = ReadSource_core [OF run] and contents = ReadSource_contents [OF run]
    have "\<forall>(nm, ids) \<in> set symbol_tables. ids (Result r') = ids (Result r)
        @ map id_of (filter (\<lambda>d. tag_of d = SymTag nm) (items_in KSymbol ev))"
      using core symbol_tables_frame by (fastforce simp: Item source)
    moreover have "sd_Symbol (Result r') = sd_Symbol (Result r)" using core by (simp add: same_core_def)
    ultimately show ?thesis
      using core contents by (simp add: adds_def Item source ranges_in_def Included_ctor_def comp_def)
  next
    case line
    with sink have run: "ReadLines env J d r = returns r'" by (simp add: ReadLineHelper_def helper_sink_def)
    note core = ReadLines_core [OF run]
    have "\<forall>(nm, ids) \<in> set symbol_tables. ids (Result r') = ids (Result r)
        @ map id_of (filter (\<lambda>d. tag_of d = SymTag nm) (items_in KSymbol ev))"
      using core symbol_tables_frame by (fastforce simp: Item line)
    moreover have "sd_Symbol (Result r') = sd_Symbol (Result r)" using core by (simp add: same_core_def)
    moreover from run have "r' = on_result (sd_SrcRange_update (emplace_back
        (SrcRange_ctor env (J (length (sd_SrcRange (Result r)))) (of_nat (length (sd_SrcRange (Result r)))) d))) r"
      by (simp add: ReadLines_def Let_def)
    ultimately show ?thesis by (simp add: adds_def Item line ranges_in_def)
  next
    case emplace
    then have "sink_of env J kd \<in> {ReadSectionContrib env J, ReadInjectedSource env J, ReadSegment env J,
      ReadInputAssembly env J, ReadFrame env J}" by auto
    note core = emplace_sinks_core [OF this sink]
    have items: "items_in kd' ev = (if kd = kd' then [d] else [])" for kd' by (simp add: Item)
    moreover have "\<forall>(nm, ids) \<in> set symbol_tables. ids (Result r') = ids (Result r)
        @ map id_of (filter (\<lambda>d. tag_of d = SymTag nm) (items_in KSymbol ev))"
    proof -
      have "kd \<noteq> KSymbol" using emplace by auto
      then show ?thesis using core symbol_tables_frame by (fastforce simp: items)
    qed
    moreover have "sections_in ev = []" "ranges_in ev = []"
      using emplace by (auto simp: Item ranges_in_def)
    moreover have "sd_Symbol (Result r') = sd_Symbol (Result r)" "sd_SrcRange (Result r') = sd_SrcRange (Result r)"
      "kd \<noteq> KSymbol" "kd \<noteq> KSource"
      using core emplace by (auto simp: same_core_def)
    ultimately show ?thesis
      using emplace_sinks_others [OF emplace sink] unfolding adds_def by simp
  qed
qed (use assms in simp)


lemma handed_simps [simp]: "handed kd [] = []" "handed kd (ev # evs) = items_in kd ev @ handed kd evs"
  "with_tag nm [] = []" "with_tag nm (ev # evs) = filter (\<lambda>d. tag_of d = SymTag nm) (items_in KSymbol ev) @ with_tag nm evs"
  by (simp_all add: handed_def with_tag_def)

lemma fold_adds:
  assumes "run_fold (deliver env J) evs r = returns r'"
  shows "map (\<lambda>s. (Symbol_symbol s, Symbol_tag s)) (sd_Symbol (Result r'))
       = map (\<lambda>s. (Symbol_symbol s, Symbol_tag s)) (sd_Symbol (Result r)) @ map (\<lambda>d. (id_of d, ucast (tag_of d))) (handed KSymbol evs)
     \<and> (\<forall>(nm, ids) \<in> set symbol_tables. ids (Result r') = ids (Result r) @ map id_of (with_tag nm evs))
     \<and> sd_AddrSection (Result r') = sd_AddrSection (Result r) @ concat (map sections_in evs)
     \<and> map SourceFile_source_id (sd_SourceFile (Result r')) = map SourceFile_source_id (sd_SourceFile (Result r))
         @ map file_of (handed KSource evs)
     \<and> map (\<lambda>i. (Included_compiland_symbol i, Included_source_id i)) (sd_Included (Result r'))
         = map (\<lambda>i. (Included_compiland_symbol i, Included_source_id i)) (sd_Included (Result r))
         @ concat (map (\<lambda>d. map (\<lambda>c. (id_of c, file_of d)) (compilands_of d)) (handed KSource evs))
     \<and> length (sd_SrcRange (Result r')) = length (sd_SrcRange (Result r)) + length (concat (map ranges_in evs))
     \<and> length (sd_Exe (Result r')) = length (sd_Exe (Result r)) + length (with_tag ''Exe'' evs)
     \<and> length (sd_CompilandEnv (Result r')) = length (sd_CompilandEnv (Result r)) + length (with_tag ''CompilandEnv'' evs)
     \<and> length (sd_BaseClass (Result r')) = length (sd_BaseClass (Result r)) + length (with_tag ''BaseClass'' evs)
     \<and> length (sd_SectionContrib (Result r')) = length (sd_SectionContrib (Result r)) + length (handed KContrib evs)
     \<and> length (sd_InjectedSource (Result r')) = length (sd_InjectedSource (Result r)) + length (handed KInjected evs)
     \<and> length (sd_Segment (Result r')) = length (sd_Segment (Result r)) + length (handed KSegment evs)
     \<and> length (sd_InputAssembly (Result r')) = length (sd_InputAssembly (Result r)) + length (handed KAssembly evs)
     \<and> length (sd_Frame (Result r')) = length (sd_Frame (Result r)) + length (handed KFrame evs)"
  using assms
proof (induction evs arbitrary: r)
  case Nil
  then show ?case by simp
next
  case (Cons ev evs)
  then obtain s where s: "deliver env J ev r = returns s" and rest: "run_fold (deliver env J) evs s = returns r'"
    by (auto simp: run_bind_eq_returns)
  note first = deliver_adds [OF s, unfolded adds_def] and IH = Cons.IH [OF rest]
  have "ids (Result r') = ids (Result r) @ map id_of (with_tag nm (ev # evs))" if "(nm, ids) \<in> set symbol_tables" for nm ids
  proof -
    from IH that have "ids (Result r') = ids (Result s) @ map id_of (with_tag nm evs)" by blast
    moreover from first that have "ids (Result s) = ids (Result r)
        @ map id_of (filter (\<lambda>d. tag_of d = SymTag nm) (items_in KSymbol ev))" by blast
    ultimately show ?thesis by simp
  qed
  then have "\<forall>(nm, ids) \<in> set symbol_tables. ids (Result r') = ids (Result r) @ map id_of (with_tag nm (ev # evs))"
    by blast
  with first IH show ?case by simp
qed

lemma read_is_contents:
  assumes "session_events nm ses = Some evs"
    and "provider_ReadSymbols nm env J argv ses (reader_init SymbolData_init) = returns r"
  shows "contents_of (Result r) = contents_read evs"
proof -
  let ?r = "first_state (reader_init SymbolData_init)"
  from assms(2) have run: "run_fold (deliver (read_env env argv ses) J) evs ?r = returns r"
    unfolding read_is_fold [OF assms(1)] .
  have first: "sd_Symbol (Result ?r) = [Symbol_default]" "sd_AddrSection (Result ?r) = []" "sd_SourceFile (Result ?r) = []"
    "sd_Included (Result ?r) = []" "sd_SrcRange (Result ?r) = []" "sd_Exe (Result ?r) = []"
    "sd_CompilandEnv (Result ?r) = []" "sd_BaseClass (Result ?r) = []" "sd_SectionContrib (Result ?r) = []"
    "sd_InjectedSource (Result ?r) = []" "sd_Segment (Result ?r) = []" "sd_InputAssembly (Result ?r) = []"
    "sd_Frame (Result ?r) = []" "sd_VTableShape (Result ?r) = []"
    by (simp_all add: first_state_def reader_init_def SymbolData_init_def emplace_back_def)
  have "\<forall>(nm, ids) \<in> set symbol_tables. ids (Result ?r) = []"
    by (simp add: symbol_tables_def first_state_def reader_init_def SymbolData_init_def)
  with fold_adds [OF run] have "map (\<lambda>(nm, ids). (nm, ids (Result r))) symbol_tables
      = map (\<lambda>(nm, _). (nm, map id_of (with_tag nm evs))) symbol_tables"
    by (intro map_cong refl) fastforce
  moreover note reads = provider_ReadSymbols_reads [OF assms(2)]
  moreover from reads_inv [OF reads first_state_inv]
  have "map SrcRange_id (sd_SrcRange (Result r)) = map of_nat [0..<length (sd_SrcRange (Result r))]"
    by (simp add: reader_inv_def ranges_numbered_def)
  ultimately show ?thesis
    using fold_adds [OF run] reads_prefix [OF reads] first
    by (simp add: contents_of_def contents_read_def Symbol_default_def)
qed

section \<open>Properties\<close>

text \<open>C2. The read of a session whose enumerators end leaves exactly what its list of events says:
  whatever the order, the batches and the nesting in which the interface hands things out, the
  master table lists the empty symbol and then every symbol with its tag, every table of symbols
  has the symbols with its tag, in order; the sections, the source files and what includes them
  are listed in order, the source ranges are numbered through, and the other tables have one row
  per item.\<close>

theorem read_refines_contents:
  assumes "session_events nm ses = Some evs"
    and "provider_ReadSymbols nm env J argv ses (reader_init SymbolData_init) = returns r"
  shows "contents_of (Result r) = contents_read evs"
  by (rule read_is_contents [OF assms])

text \<open>Two symbols and the definition line of one of them.\<close>

lemma sample_events: "session_events sample_names (sample_session ds) = Some (map (Item KSymbol) ds)"
proof -
  have kind: "table_kind sample_names (widen ''Symbols'') = Some KSymbol"
    by (simp add: table_kind_def kind_names_def sample_names_def wcscmp_eq_def widen_def)
  have "collect stops (\<lambda>k a. Some (map (Item KSymbol) (snd a))) (en_Next (sample_enum ds)) 0
      = Some (map (Item KSymbol) ds)"
    using collect_from [of stops "en_Next (sample_enum ds)" "if ds = [] then 0 else 1" 0
        "\<lambda>k a. Some (map (Item KSymbol) (snd a))"]
    by (cases ds) (simp_all add: sample_enum_def stops_def SUCCEEDED_def)
  then have table: "table_events sample_names \<lparr> dt_name = Some (widen ''Symbols''),
      dt_QueryInterface = (\<lambda>_. (S_OK, Some (sample_enum ds))) \<rparr> = Some (map (Item KSymbol) ds)"
    by (simp add: table_events_def kind)
  let ?Next = "the (ses_tables (sample_session ds))"
  have "collect (fetch_stop 0) (\<lambda>k a. table_events sample_names (the (fst a))) ?Next 0 = Some (map (Item KSymbol) ds)"
    using collect_from [of "fetch_stop 0" ?Next 1 0 "\<lambda>k a. table_events sample_names (the (fst a))"] table
    by (simp add: sample_session_def fetch_stop_def)
  moreover have "collect (fetch_stop 1) (\<lambda>k a. stream_events (the (fst a))) (\<lambda>_. (None, None)) 0 = Some []"
    using collect_from [of "fetch_stop 1" "\<lambda>_. (None, None)" 0 0 "\<lambda>k a. stream_events (the (fst a))"]
    by (simp add: fetch_stop_def)
  ultimately show ?thesis by (simp add: session_events_def sample_session_def)
qed

lemma sample_returns:
  "\<exists>r. provider_ReadSymbols sample_names env J argv (sample_session [sample_dia 5 7, sample_dia 11 8]) s = returns r"
proof -
  let ?env = "read_env env argv (sample_session [sample_dia 5 7, sample_dia 11 8])"
  obtain r1 where r1: "ReadSymbol ?env J (sample_dia 5 7) (first_state s) = returns r1" using sample_run by force
  obtain r2 where "ReadSymbol ?env J (sample_dia 11 8) r1 = returns r2" using sample_run by force
  with r1 show ?thesis by (simp add: sample_provider)
qed

theorem read_refines_contents_witness:
  "\<forall>env J argv. \<exists>r. provider_ReadSymbols sample_names env J argv (sample_session [sample_dia 5 7, sample_dia 11 8])
       (reader_init SymbolData_init) = returns r
     \<and> c_master (contents_of (Result r)) = [(0, 0), (7, 5), (8, 11)]"
proof (intro allI)
  fix env J argv
  let ?ds = "[sample_dia 5 7, sample_dia 11 8]"
  obtain r where run: "provider_ReadSymbols sample_names env J argv (sample_session ?ds) (reader_init SymbolData_init) = returns r"
    using sample_returns by blast
  have "contents_of (Result r) = contents_read (map (Item KSymbol) ?ds)"
    by (rule read_refines_contents [OF sample_events run])
  with run show "\<exists>r. provider_ReadSymbols sample_names env J argv (sample_session ?ds) (reader_init SymbolData_init) = returns r
     \<and> c_master (contents_of (Result r)) = [(0, 0), (7, 5), (8, 11)]"
    by (intro exI [of _ r]) (simp add: contents_read_def id_of_def tag_of_def)
qed

end
