(* ===== verification/DIA_Progress.thy ===== *)
theory DIA_Progress
  imports DIA_Session
begin

text \<open>
  The lines that a read shows on the console. \<open>ReadTable\<close> of \<^verbatim>\<open>drpdb/src/DIACommon.h\<close> prints the number
  that the enumerator reports and the name it was given; the sinks never print. Here a sink is
  extended by the console (\<open>shown\<close>), the tables are read into the extended sinks by the same
  \<open>ReadTables\<close>, and the result is the read without the console next to the text shown: the reader's
  model may leave the console out.
\<close>

section \<open>The lines\<close>

text \<open>\<open>std::cout << "Reading " << num << " " << name << std::endl\<close>, with \<open>num\<close> a \<open>LONG\<close>.\<close>

definition progress_line :: "u32 \<Rightarrow> string \<Rightarrow> string" where
  "progress_line num name = ''Reading '' @ dec_int (sint num) @ '' '' @ name @ [newline]"

definition shown :: "string \<Rightarrow> 's sink \<Rightarrow> ('s \<times> world) sink" where
  "shown name p = \<lparr>
     sink_init = (\<lambda>num (s, w). (sink_init p num s, print_text (progress_line num name) w)),
     sink_element = (\<lambda>d (s, w). run_bind (sink_element p d s) (\<lambda>s. returns (s, w))) \<rparr>"

text \<open>The name that \<open>ReadTables\<close> passes for each kind of table.\<close>

fun label :: "kind \<Rightarrow> string" where
  "label KContrib = ''sections''"
| "label KInjected = ''injected sources''"
| "label KSource = ''source files''"
| "label KSymbol = ''symbols''"
| "label KSegment = ''segment map''"
| "label KAssembly = ''input assemblies''"
| "label KFrame = ''frame data''"
| "label KLine = ''line numbers''"

definition ReadTables_of :: "table_names \<Rightarrow> session \<Rightarrow> (kind \<Rightarrow> 's sink) \<Rightarrow> 's \<Rightarrow> 's run" where
  "ReadTables_of nm ses p = ReadTables nm ses (p KContrib) (p KInjected) (p KSource) (p KSymbol)
     (p KSegment) (p KAssembly) (p KFrame) (p KLine)"

definition ReadTables_shown ::
    "table_names \<Rightarrow> session \<Rightarrow> (kind \<Rightarrow> 's sink) \<Rightarrow> 's \<times> world \<Rightarrow> ('s \<times> world) run" where
  "ReadTables_shown nm ses p = ReadTables_of nm ses (\<lambda>kd. shown (label kd) (p kd))"

text \<open>What one table shows, and a whole session.\<close>

definition table_progress :: "table_names \<Rightarrow> dia_table \<Rightarrow> string" where
  "table_progress nm t =
     (case dt_name t of
        None \<Rightarrow> []
      | Some n \<Rightarrow>
          (case table_kind nm n of
             None \<Rightarrow> []
           | Some kd \<Rightarrow>
               (case dt_QueryInterface t (interface_of kd) of
                  (h, e) \<Rightarrow>
                    if h = S_OK
                    then (case e of None \<Rightarrow> []
                          | Some e \<Rightarrow> progress_line (case en_Count e of None \<Rightarrow> 0 | Some n \<Rightarrow> n) (label kd))
                    else [])))"

definition session_progress :: "table_names \<Rightarrow> session \<Rightarrow> string" where
  "session_progress nm ses =
     (case ses_tables ses of
        None \<Rightarrow> []
      | Some Next \<Rightarrow>
          (case collect (fetch_stop 0) (\<lambda>k a. Some [table_progress nm (the (fst a))]) Next 0 of
             None \<Rightarrow> [] | Some ls \<Rightarrow> concat ls))"

section \<open>A read and its lines\<close>

lemma print_text_append: "print_text b (print_text a w) = print_text (a @ b) w"
  by (simp add: print_text_def)

lemma print_text_none: "print_text [] w = w"
  by (simp add: print_text_def)

lemma run_fold_shown:
  assumes "\<And>t s w. t \<in> set ts \<Longrightarrow> g' t (s, w) = run_bind (g t s) (\<lambda>s. returns (s, print_text (h t) w))"
  shows "run_fold g' ts (s, w) = run_bind (run_fold g ts s) (\<lambda>s. returns (s, print_text (concat (map h ts)) w))"
  using assms
proof (induction ts arbitrary: s w)
  case Nil
  then show ?case by (simp add: print_text_none)
next
  case (Cons t ts)
  then have IH: "run_fold g' ts (s, w) = run_bind (run_fold g ts s) (\<lambda>s. returns (s, print_text (concat (map h ts)) w))"
    for s w by simp
  show ?case
    by (auto simp: Cons.prems IH print_text_append run_bind_def returns_def split: option.split sum.split)
qed

lemma ReadTable_shown:
  assumes "enum_ends e"
  shows "ReadTable e (shown name p) (s, w) = run_bind (ReadTable e p s)
    (\<lambda>s. returns (s, print_text (progress_line (case en_Count e of None \<Rightarrow> 0 | Some n \<Rightarrow> n) name) w))"
proof -
  from assms obtain n where n: "ends_at (en_Next e) n" by (auto simp: enum_ends_def)
  have "run_fold (sink_element (shown name p)) ds (s, w) = run_bind (run_fold (sink_element p) ds s) (\<lambda>s. returns (s, w))"
    for ds s w
  proof -
    have step: "sink_element (shown name p) d (s, w) = run_bind (sink_element p d s) (\<lambda>s. returns (s, print_text [] w))"
      for d s w by (simp add: shown_def print_text_none)
    have none: "concat (map (\<lambda>d. [] :: string) ds) = []" by simp
    from run_fold_shown [of ds "sink_element (shown name p)" "sink_element p" "\<lambda>d. []", OF step]
    show ?thesis unfolding none print_text_none .
  qed
  then show ?thesis by (simp add: ReadTable_returns [OF n]) (simp add: shown_def)
qed

lemma select_sink_of:
  "select_sink nm (p KContrib) (p KInjected) (p KSource) (p KSymbol) (p KSegment) (p KAssembly) (p KFrame) (p KLine)
   = (\<lambda>w. map_option (\<lambda>kd. (interface_of kd, p kd)) (table_kind nm w))"
  by (intro ext) (simp add: select_sink_def table_kind_def kind_names_def)

lemma ReadOneTable_shown:
  assumes "table_ends t"
  shows "ReadOneTable (\<lambda>w. map_option (\<lambda>kd. (interface_of kd, shown (label kd) (p kd))) (table_kind nm w)) t (s, w)
    = run_bind (ReadOneTable (\<lambda>w. map_option (\<lambda>kd. (interface_of kd, p kd)) (table_kind nm w)) t s)
        (\<lambda>s. returns (s, print_text (table_progress nm t) w))"
proof -
  have "enum_ends e" if "dt_QueryInterface t i = (h, Some e)" for i h e
    using assms that by (auto simp: table_ends_def)
  then show ?thesis
    by (auto simp: ReadOneTable_def ReadInterface_def table_progress_def print_text_none ReadTable_shown run_bind_def returns_def
        split: option.split prod.split)
qed

section \<open>Properties\<close>

text \<open>C40. The progress lines: reading the tables of a session whose enumerators end, with the console, is
  reading them without it and showing one line per table that is read, in order, with the
  number its enumerator reports; also when the read faults, nothing else depends on the console.\<close>

theorem reading_shows_progress:
  assumes "session_ends ses"
  shows "ReadTables_shown nm ses p (s, w)
    = run_bind (ReadTables_of nm ses p s) (\<lambda>s. returns (s, print_text (session_progress nm ses) w))"
proof (cases "ses_tables ses")
  case None
  then show ?thesis
    by (simp add: ReadTables_shown_def ReadTables_of_def ReadTables_def session_progress_def print_text_none)
next
  case (Some Next)
  with assms obtain m where "fetch_stop 0 (Next m)" by (auto simp: session_ends_def)
  then obtain n where n: "fetch_stop 0 (Next n)" "\<forall>i < n. \<not> fetch_stop 0 (Next i)"
    by (rule least_stop [where P = "\<lambda>i. fetch_stop 0 (Next i)"])
  let ?ts = "map (\<lambda>k. the (fst (Next k))) [0..<n]"
  have ends: "table_ends t" if "t \<in> set ?ts" for t
  proof -
    from that obtain k where "k < n" and t: "t = the (fst (Next k))" by auto
    with n(2) have "fst (Next k) = Some t" by (auto simp: fetch_stop_def)
    with assms Some show ?thesis by (auto simp: session_ends_def)
  qed
  have loop: "fetch_loop 0 read Next 0 x = run_fold read ?ts x" for read :: "dia_table \<Rightarrow> 'x \<Rightarrow> 'x run" and x
    using fetch_loop_from [of 0 Next n 0 read x] n by simp
  have "concat (map (\<lambda>i. [f i]) ks) = map f ks" for f :: "nat \<Rightarrow> string" and ks by (induction ks) simp_all
  then have "session_progress nm ses = concat (map (table_progress nm) ?ts)"
    using collect_from [of "fetch_stop 0" Next n 0 "\<lambda>k a. Some [table_progress nm (the (fst a))]"] n Some
    by (simp add: session_progress_def comp_def)
  moreover have "run_fold (ReadOneTable (\<lambda>w. map_option (\<lambda>kd. (interface_of kd, shown (label kd) (p kd))) (table_kind nm w))) ?ts (s, w)
    = run_bind (run_fold (ReadOneTable (\<lambda>w. map_option (\<lambda>kd. (interface_of kd, p kd)) (table_kind nm w))) ?ts s)
        (\<lambda>s. returns (s, print_text (concat (map (table_progress nm) ?ts)) w))"
    by (rule run_fold_shown) (rule ReadOneTable_shown, rule ends)
  ultimately show ?thesis
    using Some
    by (simp only: ReadTables_shown_def ReadTables_of_def ReadTables_def loop option.case
        select_sink_of [of nm "\<lambda>kd. shown (label kd) (p kd)"] select_sink_of [of nm p])
qed

theorem reading_shows_progress_witness:
  "\<forall>p w. ReadTables_shown sample_names (sample_session [sample_dia 5 7, sample_dia 11 8]) p ((), w)
     = run_bind (ReadTables_of sample_names (sample_session [sample_dia 5 7, sample_dia 11 8]) p ())
         (\<lambda>s. returns (s, print_text (''Reading 2 symbols'' @ [newline]) w))"
proof (intro allI)
  fix p :: "kind \<Rightarrow> unit sink" and w
  let ?ses = "sample_session [sample_dia 5 7, sample_dia 11 8]"
  have Next: "fst (the (ses_tables ?ses) k) = Some t \<longleftrightarrow> k = 0 \<and> t = \<lparr> dt_name = Some (widen ''Symbols''),
      dt_QueryInterface = (\<lambda>_. (S_OK, Some (sample_enum [sample_dia 5 7, sample_dia 11 8]))) \<rparr>" for k t
    by (auto simp: sample_session_def)
  have "enum_ends (sample_enum [sample_dia 5 7, sample_dia 11 8])"
    unfolding enum_ends_def using sample_enum_ends [of "[sample_dia 5 7, sample_dia 11 8]"] by blast
  moreover have "compilands_end d" if "d \<in> set (snd (en_Next (sample_enum [sample_dia 5 7, sample_dia 11 8]) k))" for d k
    using that by (auto simp: sample_enum_def sample_dia_def compilands_end_def split: if_splits)
  ultimately have "table_ends t" if "fst (the (ses_tables ?ses) k) = Some t" for t k
    using that unfolding Next by (auto simp: table_ends_def)
  moreover have "fst (the (ses_streams ?ses) k) \<noteq> Some d" for k d by (simp add: sample_session_def)
  moreover have "\<exists>n. fetch_stop 0 (the (ses_tables ?ses) n)" "\<exists>n. fetch_stop 1 (the (ses_streams ?ses) n)"
    by (intro exI [of _ 1]; simp add: sample_session_def fetch_stop_def)+
  ultimately have "session_ends ?ses"
    by (auto simp: session_ends_def sample_session_def)
  moreover have "session_progress sample_names ?ses = ''Reading 2 symbols'' @ [newline]"
  proof -
    let ?t = "\<lparr> dt_name = Some (widen ''Symbols''),
        dt_QueryInterface = (\<lambda>_. (S_OK, Some (sample_enum [sample_dia 5 7, sample_dia 11 8]))) \<rparr>"
    have two: "dec 2 = ''2''" by code_simp
    have "table_kind sample_names (widen ''Symbols'') = Some KSymbol"
      by (simp add: table_kind_def kind_names_def sample_names_def wcscmp_eq_def widen_def)
    then have "table_progress sample_names ?t = ''Reading 2 symbols'' @ [newline]"
      by (simp add: table_progress_def sample_enum_def progress_line_def dec_int_def two)
    then show ?thesis
      using collect_from [of "fetch_stop 0" "the (ses_tables ?ses)" 1 0 "\<lambda>k a. Some [table_progress sample_names (the (fst a))]"]
      by (simp add: session_progress_def sample_session_def fetch_stop_def)
  qed
  ultimately show "ReadTables_shown sample_names ?ses p ((), w)
     = run_bind (ReadTables_of sample_names ?ses p ()) (\<lambda>s. returns (s, print_text (''Reading 2 symbols'' @ [newline]) w))"
    using reading_shows_progress [of ?ses sample_names p "()" w] by simp
qed

end
