(* ===== verification/Wiki_Doc.thy ===== *)
theory Wiki_Doc
  imports Reflection_Rows Options
begin

text \<open>
  \<^verbatim>\<open>drpdb/src/WikiDoc.cpp\<close>: the table list as a markdown page. The macros fill four sections,
  one per category, and remember in \<open>cur_section\<close> which one the current table went to. The
  page is written through a text stream, which turns every line feed into a carriage return
  and a line feed.
\<close>

section \<open>The page\<close>

record folio =
  header :: string
  f_master_tables :: string
  f_data_types :: string
  f_functions :: string
  f_files :: string

definition folio_init :: folio where
  "folio_init = \<lparr>
     header = ''Below is a basic overview of the database schema. This information represents our understanding of the DIA API to the best of our current knowledge.'',
     f_master_tables = ''#Master tables'' @ [newline],
     f_data_types = ''#Tables representing data types'' @ [newline],
     f_functions = ''#Tables representing functions and function calls'' @ [newline],
     f_files = ''#Tables representing file structure'' @ [newline] \<rparr>"

text \<open>The section a pointer into the folio names, and appending through the pointer.\<close>

datatype section_ref = Master_Section | Data_Section | Function_Section | Files_Section

primrec append_to :: "section_ref \<Rightarrow> string \<Rightarrow> folio \<Rightarrow> folio" where
  "append_to Master_Section t f = f\<lparr> f_master_tables := f_master_tables f @ t \<rparr>"
| "append_to Data_Section t f = f\<lparr> f_data_types := f_data_types f @ t \<rparr>"
| "append_to Function_Section t f = f\<lparr> f_functions := f_functions f @ t \<rparr>"
| "append_to Files_Section t f = f\<lparr> f_files := f_files f @ t \<rparr>"

definition section_of :: "TableType \<Rightarrow> section_ref" where
  "section_of type =
     (if type = TableType_Data then Data_Section
      else if type = TableType_Function then Function_Section
      else if type = TableType_Files then Files_Section
      else Master_Section)"

definition add_table :: "TableType \<Rightarrow> string \<Rightarrow> string \<Rightarrow> folio \<Rightarrow> folio \<times> section_ref" where
  "add_table type name desc f =
     (let out = section_of type;
          f = append_to out ''##'' f;
          f = append_to out name f;
          f = append_to out [newline] f;
          f = append_to out desc f;
          f = append_to out [newline] f
      in (f, out))"

definition add_member :: "string \<Rightarrow> string \<Rightarrow> section_ref \<Rightarrow> folio \<Rightarrow> folio" where
  "add_member name desc out f =
     (let f = append_to out ''+ '' f;
          f = append_to out name f;
          f = append_to out '': '' f;
          f = append_to out desc f
      in append_to out [newline] f)"

definition add_struct :: "folio \<Rightarrow> table \<Rightarrow> folio" where
  "add_struct f t =
     (case add_table (tbl_category t) (tbl_name t) (tbl_desc t) f of
        (f, cur_section) \<Rightarrow>
          append_to cur_section crlf
            (foldl (\<lambda>f m. add_member (m_name m) (m_desc m) cur_section f) f (tbl_members t)))"

definition text_mode :: "string \<Rightarrow> string" where
  "text_mode s = concat (map (\<lambda>c. if c = newline then crlf else [c]) s)"

definition wiki_text :: string where
  "wiki_text =
     (let output = foldl add_struct folio_init tables in
      header output @ [newline] @ f_master_tables output @ [newline] @ f_data_types output @ [newline]
        @ f_functions output @ [newline] @ f_files output)"

definition wiki_Output :: "os \<Rightarrow> string \<Rightarrow> world \<Rightarrow> world" where
  "wiki_Output sys filename w = store sys filename (text_mode wiki_text) w"

section \<open>What the page holds\<close>

definition member_doc :: "member \<Rightarrow> string" where
  "member_doc m = ''+ '' @ m_name m @ '': '' @ m_desc m @ [newline]"

definition table_doc :: "table \<Rightarrow> string" where
  "table_doc t = ''##'' @ tbl_name t @ [newline] @ tbl_desc t @ [newline]
     @ concat (map member_doc (tbl_members t)) @ crlf"

definition section_docs :: "section_ref \<Rightarrow> table list \<Rightarrow> string" where
  "section_docs r ts = concat (map table_doc (filter (\<lambda>t. section_of (tbl_category t) = r) ts))"

lemma append_to_append: "append_to r t (append_to r s f) = append_to r (s @ t) f"
  by (cases r) simp_all

lemma add_members:
  "foldl (\<lambda>f m. add_member (m_name m) (m_desc m) r f) f ms = append_to r (concat (map member_doc ms)) f"
proof (induction ms arbitrary: f)
  case Nil
  show ?case by (cases r) simp_all
next
  case (Cons m ms)
  then show ?case by (simp add: add_member_def Let_def append_to_append member_doc_def)
qed

lemma add_struct_eq: "add_struct f t = append_to (section_of (tbl_category t)) (table_doc t) f"
  unfolding add_struct_def add_table_def Let_def prod.case add_members append_to_append table_doc_def
  by simp

lemma append_to_sections:
  "header (append_to r t f) = header f"
  "f_master_tables (append_to r t f) = f_master_tables f @ (if r = Master_Section then t else [])"
  "f_data_types (append_to r t f) = f_data_types f @ (if r = Data_Section then t else [])"
  "f_functions (append_to r t f) = f_functions f @ (if r = Function_Section then t else [])"
  "f_files (append_to r t f) = f_files f @ (if r = Files_Section then t else [])"
  by (cases r; simp)+

lemma folio_of_tables:
  "header (foldl add_struct f ts) = header f"
  "f_master_tables (foldl add_struct f ts) = f_master_tables f @ section_docs Master_Section ts"
  "f_data_types (foldl add_struct f ts) = f_data_types f @ section_docs Data_Section ts"
  "f_functions (foldl add_struct f ts) = f_functions f @ section_docs Function_Section ts"
  "f_files (foldl add_struct f ts) = f_files f @ section_docs Files_Section ts"
  by (induction ts arbitrary: f)
    (simp_all add: add_struct_eq append_to_sections section_docs_def)

text \<open>
  The page as its readers see it: below the heading of a category stand the entries of the tables
  of that category, in the order of the list of tables.
\<close>

definition wiki_sections :: "(string \<times> TableType) list" where
  "wiki_sections =
     [(''#Master tables'', TableType_Master), (''#Tables representing data types'', TableType_Data),
      (''#Tables representing functions and function calls'', TableType_Function),
      (''#Tables representing file structure'', TableType_Files)]"

definition wiki_spec :: "table list \<Rightarrow> string" where
  "wiki_spec ts = header folio_init
     @ concat (map (\<lambda>(title, category). [newline] @ title @ [newline]
         @ concat (map table_doc (filter (\<lambda>t. tbl_category t = category) ts))) wiki_sections)"

lemma section_docs_category:
  "section_docs Master_Section ts = concat (map table_doc (filter (\<lambda>t. tbl_category t = TableType_Master) ts))"
  "section_docs Data_Section ts = concat (map table_doc (filter (\<lambda>t. tbl_category t = TableType_Data) ts))"
  "section_docs Function_Section ts = concat (map table_doc (filter (\<lambda>t. tbl_category t = TableType_Function) ts))"
  "section_docs Files_Section ts = concat (map table_doc (filter (\<lambda>t. tbl_category t = TableType_Files) ts))"
proof -
  have cases: "(section_of c = Master_Section) = (c = TableType_Master)" "(section_of c = Data_Section) = (c = TableType_Data)"
    "(section_of c = Function_Section) = (c = TableType_Function)" "(section_of c = Files_Section) = (c = TableType_Files)" for c
    by (cases c; simp add: section_of_def)+
  show "section_docs Master_Section ts = concat (map table_doc (filter (\<lambda>t. tbl_category t = TableType_Master) ts))"
    "section_docs Data_Section ts = concat (map table_doc (filter (\<lambda>t. tbl_category t = TableType_Data) ts))"
    "section_docs Function_Section ts = concat (map table_doc (filter (\<lambda>t. tbl_category t = TableType_Function) ts))"
    "section_docs Files_Section ts = concat (map table_doc (filter (\<lambda>t. tbl_category t = TableType_Files) ts))"
    by (simp_all add: section_docs_def cases)
qed

lemma wiki_text_eq: "wiki_text = wiki_spec tables"
  unfolding wiki_text_def Let_def folio_of_tables section_docs_category wiki_spec_def wiki_sections_def
  by (simp add: folio_init_def)

end
