(* ===== verification/DIA_Doc.thy ===== *)
theory DIA_Doc
  imports DIA_Progress Wiki_Doc MySQL_Server "HOL-Library.List_Lexorder" "HOL-Library.Multiset"
begin

text \<open>
  \<^verbatim>\<open>drpdb/src/DIA2Doc.cpp\<close>, the survey that \<^verbatim>\<open>-doc\<close> runs: it opens every file named in a list and the
  program itself, calls every method of the interface on every symbol, and notes for each
  symbol tag the methods that answered \<open>S_OK\<close>; the notes go to a text file, sorted. What a
  method answers is the parameter \<open>answer\<close>: the result code of the call that the \<open>MEASURE\<close> macro
  makes, with a fresh variable or a buffer of one element as the method's type asks for.
\<close>

section \<open>Measuring a symbol\<close>

type_synonym answers = "dia \<Rightarrow> string \<Rightarrow> hresult"

definition SymTagMax :: nat where
  "SymTagMax = unat (SymTag ''Max'')"

definition add_measured :: "string \<Rightarrow> string list \<Rightarrow> string list" where
  "add_measured str found = found @ [str]"

definition default_measure :: "(string \<Rightarrow> hresult) \<Rightarrow> string \<Rightarrow> string list \<Rightarrow> string list" where
  "default_measure call str strings =
     (if str \<notin> set strings then
        (if S_OK = call str then add_measured str strings else strings)
      else strings)"

text \<open>The \<open>MEASURE\<close> lines of \<open>element\<close>, in their order.\<close>

definition MEASURES :: "string list" where
  "MEASURES = [
    ''get_symIndexId'', ''get_name'', ''get_lexicalParent'', ''get_classParent'', ''get_type'',
    ''get_dataKind'', ''get_locationType'', ''get_addressSection'', ''get_addressOffset'',
    ''get_relativeVirtualAddress'', ''get_virtualAddress'', ''get_registerId'', ''get_offset'',
    ''get_length'', ''get_slot'', ''get_volatileType'', ''get_constType'', ''get_unalignedType'',
    ''get_access'', ''get_libraryName'', ''get_platform'', ''get_language'',
    ''get_editAndContinueEnabled'', ''get_frontEndMajor'', ''get_frontEndMinor'',
    ''get_frontEndBuild'', ''get_backEndMajor'', ''get_backEndMinor'', ''get_backEndBuild'',
    ''get_sourceFileName'', ''get_unused'', ''get_thunkOrdinal'', ''get_thisAdjust'',
    ''get_virtualBaseOffset'', ''get_virtual'', ''get_intro'', ''get_pure'',
    ''get_callingConvention'', ''get_value'', ''get_baseType'', ''get_token'', ''get_timeStamp'',
    ''get_guid'', ''get_symbolsFileName'', ''get_reference'', ''get_count'', ''get_bitPosition'',
    ''get_arrayIndexType'', ''get_packed'', ''get_constructor'', ''get_overloadedOperator'',
    ''get_nested'', ''get_hasNestedTypes'', ''get_hasAssignmentOperator'', ''get_hasCastOperator'',
    ''get_scoped'', ''get_virtualBaseClass'', ''get_indirectVirtualBaseClass'',
    ''get_virtualBasePointerOffset'', ''get_virtualTableShape'', ''get_lexicalParentId'',
    ''get_classParentId'', ''get_typeId'', ''get_arrayIndexTypeId'', ''get_virtualTableShapeId'',
    ''get_code'', ''get_function'', ''get_managed'', ''get_msil'', ''get_virtualBaseDispIndex'',
    ''get_undecoratedName'', ''get_age'', ''get_signature'',
    ''get_compilerGenerated'', ''get_addressTaken'', ''get_rank'', ''get_lowerBound'',
    ''get_upperBound'', ''get_lowerBoundId'', ''get_upperBoundId'', ''get_dataBytes'',
    ''get_targetSection'', ''get_targetOffset'', ''get_targetRelativeVirtualAddress'',
    ''get_targetVirtualAddress'', ''get_machineType'', ''get_oemId'', ''get_oemSymbolId'',
    ''get_typeIds'', ''get_objectPointerType'', ''get_udtKind'', ''get_noReturn'',
    ''get_customCallingConvention'', ''get_noInline'', ''get_optimizedCodeDebugInfo'',
    ''get_notReached'', ''get_interruptReturn'', ''get_farReturn'', ''get_isStatic'',
    ''get_hasDebugInfo'', ''get_isLTCG'', ''get_isDataAligned'', ''get_hasSecurityChecks'',
    ''get_compilerName'', ''get_hasAlloca'', ''get_hasSetJump'', ''get_hasLongJump'',
    ''get_hasInlAsm'', ''get_hasEH'', ''get_hasSEH'', ''get_hasEHa'', ''get_isNaked'',
    ''get_isAggregated'', ''get_isSplitted'', ''get_container'', ''get_inlSpec'',
    ''get_noStackOrdering'', ''get_virtualBaseTableType'', ''get_hasManagedCode'',
    ''get_isHotpatchable'', ''get_isCVTCIL'', ''get_isMSILNetmodule'', ''get_isCTypes'',
    ''get_isStripped'', ''get_frontEndQFE'', ''get_backEndQFE'', ''get_wasInlined'',
    ''get_strictGSCheck'', ''get_isCxxReturnUdt'', ''get_isConstructorVirtualBase'',
    ''get_RValueReference'', ''get_unmodifiedType'', ''get_framePointerPresent'',
    ''get_isSafeBuffers'', ''get_intrinsic'', ''get_sealed'', ''get_hfaFloat'', ''get_hfaDouble'',
    ''get_liveRangeStartAddressSection'', ''get_liveRangeStartAddressOffset'',
    ''get_liveRangeStartRelativeVirtualAddress'', ''get_countLiveRanges'', ''get_liveRangeLength'',
    ''get_offsetInUdt'', ''get_paramBasePointerRegisterId'', ''get_localBasePointerRegisterId'',
    ''get_isLocationControlFlowDependent'', ''get_stride'', ''get_numberOfRows'',
    ''get_numberOfColumns'', ''get_isMatrixRowMajor'', ''get_numericProperties'',
    ''get_modifierValues'', ''get_isReturnValue'', ''get_isOptimizedAway'', ''get_builtInKind'',
    ''get_registerType'', ''get_baseDataSlot'', ''get_baseDataOffset'', ''get_textureSlot'',
    ''get_samplerSlot'', ''get_uavSlot'', ''get_sizeInUdt'', ''get_memorySpaceKind'',
    ''get_unmodifiedTypeId'', ''get_subTypeId'', ''get_subType'', ''get_numberOfModifiers'',
    ''get_numberOfRegisterIndices'', ''get_isHLSLData'', ''get_isPointerToDataMember'',
    ''get_isPointerToMemberFunction'', ''get_isSingleInheritance'', ''get_isMultipleInheritance'',
    ''get_isVirtualInheritance'', ''get_restrictedType'', ''get_isPointerBasedOnSymbolValue'',
    ''get_baseSymbol'', ''get_baseSymbolId'', ''get_objectFileName'', ''get_isSdl'',
    ''get_isWinRTPointer'', ''get_isRefUdt'', ''get_isValueUdt'', ''get_isInterfaceUdt'',
    ''findInlineeLines'', ''getSrcLineOnTypeDefn'', ''get_isPGO'', ''get_hasValidPGOCounts'',
    ''get_isOptimizedForSpeed'', ''get_PGOEntryCount'', ''get_PGOEdgeCount'',
    ''get_PGODynamicInstructionCount'', ''get_staticSize'', ''get_finalLiveStaticSize'',
    ''get_phaseName'', ''get_hasControlFlowCheck'', ''get_constantExport'', ''get_dataExport'',
    ''get_privateExport'', ''get_noNameExport'', ''get_exportHasExplicitlyAssignedOrdinal'',
    ''get_exportIsForwarder'', ''get_ordinal'', ''get_frameSize'',
    ''get_exceptionHandlerAddressSection'', ''get_exceptionHandlerAddressOffset'',
    ''get_exceptionHandlerRelativeVirtualAddress'', ''get_exceptionHandlerVirtualAddress'',
    ''findInputAssemblyFile'', ''get_characteristics'', ''get_coffGroup'']"

definition APITest_element :: "answers \<Rightarrow> dia \<Rightarrow> string list list \<Rightarrow> string list list run" where
  "APITest_element answer symbol measured =
     (let type = unat (get symbol ''get_symTag'' 0) in
      if type < length measured
      then returns (measured[type :=
             foldl (\<lambda>found func. default_measure (answer symbol) func found) (measured ! type) MEASURES])
      else Some (Inl (Undefined_Behaviour ''measured[type]'')))"

definition APITest :: "answers \<Rightarrow> string list list sink" where
  "APITest answer = \<lparr> sink_init = (\<lambda>n measured. measured), sink_element = APITest_element answer \<rparr>"

definition MeasureSymbols ::
    "table_names \<Rightarrow> session \<Rightarrow> string list list sink \<Rightarrow> string list list \<Rightarrow> string list list run" where
  "MeasureSymbols nm session f_syms measured =
     (case ses_tables session of
        None \<Rightarrow> returns measured
      | Some Next \<Rightarrow>
          fetch_loop 1
            (ReadOneTable (\<lambda>enumDataName.
               if wcscmp_eq enumDataName (DiaTable_Symbols nm) then Some (''IDiaEnumSymbols'', f_syms)
               else None))
            Next 0 measured)"

section \<open>The files\<close>

text \<open>The loop that cuts the list into lines.\<close>

function lines_from :: "string \<Rightarrow> string list" where
  "lines_from intext =
     (if intext = [] then []
      else takeWhile (\<lambda>c. c \<noteq> newline) intext
        # lines_from (drop 1 (dropWhile (\<lambda>c. c \<noteq> newline) intext)))"
  by pat_completeness auto
termination
proof (relation "measure length")
  fix intext :: string
  assume "intext \<noteq> []"
  then have "0 < length intext" by simp
  with length_dropWhile_le [of "\<lambda>c. c \<noteq> newline" intext]
  have "length (drop 1 (dropWhile (\<lambda>c. c \<noteq> newline) intext)) < length intext"
    unfolding length_drop by linarith
  then show "(drop 1 (dropWhile (\<lambda>c. c \<noteq> newline) intext), intext) \<in> measure length" by simp
qed simp

declare lines_from.simps [simp del]

definition doc_files :: "os \<Rightarrow> string \<Rightarrow> string list" where
  "doc_files sys path =
     lines_from (case read_text sys ''../config/doc/in.txt'' of None \<Rightarrow> [] | Some t \<Rightarrow> t) @ [path]"

text \<open>The body of the loop over the files: the answer of \<open>load\<close> is not looked at.\<close>

definition measure_file ::
    "table_names \<Rightarrow> answers \<Rightarrow> com_runtime \<Rightarrow> string \<Rightarrow> string list list \<Rightarrow> string list list run" where
  "measure_file nm answer com file measured =
     run_bind (Some (Provider_load (Provider_source com) file)) (\<lambda>(ok, session).
       case session of
         None \<Rightarrow> Some (Inl (Undefined_Behaviour ''session is null''))
       | Some ses \<Rightarrow> MeasureSymbols nm ses (APITest answer) measured)"

text \<open>What the console shows meanwhile: a line for every table of symbols that is read.\<close>

definition symbols_progress :: "table_names \<Rightarrow> dia_table \<Rightarrow> string" where
  "symbols_progress nm t =
     (case dt_name t of
        None \<Rightarrow> []
      | Some enumDataName \<Rightarrow>
          if wcscmp_eq enumDataName (DiaTable_Symbols nm)
          then (case dt_QueryInterface t ''IDiaEnumSymbols'' of
                  (h, Some e) \<Rightarrow>
                    if h = S_OK
                    then progress_line (case en_Count e of None \<Rightarrow> 0 | Some n \<Rightarrow> n) ''symbols''
                    else []
                | (h, None) \<Rightarrow> [])
          else [])"

definition survey_progress :: "table_names \<Rightarrow> session \<Rightarrow> string" where
  "survey_progress nm ses =
     (case ses_tables ses of
        None \<Rightarrow> []
      | Some Next \<Rightarrow>
          (case collect (fetch_stop 1) (\<lambda>k a. Some [symbols_progress nm (the (fst a))]) Next 0 of
             None \<Rightarrow> [] | Some ls \<Rightarrow> concat ls))"

definition file_progress :: "table_names \<Rightarrow> com_runtime \<Rightarrow> string \<Rightarrow> string" where
  "file_progress nm com f =
     (case Provider_load (Provider_source com) f of
        Inr (ok, Some ses) \<Rightarrow> survey_progress nm ses
      | _ \<Rightarrow> [])"

section \<open>The report\<close>

text \<open>\<open>strcmp(a, b) < 0\<close>: the first difference decides, by unsigned character codes.\<close>

fun strcmp_less :: "string \<Rightarrow> string \<Rightarrow> bool" where
  "strcmp_less a [] = False"
| "strcmp_less [] (y # ys) = True"
| "strcmp_less (x # xs) (y # ys) =
     (if x = y then strcmp_less xs ys else (of_char x :: nat) < of_char y)"

text \<open>Sorting with a comparison, as an insertion sort.\<close>

fun insert_by :: "('a \<Rightarrow> 'a \<Rightarrow> bool) \<Rightarrow> 'a \<Rightarrow> 'a list \<Rightarrow> 'a list" where
  "insert_by lt x [] = [x]"
| "insert_by lt x (y # ys) = (if lt y x then y # insert_by lt x ys else x # y # ys)"

definition sort_by :: "('a \<Rightarrow> 'a \<Rightarrow> bool) \<Rightarrow> 'a list \<Rightarrow> 'a list" where
  "sort_by lt xs = foldr (insert_by lt) xs []"

definition doc_line :: "nat \<Rightarrow> string list \<Rightarrow> string" where
  "doc_line i elem =
     dec i @ '': '' @ concat (map (\<lambda>got. got @ '' '') (sort_by strcmp_less elem)) @ [newline]"

definition doc_text :: "string list list \<Rightarrow> string" where
  "doc_text measured = concat (map (\<lambda>(i, elem). doc_line i elem) (enumerate 0 measured))"

definition Document ::
    "table_names \<Rightarrow> answers \<Rightarrow> com_runtime \<Rightarrow> os \<Rightarrow> string \<Rightarrow> world \<Rightarrow> world run" where
  "Document nm answer com sys path w =
     run_bind (run_fold (measure_file nm answer com) (doc_files sys path) (replicate SymTagMax []))
       (\<lambda>measured.
          let w = print_text (concat (map (file_progress nm com) (doc_files sys path))) w
          in returns (store sys ''../config/doc/out.txt'' (text_mode (doc_text measured)) w))"

section \<open>What is measured\<close>

lemma default_measure_eq:
  "default_measure call f found = (if call f = S_OK \<and> f \<notin> set found then found @ [f] else found)"
  by (simp add: default_measure_def add_measured_def)

lemma measure_all:
  "set (foldl (\<lambda>found f. default_measure call f found) found fs) = set found \<union> {f \<in> set fs. call f = S_OK}"
  "distinct found \<Longrightarrow> distinct (foldl (\<lambda>found f. default_measure call f found) found fs)"
  by (induction fs arbitrary: found) (auto simp: default_measure_eq)

text \<open>The notes: one list per tag, without repetitions, of names that are measured.\<close>

definition notes_ok :: "string list list \<Rightarrow> bool" where
  "notes_ok measured = (length measured = SymTagMax
     \<and> list_all (\<lambda>elem. distinct elem \<and> set elem \<subseteq> set MEASURES) measured)"

lemma notes_ok_init: "notes_ok (replicate SymTagMax [])"
  by (simp add: notes_ok_def list_all_iff)

lemma APITest_element_notes:
  assumes "notes_ok measured" and "APITest_element answer d measured = returns measured'"
  shows "notes_ok measured'"
proof -
  define t where "t = unat (get d ''get_symTag'' 0)"
  define elem where "elem = foldl (\<lambda>found f. default_measure (answer d) f found) (measured ! t) MEASURES"
  from assms(2) have "t < length measured" and eq: "measured' = measured[t := elem]"
    by (simp_all add: APITest_element_def Let_def t_def elem_def split: if_split_asm)
  with assms(1) have "distinct (measured ! t)" and "set (measured ! t) \<subseteq> set MEASURES"
    by (simp_all add: notes_ok_def list_all_iff)
  then have "distinct elem \<and> set elem \<subseteq> set MEASURES"
    by (auto simp: elem_def measure_all)
  with assms(1) eq show ?thesis
    by (simp add: notes_ok_def list_all_iff) (blast dest: set_update_subset_insert [THEN subsetD])
qed

lemma APITest_element_nth:
  assumes "APITest_element answer d measured = returns measured'"
  shows "length measured' = length measured"
    and "set (measured' ! t) = set (measured ! t)
      \<union> {f \<in> set MEASURES. unat (get d ''get_symTag'' 0) = t \<and> answer d f = S_OK}"
  using assms
  by (auto simp: APITest_element_def Let_def nth_list_update measure_all split: if_split_asm)

lemma APITest_fold:
  assumes "run_fold (APITest_element answer) ds measured = returns measured'"
  shows "length measured' = length measured
    \<and> set (measured' ! t) = set (measured ! t)
      \<union> {f \<in> set MEASURES. \<exists>d \<in> set ds. unat (get d ''get_symTag'' 0) = t \<and> answer d f = S_OK}"
  using assms
proof (induction ds arbitrary: measured)
  case Nil
  then show ?case by simp
next
  case (Cons d ds)
  then obtain m where "APITest_element answer d measured = returns m"
    and "run_fold (APITest_element answer) ds m = returns measured'"
    by (auto simp: run_bind_eq_returns)
  with Cons.IH [of m] APITest_element_nth [of answer d measured m] show ?case by auto
qed

lemma measure_file_notes:
  assumes "notes_ok measured" and "measure_file nm answer com file measured = returns measured'"
  shows "notes_ok measured'"
proof -
  from assms(2) obtain ses where run: "MeasureSymbols nm ses (APITest answer) measured = returns measured'"
    by (auto simp: measure_file_def run_bind_def split: sum.splits prod.splits option.splits)
  show ?thesis
  proof (cases "ses_tables ses")
    case None
    with run assms(1) show ?thesis by (simp add: MeasureSymbols_def)
  next
    case (Some Next)
    have elem: "notes_ok s'" if "notes_ok s" "sink_element (APITest answer) d s = returns s'" for d s s'
      using that APITest_element_notes by (simp add: APITest_def)
    have table: "notes_ok s'" if "notes_ok s" "ReadTable e (APITest answer) s = returns s'" for e s s'
      by (rule ReadTable_invariant [where P = notes_ok, OF elem _ that]) (simp_all add: APITest_def)
    let ?read = "ReadOneTable (\<lambda>name. if wcscmp_eq name (DiaTable_Symbols nm)
      then Some (''IDiaEnumSymbols'', APITest answer) else None)"
    have read: "notes_ok s'" if "notes_ok s" "?read t s = returns s'" for t s s'
      using that table
      by (auto simp: ReadOneTable_def ReadInterface_def split: option.splits prod.splits if_splits)
    from run Some have "fetch_loop 1 ?read Next 0 measured = returns measured'"
      by (simp add: MeasureSymbols_def)
    from fetch_loop_invariant [where P = notes_ok, OF read assms(1) this] show ?thesis .
  qed
qed

section \<open>The symbols of a survey\<close>

text \<open>
  What the files hand out, asked before anything is noted: the symbols of the tables of symbols
  of a session, in order, and of all files.
\<close>

definition table_symbols :: "table_names \<Rightarrow> dia_table \<Rightarrow> dia list option" where
  "table_symbols nm t =
     (case dt_name t of
        None \<Rightarrow> Some []
      | Some w \<Rightarrow>
          if wcscmp_eq w (DiaTable_Symbols nm)
          then (case dt_QueryInterface t ''IDiaEnumSymbols'' of
                  (h, Some e) \<Rightarrow> if h = S_OK then collect stops (\<lambda>k a. Some (snd a)) (en_Next e) 0 else Some []
                | (h, None) \<Rightarrow> Some [])
          else Some [])"

definition survey_symbols :: "table_names \<Rightarrow> session \<Rightarrow> dia list option" where
  "survey_symbols nm ses =
     (case ses_tables ses of
        None \<Rightarrow> Some []
      | Some Next \<Rightarrow> collect (fetch_stop 1) (\<lambda>k a. table_symbols nm (the (fst a))) Next 0)"

definition file_symbols :: "table_names \<Rightarrow> com_runtime \<Rightarrow> string \<Rightarrow> dia list" where
  "file_symbols nm com f =
     (case Provider_load (Provider_source com) f of
        Inr (ok, Some ses) \<Rightarrow> (case survey_symbols nm ses of None \<Rightarrow> [] | Some ds \<Rightarrow> ds)
      | _ \<Rightarrow> [])"

definition surveyed :: "table_names \<Rightarrow> com_runtime \<Rightarrow> string list \<Rightarrow> dia list" where
  "surveyed nm com fs = concat (map (file_symbols nm com) fs)"

text \<open>The measured methods that answered \<open>S_OK\<close> for some symbol of a tag.\<close>

definition answered :: "answers \<Rightarrow> dia list \<Rightarrow> nat \<Rightarrow> string set" where
  "answered answer ds i =
     {f \<in> set MEASURES. \<exists>d \<in> set ds. unat (get d ''get_symTag'' 0) = i \<and> answer d f = S_OK}"

lemma ReadTable_loop_stop:
  assumes "ReadTable_loop element Next k s = returns s'"
  shows "\<exists>n. stops (Next n)"
proof -
  have "\<forall>s'. y = Inr s' \<longrightarrow> (\<exists>n. stops (Next n))" if "ReadTable_loop element Next k s = Some y" for y
  proof (rule ReadTable_loop.raw_induct [where P = "\<lambda>element Next k s y. \<forall>s'. y = Inr s' \<longrightarrow> (\<exists>n. stops (Next n))", OF _ that],
      intro allI impI)
    fix loop and element :: "dia \<Rightarrow> 'a \<Rightarrow> 'a run" and Next :: "nat \<Rightarrow> hresult \<times> dia list" and k s y s'
    assume IH: "\<And>element Next k s y. loop element Next k s = Some y \<Longrightarrow> \<forall>s'. y = Inr s' \<longrightarrow> (\<exists>n. stops (Next n))"
      and body: "(case Next k of
        (HR, Fetched) \<Rightarrow>
          if \<not> SUCCEEDED HR \<or> Fetched = [] then returns s
          else (case run_fold element Fetched s of None \<Rightarrow> None
             | Some r \<Rightarrow> (case r of Inl e \<Rightarrow> Some (Inl e) | Inr s \<Rightarrow> loop element Next (k + 1) s))) = Some y"
      and y: "y = Inr s'"
    show "\<exists>n. stops (Next n)"
    proof (cases "stops (Next k)")
      case False
      with body y obtain s1 where "loop element Next (k + 1) s1 = Some (Inr s')"
        by (auto simp: stops_def split: prod.splits option.splits sum.splits)
      with IH show ?thesis by blast
    qed blast
  qed
  with assms show ?thesis by (auto simp: returns_def)
qed

lemma fetch_loop_stop:
  fixes read :: "'d \<Rightarrow> 's \<Rightarrow> 's run"
  assumes "fetch_loop f0 read Next k s = returns s'"
  shows "\<exists>n. fetch_stop f0 (Next n)"
proof -
  have "\<forall>s'. y = Inr s' \<longrightarrow> (\<exists>n. fetch_stop f0 (Next n))" if "fetch_loop f0 read Next k s = Some y" for y
  proof (rule fetch_loop.raw_induct [where P = "\<lambda>f0 read Next k s y. \<forall>s'. y = Inr s' \<longrightarrow> (\<exists>n. fetch_stop f0 (Next n))", OF _ that],
      intro allI impI)
    fix loop and f0 :: u32 and read :: "'d \<Rightarrow> 's \<Rightarrow> 's run" and Next :: "nat \<Rightarrow> 'd option \<times> u32 option" and k s y s'
    assume IH: "\<And>f0 read Next k s y. loop f0 read Next k s = Some y \<Longrightarrow> \<forall>s'. y = Inr s' \<longrightarrow> (\<exists>n. fetch_stop f0 (Next n))"
      and body: "(case Next k of
        (table, fetched) \<Rightarrow>
          (case table of None \<Rightarrow> returns s
           | Some t \<Rightarrow>
               if (case fetched of None \<Rightarrow> f0 | Some n \<Rightarrow> n) < 1 then returns s
               else (case read t s of None \<Rightarrow> None
                  | Some r \<Rightarrow> (case r of Inl e \<Rightarrow> Some (Inl e) | Inr s \<Rightarrow> loop f0 read Next (k + 1) s)))) = Some y"
      and y: "y = Inr s'"
    show "\<exists>n. fetch_stop f0 (Next n)"
    proof (cases "fetch_stop f0 (Next k)")
      case False
      then obtain t fetched where next_k: "Next k = (Some t, fetched)"
        and "\<not> (case fetched of None \<Rightarrow> f0 | Some n \<Rightarrow> n) < 1"
        by (cases "Next k") (auto simp: fetch_stop_def)
      with body y obtain s1 where "loop f0 read Next (k + 1) s1 = Some (Inr s')"
        by (auto split: option.splits sum.splits)
      with IH show ?thesis by blast
    qed blast
  qed
  with assms show ?thesis by (auto simp: returns_def)
qed

lemma first_stop:
  fixes Q :: "nat \<Rightarrow> bool"
  assumes "\<exists>n. Q n"
  obtains n where "Q n" and "\<forall>i. 0 \<le> i \<and> i < n \<longrightarrow> \<not> Q i"
proof -
  from assms obtain m where "Q m" by blast
  from least_stop [of Q, OF this] that show thesis by metis
qed

lemma table_symbols_read:
  assumes "ReadTable e (APITest answer) s = returns s'"
  shows "\<exists>ds. collect stops (\<lambda>k a. Some (snd a)) (en_Next e) 0 = Some ds \<and> run_fold (APITest_element answer) ds s = returns s'"
proof -
  from assms have "\<exists>n. stops (en_Next e n)" by (auto simp: ReadTable_def intro: ReadTable_loop_stop)
  then obtain n where n: "stops (en_Next e n)" "\<forall>i. 0 \<le> i \<and> i < n \<longrightarrow> \<not> stops (en_Next e i)"
    by (rule first_stop [where Q = "\<lambda>n. stops (en_Next e n)"])
  then have "ends_at (en_Next e) n" by (simp add: ends_at_def)
  from assms [unfolded ReadTable_returns [OF this]]
  have "run_fold (APITest_element answer) (items (en_Next e) n) s = returns s'" by (simp add: APITest_def)
  moreover have "collect stops (\<lambda>k a. Some (snd a)) (en_Next e) 0 = Some (items (en_Next e) n)"
    using collect_from [of stops "en_Next e" n 0 "\<lambda>k a. Some (snd a)"] n by (simp add: items_def)
  ultimately show ?thesis by blast
qed

lemma survey_table_read:
  assumes "ReadOneTable (\<lambda>w. if wcscmp_eq w (DiaTable_Symbols nm)
      then Some (''IDiaEnumSymbols'', APITest answer) else None) t s = returns s'"
  shows "\<exists>ds. table_symbols nm t = Some ds \<and> run_fold (APITest_element answer) ds s = returns s'"
  using assms
  by (auto simp: ReadOneTable_def ReadInterface_def table_symbols_def dest: table_symbols_read
      split: option.splits prod.splits if_splits)

lemma survey_tables_read:
  assumes "run_fold (ReadOneTable (\<lambda>w. if wcscmp_eq w (DiaTable_Symbols nm)
      then Some (''IDiaEnumSymbols'', APITest answer) else None)) ts s = returns s'"
  shows "(\<forall>t \<in> set ts. table_symbols nm t \<noteq> None)
    \<and> run_fold (APITest_element answer) (concat (map (\<lambda>t. the (table_symbols nm t)) ts)) s = returns s'"
  using assms
proof (induction ts arbitrary: s)
  case (Cons t ts)
  then obtain s1 where first: "ReadOneTable (\<lambda>w. if wcscmp_eq w (DiaTable_Symbols nm)
      then Some (''IDiaEnumSymbols'', APITest answer) else None) t s = returns s1"
    and rest: "run_fold (ReadOneTable (\<lambda>w. if wcscmp_eq w (DiaTable_Symbols nm)
      then Some (''IDiaEnumSymbols'', APITest answer) else None)) ts s1 = returns s'"
    by (auto simp: run_bind_eq_returns)
  from survey_table_read [OF first] Cons.IH [OF rest] show ?case
    by (auto simp: run_fold_append)
qed simp

lemma MeasureSymbols_read:
  assumes "MeasureSymbols nm ses (APITest answer) s = returns s'"
  shows "\<exists>ds. survey_symbols nm ses = Some ds \<and> run_fold (APITest_element answer) ds s = returns s'"
proof (cases "ses_tables ses")
  case None
  with assms show ?thesis by (simp add: MeasureSymbols_def survey_symbols_def)
next
  case (Some Next)
  let ?read = "ReadOneTable (\<lambda>w. if wcscmp_eq w (DiaTable_Symbols nm)
      then Some (''IDiaEnumSymbols'', APITest answer) else None)"
  from Some assms have run: "fetch_loop 1 ?read Next 0 s = returns s'" by (simp add: MeasureSymbols_def)
  from fetch_loop_stop [OF this] obtain n where n: "fetch_stop 1 (Next n)" "\<forall>i. 0 \<le> i \<and> i < n \<longrightarrow> \<not> fetch_stop 1 (Next i)"
    by (rule first_stop [where Q = "\<lambda>n. fetch_stop 1 (Next n)"])
  from run have "run_fold ?read (map (\<lambda>k. the (fst (Next k))) [0..<n]) s = returns s'"
    using fetch_loop_from [of 1 Next n 0 ?read s] n by simp
  note read = survey_tables_read [OF this]
  then have "collect (fetch_stop 1) (\<lambda>k a. table_symbols nm (the (fst a))) Next 0
      = Some (concat (map (\<lambda>t. the (table_symbols nm t)) (map (\<lambda>k. the (fst (Next k))) [0..<n])))"
    using collect_from [where stop = "fetch_stop 1" and Next = Next and n = n and k = 0
        and yields = "\<lambda>k a. table_symbols nm (the (fst a))", OF n] by (simp add: comp_def)
  with read Some show ?thesis by (simp add: survey_symbols_def)
qed

lemma measure_file_read:
  assumes "measure_file nm answer com f s = returns s'"
  shows "run_fold (APITest_element answer) (file_symbols nm com f) s = returns s'"
proof -
  from assms obtain ok ses where "Provider_load (Provider_source com) f = Inr (ok, Some ses)"
    and "MeasureSymbols nm ses (APITest answer) s = returns s'"
    by (auto simp: measure_file_def run_bind_def split: sum.splits prod.splits option.splits)
  with MeasureSymbols_read show ?thesis by (force simp: file_symbols_def)
qed

lemma measure_files_read:
  assumes "run_fold (measure_file nm answer com) fs s = returns s'"
  shows "run_fold (APITest_element answer) (surveyed nm com fs) s = returns s'"
  using assms
proof (induction fs arbitrary: s)
  case Nil
  then show ?case by (simp add: surveyed_def)
next
  case (Cons f fs)
  then obtain s1 where "measure_file nm answer com f s = returns s1"
    and "run_fold (measure_file nm answer com) fs s1 = returns s'"
    by (auto simp: run_bind_eq_returns)
  with measure_file_read Cons.IH show ?case by (force simp: surveyed_def run_fold_append)
qed

section \<open>The survey ends\<close>

text \<open>
  A runtime whose sessions end: the enumerators that a session hands out end, and the list of its
  tables also ends for the survey, which takes the number fetched as 1 when it is not set.
\<close>

definition com_ends :: "com_runtime \<Rightarrow> bool" where
  "com_ends com = (\<forall>src f ses. CoCreateInstance com = Some src \<and> openSession src f = Some ses \<longrightarrow>
     session_ends ses \<and> (\<forall>Next. ses_tables ses = Some Next \<longrightarrow> (\<exists>n. fetch_stop 1 (Next n))))"

lemma load_session_ends:
  assumes "com_ends com" and "Provider_load (Provider_source com) f = Inr (ok, Some ses)"
  shows "session_ends ses \<and> (\<forall>Next. ses_tables ses = Some Next \<longrightarrow> (\<exists>n. fetch_stop 1 (Next n)))"
  using assms unfolding com_ends_def Provider_load_def Provider_source_def
  by (auto split: option.splits if_split_asm)

lemma MeasureSymbols_ends:
  assumes "session_ends ses" and "\<And>Next. ses_tables ses = Some Next \<Longrightarrow> \<exists>n. fetch_stop 1 (Next n)"
  shows "MeasureSymbols nm ses (APITest answer) measured \<noteq> None"
proof (cases "ses_tables ses")
  case None
  then show ?thesis by (simp add: MeasureSymbols_def)
next
  case (Some Next)
  with assms obtain n where stop: "fetch_stop 1 (Next n)"
    and ends: "\<And>k t. fst (Next k) = Some t \<Longrightarrow> table_ends t"
    by (auto simp: session_ends_def)
  let ?read = "ReadOneTable (\<lambda>name. if wcscmp_eq name (DiaTable_Symbols nm)
      then Some (''IDiaEnumSymbols'', APITest answer) else None)"
  have element: "sink_element (APITest answer) d s \<noteq> None" for d s
    by (simp add: APITest_def APITest_element_def Let_def)
  have "?read (the (fst (Next k))) s \<noteq> None" if "\<not> fetch_stop 1 (Next k)" for k s
  proof -
    from that obtain t where t: "fst (Next k) = Some t" by (auto simp: fetch_stop_def)
    have "ReadTable e (APITest answer) s \<noteq> None" if "dt_QueryInterface t i = (h, Some e)" for i h e
      using ends [OF t] that element by (intro ReadTable_ends) (auto simp: table_ends_def)
    with t show ?thesis
      by (auto simp: ReadOneTable_def ReadInterface_def simp del: not_None_eq split: option.split prod.split)
  qed
  with Some stop show ?thesis by (simp add: MeasureSymbols_def fetch_loop_ends)
qed

lemma Document_ends:
  assumes "com_ends com"
  shows "Document nm answer com sys path w \<noteq> None"
proof -
  have "measure_file nm answer com f measured \<noteq> None" for f measured
  proof (cases "Provider_load (Provider_source com) f")
    case (Inl e)
    then show ?thesis by (simp add: measure_file_def)
  next
    case (Inr r)
    then obtain ok session where r: "Provider_load (Provider_source com) f = Inr (ok, session)" by (cases r) auto
    show ?thesis
    proof (cases session)
      case None
      with r show ?thesis by (simp add: measure_file_def Some_Inr)
    next
      case (Some ses)
      with r load_session_ends [OF assms] have "MeasureSymbols nm ses (APITest answer) measured \<noteq> None"
        by (intro MeasureSymbols_ends) auto
      with r Some show ?thesis by (simp add: measure_file_def Some_Inr)
    qed
  qed
  then show ?thesis
    unfolding Document_def Let_def by (intro ends_intros run_fold_ends)
qed

section \<open>The report is sorted\<close>

lemma of_char_less: "(of_char x :: nat) < of_char y \<longleftrightarrow> x < y"
  by (simp add: less_char_def)

lemma strcmp_less_eq: "strcmp_less a b \<longleftrightarrow> a < b"
  by (induction a b rule: strcmp_less.induct) (auto simp: of_char_less)

lemma insert_by_eq: "insert_by strcmp_less x xs = insort x xs"
  by (induction xs) (auto simp: strcmp_less_eq not_less)

lemma sort_by_eq: "sort_by strcmp_less xs = sort xs"
  by (induction xs) (simp_all add: sort_by_def insert_by_eq)

text \<open>The order of a line of the report does not depend on how the sort works: every
  rearrangement of the names in which no name stands behind a greater one is the line's.\<close>

lemma doc_line_sorted:
  assumes "mset zs = mset xs" and "sorted_wrt (\<lambda>a b. \<not> strcmp_less b a) zs"
  shows "sort_by strcmp_less xs = zs"
proof -
  from assms(2) have "sorted zs" by (simp add: strcmp_less_eq not_less)
  with assms(1) show ?thesis by (metis properties_for_sort sort_by_eq)
qed

section \<open>The list of files\<close>

lemma dropWhile_newline:
  "dropWhile (\<lambda>c. c \<noteq> newline) s = [] \<or> (\<exists>rest. dropWhile (\<lambda>c. c \<noteq> newline) s = newline # rest)"
  by (induction s) auto

lemma lines_from_cases:
  obtains "newline \<notin> set s" "lines_from s = (if s = [] then [] else [s])"
  | line rest where "s = line @ newline # rest" "newline \<notin> set line" "lines_from s = line # lines_from rest"
proof -
  let ?tw = "takeWhile (\<lambda>c. c \<noteq> newline) s"
  have tw: "newline \<notin> set ?tw" by (auto dest: set_takeWhileD)
  have s: "s = ?tw @ dropWhile (\<lambda>c. c \<noteq> newline) s" by simp
  from dropWhile_newline [of s] show thesis
  proof (elim disjE exE)
    assume none: "dropWhile (\<lambda>c. c \<noteq> newline) s = []"
    with s tw have "?tw = s" "newline \<notin> set s" by simp_all
    have "lines_from s = (if s = [] then [] else [s])"
      by (subst lines_from.simps) (simp only: none \<open>?tw = s\<close> drop_Nil simp_thms lines_from.simps [of "[]"] if_True refl)
    with \<open>newline \<notin> set s\<close> show thesis by (rule that(1))
  next
    fix rest
    assume some: "dropWhile (\<lambda>c. c \<noteq> newline) s = newline # rest"
    then have "s \<noteq> []" by auto
    with some have "lines_from s = ?tw # lines_from rest" by (simp add: lines_from.simps [of s])
    with s tw some show thesis by (intro that(2)) simp_all
  qed
qed

lemma lines_from_nonempty: "s \<noteq> [] \<Longrightarrow> lines_from s \<noteq> []"
  by (simp add: lines_from.simps [of s])

text \<open>The list of files is read line by line: no line holds a line end, and the lines, joined,
  are the text without its last line end.\<close>

lemma doc_lines:
  "list_all (\<lambda>l. newline \<notin> set l) (lines_from s)
   \<and> join_with [newline] (lines_from s) = (if s \<noteq> [] \<and> last s = newline then butlast s else s)"
proof (induction "length s" arbitrary: s rule: less_induct)
  case less
  show ?case
  proof (cases s rule: lines_from_cases)
    case 1
    then show ?thesis by (cases "s = []") (auto dest: last_in_set)
  next
    case (2 line rest)
    then have IH: "list_all (\<lambda>l. newline \<notin> set l) (lines_from rest)
      \<and> join_with [newline] (lines_from rest) = (if rest \<noteq> [] \<and> last rest = newline then butlast rest else rest)"
      by (intro less) simp
    show ?thesis
    proof (cases "rest = []")
      case True
      with 2 show ?thesis by (simp add: lines_from.simps [of "[]"] butlast_append)
    next
      case False
      then obtain l ls where "lines_from rest = l # ls"
        using lines_from_nonempty [of rest] by (cases "lines_from rest") auto
      with IH False 2 show ?thesis by (simp add: butlast_append)
    qed
  qed
qed

section \<open>Properties of the survey\<close>

text \<open>C27. After the symbols of a file the notes for a tag are what they were, and the measured
  methods that answered \<open>S_OK\<close> for some symbol of that tag; each stands there once.\<close>

theorem doc_survey:
  assumes "ReadTable e (APITest answer) measured = returns measured'" and "ends_at (en_Next e) n"
    and "notes_ok measured"
  shows "notes_ok measured' \<and> list_all (\<lambda>t. set (measured' ! t) = set (measured ! t)
      \<union> {f \<in> set MEASURES. \<exists>d \<in> set (items (en_Next e) n).
           unat (get d ''get_symTag'' 0) = t \<and> answer d f = S_OK}) [0..<SymTagMax]"
proof -
  have run: "run_fold (APITest_element answer) (items (en_Next e) n) measured = returns measured'"
    using assms(1) unfolding ReadTable_returns [OF assms(2)] by (simp add: APITest_def)
  have "notes_ok measured'"
    by (rule run_fold_invariant [where P = notes_ok, OF _ assms(3) run]) (rule APITest_element_notes)
  with APITest_fold [OF run] show ?thesis by (simp add: list_all_iff)
qed

theorem doc_survey_witness:
  "\<exists>m. ReadTable (sample_enum [sample_dia 5 7]) (APITest (\<lambda>d f. if f = ''get_name'' then S_OK else 1))
      (replicate SymTagMax []) = returns m \<and> set (m ! 5) = {''get_name''}"
proof -
  let ?answer = "\<lambda>(d :: dia) f. if f = ''get_name'' then S_OK else 1"
  have tag: "SymTagMax = 42" by (simp add: SymTagMax_def SymTag_def Tag_values_def)
  have name: "''get_name'' \<in> set MEASURES" by (simp add: MEASURES_def)
  obtain m where m: "ReadTable (sample_enum [sample_dia 5 7]) (APITest ?answer) (replicate SymTagMax []) = returns m"
    by (simp add: ReadTable_returns [OF sample_enum_ends] sample_items [unfolded One_nat_def] APITest_def
        APITest_element_def Let_def tag)
  from doc_survey [OF m sample_enum_ends notes_ok_init]
  have "set (m ! 5) = set (replicate SymTagMax [] ! 5) \<union> {f \<in> set MEASURES. \<exists>d \<in> set [sample_dia 5 7].
      unat (get d ''get_symTag'' 0) = 5 \<and> ?answer d f = S_OK}"
    by (simp add: list_all_iff tag sample_items [unfolded One_nat_def])
  with name have "set (m ! 5) = {''get_name''}" by (auto simp: tag)
  with m show ?thesis by blast
qed

text \<open>C28. A survey that comes to its end leaves one file: 42 numbered lines, one per tag, each with
  the sorted names, without repetitions, of the measured methods that answered \<open>S_OK\<close> for some
  symbol of that tag in the tables of symbols of all the listed files.\<close>

theorem doc_report:
  assumes "Document nm answer com sys path w = returns w'"
  shows "w' = store sys ''../config/doc/out.txt'' (text_mode (concat (map (\<lambda>i. dec i @ '': ''
        @ concat (map (\<lambda>got. got @ '' '') (sorted_list_of_set (answered answer (surveyed nm com (doc_files sys path)) i))) @ [newline]) [0..<42])))
          (print_text (concat (map (file_progress nm com) (doc_files sys path))) w)"
proof -
  let ?ds = "surveyed nm com (doc_files sys path)"
  from assms obtain measured
    where run: "run_fold (measure_file nm answer com) (doc_files sys path) (replicate SymTagMax []) = returns measured"
      and w': "w' = store sys ''../config/doc/out.txt'' (text_mode (doc_text measured))
          (print_text (concat (map (file_progress nm com) (doc_files sys path))) w)"
    by (auto simp: Document_def Let_def run_bind_eq_returns)
  have ok: "notes_ok measured"
    by (rule run_fold_invariant [where P = notes_ok, OF _ notes_ok_init run]) (rule measure_file_notes)
  have tags: "SymTagMax = 42" by (simp add: SymTagMax_def SymTag_def Tag_values_def)
  with ok have len: "length measured = 42" by (simp add: notes_ok_def)
  have names: "sort (measured ! i) = sorted_list_of_set (answered answer ?ds i)" if "i < 42" for i
  proof -
    from ok len that have "distinct (measured ! i)" by (simp add: notes_ok_def list_all_iff)
    moreover from APITest_fold [OF measure_files_read [OF run], of i] that tags
    have "set (measured ! i) = answered answer ?ds i" by (simp add: answered_def)
    ultimately show ?thesis by (metis distinct_remdups_id sorted_list_of_set_sort_remdups)
  qed
  have "doc_text measured = concat (map (\<lambda>i. doc_line i (measured ! i)) [0..<42])"
  proof -
    from len have "enumerate 0 measured = map (\<lambda>i. (i, measured ! i)) [0..<42]"
      by (simp add: enumerate_eq_zip list_eq_iff_nth_eq del: upt_conv_Cons)
    then show ?thesis by (simp add: doc_text_def comp_def del: upt_conv_Cons)
  qed
  moreover have "map (\<lambda>i. doc_line i (measured ! i)) [0..<42] = map (\<lambda>i. dec i @ '': ''
        @ concat (map (\<lambda>got. got @ '' '') (sorted_list_of_set (answered answer ?ds i))) @ [newline]) [0..<42]"
    by (rule map_cong) (use names in \<open>simp_all add: doc_line_def sort_by_eq\<close>)
  ultimately show ?thesis unfolding w' by (simp only:)
qed

lemma sample_file_symbols: "file_symbols sample_names (sample_com ds) f = ds"
proof -
  have items: "collect stops (\<lambda>k a. Some (snd a)) (en_Next (sample_enum ds)) 0 = Some ds"
    using collect_from [of stops "en_Next (sample_enum ds)" "if ds = [] then 0 else 1" 0 "\<lambda>k a. Some (snd a)"]
    by (auto simp: sample_enum_def stops_def SUCCEEDED_def)
  let ?Next = "the (ses_tables (sample_session ds))"
  have table: "fst (?Next 0) = Some \<lparr> dt_name = Some (widen ''Symbols''),
      dt_QueryInterface = (\<lambda>_. (S_OK, Some (sample_enum ds))) \<rparr>"
    and stop: "fetch_stop 1 (?Next 1)" "\<not> fetch_stop 1 (?Next 0)"
    by (simp_all add: sample_session_def fetch_stop_def)
  have "table_symbols sample_names (the (fst (?Next 0))) = Some ds"
    by (simp add: table table_symbols_def items sample_names_def wcscmp_eq_def)
  with stop have "collect (fetch_stop 1) (\<lambda>k a. table_symbols sample_names (the (fst a))) ?Next 0 = Some ds"
    using collect_from [of "fetch_stop 1" ?Next 1 0 "\<lambda>k a. table_symbols sample_names (the (fst a))"] by simp
  then have "survey_symbols sample_names (sample_session ds) = Some ds"
    by (simp add: survey_symbols_def) (simp add: sample_session_def)
  then show ?thesis
    by (simp add: file_symbols_def Provider_load_def Provider_source_def sample_com_def SUCCEEDED_def)
qed

text \<open>A program with a function and a type: the one method that answers is noted for both tags.\<close>

theorem doc_report_witness:
  "\<exists>w'. Document sample_names (\<lambda>d f. if f = ''get_name'' then S_OK else 1) (sample_com [sample_dia 5 7, sample_dia 11 8])
       sample_os ''c:'' world_init = returns w'
     \<and> files w' = [(''../config/doc/out.txt'', text_mode (concat (map (\<lambda>i. dec i @ '': ''
        @ (if i = 5 \<or> i = 11 then ''get_name '' else []) @ [newline]) [0..<42])))]"
proof -
  let ?answer = "\<lambda>(d :: dia) f. if f = ''get_name'' then S_OK else 1"
  let ?ds = "[sample_dia 5 7, sample_dia 11 8]"
  let ?com = "sample_com ?ds"
  have tag: "SymTagMax = 42" by (simp add: SymTagMax_def SymTag_def Tag_values_def)
  have read: "\<exists>m'. ReadTable (sample_enum ?ds) (APITest ?answer) m = returns m' \<and> length m' = 42" if "length m = 42" for m
    using that by (simp add: ReadTable_returns [OF sample_enum_ends] sample_items [unfolded One_nat_def] APITest_def
        APITest_element_def Let_def)
  have one: "\<exists>m'. measure_file sample_names ?answer ?com f m = returns m' \<and> length m' = 42" if "length m = 42" for f m
  proof -
    from read [OF that] obtain m' where m': "ReadTable (sample_enum ?ds) (APITest ?answer) m = returns m'" "length m' = 42" by blast
    have "MeasureSymbols sample_names (sample_session ?ds) (APITest ?answer) m = returns m'"
      by (simp add: MeasureSymbols_def sample_session_def fetch_loop_unfold [of _ _ _ 0]
          fetch_loop_unfold [of _ _ _ "Suc 0"] fetch_stop_def ReadOneTable_def ReadInterface_def m'
          sample_names_def wcscmp_eq_def)
    with m' show ?thesis
      by (simp add: measure_file_def Provider_load_def Provider_source_def sample_com_def SUCCEEDED_def run_bind_def)
  qed
  have "\<exists>m'. run_fold (measure_file sample_names ?answer ?com) fs m = returns m'" if "length m = 42" for fs m
    using that
  proof (induction fs arbitrary: m)
    case (Cons f fs)
    from one [OF Cons.prems] obtain m1 where "measure_file sample_names ?answer ?com f m = returns m1" "length m1 = 42" by blast
    with Cons.IH show ?case by simp
  qed simp
  from this [of "replicate SymTagMax []"] obtain m
    where "run_fold (measure_file sample_names ?answer ?com) (doc_files sample_os ''c:'') (replicate SymTagMax []) = returns m"
    unfolding tag length_replicate by blast
  then obtain w' where run: "Document sample_names ?answer ?com sample_os ''c:'' world_init = returns w'"
    unfolding Document_def Let_def by simp
  have two: "set (surveyed sample_names ?com (fs @ [f])) = set ?ds" for fs f
    by (auto simp: surveyed_def sample_file_symbols)
  have "''get_name'' \<in> set MEASURES" by (simp add: MEASURES_def)
  then have "answered ?answer (surveyed sample_names ?com (doc_files sample_os ''c:'')) i
      = (if i = 5 \<or> i = 11 then {''get_name''} else {})" for i
    unfolding answered_def doc_files_def two by auto
  then have line: "concat (map (\<lambda>got. got @ '' '') (sorted_list_of_set
      (answered ?answer (surveyed sample_names ?com (doc_files sample_os ''c:'')) i)))
      = (if i = 5 \<or> i = 11 then ''get_name '' else [])" for i
    by simp
  from doc_report [OF run] run show ?thesis
    unfolding line by (simp add: store_def sample_os_def world_init_def del: upt_conv_Cons)
qed

text \<open>C29. If one of the files cannot be opened, neither as a PDB nor as an executable, the survey
  leaves no report: \<open>Document\<close> does not look at what \<open>load\<close> answers and goes on with a session
  that is not there.\<close>

theorem doc_unreadable_file:
  assumes "f \<in> set (doc_files sys path)" and "Provider_source com = Some src"
    and "\<not> SUCCEEDED (loadDataFromPdb src f)" and "\<not> SUCCEEDED (loadDataForExe src f)"
  shows "Document nm answer com sys path w \<noteq> returns w'"
proof
  assume "Document nm answer com sys path w = returns w'"
  then obtain m where "run_fold (measure_file nm answer com) (doc_files sys path) (replicate SymTagMax []) = returns m"
    by (auto simp: Document_def Let_def run_bind_eq_returns)
  moreover from assms(1) obtain fs gs where "doc_files sys path = fs @ f # gs" by (meson split_list)
  ultimately obtain m1 m2 where "measure_file nm answer com f m1 = returns m2"
    by (auto simp: run_fold_append run_bind_eq_returns)
  with assms(2-4) show False by (simp add: measure_file_def Provider_load_def run_bind_def returns_def)
qed

definition closed_source :: data_source where
  "closed_source = \<lparr> loadDataFromPdb = (\<lambda>_. -1), loadDataForExe = (\<lambda>_. -1), openSession = (\<lambda>_. None) \<rparr>"

theorem doc_unreadable_file_witness:
  "\<forall>w'. Document sample_names (\<lambda>_ _. 1) \<lparr> CoInitialize = S_OK, CoCreateInstance = Some closed_source \<rparr>
     sample_os ''c:'' world_init \<noteq> returns w'"
  by (intro allI doc_unreadable_file [where f = "''c:''" and src = closed_source])
    (simp_all add: doc_files_def Provider_source_def SUCCEEDED_def closed_source_def)

end
