(* ===== verification/Driver.thy ===== *)
theory Driver
  imports ODBC_Output DIA_Doc
begin

text \<open>
  \<open>main\<close> of \<^verbatim>\<open>drpdb/src/drpdb.cpp\<close> and the three \<open>CreateEngine\<close>: the working directory is set
  next to the program, \<^verbatim>\<open>-doc\<close> and \<^verbatim>\<open>-wikidoc\<close> do their work and leave, otherwise an output engine
  is chosen by name, the input is read and handed to it, and the exit code says whether an
  error was noted. Everything outside the program is in the record \<open>platform\<close>.
\<close>

section \<open>The platform\<close>

text \<open>
  \<open>p_os d\<close> is the operating system once the working directory has been set to \<open>d\<close>; \<open>path_main\<close> and
  \<open>path_document\<close> are what the local buffers of \<open>main\<close> and of \<open>Document\<close> hold after their calls of
  \<open>GetModuleFileNameA\<close>, which is documented to leave the module's path and a NUL in a buffer that
  is long enough for them.
\<close>

record ('m, 'o) platform =
  p_os :: "string \<Rightarrow> os"
  path_main :: "char list"
  path_document :: "char list"
  p_names :: table_names
  p_answers :: answers
  p_env :: env
  p_junk :: "nat \<Rightarrow> junk"
  p_com :: com_runtime
  p_mysql :: "'m mysql_api"
  p_odbc :: "'o odbc_api"

definition c_text :: "char list \<Rightarrow> string" where
  "c_text buf = takeWhile (\<lambda>c. c \<noteq> nul) buf"

text \<open>
  The search for the last backslash goes over the whole buffer, from its end. The result is
  compared with the start of the reversed range, not with its end: without a backslash the
  NUL is written in front of the buffer, and a backslash in its last place stays.
\<close>

definition trim_path :: "char list \<Rightarrow> char list result" where
  "trim_path path =
     (case find (\<lambda>i. path ! i = backslash) (rev [0..<length path]) of
        None \<Rightarrow> Inl (Undefined_Behaviour ''*path_term'')
      | Some i \<Rightarrow> Inr (if i \<noteq> length path - 1 then path[i := nul] else path))"

section \<open>Engines\<close>

record OutputEngine =
  eng_name :: string
  eng_output :: "SymbolData \<Rightarrow> world \<Rightarrow> world run"
  eng_describe :: string

definition mysql_describe :: string where
  "mysql_describe = ''    req: -host=<database server>'' @ [newline] @ ''    req: -user=<username>'' @ [newline]
     @ ''    req: -db=<database>'' @ [newline] @ ''    opt: -pass=<password>'' @ [newline]
     @ ''    opt: -port=<port number> (default 3306)'' @ [newline] @ ''    opt: -temp=<custom temp directory>''"

definition csv_describe :: string where
  "csv_describe = ''    opt: -outdir=<output directory>'' @ [newline] @ ''    opt: -nocolumnheaders'' @ [newline]
     @ ''     opt: -uselocaleseparator''"

definition odbc_describe :: string where
  "odbc_describe = ''   (incomplete!)'' @ [newline] @ ''    req: -connect=<odbc connection string>'' @ [newline]
     @ ''    opt: -drivers (lists available drivers)''"

definition mysql_CreateEngine :: "('m, 'o) platform \<Rightarrow> os \<Rightarrow> string list \<Rightarrow> OutputEngine" where
  "mysql_CreateEngine P sys argv = \<lparr> eng_name = ''mysql'',
     eng_output = (\<lambda>S w. run_bind (mysql_output (p_mysql P) sys argv S w) (\<lambda>(c, w). returns w)),
     eng_describe = mysql_describe \<rparr>"

definition csv_CreateEngine :: "os \<Rightarrow> string list \<Rightarrow> OutputEngine" where
  "csv_CreateEngine sys argv = \<lparr> eng_name = ''csv'', eng_output = csv_engine_output sys argv,
     eng_describe = csv_describe \<rparr>"

definition odbc_CreateEngine :: "('m, 'o) platform \<Rightarrow> os \<Rightarrow> string list \<Rightarrow> OutputEngine" where
  "odbc_CreateEngine P sys argv = \<lparr> eng_name = ''odbc'',
     eng_output = (\<lambda>S w. run_bind (odbc_output (p_odbc P) sys argv S w) (\<lambda>(c, w). returns w)),
     eng_describe = odbc_describe \<rparr>"

definition init_engines :: "('m, 'o) platform \<Rightarrow> os \<Rightarrow> string list \<Rightarrow> OutputEngine list" where
  "init_engines P sys argv =
     [mysql_CreateEngine P sys argv, csv_CreateEngine sys argv, odbc_CreateEngine P sys argv]"

definition get_input_engine :: "('m, 'o) platform \<Rightarrow> string list \<Rightarrow> (SymbolData \<Rightarrow> SymbolData run) option" where
  "get_input_engine P argv =
     (let input = getOption argv ''-in'' in
      if 0 < length input
      then Some (DIA2_ReadSymbols (p_names P) (p_env P) (p_junk P) (p_com P) argv input) else None)"

definition get_output_engine :: "OutputEngine list \<Rightarrow> string list \<Rightarrow> OutputEngine option" where
  "get_output_engine gEngines argv =
     (let name = getOption argv ''-out'' in
      if name = [] then None else find (\<lambda>e. eng_name e = name) gEngines)"

definition PrintUsage :: "OutputEngine list \<Rightarrow> world \<Rightarrow> world" where
  "PrintUsage gEngines w =
     (let w = print_text [newline] w;
          w = print_text (''Options:'' @ crlf) w;
          w = print_text (''  -in=<filename>'' @ crlf) w;
          w = print_text (''      An absolute path pointing to an exe or pdb'' @ crlf) w;
          w = print_text (''      Writes empty schema if unspecified.'' @ crlf) w;
          w = foldl (\<lambda>w e. print_text (eng_describe e @ crlf @ crlf)
                (print_text ('' -out='' @ eng_name e @ crlf) w)) w gEngines;
          w = print_text ('' -doc'' @ crlf) w;
          w = print_text (''      Runs DIA API test suite, loading pdbs from config/doc/in.txt'' @ crlf) w;
          w = print_text (''      Results output into config/doc/out.txt'' @ crlf @ crlf) w;
          w = print_text ('' -wikidoc=<filename>'' @ crlf) w;
          w = print_text (''      Outputs markdown documentation at the given filename.'' @ crlf) w
      in print_text crlf w)"

section \<open>The program\<close>

text \<open>The \<open>try\<close> around the engine: a thrown text is noted. Only the settings of the MySQL engine throw
  one, before anything is written, so the state is the one before the call.\<close>

definition catch_text :: "world run \<Rightarrow> world \<Rightarrow> world run" where
  "catch_text r w = (case r of Some (Inl (Thrown ex)) \<Rightarrow> returns (set_error ex w) | _ \<Rightarrow> r)"

definition main_input :: "('m, 'o) platform \<Rightarrow> string list \<Rightarrow> SymbolData run" where
  "main_input P argv =
     (case get_input_engine P argv of None \<Rightarrow> returns SymbolData_init | Some input \<Rightarrow> input SymbolData_init)"

text \<open>
  What the console shows while the input is read: the reader is modelled without the console, the
  lines are those of the session that it opens (\<open>reading_shows_progress\<close>).
\<close>

definition input_progress :: "('m, 'o) platform \<Rightarrow> string list \<Rightarrow> string" where
  "input_progress P argv =
     (let input = getOption argv ''-in'' in
      if 0 < length input
      then (case Provider_load (Provider_source (p_com P)) input of
              Inr (ok, Some ses) \<Rightarrow> session_progress (p_names P) ses
            | _ \<Rightarrow> [])
      else [])"

definition main_output :: "OutputEngine \<Rightarrow> SymbolData \<Rightarrow> world \<Rightarrow> (int \<times> world) run" where
  "main_output output S w =
     (let w = print_text (''Saving results...'' @ [newline]) w in
      run_bind (catch_text (eng_output output S w) w) (\<lambda>w.
        if gErr w \<noteq> [] then returns (1, print_text (gErr w) w) else returns (0, w)))"

definition main :: "('m, 'o) platform \<Rightarrow> string list \<Rightarrow> (int \<times> world) run" where
  "main P argv =
     run_bind (Some (trim_path (path_main P))) (\<lambda>path.
       let sys = p_os P (c_text path); w = world_init in
       if getFlag argv ''-doc'' then
         run_bind (Document (p_names P) (p_answers P) (p_com P) sys
             (c_text (path_document P)) w) (\<lambda>w. returns (0, w))
       else
         let wikidoc_filename = getOption argv ''-wikidoc'' in
         if 0 < length wikidoc_filename then returns (0, wiki_Output sys wikidoc_filename w)
         else
           let gEngines = init_engines P sys argv in
           (case get_output_engine gEngines argv of
              None \<Rightarrow> returns (1, PrintUsage gEngines w)
            | Some output \<Rightarrow> run_bind (main_input P argv) (\<lambda>S.
                main_output output S (print_text (input_progress P argv) w))))"

section \<open>How it runs\<close>

lemma find_last:
  assumes none: "\<forall>z \<in> set ys. \<not> Q z" and "Q y"
  shows "find (\<lambda>i. Q ((xs @ y # ys) ! i)) (rev [0..<length (xs @ y # ys)]) = Some (length xs)"
proof -
  show ?thesis
    unfolding find_Some_iff
    by (intro exI [of _ "length ys"])
      (use none assms(2) in \<open>auto simp: rev_nth nth_append nth_Cons' simp del: upt_Suc\<close>)
qed

lemma c_text_simps [simp]: "c_text (nul # buf) = []" "c \<noteq> nul \<Longrightarrow> c_text (c # buf) = c # c_text buf"
  by (simp_all add: c_text_def)

lemma c_text_append: "nul \<notin> set s \<Longrightarrow> c_text (s @ nul # buf) = s"
  by (induction s) (auto simp: c_text_def)

definition after_input :: "('m, 'o) platform \<Rightarrow> string list \<Rightarrow> world" where
  "after_input P argv = print_text (input_progress P argv) world_init"

lemma after_input_simps [simp]:
  "gErr (after_input P argv) = []" "files (after_input P argv) = []"
  "console (after_input P argv) = input_progress P argv"
  by (simp_all add: after_input_def world_init_def)

lemma after_no_input: "getOption argv ''-in'' = [] \<Longrightarrow> input_progress P argv = [] \<and> after_input P argv = world_init"
  by (simp add: after_input_def input_progress_def print_text_none)

lemma main_normal:
  assumes "trim_path (path_main P) = Inr path"
    and "\<not> getFlag argv ''-doc''" and "getOption argv ''-wikidoc'' = []"
  shows "main P argv =
    (case get_output_engine (init_engines P (p_os P (c_text path)) argv) argv of
       None \<Rightarrow> returns (1, PrintUsage (init_engines P (p_os P (c_text path)) argv) world_init)
     | Some output \<Rightarrow> run_bind (main_input P argv) (\<lambda>S. main_output output S (after_input P argv)))"
  unfolding main_def Let_def after_input_def using assms by (simp add: run_bind_def)

lemma main_returns_path:
  assumes "main P argv = returns x"
  obtains path where "trim_path (path_main P) = Inr path"
  using assms
  by (cases "trim_path (path_main P)") (auto simp: main_def)

lemma get_output_engine_eq:
  "getOption argv ''-out'' = ''mysql'' \<Longrightarrow>
     get_output_engine (init_engines P sys argv) argv = Some (mysql_CreateEngine P sys argv)"
  "getOption argv ''-out'' = ''csv'' \<Longrightarrow>
     get_output_engine (init_engines P sys argv) argv = Some (csv_CreateEngine sys argv)"
  "getOption argv ''-out'' = ''odbc'' \<Longrightarrow>
     get_output_engine (init_engines P sys argv) argv = Some (odbc_CreateEngine P sys argv)"
  "getOption argv ''-out'' \<notin> {''mysql'', ''csv'', ''odbc''} \<Longrightarrow>
     get_output_engine (init_engines P sys argv) argv = None"
  by (auto simp: get_output_engine_def init_engines_def mysql_CreateEngine_def csv_CreateEngine_def
      odbc_CreateEngine_def Let_def)

lemma catch_text_simps [simp]:
  "catch_text (returns w) w0 = returns w" "catch_text (Some (Inl (Thrown ex))) w0 = returns (set_error ex w0)"
  by (simp_all add: catch_text_def returns_def)

lemma main_input_none: "getOption argv ''-in'' = [] \<Longrightarrow> main_input P argv = returns SymbolData_init"
  by (simp add: main_input_def get_input_engine_def)

lemma main_output_of:
  assumes "catch_text (eng_output output S (print_text (''Saving results...'' @ [newline]) w))
      (print_text (''Saving results...'' @ [newline]) w) = returns w1"
  shows "main_output output S w = returns (if gErr w1 \<noteq> [] then (1, print_text (gErr w1) w1) else (0, w1))"
  using assms by (simp add: main_output_def Let_def)

lemma csv_main_output: "\<exists>code w'. main_output (csv_CreateEngine sys argv) S w = returns (code, w')"
proof -
  have "\<exists>w1. main_output (csv_CreateEngine sys argv) S w
      = returns (if gErr w1 \<noteq> [] then (1, print_text (gErr w1) w1) else (0, w1))"
    by (rule exI, rule main_output_of) (simp add: csv_CreateEngine_def csv_engine_output_returns)
  then show ?thesis by (auto split: if_splits)
qed

text \<open>A run of the engine that comes back: the exit code is 0 exactly when no error was noted.\<close>

lemma main_output_returns:
  assumes "main_output output S w = returns (code, w')"
  shows "code \<in> {0, 1}" and "code = 0 \<longleftrightarrow> gErr w' = []"
    and "code = 0 \<Longrightarrow> eng_output output S (print_text (''Saving results...'' @ [newline]) w) = returns w'"
proof -
  let ?w = "print_text (''Saving results...'' @ [newline]) w"
  from assms obtain w1 where run: "catch_text (eng_output output S ?w) ?w = returns w1"
    and code: "(code, w') = (if gErr w1 \<noteq> [] then (1, print_text (gErr w1) w1) else (0, w1))"
    by (auto simp: main_output_def Let_def run_bind_eq_returns split: if_splits)
  from code show "code \<in> {0, 1}" and "code = 0 \<longleftrightarrow> gErr w' = []" by (auto split: if_splits)
  assume "code = 0"
  with code have "w1 = w'" and "gErr w' = []" by (auto split: if_splits)
  with run show "eng_output output S ?w = returns w'"
    by (auto simp: catch_text_def set_error_def returns_def split: option.splits sum.splits fault.splits)
qed

lemma mysql_engine_returns:
  assumes "eng_output (mysql_CreateEngine P sys argv) S w0 = returns w"
  shows "\<exists>d w1 conn. OutputData_init sys argv S w0 = returns (d, w1)
    \<and> upload (p_mysql P) (UploadCommands d) 0 (connect (p_mysql P) d w1) = (conn, w)"
proof -
  from assms obtain c where "mysql_output (p_mysql P) sys argv S w0 = returns (c, w)"
    by (auto simp: mysql_CreateEngine_def run_bind_eq_returns)
  then obtain d w1 where init: "OutputData_init sys argv S w0 = returns (d, w1)"
    and "(case upload (p_mysql P) (UploadCommands d) 0 (connect (p_mysql P) d w1) of
      (conn, w) \<Rightarrow> returns (map_option (mysql_close (p_mysql P)) conn, w)) = returns (c, w)"
    unfolding mysql_output_def run_bind_eq_returns by auto
  then have "upload (p_mysql P) (UploadCommands d) 0 (connect (p_mysql P) d w1)
      = (fst (upload (p_mysql P) (UploadCommands d) 0 (connect (p_mysql P) d w1)), w)"
    by (cases "upload (p_mysql P) (UploadCommands d) 0 (connect (p_mysql P) d w1)") simp
  with init show ?thesis by blast
qed

lemma print_usage_frame: "gErr (PrintUsage es w) = gErr w" "files (PrintUsage es w) = files w"
proof -
  have "gErr (foldl (\<lambda>w e. print_text (eng_describe e @ crlf @ crlf) (print_text ('' -out='' @ eng_name e @ crlf) w)) w es) = gErr w"
    "files (foldl (\<lambda>w e. print_text (eng_describe e @ crlf @ crlf) (print_text ('' -out='' @ eng_name e @ crlf) w)) w es) = files w"
    for w :: world
    by (induction es arbitrary: w) simp_all
  then show "gErr (PrintUsage es w) = gErr w" "files (PrintUsage es w) = files w"
    by (simp_all add: PrintUsage_def Let_def)
qed

end
