(* ===== verification/DIA_Integrity.thy ===== *)
theory DIA_Integrity
  imports DIA_Session
begin

text \<open>
  How the tables of a read refer to each other, and how long: the map from a compiland's symbol to
  its row is right as long as there are at most 2 ^ 32 compilands, the 32-bit numbers of the source
  ranges are unique exactly as long as there are at most 2 ^ 32 of them; and that a read makes
  progress: what an enumerator hands out gets its row, also when the enumerator never ends.
\<close>

section \<open>Compilands\<close>

definition compilands_mapped :: "reader \<Rightarrow> bool" where
  "compilands_mapped r = (length (sd_Compiland (Result r)) \<le> 2 ^ 32 \<longrightarrow>
     (\<forall>k \<in> set (map Compiland_symbol (sd_Compiland (Result r))).
        \<exists>i. SymCompilandMap r k = Some i \<and> unat i < length (sd_Compiland (Result r))
          \<and> Compiland_symbol (sd_Compiland (Result r) ! unat i) = k))"

lemma unat_length: "length xs < 2 ^ 32 \<Longrightarrow> unat (of_nat (length xs) :: u32) = length xs"
  by (simp add: unat_of_nat)

lemma compiland_mapped:
  assumes "compilands_mapped r"
  shows "compilands_mapped (ReadCompilandSymbol env \<sigma> d k r)"
  unfolding compilands_mapped_def
proof (intro impI ballI)
  let ?cs = "sd_Compiland (Result r)" and ?c = "Compiland_ctor env \<sigma> d k"
  have cs: "sd_Compiland (Result (ReadCompilandSymbol env \<sigma> d k r)) = ?cs @ [?c]"
    and m: "SymCompilandMap (ReadCompilandSymbol env \<sigma> d k r) = (SymCompilandMap r)(k \<mapsto> of_nat (length ?cs))"
    by (simp_all add: ReadCompilandSymbol_def Let_def emplace_back_def)
  fix s
  assume "length (sd_Compiland (Result (ReadCompilandSymbol env \<sigma> d k r))) \<le> 2 ^ 32"
    and s: "s \<in> set (map Compiland_symbol (sd_Compiland (Result (ReadCompilandSymbol env \<sigma> d k r))))"
  then have len: "length ?cs < 2 ^ 32" by (simp add: cs)
  show "\<exists>i. SymCompilandMap (ReadCompilandSymbol env \<sigma> d k r) s = Some i
      \<and> unat i < length (sd_Compiland (Result (ReadCompilandSymbol env \<sigma> d k r)))
      \<and> Compiland_symbol (sd_Compiland (Result (ReadCompilandSymbol env \<sigma> d k r)) ! unat i) = s"
  proof (cases "s = k")
    case True
    then show ?thesis unfolding cs m using unat_length [OF len] by (simp add: nth_append ctor_simps)
  next
    case False
    with s have "s \<in> set (map Compiland_symbol ?cs)" by (auto simp: cs ctor_simps)
    with assms len obtain i where "SymCompilandMap r s = Some i" "unat i < length ?cs" "Compiland_symbol (?cs ! unat i) = s"
      unfolding compilands_mapped_def by force
    with False show ?thesis unfolding cs m by (auto simp: nth_append)
  qed
qed

lemma details_mapped:
  assumes "compilands_mapped r" and "ReadCompilandDetailsSymbol env \<sigma> d r = returns r'"
  shows "compilands_mapped r'"
proof -
  let ?p = "get d ''get_lexicalParentId'' 0"
  define i where "i = (case SymCompilandMap r ?p of None \<Rightarrow> 0 | Some i \<Rightarrow> i)"
  let ?cs = "sd_Compiland (Result r)"
  from assms(2) have i: "unat i < length ?cs"
    and r': "sd_Compiland (Result r') = ?cs[unat i := Compiland_AppendDetails env \<sigma> (?cs ! unat i) d]"
      "SymCompilandMap r' = (SymCompilandMap r)(?p \<mapsto> i)"
    by (auto simp: ReadCompilandDetailsSymbol_def Let_def i_def split: if_split_asm)
  have syms: "map Compiland_symbol (sd_Compiland (Result r')) = map Compiland_symbol ?cs"
    unfolding r' by (rule map_AppendDetails [OF i])
  then have sym: "Compiland_symbol (sd_Compiland (Result r') ! n) = Compiland_symbol (?cs ! n)" if "n < length ?cs" for n
    using that by (metis length_map nth_map)
  from syms have len: "length (sd_Compiland (Result r')) = length ?cs" by (metis length_map)
  show ?thesis
    unfolding compilands_mapped_def syms len
  proof (intro impI ballI)
    fix k
    assume "length ?cs \<le> 2 ^ 32" and "k \<in> set (map Compiland_symbol ?cs)"
    with assms(1) obtain j where j: "SymCompilandMap r k = Some j" "unat j < length ?cs" "Compiland_symbol (?cs ! unat j) = k"
      unfolding compilands_mapped_def by blast
    then have "SymCompilandMap r' k = Some j" by (cases "k = ?p") (simp_all add: r' i_def)
    with j sym show "\<exists>i. SymCompilandMap r' k = Some i \<and> unat i < length ?cs
        \<and> Compiland_symbol (sd_Compiland (Result r') ! unat i) = k" by auto
  qed
qed

text \<open>A symbol that is not the one of a compiland is not in the map, or leads to the first row.\<close>

definition others_first :: "reader \<Rightarrow> bool" where
  "others_first r = (\<forall>k i. SymCompilandMap r k = Some i \<longrightarrow>
     k \<in> set (map Compiland_symbol (sd_Compiland (Result r))) \<or> i = 0)"

lemma compiland_others: "others_first r \<Longrightarrow> others_first (ReadCompilandSymbol env \<sigma> d k r)"
  unfolding others_first_def ReadCompilandSymbol_def Let_def by (auto simp: emplace_back_def ctor_simps)

lemma details_others:
  assumes "others_first r" and "ReadCompilandDetailsSymbol env \<sigma> d r = returns r'"
  shows "others_first r'"
proof -
  let ?p = "get d ''get_lexicalParentId'' 0"
  define i where "i = (case SymCompilandMap r ?p of None \<Rightarrow> 0 | Some i \<Rightarrow> i)"
  from assms(2) have i: "unat i < length (sd_Compiland (Result r))"
    and r': "sd_Compiland (Result r') = (sd_Compiland (Result r))[unat i :=
        Compiland_AppendDetails env \<sigma> (sd_Compiland (Result r) ! unat i) d]"
      "SymCompilandMap r' = (SymCompilandMap r)(?p \<mapsto> i)"
    by (auto simp: ReadCompilandDetailsSymbol_def Let_def i_def split: if_split_asm)
  have syms: "map Compiland_symbol (sd_Compiland (Result r')) = map Compiland_symbol (sd_Compiland (Result r))"
    unfolding r' by (rule map_AppendDetails [OF i])
  show ?thesis
    using assms(1) unfolding others_first_def syms r'(2) by (auto simp: i_def split: option.splits if_split_asm)
qed

text \<open>Both are kept by every step, by the same cases.\<close>

lemma step_compilands:
  assumes "reader_step env J r r'" and "P r"
    and frame: "\<And>r r'. sd_Compiland (Result r') = sd_Compiland (Result r) \<Longrightarrow>
      SymCompilandMap r' = SymCompilandMap r \<Longrightarrow> P r \<Longrightarrow> P r'"
    and compiland: "\<And>\<sigma> d k r. P r \<Longrightarrow> P (ReadCompilandSymbol env \<sigma> d k r)"
    and details: "\<And>\<sigma> d r r'. P r \<Longrightarrow> ReadCompilandDetailsSymbol env \<sigma> d r = returns r' \<Longrightarrow> P r'"
  shows "P r'"
  using assms(1)
proof (cases rule: reader_step_cases)
  case (symbol dia)
  let ?r = "with_symbol env J dia r" and ?\<sigma> = "J (length (sd_Symbol (Result r)))"
  have P: "P ?r" by (rule frame [OF _ _ assms(2)]) simp_all
  from symbol have switch: "ReadSymbol_switch env J ?\<sigma> (get dia ''get_symTag'' 0) dia (get dia ''get_symIndexId'' 0) ?r
      = returns r'"
    by (simp only: ReadSymbol_eq)
  consider "get dia ''get_symTag'' 0 = SymTag ''Compiland''"
    | "get dia ''get_symTag'' 0 = SymTag ''CompilandDetails''"
    | "get dia ''get_symTag'' 0 \<noteq> SymTag ''Compiland''" "get dia ''get_symTag'' 0 \<noteq> SymTag ''CompilandDetails''"
    by blast
  then show ?thesis
  proof cases
    case 1
    with switch have "r' = ReadCompilandSymbol env ?\<sigma> dia (get dia ''get_symIndexId'' 0) ?r"
      by (simp add: ReadSymbol_switch_def SymTag_simps)
    with compiland [OF P] show ?thesis by simp
  next
    case 2
    with switch have "ReadCompilandDetailsSymbol env ?\<sigma> dia ?r = returns r'"
      by (simp add: ReadSymbol_switch_def SymTag_simps)
    with details [OF P] show ?thesis by blast
  next
    case 3
    with ReadSymbol_switch_frame(4) [OF switch] show ?thesis by (intro frame [OF _ _ assms(2)]) simp_all
  qed
qed (intro frame [OF _ _ assms(2)]; simp add: same_core_def)+

lemma reads_compilands:
  assumes "reads env J r r'" and "compilands_mapped r" and "others_first r"
  shows "compilands_mapped r' \<and> others_first r'"
  using assms
proof (induction rule: rtranclp_induct)
  case (step s t)
  from step.IH step.prems have s: "compilands_mapped s" "others_first s" by blast+
  have frame: "compilands_mapped r \<Longrightarrow> compilands_mapped r'" "others_first r \<Longrightarrow> others_first r'"
    if "sd_Compiland (Result r') = sd_Compiland (Result r)" "SymCompilandMap r' = SymCompilandMap r" for r r'
    unfolding compilands_mapped_def others_first_def that by assumption+
  have "compilands_mapped t"
    by (rule step_compilands [where P = compilands_mapped, OF step.hyps(2) s(1) frame(1) compiland_mapped details_mapped])
  moreover have "others_first t"
    by (rule step_compilands [where P = others_first, OF step.hyps(2) s(2) frame(2) compiland_others details_others])
  ultimately show ?case by simp
qed simp

section \<open>Source ranges\<close>

lemma distinct_of_nat_word: "distinct (map (of_nat :: nat \<Rightarrow> u32) [0..<n]) \<longleftrightarrow> n \<le> 2 ^ 32"
proof
  assume "n \<le> 2 ^ 32"
  then have "inj_on (of_nat :: nat \<Rightarrow> u32) (set [0..<n])"
    by (intro inj_onI) (auto dest!: arg_cong [where f = unat] simp: unat_of_nat)
  then show "distinct (map (of_nat :: nat \<Rightarrow> u32) [0..<n])" by (simp add: distinct_map)
next
  assume distinct: "distinct (map (of_nat :: nat \<Rightarrow> u32) [0..<n])"
  show "n \<le> 2 ^ 32"
  proof (rule ccontr)
    assume "\<not> n \<le> 2 ^ 32"
    then have "2 ^ 32 \<in> set [0..<n]" "0 \<in> set [0..<n]" by auto
    moreover have "inj_on (of_nat :: nat \<Rightarrow> u32) (set [0..<n])" using distinct by (simp add: distinct_map)
    moreover have "(of_nat (2 ^ 32) :: u32) = of_nat 0" by simp
    ultimately have "(2 ^ 32 :: nat) = 0" by (blast dest: inj_onD)
    then show False by simp
  qed
qed


section \<open>Progress\<close>

text \<open>A loop that has taken \<open>n\<close> batches goes on behind them.\<close>

lemma ReadTable_loop_prefix:
  assumes "\<forall>k < n. \<not> stops (Next k)" and "run_fold element (items Next n) s = returns s'"
  shows "ReadTable_loop element Next 0 s = ReadTable_loop element Next n s'"
  using assms
proof (induction n arbitrary: s')
  case 0
  then show ?case by (simp add: items_def)
next
  case (Suc n)
  have "items Next (Suc n) = items Next n @ snd (Next n)" by (simp add: items_def)
  with Suc.prems(2) obtain t where t: "run_fold element (items Next n) s = returns t"
    and batch: "run_fold element (snd (Next n)) t = returns s'"
    by (auto simp: run_fold_append run_bind_eq_returns)
  from Suc t have "ReadTable_loop element Next 0 s = ReadTable_loop element Next n t" by simp
  also have "\<dots> = ReadTable_loop element Next (Suc n) s'"
    using Suc.prems(1) batch by (subst ReadTable_loop_unfold) simp
  finally show ?case .
qed

lemma ReadTable_loop_fault:
  assumes "\<forall>k < n. \<not> stops (Next k)" and "run_fold element (items Next n) s = Some (Inl f)"
  shows "ReadTable_loop element Next 0 s = Some (Inl f)"
  using assms
proof (induction n)
  case 0
  then show ?case by (simp add: items_def returns_def)
next
  case (Suc n)
  have items: "items Next (Suc n) = items Next n @ snd (Next n)" by (simp add: items_def)
  show ?case
  proof (cases "run_fold element (items Next n) s")
    case None
    with Suc.prems(2) show ?thesis by (simp add: items run_fold_append)
  next
    case (Some z)
    show ?thesis
    proof (cases z)
      case (Inl e)
      with Some Suc show ?thesis by (simp add: items run_fold_append)
    next
      case (Inr t)
      with Some have t: "run_fold element (items Next n) s = returns t" by (simp add: returns_def)
      with Suc.prems(2) have "run_fold element (snd (Next n)) t = Some (Inl f)" by (simp add: items run_fold_append)
      moreover from Suc.prems(1) have "\<forall>k < n. \<not> stops (Next k)" "\<not> stops (Next n)" by auto
      moreover from ReadTable_loop_prefix [OF calculation(2) t]
      have "ReadTable_loop element Next 0 s = ReadTable_loop element Next n t" .
      ultimately show ?thesis by (simp add: ReadTable_loop_unfold [of element Next n])
    qed
  qed
qed

section \<open>Properties\<close>

text \<open>C12. Where the details of a compiland go, in every state that a read of fresh tables reaches with
  at most 2 ^ 32 compilands: to a row of their compiland if it has been read, which keeps its
  symbol, and no other row changes. Details of a compiland that has not been read overwrite the
  first row, and without any row they index an empty vector.\<close>

theorem details_find_their_compiland:
  assumes "reads env J (first_state (reader_init SymbolData_init)) r"
    and "length (sd_Compiland (Result r)) \<le> 2 ^ 32"
    and "get d ''get_symTag'' 0 = SymTag ''CompilandDetails''"
  shows "if sd_Compiland (Result r) = [] then \<exists>f. ReadSymbol env J d r = Some (Inl f)
    else \<exists>row r'. row < length (sd_Compiland (Result r))
      \<and> (if get d ''get_lexicalParentId'' 0 \<in> set (map Compiland_symbol (sd_Compiland (Result r)))
         then Compiland_symbol (sd_Compiland (Result r) ! row) = get d ''get_lexicalParentId'' 0 else row = 0)
      \<and> ReadSymbol env J d r = returns r'
      \<and> sd_Compiland (Result r') = (sd_Compiland (Result r))[row :=
          Compiland_AppendDetails env (J (length (sd_Symbol (Result r)))) (sd_Compiland (Result r) ! row) d]"
proof -
  let ?p = "get d ''get_lexicalParentId'' 0"
  have "compilands_mapped (first_state (reader_init SymbolData_init))" "others_first (first_state (reader_init SymbolData_init))"
    by (simp_all add: compilands_mapped_def others_first_def first_state_def reader_init_def SymbolData_init_def)
  with reads_compilands [OF assms(1)] have inv: "compilands_mapped r" "others_first r" by blast+
  define i where "i = (case SymCompilandMap r ?p of None \<Rightarrow> 0 | Some i \<Rightarrow> i)"
  have run: "ReadSymbol env J d r = (if unat i < length (sd_Compiland (Result r))
      then returns (on_result (sd_Compiland_update (\<lambda>cs.
        cs[unat i := Compiland_AppendDetails env (J (length (sd_Symbol (Result r)))) (cs ! unat i) d]))
        ((with_symbol env J d r)\<lparr> SymCompilandMap := (SymCompilandMap r)(?p \<mapsto> i) \<rparr>))
      else Some (Inl (Undefined_Behaviour ''Result.Compiland[]'')))"
    using assms(3) by (simp add: ReadSymbol_eq ReadSymbol_switch_def SymTag_simps ReadCompilandDetailsSymbol_def Let_def i_def)
  have own: "unat i < length (sd_Compiland (Result r)) \<and> Compiland_symbol (sd_Compiland (Result r) ! unat i) = ?p"
    if "?p \<in> set (map Compiland_symbol (sd_Compiland (Result r)))"
    using inv(1) assms(2) that unfolding compilands_mapped_def i_def by force
  have first: "i = 0" if "?p \<notin> set (map Compiland_symbol (sd_Compiland (Result r)))"
    using inv(2) that unfolding others_first_def i_def by (auto split: option.split)
  show ?thesis
  proof (cases "sd_Compiland (Result r) = []")
    case True
    then show ?thesis by (simp add: run)
  next
    case False
    with own first have "unat i < length (sd_Compiland (Result r))" by fastforce
    with False own first show ?thesis by (auto simp: run intro!: exI [of _ "unat i"])
  qed
qed

theorem details_find_their_compiland_witness:
  "\<forall>env J. \<exists>r r'. ReadSymbol env J (sample_dia 2 0) (first_state (reader_init SymbolData_init)) = returns r
     \<and> ReadSymbol env J (sample_dia 3 9) r = returns r' \<and> length (sd_Compiland (Result r')) = 1"
proof (intro allI)
  fix env J
  let ?r = "first_state (reader_init SymbolData_init)"
  obtain r where r: "ReadSymbol env J (sample_dia 2 0) ?r = returns r" using sample_run by force
  then have reads: "reads env J ?r r" by (blast intro: step_symbol)
  from ReadSymbol_ids [OF r, of "''Compiland''" "\<lambda>S. map Compiland_symbol (sd_Compiland S)"]
  have "map Compiland_symbol (sd_Compiland (Result r)) = [0]"
    by (simp add: symbol_tables_def SymTag_simps first_state_def reader_init_def SymbolData_init_def)
  then have syms: "length (sd_Compiland (Result r)) = 1" "0 \<in> set (map Compiland_symbol (sd_Compiland (Result r)))"
    by (auto dest: arg_cong [where f = length])
  have "get (sample_dia 3 9) ''get_lexicalParentId'' 0 = 0" by (simp add: get_def sample_dia_def)
  with details_find_their_compiland [OF reads, of "sample_dia 3 9"] syms
  obtain r' where "ReadSymbol env J (sample_dia 3 9) r = returns r'" "length (sd_Compiland (Result r')) = 1"
    by (auto simp: SymTag_simps split: if_split_asm)
  with r show "\<exists>r r'. ReadSymbol env J (sample_dia 2 0) ?r = returns r
     \<and> ReadSymbol env J (sample_dia 3 9) r = returns r' \<and> length (sd_Compiland (Result r')) = 1"
    by blast
qed

text \<open>The numbers of the source ranges of a read are 32-bit words: they tell the ranges apart exactly
  as long as there are at most 2 ^ 32 of them.\<close>

lemma source_ranges_unique:
  assumes "DIA2_ReadSymbols nm env J com argv f SymbolData_init = returns S"
  shows "distinct (map SrcRange_id (sd_SrcRange S)) \<longleftrightarrow> length (sd_SrcRange S) \<le> 2 ^ 32"
proof -
  from assms consider "S = SymbolData_init"
    | ses r where "provider_ReadSymbols nm env J argv ses (reader_init SymbolData_init) = returns r" "S = Result r"
    by (auto simp: DIA2_ReadSymbols_def run_bind_eq_returns split: if_split_asm option.splits prod.splits)
  then show ?thesis
  proof cases
    case 1
    then show ?thesis by (simp add: SymbolData_init_def)
  next
    case 2
    from reads_inv [OF provider_ReadSymbols_reads [OF 2(1)] first_state_inv] 2(2)
    have "map SrcRange_id (sd_SrcRange S) = map of_nat [0..<length (sd_SrcRange S)]"
      by (simp add: reader_inv_def ranges_numbered_def)
    then show ?thesis by (simp only: distinct_of_nat_word)
  qed
qed

text \<open>C16. Reading the symbols makes progress, also on an enumerator that never ends: after any number of
  batches either a fault has stopped the program, or the loop goes on behind them, from tables in
  which every symbol of those batches has its row in the master table, with its tag.\<close>

theorem symbols_eventually_read:
  assumes "\<forall>k < n. \<not> stops (en_Next e k)"
  shows "(\<exists>f. ReadTable e (ReadSymbolHelper env J) r = Some (Inl f))
    \<or> (\<exists>r'. ReadTable e (ReadSymbolHelper env J) r = ReadTable_loop (ReadSymbol env J) (en_Next e) n r'
        \<and> (\<forall>d \<in> set (items (en_Next e) n). \<exists>s \<in> set (sd_Symbol (Result r')).
             Symbol_symbol s = get d ''get_symIndexId'' 0 \<and> Symbol_tag s = ucast (get d ''get_symTag'' 0)))"
proof -
  have loop: "ReadTable e (ReadSymbolHelper env J) r = ReadTable_loop (ReadSymbol env J) (en_Next e) 0 r"
    by (simp add: ReadTable_def)
  have "run_fold (ReadSymbol env J) (items (en_Next e) n) r \<noteq> None"
    by (intro run_fold_ends ReadSymbol_ends)
  then consider f where "run_fold (ReadSymbol env J) (items (en_Next e) n) r = Some (Inl f)"
    | r' where "run_fold (ReadSymbol env J) (items (en_Next e) n) r = returns r'"
    by (cases "run_fold (ReadSymbol env J) (items (en_Next e) n) r") (auto simp: returns_def split: sum.splits, metis sum.exhaust)
  then show ?thesis
  proof cases
    case 1
    from ReadTable_loop_fault [OF assms 1] loop show ?thesis by auto
  next
    case 2
    have "run_fold (sink_element (ReadSymbolHelper env J)) (items (en_Next e) n) r = returns r'" using 2 by simp
    from symbols.rows_fold [OF this] obtain xs where xs: "sd_Symbol (Result r') = sd_Symbol (Result r) @ xs"
      "length xs = length (items (en_Next e) n)"
      "\<forall>i < length xs. xs ! i = Symbol_ctor env (J (length (sd_Symbol (Result r)) + i)) (items (en_Next e) n ! i)
        (get (items (en_Next e) n ! i) ''get_symIndexId'' 0) (ucast (get (items (en_Next e) n ! i) ''get_symTag'' 0))"
      by auto
    have "\<exists>s \<in> set (sd_Symbol (Result r')). Symbol_symbol s = get d ''get_symIndexId'' 0
        \<and> Symbol_tag s = ucast (get d ''get_symTag'' 0)" if "d \<in> set (items (en_Next e) n)" for d
    proof -
      from that obtain i where i: "i < length xs" "items (en_Next e) n ! i = d" using xs(2) by (metis in_set_conv_nth)
      with xs(3) have "Symbol_symbol (xs ! i) = get d ''get_symIndexId'' 0"
        "Symbol_tag (xs ! i) = ucast (get d ''get_symTag'' 0)" by (simp_all add: Symbol_ctor_simps)
      with i(1) xs(1) show ?thesis by (intro bexI [of _ "xs ! i"]) auto
    qed
    with ReadTable_loop_prefix [OF assms 2] loop show ?thesis by auto
  qed
qed

text \<open>An enumerator that hands out the same function for ever.\<close>

definition endless_enum :: dia_enum where
  "endless_enum = \<lparr> en_Count = None, en_Next = (\<lambda>k. (S_OK, [sample_dia 5 7])) \<rparr>"

theorem symbols_eventually_read_witness:
  "\<forall>env J r. (\<exists>f. ReadTable endless_enum (ReadSymbolHelper env J) r = Some (Inl f))
     \<or> (\<exists>r'. ReadTable endless_enum (ReadSymbolHelper env J) r
            = ReadTable_loop (ReadSymbol env J) (en_Next endless_enum) 2 r'
          \<and> (\<exists>s \<in> set (sd_Symbol (Result r')). Symbol_symbol s = 7 \<and> Symbol_tag s = 5))"
proof (intro allI)
  fix env J r
  have "\<forall>k < 2. \<not> stops (en_Next endless_enum k)" by (simp add: endless_enum_def stops_def SUCCEEDED_def)
  note found = symbols_eventually_read [OF this, of env J r]
  have items: "items (en_Next endless_enum) 2 = [sample_dia 5 7, sample_dia 5 7]"
    by (simp add: items_def endless_enum_def numeral_2_eq_2)
  show "(\<exists>f. ReadTable endless_enum (ReadSymbolHelper env J) r = Some (Inl f))
     \<or> (\<exists>r'. ReadTable endless_enum (ReadSymbolHelper env J) r
            = ReadTable_loop (ReadSymbol env J) (en_Next endless_enum) 2 r'
          \<and> (\<exists>s \<in> set (sd_Symbol (Result r')). Symbol_symbol s = 7 \<and> Symbol_tag s = 5))"
    using found unfolding items by fastforce
qed

end
