(* ===== verification/Written_Tables.thy ===== *)
theory Written_Tables
  imports Driver DIA_Integrity
begin

text \<open>
  What the written files say about the program that was read: columns of the records that the
  database reads from a file, the references from the tables of symbols to the table of all
  symbols, carried from the reader's invariant to the files, and that the engines write the
  same records.
\<close>

section \<open>Records and columns\<close>

text \<open>The records of a file with a header line, and the values of one of its columns.\<close>

definition records :: "table \<Rightarrow> cval list list \<Rightarrow> string list list" where
  "records t rows = map m_name (tbl_members t) # map (map (cell_value True)) rows"

definition column :: "string \<Rightarrow> string list list \<Rightarrow> string list" where
  "column c recs = map (\<lambda>r. the (map_of (zip (hd recs) r) c)) (tl recs)"

definition read_records :: "(string \<times> string) list \<Rightarrow> string \<Rightarrow> string list list option" where
  "read_records fs path = (case map_of fs path of None \<Rightarrow> None | Some text \<Rightarrow> load_file CHR '','' text)"

text \<open>The tables of symbols, in the order of \<open>symbol_tables\<close>.\<close>

definition symbol_files :: "string list" where
  "symbol_files = [
     ''compilands'', ''functions'', ''blocks'', ''data'', ''labels'', ''public_symbols'',
     ''user_types'', ''enumerations'', ''function_types'', ''pointers'', ''arrays'',
     ''builtins'', ''typedefs'', ''friends'', ''arguments'', ''vtable_pointers'', ''thunks'',
     ''calls'', ''inlined'', ''exports'', ''heap_allocs'']"

lemma column_symbol:
  "column ''symbol'' (records table_Compiland (map row_Compiland xs0)) = map (\<lambda>x. dec (unat (Compiland_symbol x))) xs0"
  "column ''symbol'' (records table_Function (map row_Function xs1)) = map (\<lambda>x. dec (unat (Function_symbol x))) xs1"
  "column ''symbol'' (records table_Block (map row_Block xs2)) = map (\<lambda>x. dec (unat (Block_symbol x))) xs2"
  "column ''symbol'' (records table_Data (map row_Data xs3)) = map (\<lambda>x. dec (unat (Data_symbol x))) xs3"
  "column ''symbol'' (records table_Label (map row_Label xs4)) = map (\<lambda>x. dec (unat (Label_symbol x))) xs4"
  "column ''symbol'' (records table_PublicSymbol (map row_PublicSymbol xs5)) = map (\<lambda>x. dec (unat (PublicSymbol_symbol x))) xs5"
  "column ''symbol'' (records table_UserType (map row_UserType xs6)) = map (\<lambda>x. dec (unat (UserType_symbol x))) xs6"
  "column ''symbol'' (records table_Enum (map row_Enum xs7)) = map (\<lambda>x. dec (unat (Enum_symbol x))) xs7"
  "column ''symbol'' (records table_FunctionType (map row_FunctionType xs8)) = map (\<lambda>x. dec (unat (FunctionType_symbol x))) xs8"
  "column ''symbol'' (records table_Pointer (map row_Pointer xs9)) = map (\<lambda>x. dec (unat (Pointer_symbol x))) xs9"
  "column ''symbol'' (records table_Array (map row_Array xs10)) = map (\<lambda>x. dec (unat (Array_symbol x))) xs10"
  "column ''symbol'' (records table_BuiltinType (map row_BuiltinType xs11)) = map (\<lambda>x. dec (unat (BuiltinType_symbol x))) xs11"
  "column ''symbol'' (records table_Typedef (map row_Typedef xs12)) = map (\<lambda>x. dec (unat (Typedef_symbol x))) xs12"
  "column ''symbol'' (records table_Friend (map row_Friend xs13)) = map (\<lambda>x. dec (unat (Friend_symbol x))) xs13"
  "column ''symbol'' (records table_FunctionArg (map row_FunctionArg xs14)) = map (\<lambda>x. dec (unat (FunctionArg_symbol x))) xs14"
  "column ''symbol'' (records table_VTablePtr (map row_VTablePtr xs15)) = map (\<lambda>x. dec (unat (VTablePtr_symbol x))) xs15"
  "column ''symbol'' (records table_Thunk (map row_Thunk xs16)) = map (\<lambda>x. dec (unat (Thunk_symbol x))) xs16"
  "column ''symbol'' (records table_Callsite (map row_Callsite xs17)) = map (\<lambda>x. dec (unat (Callsite_symbol x))) xs17"
  "column ''symbol'' (records table_Inlined (map row_Inlined xs18)) = map (\<lambda>x. dec (unat (Inlined_symbol x))) xs18"
  "column ''symbol'' (records table_Export (map row_Export xs19)) = map (\<lambda>x. dec (unat (Export_symbol x))) xs19"
  "column ''symbol'' (records table_HeapAllocation (map row_HeapAllocation xs20)) = map (\<lambda>x. dec (unat (HeapAllocation_symbol x))) xs20"
  by (simp_all add: column_def records_def comp_def table_defs members_defs
      row_Compiland_def row_Function_def row_Block_def row_Data_def row_Label_def
      row_PublicSymbol_def row_UserType_def row_Enum_def row_FunctionType_def row_Pointer_def
      row_Array_def row_BuiltinType_def row_Typedef_def row_Friend_def row_FunctionArg_def
      row_VTablePtr_def row_Thunk_def row_Callsite_def row_Inlined_def row_Export_def
      row_HeapAllocation_def)

lemma column_master:
  "column ''symbol'' (records table_Symbol (map row_Symbol xs)) = map (\<lambda>x. dec (unat (Symbol_symbol x))) xs"
  "column ''tag'' (records table_Symbol (map row_Symbol xs)) = map (\<lambda>x. enum_name E_Tag (unat (Symbol_tag x))) xs"
  by (simp_all add: column_def records_def comp_def table_defs members_defs row_Symbol_def)

lemma table_names:
  "tbl_name table_Symbol = ''symbols''"
  "tbl_name table_BuiltinType = ''builtins''"
  "tbl_name table_Frame = ''frames''"
  "tbl_name table_Label = ''labels''"
  "tbl_name table_FunctionType = ''function_types''"
  "tbl_name table_Function = ''functions''"
  "tbl_name table_VTablePtr = ''vtable_pointers''"
  "tbl_name table_VTableShape = ''vtables''"
  "tbl_name table_Friend = ''friends''"
  "tbl_name table_PublicSymbol = ''public_symbols''"
  "tbl_name table_Data = ''data''"
  "tbl_name table_Compiland = ''compilands''"
  "tbl_name table_InjectedSource = ''injected_src''"
  "tbl_name table_SourceFile = ''src_files''"
  "tbl_name table_SrcRange = ''src_lines''"
  "tbl_name table_InputAssembly = ''input_assemblies''"
  "tbl_name table_CompilandEnv = ''compiland_env''"
  "tbl_name table_AddrSection = ''sections''"
  "tbl_name table_Included = ''included''"
  "tbl_name table_UserType = ''user_types''"
  "tbl_name table_Enum = ''enumerations''"
  "tbl_name table_Pointer = ''pointers''"
  "tbl_name table_BaseClass = ''base_classes''"
  "tbl_name table_Thunk = ''thunks''"
  "tbl_name table_FunctionArg = ''arguments''"
  "tbl_name table_Block = ''blocks''"
  "tbl_name table_HeapAllocation = ''heap_allocs''"
  "tbl_name table_Export = ''exports''"
  "tbl_name table_Exe = ''executable''"
  "tbl_name table_Typedef = ''typedefs''"
  "tbl_name table_SectionContrib = ''section_contrib''"
  "tbl_name table_Inlined = ''inlined''"
  "tbl_name table_Array = ''arrays''"
  "tbl_name table_Segment = ''segments''"
  "tbl_name table_Callsite = ''calls''"
  by (simp_all add: table_defs)

definition named_rows :: "SymbolData \<Rightarrow> (string \<times> table \<times> cval list list) list" where
  "named_rows S = map (\<lambda>(t, rows). (tbl_name t, t, rows)) (reflect S)"

lemma table_symbols:
  "list_all2 (\<lambda>name (nm, ids). \<exists>t rows. map_of (named_rows S) name = Some (t, rows)
      \<and> column ''symbol'' (records t rows) = map (\<lambda>i. dec (unat i)) (ids S)) symbol_files symbol_tables"
  by (simp add: symbol_files_def symbol_tables_def named_rows_def reflect_def table_names column_symbol comp_def)

lemma tag_names: "list_all (\<lambda>nm. enum_name E_Tag (unat (ucast (SymTag nm) :: u8)) = nm) (map fst symbol_tables)"
proof -
  have "map fst symbol_tables = [''Compiland'', ''Function'', ''Block'', ''Data'', ''Label'', ''PublicSymbol'', ''UDT'', ''Enum'',
      ''FunctionType'', ''PointerType'', ''ArrayType'', ''BaseType'', ''Typedef'', ''Friend'', ''FunctionArgType'', ''VTable'',
      ''Thunk'', ''CallSite'', ''InlineSite'', ''Export'', ''HeapAllocationSite'']"
    by (simp add: symbol_tables_def)
  then show ?thesis by (simp add: SymTag_simps) code_simp
qed

section \<open>From the input to the files\<close>

text \<open>The program with the CSV engine: the tables that were read, and the files if it exits with 0.\<close>

lemma main_csv_files:
  assumes run: "main P argv = returns (code, w)" and out: "getOption argv ''-out'' = ''csv''"
    and mode: "\<not> getFlag argv ''-doc''" "getOption argv ''-wikidoc'' = []"
  obtains dir S where "main_input P argv = returns S"
    and "code = 0 \<longleftrightarrow> \<not> (\<exists>t. t \<in> set tables \<and> write_bad (p_os P dir) (csv_path (csv_init (p_os P dir) argv) t))"
    and "code = 0 \<longrightarrow> files w = map (\<lambda>(t, rows). (csv_path (csv_init (p_os P dir) argv) t,
        csv_file (csv_init (p_os P dir) argv) t rows)) (reflect S)"
proof -
  from run obtain path where path: "trim_path (path_main P) = Inr path"
    by (rule main_returns_path)
  define sys where "sys = p_os P (c_text path)"
  define st where "st = csv_init sys argv"
  let ?w = "print_text (''Saving results...'' @ [newline]) (after_input P argv)"
  from run obtain S where S: "main_input P argv = returns S"
    and main: "main_output (csv_CreateEngine sys argv) S (after_input P argv) = returns (code, w)"
    by (auto simp: main_normal [OF path mode] get_output_engine_eq(2) [OF out] run_bind_eq_returns sys_def)
  define w1 where "w1 = fold (csv_step sys st) (reflect S) ?w"
  have "eng_output (csv_CreateEngine sys argv) S ?w = returns w1"
    by (simp add: csv_CreateEngine_def csv_engine_output_returns w1_def st_def)
  with main main_output_of [of "csv_CreateEngine sys argv" S "after_input P argv" w1]
  have code: "(code, w) = (if gErr w1 \<noteq> [] then (1, print_text (gErr w1) w1) else (0, w1))"
    by simp
  have "has_error w1 \<longleftrightarrow> (\<exists>(t, rows) \<in> set (reflect S). write_bad sys (csv_path st t))"
    unfolding w1_def has_error_fold_csv_step by (simp add: has_error_def)
  also have "\<dots> \<longleftrightarrow> (\<exists>t. t \<in> set tables \<and> write_bad sys (csv_path st t))"
    unfolding map_fst_reflect [of S, symmetric] by force
  finally have bad: "code = 0 \<longleftrightarrow> \<not> (\<exists>t. t \<in> set tables \<and> write_bad sys (csv_path st t))"
    using code by (auto simp: has_error_def split: if_split_asm)
  have "files w = map (\<lambda>(t, rows). (csv_path st t, csv_file st t rows)) (reflect S)" if "code = 0"
  proof -
    from that bad have "\<not> write_bad sys (csv_path st t)" if "(t, rows) \<in> set (reflect S)" for t rows
      using reflect_in_tables [OF that] by blast
    then have "filter (\<lambda>(t, rows). \<not> write_bad sys (csv_path st t)) (reflect S) = reflect S"
      by (auto intro: filter_True)
    with code that show ?thesis by (simp add: w1_def files_fold_csv_step split: if_split_asm)
  qed
  with S bad that show thesis unfolding st_def sys_def by blast
qed

text \<open>Looking a file up by its path.\<close>

lemma read_csv_records:
  assumes "fs = map (\<lambda>(t, rows). (csv_path st t, csv_file st t rows)) (reflect S)" and "(t, rows) \<in> set (reflect S)"
    and "separator st = CHR '',''" and "\<not> naked st"
  shows "read_records fs (outdir st @ tbl_name t @ ''.csv'') = Some (records t rows)"
proof -
  have "distinct (map (csv_path st) tables)"
    using distinct_table_names unfolding distinct_map
    by (auto simp: csv_path_def inj_on_def)
  then have "distinct (map fst fs)"
    unfolding assms(1) map_fst_reflect [of S, symmetric] by (simp add: comp_def case_prod_unfold)
  moreover have "(csv_path st t, csv_file st t rows) \<in> set fs" using assms(1,2) by force
  ultimately have "map_of fs (outdir st @ tbl_name t @ ''.csv'') = Some (csv_file st t rows)"
    by (simp add: csv_path_def)
  with load_csv_file [of st, OF _ assms(2)] assms(3,4) show ?thesis
    by (simp add: read_records_def records_def sep_ok_comma)
qed

text \<open>The invariant of the reader, for what \<open>main\<close> reads.\<close>

lemma input_masters:
  assumes "main_input P argv = returns S"
  shows "list_all (\<lambda>(nm, ids). list_all (has_master S nm) (ids S)) symbol_tables"
proof -
  have empty: "list_all (\<lambda>(nm, ids). list_all (has_master SymbolData_init nm) (ids SymbolData_init)) symbol_tables"
    by (simp add: symbol_tables_def SymbolData_init_def)
  show ?thesis
  proof (cases "getOption argv ''-in'' = []")
    case True
    with assms empty show ?thesis by (simp add: main_input_none)
  next
    case False
    with assms have "DIA2_ReadSymbols (p_names P) (p_env P) (p_junk P) (p_com P) argv (getOption argv ''-in'')
        SymbolData_init = returns S"
      by (simp add: main_input_def get_input_engine_def Let_def)
    then consider "S = SymbolData_init"
      | ses r where "provider_ReadSymbols (p_names P) (p_env P) (p_junk P) argv ses (reader_init SymbolData_init) = returns r"
        "S = Result r"
      by (auto simp: DIA2_ReadSymbols_def run_bind_eq_returns split: if_split_asm option.splits prod.splits)
    then show ?thesis
    proof cases
      case 1
      with empty show ?thesis by simp
    next
      case 2
      from reads_inv [OF provider_ReadSymbols_reads [OF 2(1)] first_state_inv] 2(2) show ?thesis
        by (simp add: reader_inv_def masters_present_def)
    qed
  qed
qed

text \<open>References in the files: every symbol of a table of symbols stands in the file of the symbols,
  with the tag of that table.\<close>

lemma file_references:
  assumes "list_all (\<lambda>(nm, ids). list_all (has_master S nm) (ids S)) symbol_tables"
    and "fs = map (\<lambda>(t, rows). (csv_path st t, csv_file st t rows)) (reflect S)"
    and "separator st = CHR '',''" and "\<not> naked st"
  shows "list_all2 (\<lambda>name (tag, _). \<exists>recs master.
       read_records fs (outdir st @ name @ ''.csv'') = Some recs
       \<and> read_records fs (outdir st @ ''symbols.csv'') = Some master
       \<and> (\<forall>i \<in> set (column ''symbol'' recs). (i, tag) \<in> set (zip (column ''symbol'' master) (column ''tag'' master)))) symbol_files symbol_tables"
proof (rule list.rel_mono_strong [OF table_symbols [of S]])
  let ?master = "records table_Symbol (map row_Symbol (sd_Symbol S))"
  have "(table_Symbol, map row_Symbol (sd_Symbol S)) \<in> set (reflect S)" by (simp add: reflect_def)
  from read_csv_records [OF assms(2) this assms(3,4)]
  have master: "read_records fs (outdir st @ ''symbols.csv'') = Some ?master" by (simp add: table_names)
  fix name and entry :: "string \<times> (SymbolData \<Rightarrow> u32 list)"
  assume entry: "entry \<in> set symbol_tables"
    and rows: "case entry of (nm, ids) \<Rightarrow> \<exists>t rows. map_of (named_rows S) name = Some (t, rows)
      \<and> column ''symbol'' (records t rows) = map (\<lambda>i. dec (unat i)) (ids S)"
  obtain tag ids where e: "entry = (tag, ids)" by (cases entry)
  with rows obtain t rows where named: "map_of (named_rows S) name = Some (t, rows)"
    and col: "column ''symbol'' (records t rows) = map (\<lambda>i. dec (unat i)) (ids S)" by auto
  from map_of_SomeD [OF named] have t: "(t, rows) \<in> set (reflect S)" "name = tbl_name t"
    by (auto simp: named_rows_def)
  have tag: "enum_name E_Tag (unat (ucast (SymTag tag) :: u8)) = tag"
    using tag_names entry unfolding list_all_iff e by force
  have "(dec (unat i), tag) \<in> set (zip (column ''symbol'' ?master) (column ''tag'' ?master))" if "i \<in> set (ids S)" for i
  proof -
    from assms(1) entry that have "has_master S tag i" unfolding list_all_iff e by blast
    then obtain s where "s \<in> set (sd_Symbol S)" "Symbol_symbol s = i" "Symbol_tag s = ucast (SymTag tag)"
      by (auto simp: has_master_def)
    with tag show ?thesis unfolding column_master zip_map_map by (force simp: zip_same_conv_map)
  qed
  then have "\<forall>i \<in> set (column ''symbol'' (records t rows)). (i, tag) \<in> set (zip (column ''symbol'' ?master) (column ''tag'' ?master))"
    unfolding col by auto
  with master read_csv_records [OF assms(2) t(1) assms(3,4)] t(2)
  show "case entry of (tag, _) \<Rightarrow> \<exists>recs master.
       read_records fs (outdir st @ name @ ''.csv'') = Some recs
       \<and> read_records fs (outdir st @ ''symbols.csv'') = Some master
       \<and> (\<forall>i \<in> set (column ''symbol'' recs). (i, tag) \<in> set (zip (column ''symbol'' master) (column ''tag'' master)))"
    unfolding e by blast
qed

end
