(* ===== verification/DIA_Memory.thy ===== *)
theory DIA_Memory
  imports DIA_Session
begin

text \<open>
  The memory in which rows are built and the locals without a value are the parameter \<open>J\<close> of the
  reader. When every method answers, two reads that differ only in \<open>J\<close> stop at the same fault,
  or both return tables that agree but for seven kinds of rows: \<open>same_rows\<close>, kept by
  every event, as a relation between two runs.
\<close>

section \<open>Tables that agree\<close>

definition same_rows :: "SymbolData \<Rightarrow> SymbolData \<Rightarrow> bool" where
  "same_rows S T = (
     sd_Thunk T = sd_Thunk S \<and> sd_Compiland T = sd_Compiland S
     \<and> sd_BuiltinType T = sd_BuiltinType S \<and> sd_Symbol T = sd_Symbol S
     \<and> sd_AddrSection T = sd_AddrSection S \<and> sd_FunctionArg T = sd_FunctionArg S
     \<and> sd_FunctionType T = sd_FunctionType S \<and> sd_Pointer T = sd_Pointer S
     \<and> sd_BaseClass T = sd_BaseClass S \<and> sd_Callsite T = sd_Callsite S
     \<and> sd_Typedef T = sd_Typedef S \<and> sd_SrcRange T = sd_SrcRange S
     \<and> sd_Array T = sd_Array S \<and> sd_CompilandEnv T = sd_CompilandEnv S
     \<and> sd_SourceFile T = sd_SourceFile S \<and> sd_Label T = sd_Label S
     \<and> sd_PublicSymbol T = sd_PublicSymbol S \<and> sd_Included T = sd_Included S
     \<and> sd_Export T = sd_Export S \<and> sd_InputAssembly T = sd_InputAssembly S
     \<and> sd_Segment T = sd_Segment S \<and> sd_SectionContrib T = sd_SectionContrib S
     \<and> sd_HeapAllocation T = sd_HeapAllocation S \<and> sd_Block T = sd_Block S
     \<and> sd_Inlined T = sd_Inlined S \<and> sd_Frame T = sd_Frame S
     \<and> sd_VTableShape T = sd_VTableShape S \<and> sd_Friend T = sd_Friend S)"

definition same_reader :: "reader \<Rightarrow> reader \<Rightarrow> bool" where
  "same_reader r s = (same_rows (Result r) (Result s) \<and> SymCompilandMap s = SymCompilandMap r)"

abbreviation same_run :: "('a \<Rightarrow> 'b \<Rightarrow> bool) \<Rightarrow> 'a run \<Rightarrow> 'b run \<Rightarrow> bool" where
  "same_run R \<equiv> rel_option (rel_sum (=) R)"

lemma same_run_simps [simp]: "same_run R (returns x) (returns y) = R x y"
  by (simp add: returns_def)

lemma same_run_bind:
  assumes "same_run R a b" and "\<And>x y. R x y \<Longrightarrow> same_run Q (f x) (g y)"
  shows "same_run Q (run_bind a f) (run_bind b g)"
  using assms
  by (cases a; cases b) (auto simp: run_bind_def elim!: rel_sum.cases)

lemma same_run_fold:
  assumes "\<And>x s t. x \<in> set xs \<Longrightarrow> R s t \<Longrightarrow> same_run R (f x s) (g x t)" and "R s t"
  shows "same_run R (run_fold f xs s) (run_fold g xs t)"
  using assms
proof (induction xs arbitrary: s t)
  case (Cons x xs)
  then have first: "same_run R (f x s) (g x t)" by simp
  show ?case unfolding run_fold.simps by (rule same_run_bind [OF first], rule Cons.IH) (use Cons.prems in auto)
qed simp

fun event_complete :: "event \<Rightarrow> bool" where
  "event_complete (Item kd d) = (complete d \<and> list_all complete (definition_line d))"
| "event_complete _ = True"

lemmas rows_initialised_rules =
  Symbol_ctor_initialised BaseClass_ctor_initialised Array_ctor_initialised Typedef_ctor_initialised
  Pointer_ctor_initialised PublicSymbol_ctor_initialised Export_ctor_initialised Compiland_ctor_initialised
  BuiltinType_ctor_initialised FunctionType_ctor_initialised Thunk_ctor_initialised
  SectionContrib_ctor_initialised Segment_ctor_initialised SrcRange_ctor_initialised Frame_ctor_initialised
  SourceFile_ctor_initialised CompilandEnv_ctor_initialised Block_ctor_initialised HeapAllocation_ctor_initialised
  Inlined_ctor_initialised FunctionArg_ctor_initialised InputAssembly_ctor_initialised Label_ctor_initialised
  Callsite_ctor_initialised Friend_ctor_initialised

lemma AppendDetails_initialised: "Compiland_AppendDetails env \<sigma> c d = Compiland_AppendDetails env \<tau> c d"
  by (rule Sym_Compiland.equality) (simp_all add: Compiland_AppendDetails_def Let_def)

lemma Data_ctor_faults: "Data_ctor env \<sigma> d i = Inl e \<longleftrightarrow> Data_ctor env \<tau> d i = Inl e"
  by (cases "VariantChangeType_I8 env (variant_of d ''get_value'')")
    (auto simp: Data_ctor_def Let_def result_bind_def split: sum.split)

lemma InjectedSource_ctor_faults: "InjectedSource_ctor env \<sigma> d = Inl e \<longleftrightarrow> InjectedSource_ctor env \<tau> d = Inl e"
  by (auto simp: InjectedSource_ctor_def Let_def)

lemma same_rows_update:
  "same_rows S T \<Longrightarrow> same_rows (sd_Exe_update f1 S) (sd_Exe_update g1 T)"
  "same_rows S T \<Longrightarrow> same_rows (sd_Thunk_update f2 S) (sd_Thunk_update f2 T)"
  "same_rows S T \<Longrightarrow> same_rows (sd_Compiland_update f3 S) (sd_Compiland_update f3 T)"
  "same_rows S T \<Longrightarrow> same_rows (sd_BuiltinType_update f4 S) (sd_BuiltinType_update f4 T)"
  "same_rows S T \<Longrightarrow> same_rows (sd_Function_update f5 S) (sd_Function_update g5 T)"
  "same_rows S T \<Longrightarrow> same_rows (sd_Symbol_update f6 S) (sd_Symbol_update f6 T)"
  "same_rows S T \<Longrightarrow> same_rows (sd_UserType_update f7 S) (sd_UserType_update g7 T)"
  "same_rows S T \<Longrightarrow> same_rows (sd_AddrSection_update f8 S) (sd_AddrSection_update f8 T)"
  "same_rows S T \<Longrightarrow> same_rows (sd_Enum_update f9 S) (sd_Enum_update g9 T)"
  "same_rows S T \<Longrightarrow> same_rows (sd_FunctionArg_update f10 S) (sd_FunctionArg_update f10 T)"
  "same_rows S T \<Longrightarrow> same_rows (sd_FunctionType_update f11 S) (sd_FunctionType_update f11 T)"
  "same_rows S T \<Longrightarrow> same_rows (sd_Data_update f12 S) (sd_Data_update g12 T)"
  "same_rows S T \<Longrightarrow> same_rows (sd_Pointer_update f13 S) (sd_Pointer_update f13 T)"
  "same_rows S T \<Longrightarrow> same_rows (sd_BaseClass_update f14 S) (sd_BaseClass_update f14 T)"
  "same_rows S T \<Longrightarrow> same_rows (sd_Callsite_update f15 S) (sd_Callsite_update f15 T)"
  "same_rows S T \<Longrightarrow> same_rows (sd_Typedef_update f16 S) (sd_Typedef_update f16 T)"
  "same_rows S T \<Longrightarrow> same_rows (sd_SrcRange_update f17 S) (sd_SrcRange_update f17 T)"
  "same_rows S T \<Longrightarrow> same_rows (sd_Array_update f18 S) (sd_Array_update f18 T)"
  "same_rows S T \<Longrightarrow> same_rows (sd_InjectedSource_update f19 S) (sd_InjectedSource_update g19 T)"
  "same_rows S T \<Longrightarrow> same_rows (sd_CompilandEnv_update f20 S) (sd_CompilandEnv_update f20 T)"
  "same_rows S T \<Longrightarrow> same_rows (sd_SourceFile_update f21 S) (sd_SourceFile_update f21 T)"
  "same_rows S T \<Longrightarrow> same_rows (sd_Label_update f22 S) (sd_Label_update f22 T)"
  "same_rows S T \<Longrightarrow> same_rows (sd_PublicSymbol_update f23 S) (sd_PublicSymbol_update f23 T)"
  "same_rows S T \<Longrightarrow> same_rows (sd_Included_update f24 S) (sd_Included_update f24 T)"
  "same_rows S T \<Longrightarrow> same_rows (sd_Export_update f25 S) (sd_Export_update f25 T)"
  "same_rows S T \<Longrightarrow> same_rows (sd_InputAssembly_update f26 S) (sd_InputAssembly_update f26 T)"
  "same_rows S T \<Longrightarrow> same_rows (sd_Segment_update f27 S) (sd_Segment_update f27 T)"
  "same_rows S T \<Longrightarrow> same_rows (sd_SectionContrib_update f28 S) (sd_SectionContrib_update f28 T)"
  "same_rows S T \<Longrightarrow> same_rows (sd_HeapAllocation_update f29 S) (sd_HeapAllocation_update f29 T)"
  "same_rows S T \<Longrightarrow> same_rows (sd_Block_update f30 S) (sd_Block_update f30 T)"
  "same_rows S T \<Longrightarrow> same_rows (sd_Inlined_update f31 S) (sd_Inlined_update f31 T)"
  "same_rows S T \<Longrightarrow> same_rows (sd_Frame_update f32 S) (sd_Frame_update f32 T)"
  "same_rows S T \<Longrightarrow> same_rows (sd_VTablePtr_update f33 S) (sd_VTablePtr_update g33 T)"
  "same_rows S T \<Longrightarrow> same_rows (sd_VTableShape_update f34 S) (sd_VTableShape_update f34 T)"
  "same_rows S T \<Longrightarrow> same_rows (sd_Friend_update f35 S) (sd_Friend_update f35 T)"
  by (simp_all add: same_rows_def)

lemma same_reader_on_result:
  "same_reader r s \<Longrightarrow> same_rows (f (Result r)) (g (Result s)) \<Longrightarrow> same_reader (on_result f r) (on_result g s)"
  by (simp add: same_reader_def)

text \<open>The switch: each branch builds one row or changes one.\<close>

lemma same_with_UDT:
  assumes "same_reader r s" and "list_all complete (definition_line d)"
  shows "same_reader (with_UDT env J d x r) (with_UDT env J' d y s)"
proof -
  have n: "sd_SrcRange (Result s) = sd_SrcRange (Result r)" using assms(1) by (simp add: same_reader_def same_rows_def)
  have line: "SrcRange_ctor env \<sigma> k l = SrcRange_ctor env \<tau> k l" if "related d ''getSrcLineOnTypeDefn'' = (h, Some l)"
    "SUCCEEDED h" for h l \<sigma> \<tau> k
    using assms(2) that by (intro SrcRange_ctor_initialised) (simp add: definition_line_def)
  show ?thesis
  proof (cases "definition_line d")
    case Nil
    then have "with_UDT env J d x r = on_result (sd_UserType_update (emplace_back x)) r" for J x r
      by (auto simp: with_UDT_def definition_line_def Let_def on_result_def split: prod.splits option.splits if_split_asm)
    with assms(1) show ?thesis by (simp add: same_reader_on_result same_rows_update same_reader_def)
  next
    case (Cons l ls)
    then obtain h where l: "related d ''getSrcLineOnTypeDefn'' = (h, Some l)" "SUCCEEDED h"
      by (auto simp: definition_line_def split: prod.splits option.splits if_split_asm)
    then have "SrcRange_ctor env (J k) x l = SrcRange_ctor env (J' k) x l" for k x by (rule line)
    with l assms(1) n show ?thesis
      by (simp add: with_UDT_def Let_def same_reader_on_result same_rows_update same_reader_def)
  qed
qed

lemma same_UDT:
  assumes "same_reader r s" and "list_all complete (definition_line d)"
  shows "same_run same_reader (ReadUDTSymbol env J \<sigma> d i r) (ReadUDTSymbol env J' \<tau> d i s)"
proof -
  have "UserType_ctor env \<sigma> d i = Inl e \<longleftrightarrow> UserType_ctor env \<tau> d i = Inl e" for e
    by (simp only: UserType_ctor_faults)
  then have same: "UserType_ctor env \<sigma> d i = Inl e \<longleftrightarrow> UserType_ctor env \<tau> d i = Inl e" for e .
  note row = same_with_UDT [OF assms, of env J _ J' _]
  show ?thesis
  proof (cases "UserType_ctor env \<sigma> d i")
    case (Inl e)
    with same have "UserType_ctor env \<tau> d i = Inl e" by blast
    with Inl show ?thesis by (simp add: ReadUDTSymbol_eq)
  next
    case (Inr x)
    with same obtain y where "UserType_ctor env \<tau> d i = Inr y" by (cases "UserType_ctor env \<tau> d i") auto
    with Inr row show ?thesis by (simp add: ReadUDTSymbol_eq Some_Inr)
  qed
qed

lemma same_details:
  assumes "same_reader r s"
  shows "same_run same_reader (ReadCompilandDetailsSymbol env \<sigma> d r) (ReadCompilandDetailsSymbol env \<tau> d s)"
proof -
  have "sd_Compiland (Result s) = sd_Compiland (Result r)" "SymCompilandMap s = SymCompilandMap r"
    using assms by (simp_all add: same_reader_def same_rows_def)
  with assms show ?thesis
    by (simp add: ReadCompilandDetailsSymbol_def Let_def AppendDetails_initialised [of env \<sigma> _ d \<tau>]
        same_reader_def same_rows_update)
qed

lemma same_fault:
  assumes "same_reader r s" and "\<And>e. a = Inl e \<longleftrightarrow> b = Inl e"
    and "\<And>x y. same_rows (f x (Result r)) (f y (Result s))"
  shows "same_run same_reader (run_bind (Some a) (\<lambda>x. returns (on_result (f x) r)))
    (run_bind (Some b) (\<lambda>x. returns (on_result (f x) s)))"
proof (cases a)
  case (Inl e)
  with assms(2) have "b = Inl e" by blast
  with Inl show ?thesis by simp
next
  case (Inr x)
  with assms(2) obtain y where "b = Inr y" by (cases b) auto
  with Inr assms(1,3) show ?thesis by (simp add: Some_Inr same_reader_on_result)
qed

lemma same_switch:
  assumes "same_reader r s" and "complete d" and "list_all complete (definition_line d)"
  shows "same_run same_reader (ReadSymbol_switch env J \<sigma> tag d i r) (ReadSymbol_switch env J' \<tau> tag d i s)"
proof -
  note canon = rows_initialised_rules [OF assms(2), where env = env and \<sigma> = \<sigma> and \<sigma>' = \<tau>]
  have rows: "same_rows (Result r) (Result s)" using assms(1) by (simp add: same_reader_def)
  have compilands: "sd_Compiland (Result s) = sd_Compiland (Result r)" "SymCompilandMap s = SymCompilandMap r"
    using assms(1) by (simp_all add: same_reader_def same_rows_def)
  have compiland: "same_reader (ReadCompilandSymbol env \<sigma> d i r) (ReadCompilandSymbol env \<tau> d i s)"
    using rows compilands by (simp add: ReadCompilandSymbol_def Let_def canon same_reader_def same_rows_update)
  have data: "same_run same_reader
     (run_bind (Some (Data_ctor env \<sigma> d i)) (\<lambda>x. returns (on_result (sd_Data_update (emplace_back x)) r)))
     (run_bind (Some (Data_ctor env \<tau> d i)) (\<lambda>x. returns (on_result (sd_Data_update (emplace_back x)) s)))"
    by (rule same_fault [where f = "\<lambda>x. sd_Data_update (emplace_back x)", OF assms(1) Data_ctor_faults])
      (rule same_rows_update [OF rows])
  note row = same_reader_on_result [OF assms(1)]
  have funtype: "same_run same_reader
     (run_bind (Some (FunctionType_ctor env \<tau> d i)) (\<lambda>x. returns (on_result (sd_FunctionType_update (emplace_back x)) r)))
     (run_bind (Some (FunctionType_ctor env \<tau> d i)) (\<lambda>x. returns (on_result (sd_FunctionType_update (emplace_back x)) s)))"
    by (cases "FunctionType_ctor env \<tau> d i") (simp_all add: Some_Inr row same_rows_update rows)
  show ?thesis
    unfolding ReadSymbol_switch_def canon
    by (simp add: compiland data funtype same_details [OF assms(1)] same_UDT [OF assms(1,3)] row same_rows_update rows assms(1))
qed


lemma same_symbol:
  assumes "same_reader r s" and "complete d" and "list_all complete (definition_line d)"
  shows "same_run same_reader (ReadSymbol env J d r) (ReadSymbol env J' d s)"
proof -
  have n: "sd_Symbol (Result s) = sd_Symbol (Result r)" using assms(1) by (simp add: same_reader_def same_rows_def)
  have "same_reader (with_symbol env J d r) (with_symbol env J' d s)"
    using assms(1)
    by (simp add: with_symbol_def n Symbol_ctor_initialised [OF assms(2), where \<sigma> = "J k" and \<sigma>' = "J' k" for k]
        same_reader_on_result same_rows_update same_reader_def)
  from same_switch [OF this assms(2,3)] show ?thesis unfolding ReadSymbol_eq n .
qed

lemma same_source:
  assumes "same_reader r s" and "complete d"
  shows "same_run same_reader (ReadSource env J d r) (ReadSource env J' d s)"
proof -
  have rows: "same_rows (Result r) (Result s)" using assms(1) by (simp add: same_reader_def)
  then have n: "sd_SourceFile (Result s) = sd_SourceFile (Result r)" "sd_Included (Result s) = sd_Included (Result r)"
    by (simp_all add: same_rows_def)
  show ?thesis
    using assms(1) rows
    by (auto simp: ReadSource_def Let_def n SourceFile_ctor_initialised [OF assms(2), where \<sigma> = "J k" and \<sigma>' = "J' k" for k]
        same_reader_def same_rows_update split: prod.split option.split)
qed

lemma same_line:
  assumes "same_reader r s" and "complete d"
  shows "same_run same_reader (ReadLines env J d r) (ReadLines env J' d s)"
proof -
  have rows: "same_rows (Result r) (Result s)" using assms(1) by (simp add: same_reader_def)
  then have n: "sd_SrcRange (Result s) = sd_SrcRange (Result r)" by (simp add: same_rows_def)
  show ?thesis
    using assms(1) rows
    by (simp add: ReadLines_def Let_def n SrcRange_ctor_initialised [OF assms(2), where \<sigma> = "J k" and \<sigma>' = "J' k" for k]
        same_reader_def same_rows_update)
qed

lemma same_deliver:
  assumes "same_reader r s" and "event_complete ev"
  shows "same_run same_reader (deliver env J ev r) (deliver env J' ev s)"
proof (cases ev)
  case (Section i h)
  with assms(1) show ?thesis by (simp add: same_reader_def same_rows_update)
next
  case (Item kd d)
  with assms(2) have d: "complete d" "list_all complete (definition_line d)" by simp_all
  note canon = rows_initialised_rules [OF d(1), where env = env and \<sigma> = "J k" and \<sigma>' = "J' k" for k]
  have rows: "same_rows (Result r) (Result s)" using assms(1) by (simp add: same_reader_def)
  then have n: "sd_SectionContrib (Result s) = sd_SectionContrib (Result r)" "sd_Segment (Result s) = sd_Segment (Result r)"
    "sd_InputAssembly (Result s) = sd_InputAssembly (Result r)" "sd_Frame (Result s) = sd_Frame (Result r)"
    by (simp_all add: same_rows_def)
  note row = same_reader_on_result [OF assms(1)]
  have "same_run same_reader (sink_element (sink_of env J kd) d r) (sink_element (sink_of env J' kd) d s)"
  proof (cases kd)
    case KInjected
    show ?thesis
      unfolding KInjected sink_of.simps ReadInjectedSource_def emplace_sink_def sink.simps
      by (rule same_fault [where f = "\<lambda>x. sd_InjectedSource_update (emplace_helper_element (\<lambda>_. x) d)",
            OF assms(1) InjectedSource_ctor_faults]) (rule same_rows_update [OF rows])
  next
    case KSource
    then show ?thesis using same_source [OF assms(1) d(1)] by (simp add: ReadSourceHelper_def helper_sink_def)
  next
    case KSymbol
    then show ?thesis using same_symbol [OF assms(1) d] by simp
  next
    case KLine
    then show ?thesis using same_line [OF assms(1) d(1)] by (simp add: ReadLineHelper_def helper_sink_def)
  qed (simp_all add: ReadSectionContrib_def ReadSegment_def ReadInputAssembly_def ReadFrame_def emplace_sink_def
      Some_Inr n canon row same_rows_update rows)
  with Item show ?thesis by simp
qed simp

lemma same_rows_refl: "same_rows S S"
  by (simp add: same_rows_def)

section \<open>The property\<close>

text \<open>C8. Uninitialised memory does not decide what is read: on a session whose methods all answer,
  two reads that differ only in what the memory held stop at the same fault, do not end
  together, or both return, with the same rows in all but seven tables.\<close>

theorem read_independent_of_memory:
  assumes "session_events nm ses = Some evs" and "list_all event_complete evs"
  shows "rel_option (rel_sum (=) (\<lambda>r s. same_rows (Result r) (Result s)))
    (provider_ReadSymbols nm env J argv ses r) (provider_ReadSymbols nm env J' argv ses r)"
proof -
  have "same_run same_reader (run_fold (deliver (read_env env argv ses) J) evs (first_state r))
      (run_fold (deliver (read_env env argv ses) J') evs (first_state r))"
    using assms(2) same_deliver
    by (intro same_run_fold) (auto simp: list_all_iff same_reader_def same_rows_refl)
  then have "same_run same_reader (provider_ReadSymbols nm env J argv ses r) (provider_ReadSymbols nm env J' argv ses r)"
    unfolding read_is_fold [OF assms(1)] .
  then show ?thesis
    by (rule option.rel_mono_strong) (auto elim!: rel_sum.cases simp: same_reader_def intro: rel_sum.intros)
qed

theorem read_independent_of_memory_witness:
  "\<forall>env J J' argv. \<exists>r s. provider_ReadSymbols sample_names env J argv (sample_session [sample_dia 5 7, sample_dia 11 8])
       (reader_init SymbolData_init) = returns r
     \<and> provider_ReadSymbols sample_names env J' argv (sample_session [sample_dia 5 7, sample_dia 11 8])
       (reader_init SymbolData_init) = returns s
     \<and> sd_Symbol (Result s) = sd_Symbol (Result r)"
proof (intro allI)
  fix env J J' argv
  let ?ds = "[sample_dia 5 7, sample_dia 11 8]"
  have run: "\<exists>r. provider_ReadSymbols sample_names env J argv (sample_session ?ds) (reader_init SymbolData_init) = returns r" for J
    by (rule sample_returns)
  obtain r s where r: "provider_ReadSymbols sample_names env J argv (sample_session ?ds) (reader_init SymbolData_init) = returns r"
    and s: "provider_ReadSymbols sample_names env J' argv (sample_session ?ds) (reader_init SymbolData_init) = returns s"
    using run by metis
  have "session_events sample_names (sample_session ?ds) = Some (map (Item KSymbol) ?ds)" by (rule sample_events)
  moreover have "definition_line (sample_dia i j) = []" for i j by (simp add: definition_line_def sample_dia_def)
  then have "list_all event_complete (map (Item KSymbol) ?ds)" by (simp add: complete_sample)
  ultimately have "sd_Symbol (Result s) = sd_Symbol (Result r)"
    using read_independent_of_memory [of sample_names "sample_session ?ds" _ env J argv "reader_init SymbolData_init" J'] r s
    by (auto simp: same_rows_def returns_def)
  with r s show "\<exists>r s. provider_ReadSymbols sample_names env J argv (sample_session ?ds) (reader_init SymbolData_init) = returns r
     \<and> provider_ReadSymbols sample_names env J' argv (sample_session ?ds) (reader_init SymbolData_init) = returns s
     \<and> sd_Symbol (Result s) = sd_Symbol (Result r)"
    by blast
qed

end
