(* ===== verification/MySQL_Database.thy ===== *)
theory MySQL_Database
  imports MySQL_Server
begin

text \<open>
  What the database holds after the upload. The server is a parameter of the engine; here its
  contents are one too: \<open>rows_of c\<close> is, for the state \<open>c\<close> of the connection, the map from the
  names of the tables to their records. The documented behaviour of the statements that the
  engine sends is stated as named hypotheses (\<open>server_drops\<close>, \<open>server_creates\<close>, \<open>server_loads\<close>,
  \<open>client_finds\<close>), and the commands of a table then leave the records of its file. The last
  part is a server that has this behaviour.
\<close>

section \<open>The length of the commands\<close>

text \<open>A command is sent whole as long as its length fits 32 bits.\<close>

lemma query_text_whole: "length cmd < 2 ^ 32 \<Longrightarrow> query_text cmd = cmd"
  by (simp add: query_text_def unat_of_nat)

primrec ilength :: "'a list \<Rightarrow> int" where
  "ilength [] = 0"
| "ilength (x # xs) = ilength xs + 1"

lemma ilength_eq: "ilength xs = int (length xs)"
  by (induction xs) simp_all

definition small_member :: "member \<Rightarrow> bool" where
  "small_member m = (ilength (m_name m) \<le> 100 \<and> ilength (m_desc m) \<le> 2000)"

definition small_table :: "table \<Rightarrow> bool" where
  "small_table t = (ilength (tbl_name t) \<le> 100 \<and> ilength (tbl_desc t) \<le> 2000
     \<and> ilength (tbl_members t) \<le> 100 \<and> list_all small_member (tbl_members t))"

lemma small_tables: "list_all small_table tables"
  by code_simp

definition small_names :: "string list \<Rightarrow> bool" where
  "small_names ns = (ilength ns \<le> 300 \<and> list_all (\<lambda>n. ilength n \<le> 97) ns)"

lemma small_enumerators: "small_names (enumerators e)"
  by (induction e) code_simp+

lemma length_join_with: "\<forall>x \<in> set xs. length x \<le> k \<Longrightarrow> length (join_with sep xs) \<le> length xs * (k + length sep)"
proof (induction sep xs rule: join_with.induct)
  case (3 sep x y xs)
  then have "length (join_with sep (y # xs)) \<le> length (y # xs) * (k + length sep)" and "length x \<le> k" by simp_all
  then show ?case by simp
qed simp_all

lemma length_doubled: "length (replace s [a] [b, c]) \<le> 2 * length s"
  unfolding replace_char_eq by (induction s) auto

lemma length_column_type: "length (column_type ubt ct) \<le> 31000"
proof (cases ct)
  case (T_enum e)
  have "length (enumerators e) \<le> 300" and "\<forall>q \<in> set (map quoted (enumerators e)). length q \<le> 99"
    using small_enumerators [of e] by (auto simp: small_names_def ilength_eq list_all_iff quoted_def)
  with length_join_with [OF this(2), of "'',''"] T_enum show ?thesis by simp
qed simp_all

lemma small_memberD:
  "small_member m \<Longrightarrow> length (m_name m) \<le> 100" "small_member m \<Longrightarrow> length (m_desc m) \<le> 2000"
  by (simp_all add: small_member_def ilength_eq)

lemma small_tableD:
  assumes "t \<in> set tables"
  shows "length (tbl_name t) \<le> 100" "length (tbl_desc t) \<le> 2000" "length (tbl_members t) \<le> 100"
    "\<forall>m \<in> set (tbl_members t). small_member m"
  using small_tables assms by (auto simp: small_table_def ilength_eq list_all_iff)

lemma length_column_text: "small_member m \<Longrightarrow> length (column_text ubt m) \<le> 36000"
  using small_memberD [of m] length_column_type [of ubt "m_type m"] length_doubled [of "m_desc m" squote squote squote]
  by (auto simp: column_text_def column_name_def comment_text_def split: ctype.split)

lemma few_members: "t \<in> set tables \<Longrightarrow> length (filter Q (tbl_members t)) \<le> 100"
  using small_tableD(3) [of t] by (rule le_trans [OF length_filter_le])

lemma length_create_text:
  assumes "t \<in> set tables"
  shows "length (mysql_create_text t) < 2 ^ 32"
proof -
  let ?cs = "create_columns True (tbl_members t)"
  have "\<forall>c \<in> set ?cs. length c \<le> 36000"
    using small_tableD(4) [OF assms] length_column_text small_memberD(1)
    by (fastforce simp: create_columns_def key_def_def)
  from length_join_with [OF this, of "'',''"]
  have "length (join_with '','' ?cs) \<le> length ?cs * 36001" by simp
  moreover have "length ?cs \<le> 200"
    using small_tableD(3) [OF assms] few_members [OF assms, of has_key] by (simp add: create_columns_def)
  ultimately have "length (join_with '','' ?cs) \<le> 7200200" by linarith
  then show ?thesis
    using small_tableD(1,2) [OF assms] length_doubled [of "tbl_desc t" squote squote squote]
    by (simp add: mysql_create_text_def create_text_def quoted_def)
qed

lemma length_load_text:
  assumes "t \<in> set tables" and "length (tempdir_escaped d) \<le> 2 ^ 31"
  shows "length (mysql_load_text d t) < 2 ^ 32"
proof -
  let ?ms = "tbl_members t"
  have "\<forall>c \<in> set (map load_name ?ms). length c \<le> 105"
    using small_tableD(4) [OF assms(1)] small_memberD(1)
    by (fastforce simp: load_name_def column_name_def split: ctype.split)
  from length_join_with [OF this, of "'',''"] small_tableD(3) [OF assms(1)]
  have load: "length (join_with '','' (map load_name ?ms)) \<le> 10600" by simp
  have "\<forall>c \<in> set (map set_text (flags ?ms)). length c \<le> 300"
    using small_tableD(4) [OF assms(1)] small_memberD(1)
    by (fastforce simp: set_text_def flags_def)
  from length_join_with [OF this, of "'', ''"] few_members [OF assms(1), of "\<lambda>m. m_type m = T_bool"]
  have "length (join_with '', '' (map set_text (flags ?ms))) \<le> 30200" by (simp add: flags_def)
  with load show ?thesis
    using small_tableD(1) [OF assms(1)] assms(2)
    by (simp add: mysql_load_text_def end_clause_def load_columns_def set_clause_def infile_text_def quoted_def)
qed

lemma length_drop_text: "t \<in> set tables \<Longrightarrow> length (drop_text t) < 2 ^ 32"
  using small_tableD(1) [of t] by (simp add: drop_text_def)

lemma table_commands_whole:
  assumes "t \<in> set tables" and "length (tempdir_escaped d) \<le> 2 ^ 31" and "cmd \<in> set (mysql_table_commands d t)"
  shows "query_text cmd = cmd"
  using assms length_drop_text length_create_text length_load_text
  by (auto simp: mysql_table_commands_def intro!: query_text_whole)

section \<open>The contents of the database\<close>

text \<open>
  Which records a table keeps as they are: numbers in the range of their column, flags,
  enumerators, texts of at most 2047 ASCII characters, and no two records with the same key (a
  local load drops the second of them without an error).
\<close>

definition column_keeps :: "member \<Rightarrow> string \<Rightarrow> bool" where
  "column_keeps m s = (column_accepts (m_type m) s
     \<and> (m_type m = T_string \<longrightarrow> list_all (\<lambda>c. of_char c < (128 :: nat)) s))"

definition key_cells :: "member list \<Rightarrow> 'a list \<Rightarrow> 'a list" where
  "key_cells ms r = map snd (filter (\<lambda>(m, s). has_key m) (zip ms r))"

definition keys_distinct :: "member list \<Rightarrow> string list list \<Rightarrow> bool" where
  "keys_distinct ms recs = (list_ex has_key ms \<longrightarrow> distinct (map (key_cells ms) recs))"

definition table_keeps :: "table \<Rightarrow> string list list \<Rightarrow> bool" where
  "table_keeps t recs = (list_all (list_all2 column_keeps (tbl_members t)) recs
     \<and> keys_distinct (tbl_members t) recs)"

text \<open>The documented behaviour of the statements, where the server accepts them.\<close>

type_synonym database = "string \<rightharpoonup> string list list"

definition server_drops :: "'c mysql_api \<Rightarrow> ('c \<Rightarrow> database) \<Rightarrow> bool" where
  "server_drops api rows_of = (\<forall>t \<in> set tables. \<forall>c c'. mysql_real_query api c (drop_text t) = (True, c')
     \<longrightarrow> rows_of c' = (rows_of c)(tbl_name t := None))"

definition server_creates :: "'c mysql_api \<Rightarrow> ('c \<Rightarrow> database) \<Rightarrow> bool" where
  "server_creates api rows_of = (\<forall>t \<in> set tables. \<forall>c c'. mysql_real_query api c (mysql_create_text t) = (True, c')
     \<longrightarrow> rows_of c' = (rows_of c)(tbl_name t \<mapsto> []))"

text \<open>A load changes its table only; an empty table then has the records of the file, if it keeps them.\<close>

definition server_loads :: "'c mysql_api \<Rightarrow> ('c \<Rightarrow> database) \<Rightarrow> (string \<rightharpoonup> string) \<Rightarrow> mysql_data \<Rightarrow> bool" where
  "server_loads api rows_of fetch d = (\<forall>t \<in> set tables. \<forall>c c'. mysql_real_query api c (mysql_load_text d t) = (True, c')
     \<longrightarrow> (\<forall>n. n \<noteq> tbl_name t \<longrightarrow> rows_of c' n = rows_of c n)
       \<and> (\<forall>path file recs. literal_value (infile_text d t) = Some path \<and> fetch path = Some file
            \<and> load_file CHR '','' file = Some recs \<and> table_keeps t recs \<and> rows_of c (tbl_name t) = Some []
            \<longrightarrow> rows_of c' (tbl_name t) = Some recs))"

text \<open>The client finds a file also by a path that doubles one of its separators.\<close>

definition client_finds :: "(string \<rightharpoonup> string) \<Rightarrow> (string \<times> string) list \<Rightarrow> bool" where
  "client_finds fetch fs = (\<forall>dir name file. (dir @ [backslash] @ name, file) \<in> set fs
     \<longrightarrow> fetch (dir @ [backslash, backslash] @ name) = Some file)"

text \<open>What the load command of a table finds.\<close>

definition loads_records :: "(string \<rightharpoonup> string) \<Rightarrow> mysql_data \<Rightarrow> table \<Rightarrow> string list list \<Rightarrow> bool" where
  "loads_records fetch d t recs = (\<exists>path file. literal_value (infile_text d t) = Some path
     \<and> fetch path = Some file \<and> load_file CHR '','' file = Some recs)"

lemma accepts_appendD:
  "accepts api c (xs @ ys) c' \<Longrightarrow> \<exists>m. accepts api c xs m \<and> accepts api m ys c'"
proof (induction xs arbitrary: c)
  case Nil
  then show ?case by (auto intro: accepts_Nil)
next
  case (Cons cmd xs)
  from Cons.prems obtain c1 where "mysql_real_query api c (query_text cmd) = (True, c1)"
    and "accepts api c1 (xs @ ys) c'" by (auto elim: accepts.cases)
  with Cons.IH [of c1] show ?case by (blast intro: accepts_Cons)
qed

inductive_simps accepts_simps: "accepts api c [] c'" "accepts api c (cmd # cmds) c'"

lemma accepts_det: "accepts api c cmds c1 \<Longrightarrow> accepts api c cmds c2 \<Longrightarrow> c1 = c2"
  by (induction cmds arbitrary: c) (auto simp: accepts_simps)

lemma table_commands_effect:
  assumes server: "server_drops api rows_of" "server_creates api rows_of" "server_loads api rows_of fetch d"
    and short: "length (tempdir_escaped d) \<le> 2 ^ 31" and t: "t \<in> set tables"
    and ok: "accepts api c (mysql_table_commands d t) c'"
  shows "(\<forall>n. n \<noteq> tbl_name t \<longrightarrow> rows_of c' n = rows_of c n)
    \<and> (\<forall>recs. loads_records fetch d t recs \<and> table_keeps t recs \<longrightarrow> rows_of c' (tbl_name t) = Some recs)"
proof -
  note whole = table_commands_whole [OF t short]
  have "query_text (drop_text t) = drop_text t" "query_text (mysql_create_text t) = mysql_create_text t"
    "query_text (mysql_load_text d t) = mysql_load_text d t"
    by (rule whole, simp add: mysql_table_commands_def)+
  with ok obtain c1 c2 where q1: "mysql_real_query api c (drop_text t) = (True, c1)"
    and q2: "mysql_real_query api c1 (mysql_create_text t) = (True, c2)"
    and q3: "mysql_real_query api c2 (mysql_load_text d t) = (True, c')"
    by (auto simp: mysql_table_commands_def accepts_simps)
  from server(1) t q1 have "rows_of c1 = (rows_of c)(tbl_name t := None)" unfolding server_drops_def by blast
  moreover from server(2) t q2 have "rows_of c2 = (rows_of c1)(tbl_name t \<mapsto> [])" unfolding server_creates_def by blast
  ultimately have c2: "rows_of c2 = (rows_of c)(tbl_name t \<mapsto> [])" by simp
  from server(3) t q3 have frame: "\<forall>n. n \<noteq> tbl_name t \<longrightarrow> rows_of c' n = rows_of c2 n"
    and load: "\<forall>path file recs. literal_value (infile_text d t) = Some path \<and> fetch path = Some file
            \<and> load_file CHR '','' file = Some recs \<and> table_keeps t recs \<and> rows_of c2 (tbl_name t) = Some []
            \<longrightarrow> rows_of c' (tbl_name t) = Some recs"
    unfolding server_loads_def by blast+
  from c2 have "rows_of c2 (tbl_name t) = Some []" by simp
  with load have "\<forall>recs. loads_records fetch d t recs \<and> table_keeps t recs \<longrightarrow> rows_of c' (tbl_name t) = Some recs"
    unfolding loads_records_def by blast
  with frame c2 show ?thesis by simp
qed

lemma upload_effect:
  assumes server: "server_drops api rows_of" "server_creates api rows_of" "server_loads api rows_of fetch d"
    and short: "length (tempdir_escaped d) \<le> 2 ^ 31"
  shows "set ts \<subseteq> set tables \<Longrightarrow> distinct (map tbl_name ts)
    \<Longrightarrow> accepts api c (concat (map (mysql_table_commands d) ts)) c'
    \<Longrightarrow> (\<forall>n. n \<notin> tbl_name ` set ts \<longrightarrow> rows_of c' n = rows_of c n)
      \<and> (\<forall>t recs. t \<in> set ts \<and> loads_records fetch d t recs \<and> table_keeps t recs
            \<longrightarrow> rows_of c' (tbl_name t) = Some recs)"
proof (induction ts arbitrary: c)
  case Nil
  then show ?case by (simp add: accepts_simps)
next
  case (Cons t ts)
  from Cons.prems(3) obtain c1 where ok: "accepts api c (mysql_table_commands d t) c1"
    and rest: "accepts api c1 (concat (map (mysql_table_commands d) ts)) c'"
    by (auto dest: accepts_appendD)
  from Cons.prems(1) have "t \<in> set tables" by simp
  from table_commands_effect [OF server short this ok]
  have step: "\<forall>n. n \<noteq> tbl_name t \<longrightarrow> rows_of c1 n = rows_of c n"
    "\<forall>recs. loads_records fetch d t recs \<and> table_keeps t recs \<longrightarrow> rows_of c1 (tbl_name t) = Some recs" by blast+
  from Cons.IH [OF _ _ rest] Cons.prems(1,2)
  have later: "\<forall>n. n \<notin> tbl_name ` set ts \<longrightarrow> rows_of c' n = rows_of c1 n"
    "\<forall>t recs. t \<in> set ts \<and> loads_records fetch d t recs \<and> table_keeps t recs \<longrightarrow> rows_of c' (tbl_name t) = Some recs"
    by simp_all
  from Cons.prems(2) have "tbl_name t \<notin> tbl_name ` set ts" by simp
  with later(1) have "rows_of c' (tbl_name t) = rows_of c1 (tbl_name t)" by blast
  with step later show ?case by auto
qed

section \<open>The engine and the database\<close>

definition good_directory :: "string \<Rightarrow> bool" where
  "good_directory dir = (dir \<noteq> [] \<and> last dir = backslash \<and> squote \<notin> set dir \<and> length dir < 2 ^ 30)"

text \<open>Rows that the database can hold: texts of at most 2047 ASCII characters, and distinct keys.\<close>

definition ascii_short :: "cval \<Rightarrow> bool" where
  "ascii_short c = (case c of V_string s \<Rightarrow> length s \<le> 2047 \<and> list_all (\<lambda>c. of_char c < (128 :: nat)) s | _ \<Rightarrow> True)"

definition rows_keep :: "table \<Rightarrow> cval list list \<Rightarrow> bool" where
  "rows_keep t rows = (list_all (list_all ascii_short) rows
     \<and> keys_distinct (tbl_members t) (map (map (cell_value True)) rows))"

lemma ascii_short_cell:
  "ascii_short c \<Longrightarrow> cval_type c = T_string \<Longrightarrow> list_all (\<lambda>c. of_char c < (128 :: nat)) (cell_value True c)"
  by (cases c) (simp_all add: ascii_short_def)

lemma cell_kept: "ascii_short c \<Longrightarrow> cval_type c = m_type m \<Longrightarrow> column_keeps m (cell_value True c)"
  using cell_accepted [of c] ascii_short_cell [of c]
  by (auto simp: column_keeps_def ascii_short_def short_text_def split: cval.splits)

lemma rows_kept:
  assumes t: "(t, rows) \<in> set (reflect S)" and keep: "rows_keep t rows"
  shows "table_keeps t (map (map (cell_value True)) rows)"
proof -
  have "list_all2 column_keeps (tbl_members t) (map (cell_value True) r)" if "r \<in> set rows" for r
  proof -
    from keep that have "list_all ascii_short r" by (auto simp: rows_keep_def list_all_iff)
    moreover from fits_cell_types [OF reflect_fitsD [OF t that]]
    have "list_all2 (\<lambda>m c. cval_type c = m_type m) (tbl_members t) r" .
    ultimately show ?thesis
      by (auto simp: list_all2_conv_all_nth list_all_length intro!: cell_kept)
  qed
  with keep show ?thesis by (auto simp: table_keeps_def rows_keep_def list_all_iff)
qed

lemma OutputData_init_tempdir:
  assumes "OutputData_init sys argv S w = returns (d, w')"
  shows "tempdir d = temp_directory sys argv"
  using OutputData_init_procedures [OF assms] by blast

lemma upload_keeps_rows:
  assumes init: "OutputData_init sys argv S w = returns (d, w')" and dir: "good_directory (tempdir d)"
    and disk: "client_finds fetch fs" "set (mysql_files d S) \<subseteq> set fs"
    and server: "server_drops api rows_of" "server_creates api rows_of" "server_loads api rows_of fetch d"
    and ok: "accepts api c (UploadCommands d) c'" and t: "(t, rows) \<in> set (reflect S)" "rows_keep t rows"
  shows "rows_of c' (tbl_name t) = Some (map (map (cell_value True)) rows)"
proof -
  note esc = OutputData_init_returns [OF init, THEN conjunct2, THEN conjunct2, THEN conjunct1]
  from dir obtain pre where pre: "tempdir d = pre @ [backslash]" "squote \<notin> set (tempdir d)" "length (tempdir d) < 2 ^ 30"
    unfolding good_directory_def by (metis append_butlast_last_id)
  have "length (tempdir_escaped d) \<le> 2 ^ 31"
    using pre(3) length_doubled [of "tempdir d" backslash backslash backslash] by (simp add: esc)
  note effect = upload_effect [OF server this subset_refl distinct_table_names]
  from OutputData_init_returns [OF init] obtain cs
    where "UploadCommands d = cs @ concat (map (mysql_table_commands d) tables)" by blast
  with ok obtain c1 where "accepts api c1 (concat (map (mysql_table_commands d) tables)) c'"
    by (auto dest: accepts_appendD)
  from effect [OF this] have held: "\<forall>t recs. t \<in> set tables \<and> loads_records fetch d t recs \<and> table_keeps t recs
      \<longrightarrow> rows_of c' (tbl_name t) = Some recs" by blast
  have in_tables: "t \<in> set tables" by (rule reflect_in_tables [OF t(1)])
  have "(mysql_path d t, csv_rows True CHR '','' rows) \<in> set fs"
    using disk(2) t(1) by (force simp: mysql_files_def)
  then have "(pre @ [backslash] @ tbl_name t @ ''_values.txt'', csv_rows True CHR '','' rows) \<in> set fs"
    by (simp add: mysql_path_def pre(1))
  with disk(1) have "fetch (pre @ [backslash, backslash] @ tbl_name t @ ''_values.txt'') = Some (csv_rows True CHR '','' rows)"
    unfolding client_finds_def by blast
  moreover from infile_value [OF pre(2) esc in_tables]
  have "literal_value (infile_text d t) = Some (pre @ [backslash, backslash] @ tbl_name t @ ''_values.txt'')"
    by (simp add: pre(1))
  moreover have "load_file CHR '','' (csv_rows True CHR '','' rows) = Some (map (map (cell_value True)) rows)"
    by (rule load_rows [OF sep_ok_comma reflect_rows_nonempty [OF t(1)]])
  ultimately have "loads_records fetch d t (map (map (cell_value True)) rows)" unfolding loads_records_def by blast
  with held in_tables rows_kept [OF t] show ?thesis by blast
qed

text \<open>Only the directory matters to a load command.\<close>

definition escaped_directory :: "string \<Rightarrow> string" where
  "escaped_directory dir = replace dir [backslash] [backslash, backslash] @ [backslash, backslash]"

definition server_loads_from :: "'c mysql_api \<Rightarrow> ('c \<Rightarrow> database) \<Rightarrow> (string \<rightharpoonup> string) \<Rightarrow> string \<Rightarrow> bool" where
  "server_loads_from api rows_of fetch dir =
     (\<forall>d. tempdir_escaped d = escaped_directory dir \<longrightarrow> server_loads api rows_of fetch d)"

lemma server_loads_fromD:
  assumes "OutputData_init sys argv S w = returns (d, w')"
    and "server_loads_from api rows_of fetch (temp_directory sys argv)"
  shows "server_loads api rows_of fetch d"
  using OutputData_init_returns [OF assms(1)] OutputData_init_tempdir [OF assms(1)] assms(2)
  by (simp add: server_loads_from_def escaped_directory_def)

section \<open>A server with this behaviour\<close>

text \<open>
  The contents as a function of the statements that a connection has accepted, and a client
  that takes every run of separators for one.
\<close>

definition statement :: "(string \<rightharpoonup> string) \<Rightarrow> mysql_data \<Rightarrow> string \<Rightarrow> database \<Rightarrow> database" where
  "statement fetch d q c =
     (case find (\<lambda>t. q = drop_text t) tables of
        Some t \<Rightarrow> c(tbl_name t := None)
      | None \<Rightarrow>
     (case find (\<lambda>t. q = mysql_create_text t) tables of
        Some t \<Rightarrow> c(tbl_name t \<mapsto> [])
      | None \<Rightarrow>
     (case find (\<lambda>t. q = mysql_load_text d t) tables of
        Some t \<Rightarrow>
          (case Option.bind (Option.bind (literal_value (infile_text d t)) fetch) (load_file CHR '','') of
             None \<Rightarrow> c
           | Some recs \<Rightarrow> c(tbl_name t := map_option (\<lambda>old. old @ recs) (c (tbl_name t))))
      | None \<Rightarrow> c)))"

definition after_log :: "(string \<rightharpoonup> string) \<Rightarrow> mysql_data \<Rightarrow> string list \<Rightarrow> database" where
  "after_log fetch d qs = fold (statement fetch d) qs Map.empty"

definition yes_api :: "(string list) mysql_api" where
  "yes_api = log_api\<lparr> mysql_real_query := (\<lambda>c q. (True, c @ [q])) \<rparr>"

fun collapse :: "string \<Rightarrow> string" where
  "collapse (c # e # cs) = (if c = backslash \<and> e = backslash then collapse (e # cs) else c # collapse (e # cs))"
| "collapse cs = cs"

definition collapsed_file :: "(string \<times> string) list \<Rightarrow> string \<rightharpoonup> string" where
  "collapsed_file fs path = map_of (map (\<lambda>(q, file). (collapse q, file)) fs) (collapse path)"

lemma collapse_double: "collapse (dir @ backslash # backslash # name) = collapse (dir @ backslash # name)"
proof (induction dir)
  case Nil
  then show ?case by simp
next
  case (Cons c dir)
  then show ?case by (cases dir) auto
qed

lemma client_collapsed: "distinct (map (\<lambda>(q, file). collapse q) fs) \<Longrightarrow> client_finds (collapsed_file fs) fs"
proof -
  assume "distinct (map (\<lambda>(q, file). collapse q) fs)"
  then have dist: "distinct (map fst (map (\<lambda>(q, file). (collapse q, file)) fs))"
    by (simp add: comp_def case_prod_unfold)
  have "collapsed_file fs (dir @ [backslash, backslash] @ name) = Some x"
    if "(dir @ [backslash] @ name, x) \<in> set fs" for dir name x
    using that dist by (force simp: collapsed_file_def collapse_double intro!: map_of_is_SomeI)
  then show ?thesis unfolding client_finds_def by blast
qed

lemma name_chars: "list_all (\<lambda>t. CHR ''('' \<notin> set (tbl_name t) \<and> squote \<notin> set (tbl_name t)) tables"
  by (simp add: tables_def table_defs)

lemma takeWhile_eq: "c \<notin> set xs \<Longrightarrow> takeWhile (\<lambda>x. x \<noteq> c) (xs @ c # ys) = xs"
  by (induction xs) auto

lemma prefix_name: "c \<notin> set xs \<Longrightarrow> c \<notin> set ys \<Longrightarrow> xs @ c # us = ys @ c # vs \<Longrightarrow> xs = ys"
  by (metis takeWhile_eq)

lemma text_names:
  assumes "t \<in> set tables" and "u \<in> set tables"
  shows "drop_text t = drop_text u \<Longrightarrow> tbl_name t = tbl_name u"
    "mysql_create_text t = mysql_create_text u \<Longrightarrow> tbl_name t = tbl_name u"
    "mysql_load_text d t = mysql_load_text d u \<Longrightarrow> tbl_name t = tbl_name u"
proof -
  note chars = name_chars [unfolded list_all_iff, rule_format]
  show "tbl_name t = tbl_name u" if "drop_text t = drop_text u"
    using that by (simp add: drop_text_def)
  show "tbl_name t = tbl_name u" if "mysql_create_text t = mysql_create_text u"
  proof (rule prefix_name)
    show "CHR ''('' \<notin> set (tbl_name t)" "CHR ''('' \<notin> set (tbl_name u)" using chars assms by blast+
    from that show "tbl_name t @ CHR ''('' # (join_with '','' (create_columns True (tbl_members t)) @ '') Engine=MyISAM COMMENT=''
       @ quoted (replace (tbl_desc t) [squote] [squote, squote]) @ '';'')
      = tbl_name u @ CHR ''('' # (join_with '','' (create_columns True (tbl_members u)) @ '') Engine=MyISAM COMMENT=''
       @ quoted (replace (tbl_desc u) [squote] [squote, squote]) @ '';'')"
      by (simp add: mysql_create_text_def create_text_def)
  qed
  show "tbl_name t = tbl_name u" if "mysql_load_text d t = mysql_load_text d u"
  proof -
    define rest where "rest v = '' into table '' @ tbl_name v @ '' fields terminated by '' @ quoted '',''
     @ '' optionally enclosed by '' @ quoted [dquote]
     @ '' lines terminated by '' @ quoted [backslash, CHR ''n''] @ end_clause v @ '';''" for v
    have body: "mysql_load_text d v = ''load data local infile '' @ [squote] @ tempdir_escaped d
        @ (tbl_name v @ ''_values.txt'') @ squote # rest v" for v
      by (simp add: mysql_load_text_def rest_def quoted_def infile_text_def)
    have "tbl_name t @ ''_values.txt'' = tbl_name u @ ''_values.txt''"
    proof (rule prefix_name)
      show "squote \<notin> set (tbl_name t @ ''_values.txt'')" "squote \<notin> set (tbl_name u @ ''_values.txt'')"
        using chars assms by auto
      from that show "(tbl_name t @ ''_values.txt'') @ squote # rest t = (tbl_name u @ ''_values.txt'') @ squote # rest u"
        unfolding body by simp
    qed
    then show ?thesis by simp
  qed
qed

lemma texts_differ:
  "drop_text t \<noteq> mysql_create_text u" "drop_text t \<noteq> mysql_load_text d u" "mysql_create_text t \<noteq> mysql_load_text d u"
  by (simp_all add: drop_text_def mysql_create_text_def create_text_def mysql_load_text_def)

lemma find_text:
  assumes "t \<in> set tables" and "\<And>u. u \<in> set tables \<Longrightarrow> text t = text u \<Longrightarrow> tbl_name t = tbl_name u"
  shows "\<exists>u. find (\<lambda>u. text t = text u) tables = Some u \<and> u \<in> set tables \<and> tbl_name u = tbl_name t \<and> text u = text t"
proof (cases "find (\<lambda>u. text t = text u) tables")
  case None
  with assms(1) show ?thesis by (auto simp: find_None_iff)
next
  case (Some u)
  then have "u \<in> set tables" "text t = text u" by (auto simp: find_Some_iff)
  with Some assms(2) show ?thesis by fastforce
qed

lemma find_other: "(\<And>u. q \<noteq> text u) \<Longrightarrow> find (\<lambda>u. q = text u) us = None"
  by (simp add: find_None_iff)

lemma statement_drop:
  assumes "t \<in> set tables"
  shows "statement fetch d (drop_text t) c = c(tbl_name t := None)"
proof -
  from find_text [OF assms, of drop_text] text_names(1) [OF assms] obtain u
    where u: "find (\<lambda>u. drop_text t = drop_text u) tables = Some u" "tbl_name u = tbl_name t" by blast
  show ?thesis unfolding statement_def u(1) option.case u(2) ..
qed

lemma statement_create:
  assumes "t \<in> set tables"
  shows "statement fetch d (mysql_create_text t) c = c(tbl_name t \<mapsto> [])"
proof -
  from find_text [OF assms, of mysql_create_text] text_names(2) [OF assms] obtain u
    where u: "find (\<lambda>u. mysql_create_text t = mysql_create_text u) tables = Some u" "tbl_name u = tbl_name t" by blast
  show ?thesis unfolding statement_def find_other [OF texts_differ(1) [symmetric]] u(1) option.case u(2) ..
qed

lemma infile_of_load:
  assumes "mysql_load_text d t = mysql_load_text d u" and "t \<in> set tables" and "u \<in> set tables"
  shows "infile_text d t = infile_text d u"
  using text_names(3) [OF assms(2,3,1)] by (simp add: infile_text_def)

lemma statement_load:
  assumes "t \<in> set tables"
  shows "statement fetch d (mysql_load_text d t) c =
     (case Option.bind (Option.bind (literal_value (infile_text d t)) fetch) (load_file CHR '','') of
        None \<Rightarrow> c
      | Some recs \<Rightarrow> c(tbl_name t := map_option (\<lambda>old. old @ recs) (c (tbl_name t))))"
proof -
  from find_text [OF assms, of "mysql_load_text d"] text_names(3) [OF assms] obtain u
    where u: "find (\<lambda>u. mysql_load_text d t = mysql_load_text d u) tables = Some u" "u \<in> set tables"
      "tbl_name u = tbl_name t" "mysql_load_text d u = mysql_load_text d t" by blast
  from infile_of_load [OF u(4,2) assms] have "infile_text d u = infile_text d t" .
  then show ?thesis
    unfolding statement_def find_other [OF texts_differ(2) [symmetric]] find_other [OF texts_differ(3) [symmetric]]
      u(1) option.case u(3) by simp
qed

lemma after_log_step: "after_log fetch d (qs @ [q]) = statement fetch d q (after_log fetch d qs)"
  by (simp add: after_log_def)

lemma yes_query: "mysql_real_query yes_api c q = (True, c') \<longleftrightarrow> c' = c @ [q]"
  by (auto simp: yes_api_def)

lemma yes_drops: "server_drops yes_api (after_log fetch d)"
  by (simp add: server_drops_def yes_query after_log_step statement_drop)

lemma yes_creates: "server_creates yes_api (after_log fetch d)"
  by (simp add: server_creates_def yes_query after_log_step statement_create)

lemma load_text_cong: "tempdir_escaped d = tempdir_escaped d' \<Longrightarrow> infile_text d t = infile_text d' t"
    "tempdir_escaped d = tempdir_escaped d' \<Longrightarrow> mysql_load_text d t = mysql_load_text d' t"
  by (simp_all add: mysql_load_text_def infile_text_def)

lemma yes_loads:
  assumes "tempdir_escaped d = escaped_directory dir"
  shows "server_loads_from yes_api (after_log fetch d) fetch dir"
  unfolding server_loads_from_def
proof (intro allI impI)
  fix d' :: mysql_data
  assume "tempdir_escaped d' = escaped_directory dir"
  with assms have same: "tempdir_escaped d' = tempdir_escaped d" by simp
  show "server_loads yes_api (after_log fetch d) fetch d'"
    by (auto simp: server_loads_def yes_query after_log_step load_text_cong [OF same] statement_load split: option.split)
qed

end
