(* ===== verification/Written_Keys.thy ===== *)
theory Written_Keys
  imports MySQL_Database DIA_Integrity
begin

text \<open>
  The primary keys that the schema declares and the rows that a read leaves: a local load drops
  the second of two rows with the same key, so the keys decide whether a table arrives whole.
  The theory says for which sessions every key of every table is unique.
\<close>

section \<open>The key column of a table\<close>

lemma inj_dec_unat: "inj (\<lambda>i :: u32. dec (unat i))"
  by (intro injI) (metis undec_dec word_unat_eq_iff)

lemma keys_distinct_column:
  assumes "\<And>x. key_cells ms (map (cell_value True) (row x)) = [dec (unat (key x :: u32))]" and "list_ex has_key ms"
  shows "keys_distinct ms (map (map (cell_value True)) (map row xs)) \<longleftrightarrow> distinct (map key xs)"
proof -
  have "map (key_cells ms) (map (map (cell_value True)) (map row xs)) = map (\<lambda>i. [dec (unat i)]) (map key xs)"
    using assms(1) by simp
  moreover have "inj (\<lambda>i :: u32. [dec (unat i)])" using inj_dec_unat by (simp add: inj_def)
  ultimately show ?thesis
    using assms(2) by (simp only: keys_distinct_def distinct_map [of "\<lambda>i. [dec (unat i)]"] inj_on_subset [OF _ subset_UNIV])
      simp
qed

lemma no_key: "\<not> list_ex has_key ms \<Longrightarrow> keys_distinct ms recs"
  by (simp add: keys_distinct_def)

named_theorems table_keys

lemma key_columns [table_keys]:
  "keys_distinct members_Symbol (map (map (cell_value True)) (map row_Symbol x0)) \<longleftrightarrow> distinct (map Symbol_symbol x0)"
  "keys_distinct members_BuiltinType (map (map (cell_value True)) (map row_BuiltinType x1)) \<longleftrightarrow> distinct (map BuiltinType_symbol x1)"
  "keys_distinct members_Label (map (map (cell_value True)) (map row_Label x2)) \<longleftrightarrow> distinct (map Label_symbol x2)"
  "keys_distinct members_FunctionType (map (map (cell_value True)) (map row_FunctionType x3)) \<longleftrightarrow> distinct (map FunctionType_symbol x3)"
  "keys_distinct members_Function (map (map (cell_value True)) (map row_Function x4)) \<longleftrightarrow> distinct (map Function_symbol x4)"
  "keys_distinct members_PublicSymbol (map (map (cell_value True)) (map row_PublicSymbol x5)) \<longleftrightarrow> distinct (map PublicSymbol_symbol x5)"
  "keys_distinct members_Data (map (map (cell_value True)) (map row_Data x6)) \<longleftrightarrow> distinct (map Data_symbol x6)"
  "keys_distinct members_Compiland (map (map (cell_value True)) (map row_Compiland x7)) \<longleftrightarrow> distinct (map Compiland_symbol x7)"
  "keys_distinct members_UserType (map (map (cell_value True)) (map row_UserType x8)) \<longleftrightarrow> distinct (map UserType_symbol x8)"
  "keys_distinct members_Enum (map (map (cell_value True)) (map row_Enum x9)) \<longleftrightarrow> distinct (map Enum_symbol x9)"
  "keys_distinct members_Pointer (map (map (cell_value True)) (map row_Pointer x10)) \<longleftrightarrow> distinct (map Pointer_symbol x10)"
  "keys_distinct members_Thunk (map (map (cell_value True)) (map row_Thunk x11)) \<longleftrightarrow> distinct (map Thunk_symbol x11)"
  "keys_distinct members_FunctionArg (map (map (cell_value True)) (map row_FunctionArg x12)) \<longleftrightarrow> distinct (map FunctionArg_symbol x12)"
  "keys_distinct members_Block (map (map (cell_value True)) (map row_Block x13)) \<longleftrightarrow> distinct (map Block_symbol x13)"
  "keys_distinct members_HeapAllocation (map (map (cell_value True)) (map row_HeapAllocation x14)) \<longleftrightarrow> distinct (map HeapAllocation_symbol x14)"
  "keys_distinct members_Export (map (map (cell_value True)) (map row_Export x15)) \<longleftrightarrow> distinct (map Export_symbol x15)"
  "keys_distinct members_Exe (map (map (cell_value True)) (map row_Exe x16)) \<longleftrightarrow> distinct (map Exe_symbol x16)"
  "keys_distinct members_Typedef (map (map (cell_value True)) (map row_Typedef x17)) \<longleftrightarrow> distinct (map Typedef_symbol x17)"
  "keys_distinct members_Inlined (map (map (cell_value True)) (map row_Inlined x18)) \<longleftrightarrow> distinct (map Inlined_symbol x18)"
  "keys_distinct members_Array (map (map (cell_value True)) (map row_Array x19)) \<longleftrightarrow> distinct (map Array_symbol x19)"
  "keys_distinct members_Callsite (map (map (cell_value True)) (map row_Callsite x20)) \<longleftrightarrow> distinct (map Callsite_symbol x20)"
  "keys_distinct members_SourceFile (map (map (cell_value True)) (map row_SourceFile x21)) \<longleftrightarrow> distinct (map SourceFile_source_id x21)"
  "keys_distinct members_SrcRange (map (map (cell_value True)) (map row_SrcRange x22)) \<longleftrightarrow> distinct (map SrcRange_id x22)"
  "keys_distinct members_AddrSection (map (map (cell_value True)) (map row_AddrSection x23)) \<longleftrightarrow> distinct (map AddrSection_section_index x23)"
  by (intro keys_distinct_column; simp add: key_cells_def has_key_def is_unique_def members_defs
      row_Symbol_def row_BuiltinType_def row_Label_def row_FunctionType_def row_Function_def
      row_PublicSymbol_def row_Data_def row_Compiland_def row_UserType_def row_Enum_def
      row_Pointer_def row_Thunk_def row_FunctionArg_def row_Block_def row_HeapAllocation_def
      row_Export_def row_Exe_def row_Typedef_def row_Inlined_def row_Array_def
      row_Callsite_def row_SourceFile_def row_SrcRange_def row_AddrSection_def)+

lemma keyless_tables [table_keys]:
  "keys_distinct members_Frame recs"
  "keys_distinct members_VTablePtr recs"
  "keys_distinct members_VTableShape recs"
  "keys_distinct members_Friend recs"
  "keys_distinct members_InjectedSource recs"
  "keys_distinct members_InputAssembly recs"
  "keys_distinct members_CompilandEnv recs"
  "keys_distinct members_Included recs"
  "keys_distinct members_BaseClass recs"
  "keys_distinct members_SectionContrib recs"
  "keys_distinct members_Segment recs"
  by (intro no_key; simp add: members_defs has_key_def is_unique_def)+

text \<open>The tables of symbols with a key, among \<open>symbol_tables\<close>.\<close>

lemma reflect_keys:
  "list_all (\<lambda>(t, rows). keys_distinct (tbl_members t) (map (map (cell_value True)) rows)) (reflect S) \<longleftrightarrow>
     distinct (map Symbol_symbol (sd_Symbol S))
     \<and> list_all (\<lambda>(nm, ids). nm \<in> {''VTable'', ''Friend''} \<or> distinct (ids S)) symbol_tables
     \<and> distinct (map Exe_symbol (sd_Exe S)) \<and> distinct (map SourceFile_source_id (sd_SourceFile S))
     \<and> distinct (map SrcRange_id (sd_SrcRange S)) \<and> distinct (map AddrSection_section_index (sd_AddrSection S))"
proof -
  have "list_all (\<lambda>(t, rows). keys_distinct (tbl_members t) (map (map (cell_value True)) rows)) (reflect S) \<longleftrightarrow>
     (distinct (map Symbol_symbol (sd_Symbol S))
      \<and> distinct (map BuiltinType_symbol (sd_BuiltinType S))
      \<and> distinct (map Label_symbol (sd_Label S))
      \<and> distinct (map FunctionType_symbol (sd_FunctionType S))
      \<and> distinct (map Function_symbol (sd_Function S))
      \<and> distinct (map PublicSymbol_symbol (sd_PublicSymbol S))
      \<and> distinct (map Data_symbol (sd_Data S))
      \<and> distinct (map Compiland_symbol (sd_Compiland S))
      \<and> distinct (map UserType_symbol (sd_UserType S))
      \<and> distinct (map Enum_symbol (sd_Enum S))
      \<and> distinct (map Pointer_symbol (sd_Pointer S))
      \<and> distinct (map Thunk_symbol (sd_Thunk S))
      \<and> distinct (map FunctionArg_symbol (sd_FunctionArg S))
      \<and> distinct (map Block_symbol (sd_Block S))
      \<and> distinct (map HeapAllocation_symbol (sd_HeapAllocation S))
      \<and> distinct (map Export_symbol (sd_Export S))
      \<and> distinct (map Exe_symbol (sd_Exe S))
      \<and> distinct (map Typedef_symbol (sd_Typedef S))
      \<and> distinct (map Inlined_symbol (sd_Inlined S))
      \<and> distinct (map Array_symbol (sd_Array S))
      \<and> distinct (map Callsite_symbol (sd_Callsite S))
      \<and> distinct (map SourceFile_source_id (sd_SourceFile S))
      \<and> distinct (map SrcRange_id (sd_SrcRange S))
      \<and> distinct (map AddrSection_section_index (sd_AddrSection S)))"
    by (simp only: reflect_def list.pred_inject prod.case table_defs table.select_convs table_keys) blast
  moreover have "list_all (\<lambda>(nm, ids). nm \<in> {''VTable'', ''Friend''} \<or> distinct (ids S)) symbol_tables \<longleftrightarrow>
     (distinct (map BuiltinType_symbol (sd_BuiltinType S))
      \<and> distinct (map Label_symbol (sd_Label S))
      \<and> distinct (map FunctionType_symbol (sd_FunctionType S))
      \<and> distinct (map Function_symbol (sd_Function S))
      \<and> distinct (map PublicSymbol_symbol (sd_PublicSymbol S))
      \<and> distinct (map Data_symbol (sd_Data S))
      \<and> distinct (map Compiland_symbol (sd_Compiland S))
      \<and> distinct (map UserType_symbol (sd_UserType S))
      \<and> distinct (map Enum_symbol (sd_Enum S))
      \<and> distinct (map Pointer_symbol (sd_Pointer S))
      \<and> distinct (map Thunk_symbol (sd_Thunk S))
      \<and> distinct (map FunctionArg_symbol (sd_FunctionArg S))
      \<and> distinct (map Block_symbol (sd_Block S))
      \<and> distinct (map HeapAllocation_symbol (sd_HeapAllocation S))
      \<and> distinct (map Export_symbol (sd_Export S))
      \<and> distinct (map Typedef_symbol (sd_Typedef S))
      \<and> distinct (map Inlined_symbol (sd_Inlined S))
      \<and> distinct (map Array_symbol (sd_Array S))
      \<and> distinct (map Callsite_symbol (sd_Callsite S)))"
    by (simp add: symbol_tables_def) blast
  ultimately show ?thesis by blast
qed

lemma distinct_one: "length xs \<le> 1 \<Longrightarrow> distinct (map f xs)"
  by (cases xs) auto

lemma read_keys:
  assumes evs: "session_events nm ses = Some evs" and exe: "length (with_tag ''Exe'' evs) \<le> 1"
    and run: "provider_ReadSymbols nm env J argv ses (reader_init SymbolData_init) = returns r"
  shows "list_all (\<lambda>(t, rows). keys_distinct (tbl_members t) (map (map (cell_value True)) rows)) (reflect (Result r)) \<longleftrightarrow>
     distinct (0 # map id_of (handed KSymbol evs)) \<and> distinct (map file_of (handed KSource evs))
     \<and> distinct (map AddrSection_section_index (concat (map sections_in evs)))
     \<and> length (concat (map ranges_in evs)) \<le> 2 ^ 32"
proof -
  let ?S = "Result r"
  have read: "contents_of ?S = contents_read evs" by (rule read_is_contents [OF evs run])
  from arg_cong [OF read, of c_master]
  have "map (\<lambda>s. (Symbol_symbol s, Symbol_tag s)) (sd_Symbol ?S)
      = (0, 0) # map (\<lambda>d. (id_of d, ucast (tag_of d))) (handed KSymbol evs)"
    by (simp add: contents_of_def contents_read_def)
  from arg_cong [OF this, of "map fst"]
  have master: "map Symbol_symbol (sd_Symbol ?S) = 0 # map id_of (handed KSymbol evs)" by (simp add: comp_def)
  from arg_cong [OF read, of c_rows] have "map (\<lambda>(nm, ids). (nm, ids ?S)) symbol_tables
      = map (\<lambda>(nm, _). (nm, map id_of (with_tag nm evs))) symbol_tables"
    by (simp add: contents_of_def contents_read_def)
  then have "\<forall>(nm, ids) \<in> set symbol_tables. ids ?S = map id_of (with_tag nm evs)" by fastforce
  then have rows: "list_all (\<lambda>(nm, ids). nm \<in> {''VTable'', ''Friend''} \<or> distinct (ids ?S)) symbol_tables"
    if "distinct (0 # map id_of (handed KSymbol evs))"
    using that by (fastforce simp: list_all_iff with_tag_def intro: distinct_map_filter)
  from arg_cong [OF read, of "\<lambda>c. hd (c_sizes c)"] exe have "distinct (map Exe_symbol (sd_Exe ?S))"
    by (intro distinct_one) (simp add: contents_of_def contents_read_def)
  moreover from arg_cong [OF read, of c_sources]
  have "map SourceFile_source_id (sd_SourceFile ?S) = map file_of (handed KSource evs)"
    by (simp add: contents_of_def contents_read_def)
  moreover from arg_cong [OF read, of c_sections] have "sd_AddrSection ?S = concat (map sections_in evs)"
    by (simp add: contents_of_def contents_read_def)
  moreover from arg_cong [OF read, of c_ranges]
  have "distinct (map SrcRange_id (sd_SrcRange ?S)) \<longleftrightarrow> length (concat (map ranges_in evs)) \<le> 2 ^ 32"
    by (simp only: contents_of_def contents_read_def contents.select_convs distinct_of_nat_word)
  ultimately show ?thesis unfolding reflect_keys master using rows by metis
qed

text \<open>Events with good numbers.\<close>

definition good_numbers :: "event list \<Rightarrow> bool" where
  "good_numbers evs = (length (with_tag ''Exe'' evs) \<le> 1
     \<and> distinct (0 # map id_of (handed KSymbol evs)) \<and> distinct (map file_of (handed KSource evs))
     \<and> distinct (map AddrSection_section_index (concat (map sections_in evs)))
     \<and> length (concat (map ranges_in evs)) \<le> 2 ^ 32)"

lemma good_numbers_keys:
  assumes "session_events nm ses = Some evs"
    and "provider_ReadSymbols nm env J argv ses (reader_init SymbolData_init) = returns r" and "good_numbers evs"
  shows "list_all (\<lambda>(t, rows). keys_distinct (tbl_members t) (map (map (cell_value True)) rows)) (reflect (Result r))"
  using read_keys [OF assms(1) _ assms(2)] assms(3) by (simp add: good_numbers_def)

section \<open>Properties\<close>

text \<open>C15. The primary keys that the schema declares are unique in the tables of a read exactly when the
  interface gives every symbol a number of its own that is not zero, every source file a number
  of its own, the sections are numbered once, and the source ranges fit their 32-bit number; a
  session has at most one symbol for the program itself. Only then does a local load keep every
  row.\<close>

theorem read_keys_unique:
  assumes evs: "session_events nm ses = Some evs" and exe: "length (with_tag ''Exe'' evs) \<le> 1"
    and run: "provider_ReadSymbols nm env J argv ses (reader_init SymbolData_init) = returns r"
  shows "list_all (\<lambda>(t, rows). keys_distinct (tbl_members t) (map (map (cell_value True)) rows)) (reflect (Result r)) \<longleftrightarrow>
     distinct (0 # map id_of (handed KSymbol evs)) \<and> distinct (map file_of (handed KSource evs))
     \<and> distinct (map AddrSection_section_index (concat (map sections_in evs)))
     \<and> length (concat (map ranges_in evs)) \<le> 2 ^ 32"
  by (rule read_keys [OF assms])

theorem read_keys_unique_witness:
  "\<forall>env J argv. \<exists>r. provider_ReadSymbols sample_names env J argv (sample_session [sample_dia 5 7, sample_dia 11 8])
       (reader_init SymbolData_init) = returns r
     \<and> list_all (\<lambda>(t, rows). keys_distinct (tbl_members t) (map (map (cell_value True)) rows)) (reflect (Result r))"
proof (intro allI)
  fix env J argv
  let ?ds = "[sample_dia 5 7, sample_dia 11 8]"
  obtain r where run: "provider_ReadSymbols sample_names env J argv (sample_session ?ds) (reader_init SymbolData_init) = returns r"
    using sample_returns by blast
  have evs: "session_events sample_names (sample_session ?ds) = Some (map (Item KSymbol) ?ds)" by (rule sample_events)
  have line: "length (definition_line d) \<le> 1" for d by (simp add: definition_line_def split: prod.split option.split)
  have "list_all (\<lambda>(t, rows). keys_distinct (tbl_members t) (map (map (cell_value True)) rows)) (reflect (Result r))"
    by (subst read_keys_unique [OF evs _ run])
      (use line [of "sample_dia 11 8"] in \<open>simp_all add: ranges_in_def id_of_def tag_of_def SymTag_simps\<close>)
  with run show "\<exists>r. provider_ReadSymbols sample_names env J argv (sample_session ?ds) (reader_init SymbolData_init) = returns r
     \<and> list_all (\<lambda>(t, rows). keys_distinct (tbl_members t) (map (map (cell_value True)) rows)) (reflect (Result r))"
    by blast
qed

end
