(* ===== verification/Spec2Isabelle.thy ===== *)
theory Spec2Isabelle
  imports Written_Tables DIA_Memory Written_Keys
begin

text \<open>
  drpdb reads the debug information of a Windows program through Microsoft's debug interface
  (DIA) and writes it as tables: into CSV files, into a MySQL server, or through ODBC. This
  development models the program's own code, \<^verbatim>\<open>drpdb/src\<close>, and proves what it does.

  The parts and where they are, in the order of a run:

  \<^item> \<open>Drpdb_Prelude\<close>: words and texts, decimal numbers, and the ways code can end. A \<open>'a result\<close> is
    a value or a \<open>fault\<close>; a \<open>'a run\<close> is also \<open>None\<close>, for code that does not return. The fault \<open>Exit\<close> of
    a call of \<^verbatim>\<open>exit\<close> carries the console and the files written until then.
  \<^item> \<open>Options\<close> (\<^verbatim>\<open>drpdb.cpp\<close>: \<open>getOption\<close>, \<open>getFlag\<close>, \<open>set_error\<close>): the command line as a list of
    arguments; \<open>world\<close>, the noted errors, the files written and the console; \<open>os\<close>, what the operating
    system answers. Writing a file is one step (\<open>store\<close>): the disk takes the whole text or the stream
    goes bad. The code asks \<^verbatim>\<open>bad()\<close> before the buffered stream is closed, so a failure that only shows
    at the close is outside of this model.
  \<^item> \<open>Stringutils\<close> (\<^verbatim>\<open>stringutils.h\<close>): \<open>escape\<close>, \<open>replace\<close>, \<open>tolower\<close> as loops over positions, and the
    texts they compute; the locale \<open>quoted_code\<close> is the contract between quoting and reading.
  \<^item> \<open>Sym_Enums\<close>, \<open>Sym_Records\<close> (\<^verbatim>\<open>drpdb.h\<close>): the enumerations, one record per struct of namespace
    \<open>Sym\<close>, and \<open>SymbolData\<close>, the tables of a program. \<open>Wide_Text\<close>: \<open>wstrcvt\<close>.
  \<^item> \<open>Reflection\<close>, \<open>Reflection_Rows\<close> (\<^verbatim>\<open>PDBReflection.inl\<close>): the list of tables that the writers
    expand with their macros, as data (\<open>tables\<close>), and the rows of a \<open>SymbolData\<close> (\<open>reflect\<close>).
  \<^item> \<open>DIA_Object\<close>, \<open>DIA_Ctors\<close>, \<open>DIA_Rows\<close> (\<^verbatim>\<open>DIA2Input.cpp\<close>, the constructors): a COM object as the
    answers of its methods, and the row that each constructor builds from it; a field or a local
    that the code leaves without a value has the value of the parameter \<open>junk\<close>. A method that hands
    out an object may answer \<open>S_OK\<close> with a null pointer; where the code uses it unchecked, for a
    table of virtual functions, the type of an object, the compilands of a source file, that is a
    fault.
  \<^item> \<open>DIA_Common\<close> (\<^verbatim>\<open>DIACommon.h\<close>, \<^verbatim>\<open>DIA2Common.cpp\<close>): opening a file, reading a table in batches, the loop
    over the tables; the locale \<open>table_sink\<close> is the contract between these loops and a sink of rows.
  \<^item> \<open>DIA_Input\<close>, \<open>DIA_Reader\<close>, \<open>DIA_Properties\<close> (\<^verbatim>\<open>DIA2Input.cpp\<close>, the provider): the reader, its steps as
    an inductive relation with invariants, and the properties of a read.
  \<^item> \<open>DIA_Session\<close>, \<open>DIA_Memory\<close>, \<open>DIA_Integrity\<close>: the abstract view of a read. A session is the list of
    events its enumerators give in order (\<open>session_events\<close>), what a read leaves is a function of that
    list (\<open>contents\<close>); what a read does not depend on; and which row a reference between tables finds.
    \<open>DIA_Progress\<close>: the lines that a read shows on the console, which nothing else depends on.
  \<^item> \<open>CSV_Writer\<close>, \<open>Load_Data\<close>, \<open>CSV_Output\<close> (\<^verbatim>\<open>CSVWriter.h\<close>, \<^verbatim>\<open>CSVOutput.cpp\<close>): the cells, rows and files
    of the CSV engine; the rules by which the database reads them; and that it reads back what was
    written. The locale \<open>record_writer\<close> is shared by the rows and the header line.
  \<^item> \<open>SQL_Schema\<close> (\<^verbatim>\<open>SQL.cpp\<close>, \<^verbatim>\<open>SQLSchemaWriter.h\<close>), \<open>MySQL_Output\<close>, \<open>MySQL_Server\<close> (\<^verbatim>\<open>MySQLOutput.cpp\<close>),
    \<open>ODBC_Output\<close> (\<^verbatim>\<open>ODBCOutput.cpp\<close>): the schema, the commands, their upload, and what the server makes
    of them (\<open>accepts\<close>, \<open>literal_value\<close>, and \<open>declaration_accepts\<close>, decided by a column's declaration
    alone). \<open>MySQL_Database\<close>: the documented behaviour of the
    statements as hypotheses on the server, and what the database holds after the upload.
  \<^item> \<open>Wiki_Doc\<close> (\<^verbatim>\<open>WikiDoc.cpp\<close>): the documentation page and, as \<open>wiki_spec\<close>, its text from the list of
    tables. \<open>DIA_Doc\<close> (\<^verbatim>\<open>DIA2Doc.cpp\<close>): the survey of the interface that \<^verbatim>\<open>-doc\<close> runs, with its
    specification over the symbols of the listed files (\<open>surveyed\<close>, \<open>answered\<close>).
  \<^item> \<open>Driver\<close> (\<^verbatim>\<open>drpdb.cpp\<close>, the \<open>CreateEngine\<close> functions): \<open>main\<close>, with the lines of the read on its
    console (\<open>input_progress\<close>). \<open>Written_Tables\<close>: the records of the
    written files and the references between their columns. \<open>Written_Keys\<close>: the keys the schema
    declares and the rows of a read. The properties that go across the parts
    are in this theory.

  Parameters. The debug interface (\<open>session\<close>, \<open>dia\<close>, \<open>env\<close>), the MySQL client library (\<open>mysql_api\<close>), the
  ODBC driver manager (\<open>odbc_api\<close>) and the operating system (\<open>os\<close>) are not part of the sources: they
  are arguments, and the properties hold for all of them. What \<^verbatim>\<open>GetModuleFileNameA\<close> leaves in its
  buffers (\<open>path_main\<close>, \<open>path_document\<close>) and what \<^verbatim>\<open>GetCurrentDirectoryA\<close> answers are such arguments
  too. Taken from the interface's
  documentation are the values of \<open>SymTagEnum\<close>, which \<open>Sym::Tag\<close> repeats, of \<open>UdtKind\<close> and of the
  \<open>IMAGE_SCN\<close> masks; the names of the interface's tables are the parameter \<open>table_names\<close>. The reading
  rules in \<open>Load_Data\<close> and \<open>literal_value\<close> are the documented ones of the database; what its statements
  do to its tables, and that the client finds a file by a path with a doubled separator, are the
  named hypotheses of \<open>MySQL_Database\<close>.

  Loops. Loops over an enumerator may run for ever; they are partial functions into options,
  with no fuel. \<open>session_events_exist\<close> states when a read ends, \<open>main_terminates\<close> when the program does,
  and \<open>symbols_eventually_read\<close> what holds of a loop that never ends. Loops over texts and command
  lists end by a measure. The engines always end; that is part of \<open>csv_engine_writes\<close>,
  \<open>mysql_no_undefined_behaviour\<close> and \<open>odbc_engine\<close>.

  Not modelled: \<open>reserve\<close>, which has no effect on
  contents; the overloads of \<open>BuildTable\<close> for maps, which no table uses; the debug setting of the C
  runtime and the module handle; the templates of \<^verbatim>\<open>DIA2Doc.cpp\<close> that find the type of a method's
  variable, which belong to the call that is a parameter; null items inside a fetched batch. The
  stored procedures under \<^verbatim>\<open>config/mysql\<close> are data; the MySQL connector is vendored.

  What the lemmas show: a read leaves what filtering the events of its session describes
  (\<open>read_refines_contents\<close>), consistent tables (\<open>read_consistent\<close>), the same tables whatever
  uninitialised memory held (\<open>read_independent_of_memory\<close>); the details of a compiland go to its own
  row, and numbers of rows are unique, as long as they fit 32 bits (\<open>details_find_their_compiland\<close>,
  \<open>source_ranges_unique\<close>), and the declared keys are unique under exact conditions
  (\<open>read_keys_unique\<close>); which faults can happen (\<open>symbol_faults\<close>); the round trips of the files and
  quoted texts; the commands and their upload; that declarations, load commands and files fit
  (\<open>mysql_cells_fit_columns\<close>, \<open>mysql_load_fits_file\<close>, \<open>mysql_infile_path\<close>); the reports of the two side
  programs (\<open>main_wiki_page\<close>, \<open>doc_report\<close>); that the engines write the same records
  (\<open>engines_agree\<close>) and references hold in the written files (\<open>main_csv_references\<close>); and, end to
  end, what an exit code of 0 means (\<open>main_csv_end_to_end\<close>, \<open>main_mysql_success\<close>, \<open>main_exit_code\<close>,
  \<open>main_odbc_drivers\<close>, and for the database's contents \<open>main_mysql_database\<close>, \<open>main_database_complete\<close>).
\<close>

section \<open>A small platform\<close>

text \<open>A disk that takes every file, no debug information, a server that accepts all but one command.\<close>

definition sample_platform :: "env \<Rightarrow> (nat \<Rightarrow> junk) \<Rightarrow> (string list, string list) platform" where
  "sample_platform env J = \<lparr> p_os = (\<lambda>_. sample_os),
     path_main = ''c:'' @ backslash # ''drpdb.exe'' @ nul # replicate 247 nul,
     path_document = ''c:'' @ backslash # ''drpdb.exe'' @ nul # replicate 247 nul, p_names = sample_names, p_answers = (\<lambda>_ _. 1), p_env = env,
     p_junk = J, p_com = sample_com [], p_mysql = log_api, p_odbc = log_odbc \<rparr>"

section \<open>Properties of the program\<close>

text \<open>C26. The working directory. The buffer of \<open>main\<close> holds the module's path, a NUL, and behind it
  whatever the memory held or the call left there. The path is cut at its last backslash, so that
  the working directory is the program's own, exactly when no backslash stands behind the NUL; a
  backslash there is found first, and the path is then not cut at all.\<close>

theorem main_working_directory:
  assumes "path_main P = dir @ backslash # name @ nul # rest" and "backslash \<notin> set name"
    and "nul \<notin> set dir" and "nul \<notin> set name"
  shows "\<exists>path. trim_path (path_main P) = Inr path
    \<and> c_text path = (if backslash \<in> set rest then dir @ backslash # name else dir)"
proof (cases "backslash \<in> set rest")
  case True
  from split_list_last [OF True] obtain xs ys where rest: "rest = xs @ backslash # ys"
    and "backslash \<notin> set ys" by blast
  then have ys: "\<forall>c \<in> set ys. c \<noteq> backslash" by auto
  let ?module = "dir @ backslash # name"
  let ?pre = "?module @ nul # xs"
  have "find (\<lambda>i. (?pre @ backslash # ys) ! i = backslash) (rev [0..<length (?pre @ backslash # ys)])
      = Some (length ?pre)"
    by (rule find_last [where Q = "\<lambda>c. c = backslash", OF ys]) simp
  then have "trim_path (?pre @ backslash # ys) = Inr (?module @ nul # (if ys = [] then rest else xs @ nul # ys))"
    by (auto simp: trim_path_def rest list_update_append)
  moreover have "path_main P = ?pre @ backslash # ys" by (simp add: assms(1) rest)
  moreover have "c_text (?module @ nul # r) = ?module" for r using assms(3,4) by (intro c_text_append) simp
  ultimately show ?thesis using True by (simp only:) simp
next
  case False
  let ?ys = "name @ nul # rest"
  have "find (\<lambda>i. (dir @ backslash # ?ys) ! i = backslash) (rev [0..<length (dir @ backslash # ?ys)])
      = Some (length dir)"
    using assms(2) False by (intro find_last [where Q = "\<lambda>c. c = backslash"]) auto
  then have "trim_path (path_main P) = Inr (dir @ nul # ?ys)"
    by (simp add: trim_path_def assms(1) list_update_append)
  moreover have "c_text (dir @ nul # ?ys) = dir" using assms(3) by (rule c_text_append)
  ultimately show ?thesis using False by simp
qed

theorem main_working_directory_witness:
  "\<forall>env J. \<exists>path. trim_path (path_main (sample_platform env J)) = Inr path \<and> c_text path = ''c:''"
proof (intro allI)
  fix env J
  show "\<exists>path. trim_path (path_main (sample_platform env J)) = Inr path \<and> c_text path = ''c:''"
    using main_working_directory [of "sample_platform env J" "''c:''" "''drpdb.exe''" "replicate 247 nul"]
    by (simp add: sample_platform_def)
qed

lemma sample_path:
  "trim_path (path_main (sample_platform env J)) = Inr (''c:'' @ nul # ''drpdb.exe'' @ replicate 248 nul)"
proof -
  have buf: "path_main (sample_platform env J) = ''c:'' @ backslash # (''drpdb.exe'' @ nul # replicate 247 nul)"
    by (simp add: sample_platform_def)
  have "find (\<lambda>i. (''c:'' @ backslash # (''drpdb.exe'' @ nul # replicate 247 nul)) ! i = backslash)
      (rev [0..<length (''c:'' @ backslash # (''drpdb.exe'' @ nul # replicate 247 nul))]) = Some (length ''c:'')"
    by (rule find_last [where Q = "\<lambda>c. c = backslash"]) auto
  then show ?thesis unfolding buf by (simp add: trim_path_def replicate_eqI flip: replicate_Suc)
qed

lemma sample_main:
  assumes "\<not> getFlag argv ''-doc''" and "getOption argv ''-wikidoc'' = []" and "getOption argv ''-in'' = []"
  shows "main (sample_platform env J) argv =
    (case get_output_engine (init_engines (sample_platform env J) sample_os argv) argv of
       None \<Rightarrow> returns (1, PrintUsage (init_engines (sample_platform env J) sample_os argv) world_init)
     | Some output \<Rightarrow> main_output output SymbolData_init world_init)"
proof -
  have os: "p_os (sample_platform env J) d = sample_os" for d by (simp add: sample_platform_def)
  show ?thesis
    unfolding main_normal [OF sample_path assms(1,2)] os main_input_none [OF assms(3)] run_bind_returns
      after_no_input [OF assms(3), THEN conjunct2] ..
qed

text \<open>C21. When the program is neither asked for the survey nor for the documentation page, it exits
  with 0 or 1, and with 0 exactly when an existing engine was named and no error was noted.\<close>

theorem main_exit_code:
  assumes "main P argv = returns (code, w)" and "\<not> getFlag argv ''-doc''" and "getOption argv ''-wikidoc'' = []"
  shows "code \<in> {0, 1} \<and> (code = 0 \<longleftrightarrow> getOption argv ''-out'' \<in> {''mysql'', ''csv'', ''odbc''} \<and> gErr w = [])"
proof -
  from assms(1) obtain path where path: "trim_path (path_main P) = Inr path"
    by (rule main_returns_path)
  note run = assms(1) [unfolded main_normal [OF path assms(2,3)]]
  show ?thesis
  proof (cases "getOption argv ''-out'' \<in> {''mysql'', ''csv'', ''odbc''}")
    case True
    then obtain e where "get_output_engine (init_engines P (p_os P (c_text path)) argv) argv = Some e"
      using get_output_engine_eq(1-3) [of argv P "p_os P (c_text path)"] by blast
    with run obtain S where "main_output e S (after_input P argv) = returns (code, w)"
      by (auto simp: run_bind_eq_returns)
    from main_output_returns(1,2) [OF this] True show ?thesis by blast
  next
    case False
    with run get_output_engine_eq(4) [of argv P "p_os P (c_text path)"] show ?thesis by auto
  qed
qed

theorem main_exit_code_witness:
  "\<forall>env J. \<exists>code w. main (sample_platform env J) [''drpdb'', ''-out=xml''] = returns (code, w) \<and> code = 1"
proof (intro allI)
  fix env J
  let ?argv = "[''drpdb'', ''-out=xml'']"
  have opts: "\<not> getFlag ?argv ''-doc''" "getOption ?argv ''-wikidoc'' = []" "getOption ?argv ''-in'' = []"
    "getOption ?argv ''-out'' = ''xml''"
    by (simp_all add: getFlag_iff strncmp_eq_def)
  then have none: "get_output_engine (init_engines (sample_platform env J) sample_os ?argv) ?argv = None"
    by (intro get_output_engine_eq(4)) simp
  obtain code w where run: "main (sample_platform env J) ?argv = returns (code, w)"
    unfolding sample_main [OF opts(1-3)] none by simp
  from main_exit_code [OF run opts(1,2)] opts(4) run
  show "\<exists>code w. main (sample_platform env J) ?argv = returns (code, w) \<and> code = 1" by auto
qed

text \<open>Without a known output engine the program prints its usage and exits with 1: it reads no
  input and writes no file.\<close>

lemma main_usage:
  assumes "trim_path (path_main P) = Inr path"
    and "\<not> getFlag argv ''-doc''" and "getOption argv ''-wikidoc'' = []"
    and "getOption argv ''-out'' \<notin> {''mysql'', ''csv'', ''odbc''}"
  shows "\<exists>w. main P argv = returns (1, w) \<and> files w = []
    \<and> w = PrintUsage (init_engines P (p_os P (c_text path)) argv) world_init"
  by (simp add: main_normal [OF assms(1-3)] get_output_engine_eq(4) [OF assms(4)] print_usage_frame world_init_def)

text \<open>C36. With \<^verbatim>\<open>-wikidoc\<close> the program writes one file, whatever else the command line says, and exits with 0,
  also when the file could not be written. The page is its introduction and four headings, and
  below each of them, in the order of the list of tables, the name, the description and the
  members of exactly the tables of that category.\<close>

theorem main_wiki_page:
  assumes "trim_path (path_main P) = Inr path" and "\<not> getFlag argv ''-doc''" and "getOption argv ''-wikidoc'' \<noteq> []"
  shows "main P argv = returns (0, store (p_os P (c_text path)) (getOption argv ''-wikidoc'')
      (text_mode (header folio_init @ concat (map (\<lambda>(title, category). [newline] @ title @ [newline]
          @ concat (map table_doc (filter (\<lambda>t. tbl_category t = category) tables)))
        [(''#Master tables'', TableType_Master), (''#Tables representing data types'', TableType_Data),
         (''#Tables representing functions and function calls'', TableType_Function),
         (''#Tables representing file structure'', TableType_Files)])))
      world_init)"
proof -
  have "0 < length (getOption argv ''-wikidoc'')" using assms(3) by simp
  with assms(1,2) have "main P argv
      = returns (0, wiki_Output (p_os P (c_text path)) (getOption argv ''-wikidoc'') world_init)"
    by (simp add: main_def Let_def run_bind_def)
  then show ?thesis unfolding wiki_Output_def wiki_text_eq wiki_spec_def wiki_sections_def .
qed

theorem main_wiki_page_witness:
  "\<forall>env J. \<exists>w. main (sample_platform env J) [''drpdb'', ''-wikidoc=page.md''] = returns (0, w)
     \<and> map fst (files w) = [''page.md'']"
proof (intro allI)
  fix env J
  let ?argv = "[''drpdb'', ''-wikidoc=page.md'']"
  have opts: "\<not> getFlag ?argv ''-doc''" "getOption ?argv ''-wikidoc'' = ''page.md''"
    by (simp_all add: getFlag_iff strncmp_eq_def)
  then have "getOption ?argv ''-wikidoc'' \<noteq> []" by simp
  note run = main_wiki_page [OF sample_path opts(1) this, of env J]
  show "\<exists>w. main (sample_platform env J) ?argv = returns (0, w) \<and> map fst (files w) = [''page.md'']"
    unfolding run opts(2) by (intro exI conjI, rule refl) (simp add: store_def sample_platform_def sample_os_def world_init_def)
qed

text \<open>C24. An input that cannot be opened, neither as a PDB nor as an executable, is read as if it
  were not there: the tables stay empty and no error is noted.\<close>

theorem main_unreadable_input:
  assumes "getOption argv ''-in'' = f" and "Provider_source (p_com P) = Some src"
    and "\<not> SUCCEEDED (loadDataFromPdb src f)" and "\<not> SUCCEEDED (loadDataForExe src f)"
  shows "main_input P argv = returns SymbolData_init"
  using assms
  by (simp add: main_input_def get_input_engine_def Let_def DIA2_ReadSymbols_def Provider_load_def run_bind_def
      returns_def)

theorem main_unreadable_input_witness:
  "\<forall>env J. main_input (sample_platform env J\<lparr> p_com := \<lparr> CoInitialize = S_OK, CoCreateInstance = Some closed_source \<rparr> \<rparr>)
     [''drpdb'', ''-in=a.pdb''] = returns SymbolData_init"
  by (intro allI main_unreadable_input [where f = "''a.pdb''" and src = closed_source])
    (simp_all add: strncmp_eq_def Provider_source_def SUCCEEDED_def closed_source_def)

text \<open>C1. The program with the CSV engine and its default separator, from the command line to the
  disk, where writing a file is one step that the stream reports when it fails: the program
  exits with 0 exactly when every file could be written, and then the files are one
  per table, in order, and each reads back, under the database's rules, as the column names
  followed by the values of the rows that were read.\<close>

theorem main_csv_end_to_end:
  assumes run: "main P argv = returns (code, w)" and out: "getOption argv ''-out'' = ''csv''"
    and mode: "\<not> getFlag argv ''-doc''" "getOption argv ''-wikidoc'' = []"
    and comma: "\<not> getFlag argv ''-uselocaleseparator''"
  shows "\<exists>dir S. main_input P argv = returns S \<and>
    (let st = csv_init (p_os P dir) argv in
     (code = 0 \<longleftrightarrow> \<not> (\<exists>t. t \<in> set tables \<and> write_bad (p_os P dir) (csv_path st t)))
     \<and> (code = 0 \<longrightarrow> list_all2 (\<lambda>(t, rows) (path, text). path = outdir st @ tbl_name t @ ''.csv''
          \<and> load_file CHR '','' text = Some ((if getFlag argv ''-nocolumnheaders'' then [] else [map m_name (tbl_members t)])
              @ map (map (cell_value True)) rows)) (reflect S) (files w)))"
proof -
  obtain dir S where S: "main_input P argv = returns S"
    and bad: "code = 0 \<longleftrightarrow> \<not> (\<exists>t. t \<in> set tables \<and> write_bad (p_os P dir) (csv_path (csv_init (p_os P dir) argv) t))"
    and files: "code = 0 \<longrightarrow> files w = map (\<lambda>(t, rows). (csv_path (csv_init (p_os P dir) argv) t,
        csv_file (csv_init (p_os P dir) argv) t rows)) (reflect S)"
    using main_csv_files [OF run out mode] by blast
  define st where "st = csv_init (p_os P dir) argv"
  have st: "separator st = CHR '',''" "naked st = getFlag argv ''-nocolumnheaders''"
    using comma by (simp_all add: st_def csv_init_def getSeparator_def Let_def)
  have "list_all2 (\<lambda>(t, rows) (path, text). path = outdir st @ tbl_name t @ ''.csv''
      \<and> load_file CHR '','' text = Some ((if naked st then [] else [map m_name (tbl_members t)])
          @ map (map (cell_value True)) rows)) (reflect S) (files w)" if "code = 0"
    using load_csv_file [of st _ _ S] st(1) sep_ok_comma files that
    by (auto simp: list.rel_map csv_path_def simp flip: st_def intro!: list.rel_refl_strong)
  with S bad st(2) show ?thesis
    by (intro exI [of _ dir] exI [of _ S]) (simp add: Let_def flip: st_def)
qed

theorem main_csv_end_to_end_witness:
  "\<forall>env J. \<exists>w. main (sample_platform env J) [''drpdb'', ''-out=csv''] = returns (0, w) \<and> length (files w) = 35"
proof (intro allI)
  fix env J
  let ?argv = "[''drpdb'', ''-out=csv'']" and ?P = "sample_platform env J"
  have opts: "\<not> getFlag ?argv ''-doc''" "getOption ?argv ''-wikidoc'' = []" "getOption ?argv ''-in'' = []"
    "getOption ?argv ''-out'' = ''csv''" "\<not> getFlag ?argv ''-uselocaleseparator''"
    by (simp_all add: getFlag_iff strncmp_eq_def)
  note input = main_input_none [OF opts(3), of ?P]
  have good: "\<not> write_bad (p_os ?P d) p" for d p by (simp add: sample_platform_def sample_os_def)
  obtain code w where run: "main ?P ?argv = returns (code, w)"
    unfolding sample_main [OF opts(1-3)] get_output_engine_eq(2) [OF opts(4)] option.case
    using csv_main_output by blast
  from main_csv_end_to_end [OF run opts(4,1,2,5)] have "code = 0"
    and "length (files w) = length (reflect SymbolData_init)"
    by (auto simp: input good Let_def dest: list_all2_lengthD)
  with run show "\<exists>w. main ?P ?argv = returns (0, w) \<and> length (files w) = 35" by (simp add: reflect_def)
qed

lemma main_mysql_run:
  assumes run: "main P argv = returns (0, w)" and out: "getOption argv ''-out'' = ''mysql''"
    and mode: "\<not> getFlag argv ''-doc''" "getOption argv ''-wikidoc'' = []"
  shows "\<exists>dir S d w0 w1 c0 c1 c. main_input P argv = returns S
    \<and> OutputData_init (p_os P dir) argv S w0 = returns (d, w1)
    \<and> mysql_init (p_mysql P) = Some c0
    \<and> mysql_real_connect (p_mysql P) (mysql_options_reconnect (p_mysql P) c0)
        (host d) (user d) (pass d) (db d) (port d) = (True, c1)
    \<and> accepts (p_mysql P) c1 (UploadCommands d) c
    \<and> files w = filter (\<lambda>(path, text). \<not> write_bad (p_os P dir) path) (mysql_files d S)"
proof -
  from run obtain path where path: "trim_path (path_main P) = Inr path"
    by (rule main_returns_path)
  define sys where "sys = p_os P (c_text path)"
  let ?api = "p_mysql P" and ?w = "print_text (''Saving results...'' @ [newline]) (after_input P argv)"
  from run obtain S where S: "main_input P argv = returns S"
    and main: "main_output (mysql_CreateEngine P sys argv) S (after_input P argv) = returns (0, w)"
    by (auto simp: main_normal [OF path mode] get_output_engine_eq(1) [OF out] run_bind_eq_returns sys_def)
  from main_output_returns(2) [OF main] have no_error: "\<not> has_error w" by (simp add: has_error_def)
  from mysql_engine_returns [OF main_output_returns(3) [OF main refl]]
  obtain d w1 conn where init: "OutputData_init sys argv S ?w = returns (d, w1)"
    and up: "upload ?api (UploadCommands d) 0 (connect ?api d w1) = (conn, w)" by blast
  from OutputData_init_returns [OF init] have "gErr w1 = []"
    and files: "files w1 = filter (\<lambda>(path, text). \<not> write_bad sys path) (mysql_files d S)"
    by (auto simp: store_all_eq world_init_def)
  then have clean: "\<not> has_error w1" by (simp add: has_error_def)
  have conn_ok: "\<not> has_error (snd (connect ?api d w1))"
  proof
    assume "has_error (snd (connect ?api d w1))"
    with up have "snd (connect ?api d w1) = w" by (cases "connect ?api d w1") (simp add: upload_stop)
    with \<open>has_error (snd (connect ?api d w1))\<close> no_error show False by simp
  qed
  then obtain c0 c1 where c: "mysql_init ?api = Some c0"
    "mysql_real_connect ?api (mysql_options_reconnect ?api c0) (host d) (user d) (pass d) (db d) (port d) = (True, c1)"
    by (auto simp: connect_def Let_def split: option.splits prod.splits if_splits)
  then have "connect ?api d w1 = (Some c1, w1)" by (simp add: connect_def Let_def)
  with up upload_from [OF clean, of ?api "[]" "UploadCommands d" c1 conn w] no_error
  obtain c where "accepts ?api c1 (UploadCommands d) c" and "w = w1" by auto
  with S init c files show ?thesis unfolding sys_def by blast
qed

text \<open>C5. The program with the MySQL engine: when it exits with 0, the server has taken the
  connection and accepted every command that was built from the input, in order, and the files
  that the load commands name are the ones of that input.\<close>

theorem main_mysql_success:
  assumes run: "main P argv = returns (0, w)" and out: "getOption argv ''-out'' = ''mysql''"
    and mode: "\<not> getFlag argv ''-doc''" "getOption argv ''-wikidoc'' = []"
  shows "\<exists>dir S d w0 w1 c0 c1 c. main_input P argv = returns S
    \<and> OutputData_init (p_os P dir) argv S w0 = returns (d, w1)
    \<and> mysql_init (p_mysql P) = Some c0
    \<and> mysql_real_connect (p_mysql P) (mysql_options_reconnect (p_mysql P) c0)
        (host d) (user d) (pass d) (db d) (port d) = (True, c1)
    \<and> accepts (p_mysql P) c1 (UploadCommands d) c
    \<and> files w = filter (\<lambda>(path, text). \<not> write_bad (p_os P dir) path) (mysql_files d S)"
  by (rule main_mysql_run [OF assms])

text \<open>The platform with a server that accepts every command, and debug information of its own.\<close>

definition sample_mysql_platform :: "com_runtime \<Rightarrow> env \<Rightarrow> (nat \<Rightarrow> junk) \<Rightarrow> (string list, string list) platform" where
  "sample_mysql_platform com env J = sample_platform env J\<lparr> p_mysql := yes_api, p_com := com \<rparr>"

lemma sample_parts:
  "p_os (sample_mysql_platform com env J) dir = sample_os" "p_mysql (sample_mysql_platform com env J) = yes_api"
  "p_com (sample_mysql_platform com env J) = com" "p_names (sample_mysql_platform com env J) = sample_names"
  "p_env (sample_mysql_platform com env J) = env" "p_junk (sample_mysql_platform com env J) = J"
  "path_main (sample_mysql_platform com env J) = path_main (sample_platform env J)"
  by (simp_all add: sample_mysql_platform_def sample_platform_def)

lemma sample_mysql:
  assumes opts: "\<not> getFlag argv ''-doc''" "getOption argv ''-wikidoc'' = []" "getOption argv ''-out'' = ''mysql''"
    and input: "main_input (sample_mysql_platform com env J) argv = returns S"
    and init: "\<And>w. \<exists>d w1. OutputData_init sample_os argv S w = returns (d, w1)"
  shows "\<exists>w. main (sample_mysql_platform com env J) argv = returns (0, w)"
proof -
  let ?P = "sample_mysql_platform com env J"
  let ?w = "print_text (''Saving results...'' @ [newline]) (after_input ?P argv)"
  have path: "trim_path (path_main ?P)
      = Inr (''c:'' @ nul # ''drpdb.exe'' @ replicate 248 nul)"
    unfolding sample_parts by (rule sample_path)
  have os: "p_os ?P dir = sample_os" for dir by (simp add: sample_parts)
  obtain d w1 where init: "OutputData_init sample_os argv S ?w = returns (d, w1)"
    using init by blast
  from OutputData_init_returns [OF init] have "gErr w1 = []" by (auto simp: store_all_eq world_init_def)
  then have clean: "\<not> has_error w1" by (simp add: has_error_def)
  have conn: "connect yes_api d w1 = (Some [], w1)" by (simp add: connect_def yes_api_def log_api_def)
  obtain c w2 where up: "upload yes_api (UploadCommands d) 0 (Some [], w1) = (c, w2)" by fastforce
  with upload_from [OF clean, of yes_api "[]" "UploadCommands d" "[]" c w2]
  have "w2 = w1" by (auto simp: yes_api_def)
  with init up conn have "eng_output (mysql_CreateEngine ?P sample_os argv) S ?w = returns w1"
    by (simp add: mysql_CreateEngine_def mysql_output_def sample_parts)
  then have "main_output (mysql_CreateEngine ?P sample_os argv) S (after_input ?P argv)
      = returns (if gErr w1 \<noteq> [] then (1, print_text (gErr w1) w1) else (0, w1))"
    by (intro main_output_of) simp
  with \<open>gErr w1 = []\<close> show ?thesis
    unfolding main_normal [OF path opts(1,2)] os get_output_engine_eq(1) [OF opts(3)] option.case
      input run_bind_returns
    by simp
qed

theorem main_mysql_success_witness:
  "\<forall>env J. \<exists>w d w0 w1 c. main (sample_mysql_platform (sample_com []) env J) sample_argv = returns (0, w)
     \<and> OutputData_init sample_os sample_argv SymbolData_init w0 = returns (d, w1)
     \<and> accepts yes_api [] (UploadCommands d) c"
proof (intro allI)
  fix env J
  let ?P = "sample_mysql_platform (sample_com []) env J"
  have opts: "\<not> getFlag sample_argv ''-doc''" "getOption sample_argv ''-wikidoc'' = []"
    "getOption sample_argv ''-in'' = []" "getOption sample_argv ''-out'' = ''mysql''"
    by (simp_all add: sample_argv_def getFlag_iff strncmp_eq_def)
  obtain w where run: "main ?P sample_argv = returns (0, w)"
    using sample_mysql [OF opts(1,2,4) main_input_none [OF opts(3)] sample_init] by blast
  have os: "p_os ?P dir = sample_os" "p_mysql ?P = yes_api" for dir by (simp_all add: sample_parts)
  have api: "mysql_init yes_api = Some []" "mysql_options_reconnect yes_api c = c"
    "mysql_real_connect yes_api c h u p b n = (True, c)" for c h u p b n
    by (simp_all add: yes_api_def log_api_def)
  from main_mysql_success [OF run opts(4,1,2)]
  have "\<exists>d w0 w1 c. OutputData_init sample_os sample_argv SymbolData_init w0 = returns (d, w1)
     \<and> accepts yes_api [] (UploadCommands d) c"
    unfolding main_input_none [OF opts(3)] os returns_inject by (auto simp: api)
  with run show "\<exists>w d w0 w1 c. main ?P sample_argv = returns (0, w)
     \<and> OutputData_init sample_os sample_argv SymbolData_init w0 = returns (d, w1)
     \<and> accepts yes_api [] (UploadCommands d) c"
    by blast
qed

lemma main_database_rows:
  assumes run: "main P argv = returns (0, w)" and out: "getOption argv ''-out'' = ''mysql''"
    and mode: "\<not> getFlag argv ''-doc''" "getOption argv ''-wikidoc'' = []"
    and disk: "\<forall>dir path. \<not> write_bad (p_os P dir) path"
    and directory: "\<forall>dir. good_directory (temp_directory (p_os P dir) argv)"
    and client: "client_finds fetch (files w)"
    and server: "server_drops (p_mysql P) rows_of" "server_creates (p_mysql P) rows_of"
      "\<forall>dir. server_loads_from (p_mysql P) rows_of fetch (temp_directory (p_os P dir) argv)"
  shows "\<exists>dir S d w0 w1 c0 c1 c. main_input P argv = returns S
    \<and> OutputData_init (p_os P dir) argv S w0 = returns (d, w1)
    \<and> mysql_init (p_mysql P) = Some c0
    \<and> mysql_real_connect (p_mysql P) (mysql_options_reconnect (p_mysql P) c0)
        (host d) (user d) (pass d) (db d) (port d) = (True, c1)
    \<and> accepts (p_mysql P) c1 (UploadCommands d) c
    \<and> (\<forall>(t, rows) \<in> set (reflect S). rows_keep t rows
         \<longrightarrow> rows_of c (tbl_name t) = Some (map (map (cell_value True)) rows))"
proof -
  from main_mysql_run [OF run out mode] obtain dir S d w0 w1 c0 c1 c where S: "main_input P argv = returns S"
    and init: "OutputData_init (p_os P dir) argv S w0 = returns (d, w1)"
    and conn: "mysql_init (p_mysql P) = Some c0" "mysql_real_connect (p_mysql P)
      (mysql_options_reconnect (p_mysql P) c0) (host d) (user d) (pass d) (db d) (port d) = (True, c1)"
    and ok: "accepts (p_mysql P) c1 (UploadCommands d) c"
    and files: "files w = filter (\<lambda>(path, x). \<not> write_bad (p_os P dir) path) (mysql_files d S)"
    by blast
  from files disk have on_disk: "set (mysql_files d S) \<subseteq> set (files w)" by auto
  from directory have "good_directory (tempdir d)" by (simp add: OutputData_init_tempdir [OF init])
  note held = upload_keeps_rows [OF init this client on_disk server(1,2)
      server_loads_fromD [OF init server(3) [rule_format]] ok]
  have "\<forall>(t, rows) \<in> set (reflect S). rows_keep t rows
         \<longrightarrow> rows_of c (tbl_name t) = Some (map (map (cell_value True)) rows)"
    using held by blast
  with S init conn ok show ?thesis by blast
qed

text \<open>What the platform reads from an empty session, and from one with a function and a type.\<close>

lemma sample_input_run:
  assumes "getOption argv ''-in'' = ''a.pdb''"
    and "provider_ReadSymbols sample_names env J argv (sample_session ds) (reader_init SymbolData_init) = returns r"
  shows "main_input (sample_mysql_platform (sample_com ds) env J) argv = returns (Result r)"
  using assms
  by (simp add: main_input_def get_input_engine_def Let_def strncmp_eq_def sample_parts DIA2_ReadSymbols_def
      Provider_load_def Provider_source_def sample_com_def SUCCEEDED_def run_bind_def returns_def)

lemma sample_input:
  assumes "getOption argv ''-in'' = ''a.pdb''"
  shows "main_input (sample_mysql_platform (sample_com []) env J) argv
    = returns (Result (first_state (reader_init SymbolData_init)))"
  by (rule sample_input_run [OF assms]) (simp add: sample_provider)

lemma sample_init_in: "\<exists>d w'. OutputData_init sample_os (sample_argv @ [''-in=a.pdb'']) S w = returns (d, w')"
proof -
  have port: "atoi ''3307'' = 3307"
    by (simp add: atoi_def is_space_def is_digit_def undec_def undigit_def clamp_int_def)
  have cwd: "GetCurrentDirectoryA sample_os 260 = (2, ''c:'')"
    by (simp add: sample_os_def)
  show ?thesis
    by (simp add: OutputData_init_def sample_argv_def strncmp_eq_def port cwd Let_def
        mysql_GenerateCommands_returns [OF sample_procedures])
qed

lemma sample_directory:
  "temp_directory sample_os (sample_argv @ [''-in=a.pdb'']) = ''c:'' @ [backslash] @ ''temp'' @ [backslash]"
  by (simp add: temp_directory_def sample_argv_def strncmp_eq_def sample_os_def)

lemma collapse_plain: "backslash \<notin> set s \<Longrightarrow> collapse s = s"
  by (induction s rule: collapse.induct) auto

lemma sample_files_distinct:
  assumes "tempdir d = ''c:'' @ [backslash] @ ''temp'' @ [backslash]"
  shows "distinct (map (\<lambda>(q, x). collapse q) (mysql_files d S))"
proof -
  have "backslash \<notin> set (tbl_name t)" if "t \<in> set tables" for t
  proof -
    have "list_all (\<lambda>t. backslash \<notin> set (tbl_name t)) tables" by (simp add: tables_def table_defs)
    with that show ?thesis by (simp add: list_all_iff)
  qed
  moreover have "collapse (''c:'' @ [backslash] @ ''temp'' @ [backslash] @ n @ ''_values.txt'')
      = ''c:'' @ [backslash] @ ''temp'' @ [backslash] @ n @ ''_values.txt''" if "backslash \<notin> set n" for n
    using that collapse_plain [of "n @ ''_values.txt''"] by (cases n) auto
  ultimately have "map (\<lambda>(q, x). collapse q) (mysql_files d S)
      = map (\<lambda>n. ''c:'' @ [backslash] @ ''temp'' @ [backslash] @ n @ ''_values.txt'') (map tbl_name (map fst (reflect S)))"
    using reflect_in_tables by (auto simp: mysql_files_def mysql_path_def assms)
  moreover have "inj (\<lambda>n. ''c:'' @ [backslash] @ ''temp'' @ [backslash] @ n @ ''_values.txt'')" by (simp add: inj_def)
  ultimately show ?thesis
    using distinct_table_names by (simp only: map_fst_reflect distinct_map inj_on_subset [OF _ subset_UNIV])
qed

abbreviation sample_argv_in :: "string list" where
  "sample_argv_in \<equiv> sample_argv @ [''-in=a.pdb'']"

abbreviation sample_tables :: SymbolData where
  "sample_tables \<equiv> Result (first_state (reader_init SymbolData_init))"

lemma sample_opts:
  "\<not> getFlag sample_argv_in ''-doc''" "getOption sample_argv_in ''-wikidoc'' = []"
  "getOption sample_argv_in ''-out'' = ''mysql''" "getOption sample_argv_in ''-in'' = ''a.pdb''"
  by (simp_all add: sample_argv_def getFlag_iff strncmp_eq_def)

lemma sample_disk: "\<forall>dir path. \<not> write_bad (p_os (sample_mysql_platform com env J) dir) path"
  unfolding sample_parts by (simp add: sample_os_def)

lemma sample_good: "\<forall>dir. good_directory (temp_directory (p_os (sample_mysql_platform com env J) dir) sample_argv_in)"
  unfolding sample_parts sample_directory by (simp add: good_directory_def)

lemma yes_connects:
  "mysql_init yes_api = Some []" "mysql_options_reconnect yes_api c = c" "mysql_real_connect yes_api c h u p b n = (True, c)"
  by (simp_all add: yes_api_def log_api_def)

text \<open>The run, and a server and a client that behave as documented.\<close>

lemma sample_database:
  assumes input: "main_input (sample_mysql_platform com env J) sample_argv_in = returns S"
  shows "\<exists>w d. main (sample_mysql_platform com env J) sample_argv_in = returns (0, w)
     \<and> client_finds (collapsed_file (files w)) (files w)
     \<and> server_drops (p_mysql (sample_mysql_platform com env J)) (after_log (collapsed_file (files w)) d)
     \<and> server_creates (p_mysql (sample_mysql_platform com env J)) (after_log (collapsed_file (files w)) d)
     \<and> (\<forall>dir. server_loads_from (p_mysql (sample_mysql_platform com env J)) (after_log (collapsed_file (files w)) d)
          (collapsed_file (files w)) (temp_directory (p_os (sample_mysql_platform com env J) dir) sample_argv_in))"
proof -
  let ?dir = "''c:'' @ [backslash] @ ''temp'' @ [backslash]"
  obtain w where run: "main (sample_mysql_platform com env J) sample_argv_in = returns (0, w)"
    using sample_mysql [OF sample_opts(1-3) input sample_init_in] by blast
  from main_mysql_run [OF run sample_opts(3,1,2)] obtain d w0 w1 where
    init: "OutputData_init sample_os sample_argv_in S w0 = returns (d, w1)"
    and files: "files w = filter (\<lambda>(path, x). \<not> write_bad sample_os path) (mysql_files d S)"
    unfolding sample_parts input returns_inject by blast
  have "filter (\<lambda>(path, x). \<not> write_bad sample_os path) fs = fs" for fs :: "(string \<times> string) list"
    by (auto simp: sample_os_def intro: filter_True)
  with files have files: "files w = mysql_files d S" by simp
  have dir: "tempdir d = ?dir" using OutputData_init_tempdir [OF init] sample_directory by simp
  have "client_finds (collapsed_file (files w)) (files w)"
    unfolding files by (rule client_collapsed [OF sample_files_distinct [OF dir]])
  moreover have "tempdir_escaped d = escaped_directory ?dir"
    using OutputData_init_returns [OF init] dir by (simp add: escaped_directory_def)
  then have "\<forall>dir. server_loads_from (p_mysql (sample_mysql_platform com env J)) (after_log (collapsed_file (files w)) d)
      (collapsed_file (files w)) (temp_directory (p_os (sample_mysql_platform com env J) dir) sample_argv_in)"
    unfolding sample_parts sample_directory by (intro allI yes_loads)
  moreover have "server_drops (p_mysql (sample_mysql_platform com env J)) (after_log (collapsed_file (files w)) d)"
    "server_creates (p_mysql (sample_mysql_platform com env J)) (after_log (collapsed_file (files w)) d)"
    unfolding sample_parts by (rule yes_drops yes_creates)+
  ultimately show ?thesis using run by blast
qed

lemma sample_reflect: "(table_Symbol, [row_Symbol Symbol_default]) \<in> set (reflect sample_tables)"
  by (simp add: reflect_def first_state_def reader_init_def SymbolData_init_def emplace_back_def)

text \<open>C4. End to end with MySQL. The hypotheses: no write to the disk fails; the temporary directory, given
  or the working directory's, is not empty, ends in a backslash, holds no single quote and is
  shorter than \<^verbatim>\<open>2^30\<close> characters; the client finds the files by paths whose last separator is
  doubled; and an accepted drop, create or load statement does what it is documented to do, a load
  for records that the table keeps. Under these, when the program exits with 0, the database holds,
  for every table whose texts have at most 2047 ASCII characters and whose keys are distinct, the
  records of exactly the rows that were read, whatever it held before. Without the first two an
  exit code of 0 says nothing of the contents: the engine never looks at its streams, and a
  directory without a final backslash is read at another place than it is written to.\<close>

theorem main_mysql_database:
  assumes run: "main P argv = returns (0, w)" and out: "getOption argv ''-out'' = ''mysql''"
    and mode: "\<not> getFlag argv ''-doc''" "getOption argv ''-wikidoc'' = []"
    and disk: "\<forall>dir path. \<not> write_bad (p_os P dir) path"
    and directory: "\<forall>dir. good_directory (temp_directory (p_os P dir) argv)"
    and client: "client_finds fetch (files w)"
    and server: "server_drops (p_mysql P) rows_of" "server_creates (p_mysql P) rows_of"
      "\<forall>dir. server_loads_from (p_mysql P) rows_of fetch (temp_directory (p_os P dir) argv)"
  shows "\<exists>dir S d w0 w1 c0 c1 c. main_input P argv = returns S
    \<and> OutputData_init (p_os P dir) argv S w0 = returns (d, w1)
    \<and> mysql_init (p_mysql P) = Some c0
    \<and> mysql_real_connect (p_mysql P) (mysql_options_reconnect (p_mysql P) c0)
        (host d) (user d) (pass d) (db d) (port d) = (True, c1)
    \<and> accepts (p_mysql P) c1 (UploadCommands d) c
    \<and> (\<forall>(t, rows) \<in> set (reflect S). rows_keep t rows
         \<longrightarrow> rows_of c (tbl_name t) = Some (map (map (cell_value True)) rows))"
  by (rule main_database_rows [OF assms])

theorem main_mysql_database_witness:
  "\<forall>env J. \<exists>w e d w0 w1 c. main (sample_mysql_platform (sample_com []) env J) sample_argv_in = returns (0, w)
     \<and> OutputData_init sample_os sample_argv_in sample_tables w0
         = returns (d, w1)
     \<and> accepts yes_api [] (UploadCommands d) c
     \<and> after_log (collapsed_file (files w)) e c ''symbols'' = Some [map (cell_value True) (row_Symbol Symbol_default)]"
proof (intro allI)
  fix env J
  obtain w d where run: "main (sample_mysql_platform (sample_com []) env J) sample_argv_in = returns (0, w)"
    and server: "client_finds (collapsed_file (files w)) (files w)"
      "server_drops (p_mysql (sample_mysql_platform (sample_com []) env J)) (after_log (collapsed_file (files w)) d)"
      "server_creates (p_mysql (sample_mysql_platform (sample_com []) env J)) (after_log (collapsed_file (files w)) d)"
      "\<forall>dir. server_loads_from (p_mysql (sample_mysql_platform (sample_com []) env J)) (after_log (collapsed_file (files w)) d)
          (collapsed_file (files w)) (temp_directory (p_os (sample_mysql_platform (sample_com []) env J) dir) sample_argv_in)"
    using sample_database [OF sample_input [OF sample_opts(4)]] by blast
  have "rows_keep table_Symbol [row_Symbol Symbol_default]"
    by (simp add: rows_keep_def keys_distinct_def row_Symbol_def ascii_short_def Symbol_default_def)
  then obtain d' w0 w1 c where "OutputData_init sample_os sample_argv_in sample_tables w0 = returns (d', w1)"
    and "accepts yes_api [] (UploadCommands d') c"
    and "after_log (collapsed_file (files w)) d c (tbl_name table_Symbol)
      = Some (map (map (cell_value True)) [row_Symbol Symbol_default])"
    using main_mysql_database [OF run sample_opts(3,1,2) sample_disk sample_good server] sample_reflect
    unfolding sample_parts sample_input [OF sample_opts(4)] returns_inject by (auto simp: yes_connects)
  with run show "\<exists>w e d w0 w1 c. main (sample_mysql_platform (sample_com []) env J) sample_argv_in = returns (0, w)
     \<and> OutputData_init sample_os sample_argv_in sample_tables w0
         = returns (d, w1)
     \<and> accepts yes_api [] (UploadCommands d) c
     \<and> after_log (collapsed_file (files w)) e c ''symbols'' = Some [map (cell_value True) (row_Symbol Symbol_default)]"
    by (force simp: table_Symbol_def)
qed

lemma main_input_session:
  assumes "getOption argv ''-in'' \<noteq> []" and "Provider_load (Provider_source (p_com P)) (getOption argv ''-in'') = Inr (True, Some ses)"
    and "main_input P argv = returns S"
  shows "\<exists>r. provider_ReadSymbols (p_names P) (p_env P) (p_junk P) argv ses (reader_init SymbolData_init) = returns r
    \<and> S = Result r"
  using assms by (auto simp: main_input_def get_input_engine_def Let_def DIA2_ReadSymbols_def run_bind_eq_returns)

text \<open>C3. End to end from the debug interface to the database. The hypotheses on the disk, the temporary
  directory, the client and the server's statements are those of the property above: no write
  fails; the directory is not empty, ends in a backslash, holds no single quote and is shorter
  than \<^verbatim>\<open>2^30\<close> characters; the client finds files by paths with a doubled last separator; accepted
  statements do what they are documented to do. Moreover an input file is given and can be opened;
  the enumerators of its session end; its symbols have pairwise distinct numbers other than zero,
  its source files and its sections distinct numbers, at most one symbol stands for the program
  itself, there are at most \<^verbatim>\<open>2^32\<close> source ranges; and the texts read have at most 2047 ASCII
  characters. Then an exit code of 0 means that the database holds every row of every table, and
  that the tables are the ones that filtering the events of the session describes.\<close>

theorem main_database_complete:
  assumes run: "main P argv = returns (0, w)" and out: "getOption argv ''-out'' = ''mysql''"
    and mode: "\<not> getFlag argv ''-doc''" "getOption argv ''-wikidoc'' = []"
    and disk: "\<forall>dir path. \<not> write_bad (p_os P dir) path"
    and directory: "\<forall>dir. good_directory (temp_directory (p_os P dir) argv)"
    and client: "client_finds fetch (files w)"
    and server: "server_drops (p_mysql P) rows_of" "server_creates (p_mysql P) rows_of"
      "\<forall>dir. server_loads_from (p_mysql P) rows_of fetch (temp_directory (p_os P dir) argv)"
    and input: "getOption argv ''-in'' \<noteq> []"
      "Provider_load (Provider_source (p_com P)) (getOption argv ''-in'') = Inr (True, Some ses)"
    and session: "session_events (p_names P) ses = Some evs" "good_numbers evs"
    and texts: "\<forall>S. main_input P argv = returns S \<longrightarrow> list_all (\<lambda>(t, rows). list_all (list_all ascii_short) rows) (reflect S)"
  shows "\<exists>dir S d w0 w1 c0 c1 c. main_input P argv = returns S
    \<and> OutputData_init (p_os P dir) argv S w0 = returns (d, w1)
    \<and> mysql_init (p_mysql P) = Some c0
    \<and> mysql_real_connect (p_mysql P) (mysql_options_reconnect (p_mysql P) c0)
        (host d) (user d) (pass d) (db d) (port d) = (True, c1)
    \<and> accepts (p_mysql P) c1 (UploadCommands d) c
    \<and> contents_of S = contents_read evs
    \<and> (\<forall>(t, rows) \<in> set (reflect S). rows_of c (tbl_name t) = Some (map (map (cell_value True)) rows))"
proof -
  from main_database_rows [OF run out mode disk directory client server] obtain dir S d w0 w1 c0 c1 c
    where S: "main_input P argv = returns S"
    and init: "OutputData_init (p_os P dir) argv S w0 = returns (d, w1)"
    and conn: "mysql_init (p_mysql P) = Some c0" "mysql_real_connect (p_mysql P)
      (mysql_options_reconnect (p_mysql P) c0) (host d) (user d) (pass d) (db d) (port d) = (True, c1)"
    and ok: "accepts (p_mysql P) c1 (UploadCommands d) c"
    and held: "\<forall>(t, rows) \<in> set (reflect S). rows_keep t rows
         \<longrightarrow> rows_of c (tbl_name t) = Some (map (map (cell_value True)) rows)"
    by blast
  from main_input_session [OF input S] obtain r
    where r: "provider_ReadSymbols (p_names P) (p_env P) (p_junk P) argv ses (reader_init SymbolData_init) = returns r"
      "S = Result r" by blast
  have "contents_of S = contents_read evs" unfolding r(2) by (rule read_is_contents [OF session(1) r(1)])
  moreover have "rows_keep t rows" if "(t, rows) \<in> set (reflect S)" for t rows
    using that texts S good_numbers_keys [OF session(1) r(1) session(2)]
    unfolding rows_keep_def r(2) list_all_iff by fast
  ultimately show ?thesis using S init conn ok held by blast
qed

lemma sample_two:
  "\<exists>r. provider_ReadSymbols sample_names env J argv (sample_session [sample_dia 5 7, sample_dia 11 8])
      (reader_init SymbolData_init) = returns r
    \<and> list_all (\<lambda>(t, rows). list_all (list_all ascii_short) rows) (reflect (Result r))"
proof -
  let ?env = "read_env env argv (sample_session [sample_dia 5 7, sample_dia 11 8])"
  let ?r = "first_state (reader_init SymbolData_init)"
  have name: "Symbol_name (Symbol_ctor env \<sigma> (sample_dia t i) j k) = []" for env \<sigma> t i j k
    by (simp add: Symbol_ctor_def Let_def sample_dia_def)
  have one: "\<exists>a f. ReadSymbol ?env J (sample_dia 5 7) s = returns (on_result (sd_Function_update (emplace_back f))
      (on_result (sd_Symbol_update (emplace_back a)) s)) \<and> Symbol_name a = []" for s
    using name by (auto simp: ReadSymbol_def ReadSymbol_switch_def Let_def SymTag_simps)
  have two: "\<exists>b u. ReadSymbol ?env J (sample_dia 11 8) s = returns (on_result (sd_UserType_update (emplace_back u))
      (on_result (sd_Symbol_update (emplace_back b)) s)) \<and> Symbol_name b = []" for s
  proof -
    have rel: "related (sample_dia 11 8) m = (1, None)" for m by (simp add: sample_dia_def)
    then obtain u where u: "UserType_ctor ?env (J (length (sd_Symbol (Result s)))) (sample_dia 11 8) 8 = Inr u"
      using UserType_ctor_faults [of ?env _ "sample_dia 11 8" 8]
      by (cases "UserType_ctor ?env (J (length (sd_Symbol (Result s)))) (sample_dia 11 8) 8") auto
    have "with_UDT ?env J (sample_dia 11 8) u = on_result (sd_UserType_update (emplace_back u))"
      by (rule ext) (simp add: with_UDT_def rel on_result_def)
    with u name show ?thesis
      by (auto simp: ReadSymbol_def ReadSymbol_switch_def Let_def SymTag_simps ReadUDTSymbol_eq Some_Inr)
  qed
  from one [of ?r] obtain a f where a: "ReadSymbol ?env J (sample_dia 5 7) ?r = returns (on_result (sd_Function_update (emplace_back f))
      (on_result (sd_Symbol_update (emplace_back a)) ?r))" "Symbol_name a = []" by blast
  from two obtain b u where b: "ReadSymbol ?env J (sample_dia 11 8) (on_result (sd_Function_update (emplace_back f))
      (on_result (sd_Symbol_update (emplace_back a)) ?r)) = returns (on_result (sd_UserType_update (emplace_back u))
      (on_result (sd_Symbol_update (emplace_back b)) (on_result (sd_Function_update (emplace_back f))
      (on_result (sd_Symbol_update (emplace_back a)) ?r))))" "Symbol_name b = []" by blast
  have plain: "list_all ascii_short (row_Function f)" "list_all ascii_short (row_UserType u)"
    by (simp_all add: row_Function_def row_UserType_def ascii_short_def)
  have named: "list_all ascii_short (row_Symbol x)" if "Symbol_name x = []" for x
    using that by (simp add: row_Symbol_def ascii_short_def)
  have "Symbol_name Symbol_default = []" by (simp add: Symbol_default_def)
  note names = named [OF this] named [OF a(2)] named [OF b(2)]
  show ?thesis
    unfolding sample_provider run_fold.simps a(1) b(1) run_bind_returns
    by (rule exI, rule conjI, rule refl)
      (simp add: reflect_def first_state_def reader_init_def SymbolData_init_def emplace_back_def plain names)
qed

theorem main_database_complete_witness:
  "\<forall>env J. \<exists>w S e d w0 w1 c. main (sample_mysql_platform (sample_com [sample_dia 5 7, sample_dia 11 8]) env J) sample_argv_in
       = returns (0, w)
     \<and> OutputData_init sample_os sample_argv_in S w0 = returns (d, w1)
     \<and> accepts yes_api [] (UploadCommands d) c
     \<and> c_master (contents_of S) = [(0, 0), (7, 5), (8, 11)]
     \<and> list_all (\<lambda>(t, rows). after_log (collapsed_file (files w)) e c (tbl_name t)
          = Some (map (map (cell_value True)) rows)) (reflect S)"
proof (intro allI)
  fix env J
  let ?ds = "[sample_dia 5 7, sample_dia 11 8]"
  let ?P = "sample_mysql_platform (sample_com ?ds) env J"
  from sample_two [of env J sample_argv_in] obtain r
    where "provider_ReadSymbols sample_names env J sample_argv_in (sample_session ?ds) (reader_init SymbolData_init) = returns r"
    and short: "list_all (\<lambda>(t, rows). list_all (list_all ascii_short) rows) (reflect (Result r))" by blast
  from sample_input_run [OF sample_opts(4) this(1)]
  have read: "main_input ?P sample_argv_in = returns (Result r)" .
  obtain w d where run: "main ?P sample_argv_in = returns (0, w)"
    and server: "client_finds (collapsed_file (files w)) (files w)"
      "server_drops (p_mysql ?P) (after_log (collapsed_file (files w)) d)"
      "server_creates (p_mysql ?P) (after_log (collapsed_file (files w)) d)"
      "\<forall>dir. server_loads_from (p_mysql ?P) (after_log (collapsed_file (files w)) d)
          (collapsed_file (files w)) (temp_directory (p_os ?P dir) sample_argv_in)"
    using sample_database [OF read] by blast
  have load: "Provider_load (Provider_source (p_com ?P)) (getOption sample_argv_in ''-in'') = Inr (True, Some (sample_session ?ds))"
    by (simp add: sample_parts Provider_load_def Provider_source_def sample_com_def SUCCEEDED_def)
  have given: "getOption sample_argv_in ''-in'' \<noteq> []" by (simp add: sample_opts(4))
  have session: "session_events (p_names ?P) (sample_session ?ds) = Some (map (Item KSymbol) ?ds)"
    unfolding sample_parts by (rule sample_events)
  have numbers: "good_numbers (map (Item KSymbol) ?ds)"
    by (simp add: good_numbers_def with_tag_def handed_def tag_of_def id_of_def SymTag_simps ranges_in_def definition_line_def)
      (simp add: sample_dia_def)
  from read short have texts: "\<forall>S. main_input ?P sample_argv_in = returns S
      \<longrightarrow> list_all (\<lambda>(t, rows). list_all (list_all ascii_short) rows) (reflect S)"
    by (metis returns_inject)
  obtain d' w0 w1 c where "OutputData_init sample_os sample_argv_in (Result r) w0 = returns (d', w1)"
    and "accepts yes_api [] (UploadCommands d') c"
    and "contents_of (Result r) = contents_read (map (Item KSymbol) ?ds)"
    and "\<forall>(t, rows) \<in> set (reflect (Result r)).
      after_log (collapsed_file (files w)) d c (tbl_name t) = Some (map (map (cell_value True)) rows)"
    using main_database_complete [OF run sample_opts(3,1,2) sample_disk sample_good server given load session numbers texts]
    unfolding read returns_inject sample_parts by (auto simp: yes_connects)
  moreover have "c_master (contents_read (map (Item KSymbol) ?ds)) = [(0, 0), (7, 5), (8, 11)]"
    by (simp add: contents_read_def id_of_def tag_of_def handed_def)
  ultimately show "\<exists>w S e d w0 w1 c. main ?P sample_argv_in = returns (0, w)
     \<and> OutputData_init sample_os sample_argv_in S w0 = returns (d, w1)
     \<and> accepts yes_api [] (UploadCommands d) c
     \<and> c_master (contents_of S) = [(0, 0), (7, 5), (8, 11)]
     \<and> list_all (\<lambda>(t, rows). after_log (collapsed_file (files w)) e c (tbl_name t)
          = Some (map (map (cell_value True)) rows)) (reflect S)"
    using run unfolding list_all_iff by metis
qed

text \<open>C25. The MySQL engine without its settings: the program notes and prints the text that the engine
  threw, which names what is missing, a host, user and database first and then a port, and
  exits with 1, without having written a file.\<close>

theorem main_mysql_settings:
  assumes "trim_path (path_main P) = Inr path"
    and "\<not> getFlag argv ''-doc''" and "getOption argv ''-wikidoc'' = []"
    and out: "getOption argv ''-out'' = ''mysql''" and input: "main_input P argv = returns S"
    and missing: "getOption argv ''-host'' = [] \<or> getOption argv ''-user'' = [] \<or> getOption argv ''-db'' = []
      \<or> getOption argv ''-port'' \<noteq> [] \<and> atoi (getOption argv ''-port'') = 0"
  shows "\<exists>w. main P argv = returns (1, w)
    \<and> gErr w = (if getOption argv ''-host'' = [] \<or> getOption argv ''-user'' = [] \<or> getOption argv ''-db'' = []
         then ''MySQL requires -host, -user, and -db settings.'' else ''Invalid -port specified.'') @ crlf
    \<and> console w = input_progress P argv @ ''Saving results...'' @ [newline] @ gErr w
    \<and> files w = []"
proof -
  let ?sys = "p_os P (c_text path)" and ?w = "print_text (''Saving results...'' @ [newline]) (after_input P argv)"
  define e where "e = (if getOption argv ''-host'' = [] \<or> getOption argv ''-user'' = [] \<or> getOption argv ''-db'' = []
         then ''MySQL requires -host, -user, and -db settings.'' else ''Invalid -port specified.'')"
  have "mysql_output (p_mysql P) ?sys argv S ?w = Some (Inl (Thrown e))"
    using OutputData_init_throws [OF missing, of ?sys S ?w] by (simp add: mysql_output_def e_def)
  then have "main_output (mysql_CreateEngine P ?sys argv) S (after_input P argv)
      = returns (if gErr (set_error e ?w) \<noteq> [] then (1, print_text (gErr (set_error e ?w)) (set_error e ?w))
          else (0, set_error e ?w))"
    by (intro main_output_of) (simp add: mysql_CreateEngine_def)
  moreover have "gErr (set_error e ?w) = e @ crlf" "files (set_error e ?w) = []"
    "console (set_error e ?w) = input_progress P argv @ ''Saving results...'' @ [newline]"
    by (simp_all add: set_error_def world_init_def)
  ultimately show ?thesis
    unfolding e_def [symmetric]
    by (intro exI [of _ "print_text (gErr (set_error e ?w)) (set_error e ?w)"])
      (simp add: main_normal [OF assms(1-3)] get_output_engine_eq(1) [OF out] input)
qed

theorem main_mysql_settings_witness:
  "\<forall>env J. \<exists>w. main (sample_platform env J) [''drpdb'', ''-out=mysql''] = returns (1, w)
     \<and> gErr w = ''MySQL requires -host, -user, and -db settings.'' @ crlf \<and> files w = []"
proof (intro allI)
  fix env J
  let ?argv = "[''drpdb'', ''-out=mysql'']"
  have opts: "\<not> getFlag ?argv ''-doc''" "getOption ?argv ''-wikidoc'' = []" "getOption ?argv ''-out'' = ''mysql''"
    "getOption ?argv ''-in'' = []" "getOption ?argv ''-host'' = []"
    by (simp_all add: getFlag_iff strncmp_eq_def)
  show "\<exists>w. main (sample_platform env J) ?argv = returns (1, w)
     \<and> gErr w = ''MySQL requires -host, -user, and -db settings.'' @ crlf \<and> files w = []"
    using main_mysql_settings [OF sample_path opts(1-3) main_input_none [OF opts(4)] disjI1 [OF opts(5)], of env J]
    unfolding opts(5) simp_thms if_True by blast
qed

text \<open>C6. The references in the files. When the program with the CSV engine, its default separator and
  column names exits with 0, on a disk that takes or refuses a file in one step, the files of the tables of symbols can be read back, and every
  symbol that stands in one of them stands in the file of all symbols, with the tag of that
  table: the invariant of the reader, on the disk.\<close>

theorem main_csv_references:
  assumes run: "main P argv = returns (0, w)" and out: "getOption argv ''-out'' = ''csv''"
    and mode: "\<not> getFlag argv ''-doc''" "getOption argv ''-wikidoc'' = []"
    and format: "\<not> getFlag argv ''-uselocaleseparator''" "\<not> getFlag argv ''-nocolumnheaders''"
  shows "\<exists>dir. list_all2 (\<lambda>name (tag, _). \<exists>recs master.
      read_records (files w) (dir @ name @ ''.csv'') = Some recs
      \<and> read_records (files w) (dir @ ''symbols.csv'') = Some master
      \<and> (\<forall>i \<in> set (column ''symbol'' recs). (i, tag) \<in> set (zip (column ''symbol'' master) (column ''tag'' master))))
    symbol_files symbol_tables"
proof -
  from main_csv_files [OF run out mode] obtain d S where S: "main_input P argv = returns S"
    and files: "files w = map (\<lambda>(t, rows). (csv_path (csv_init (p_os P d) argv) t,
        csv_file (csv_init (p_os P d) argv) t rows)) (reflect S)"
    by blast
  have "separator (csv_init (p_os P d) argv) = CHR '',''" "\<not> naked (csv_init (p_os P d) argv)"
    using format by (simp_all add: csv_init_def getSeparator_def Let_def)
  from file_references [OF input_masters [OF S] files this] show ?thesis by blast
qed

theorem main_csv_references_witness:
  "\<forall>env J. \<exists>w dir recs. main (sample_platform env J) [''drpdb'', ''-out=csv''] = returns (0, w)
     \<and> read_records (files w) (dir @ ''compilands.csv'') = Some recs"
proof (intro allI)
  fix env J
  let ?argv = "[''drpdb'', ''-out=csv'']" and ?P = "sample_platform env J"
  have opts: "\<not> getFlag ?argv ''-doc''" "getOption ?argv ''-wikidoc'' = []" "getOption ?argv ''-in'' = []"
    "getOption ?argv ''-out'' = ''csv''" "\<not> getFlag ?argv ''-uselocaleseparator''" "\<not> getFlag ?argv ''-nocolumnheaders''"
    by (simp_all add: getFlag_iff strncmp_eq_def)
  obtain code w where run: "main ?P ?argv = returns (code, w)"
    unfolding sample_main [OF opts(1-3)] get_output_engine_eq(2) [OF opts(4)] option.case
    using csv_main_output by blast
  have good: "\<not> write_bad (p_os ?P d) p" for d p by (simp add: sample_platform_def sample_os_def)
  from main_csv_files [OF run opts(4,1,2)] good have "code = 0" by metis
  with run have run: "main ?P ?argv = returns (0, w)" by simp
  from main_csv_references [OF run opts(4,1,2,5,6)] obtain dir recs
    where "read_records (files w) (dir @ ''compilands.csv'') = Some recs"
    by (auto simp: symbol_files_def symbol_tables_def)
  with run show "\<exists>w dir recs. main ?P ?argv = returns (0, w)
     \<and> read_records (files w) (dir @ ''compilands.csv'') = Some recs" by blast
qed

text \<open>C39. With \<^verbatim>\<open>-drivers\<close> the ODBC engine ends the process itself: the exit code is 0, no file has been
  written, and the console shows the lines of the read and the list of the drivers. The input has been read before
  that, and an error noted there would be lost.\<close>

theorem main_odbc_drivers:
  assumes "trim_path (path_main P) = Inr path"
    and "\<not> getFlag argv ''-doc''" and "getOption argv ''-wikidoc'' = []"
    and out: "getOption argv ''-out'' = ''odbc''" and "getFlag argv ''-drivers''"
    and input: "main_input P argv = returns S"
  shows "main P argv = Some (Inl (Exit 0 (input_progress P argv @ ''Saving results...'' @ [newline] @ ''Available ODBC drivers:'' @ crlf
    @ concat (map (\<lambda>desc. ''   '' @ desc @ crlf) (driver_list (p_odbc P)))) []))"
proof -
  have list: "console (foldl (\<lambda>w desc. print_text (''   '' @ desc @ crlf) w) w ds)
      = console w @ concat (map (\<lambda>desc. ''   '' @ desc @ crlf) ds)"
    "files (foldl (\<lambda>w desc. print_text (''   '' @ desc @ crlf) w) w ds) = files w" for w ds
    by (induction ds arbitrary: w) simp_all
  let ?sys = "p_os P (c_text path)" and ?w = "print_text (''Saving results...'' @ [newline]) (after_input P argv)"
  have "eng_output (odbc_CreateEngine P ?sys argv) S ?w = Some (Inl (Exit 0 (console (listDrivers (p_odbc P) ?w)) (files (listDrivers (p_odbc P) ?w))))"
    using assms(5) by (simp add: odbc_CreateEngine_def odbc_output_def Let_def)
  then have "main_output (odbc_CreateEngine P ?sys argv) S (after_input P argv)
      = Some (Inl (Exit 0 (console (listDrivers (p_odbc P) ?w)) (files (listDrivers (p_odbc P) ?w))))"
    by (simp add: main_output_def Let_def catch_text_def)
  moreover have "console (listDrivers (p_odbc P) ?w) = input_progress P argv @ ''Saving results...'' @ [newline] @ ''Available ODBC drivers:'' @ crlf
      @ concat (map (\<lambda>desc. ''   '' @ desc @ crlf) (driver_list (p_odbc P)))"
    unfolding listDrivers_def list by (simp add: world_init_def)
  moreover have "files (listDrivers (p_odbc P) ?w) = []"
    unfolding listDrivers_def list by (simp add: world_init_def)
  ultimately show ?thesis
    unfolding main_normal [OF assms(1-3)] get_output_engine_eq(3) [OF out] input option.case run_bind_returns by simp
qed

theorem main_odbc_drivers_witness:
  "\<forall>env J. main (sample_platform env J) [''drpdb'', ''-out=odbc'', ''-drivers'']
     = Some (Inl (Exit 0 (''Saving results...'' @ [newline] @ ''Available ODBC drivers:'' @ crlf) []))"
proof (intro allI)
  fix env J
  let ?argv = "[''drpdb'', ''-out=odbc'', ''-drivers'']"
  have opts: "\<not> getFlag ?argv ''-doc''" "getOption ?argv ''-wikidoc'' = []" "getOption ?argv ''-out'' = ''odbc''"
    "getFlag ?argv ''-drivers''" "getOption ?argv ''-in'' = []"
    by (simp_all add: getFlag_iff strncmp_eq_def)
  have "driver_list (p_odbc (sample_platform env J)) = []" by (simp add: sample_platform_def log_odbc_def)
  with main_odbc_drivers [OF sample_path opts(1-4) main_input_none [OF opts(5)], of env J]
    after_no_input [OF opts(5), of "sample_platform env J"]
  show "main (sample_platform env J) ?argv
     = Some (Inl (Exit 0 (''Saving results...'' @ [newline] @ ''Available ODBC drivers:'' @ crlf) []))" by simp
qed

text \<open>C14. The engines agree: from the same tables, on a disk that takes every file, the files of the CSV
  engine and those that the MySQL engine has the server load hold, table by table, the same
  records; the CSV files only have the column names in front of them.\<close>

theorem engines_agree:
  assumes csv: "csv_engine_output sys argv S w = returns w1" and mysql: "OutputData_init sys argv' S w = returns (d, w2)"
    and disk: "\<forall>path. \<not> write_bad sys path" and comma: "\<not> getFlag argv ''-uselocaleseparator''"
  shows "list_all2 (\<lambda>(path, csv) (path', load). \<exists>recs. load_file CHR '','' load = Some recs
      \<and> (if getFlag argv ''-nocolumnheaders'' then load_file CHR '','' csv = Some recs
         else \<exists>names. load_file CHR '','' csv = Some (names # recs)))
    (drop (length (files w)) (files w1)) (drop (length (files w)) (files w2))"
proof -
  define st where "st = csv_init sys argv"
  have st: "separator st = CHR '',''" "naked st = getFlag argv ''-nocolumnheaders''"
    using comma by (simp_all add: st_def csv_init_def getSeparator_def Let_def)
  have all: "filter (\<lambda>(t, rows). \<not> write_bad sys (csv_path st t)) xs = xs" for xs :: "(table \<times> cval list list) list"
    using disk by (auto intro: filter_True)
  from csv have "w1 = fold (csv_step sys st) (reflect S) w" by (simp add: csv_engine_output_returns st_def)
  then have "drop (length (files w)) (files w1) = map (\<lambda>(t, rows). (csv_path st t, csv_file st t rows)) (reflect S)"
    by (simp add: files_fold_csv_step all)
  moreover from OutputData_init_returns [OF mysql] disk
  have "drop (length (files w)) (files w2) = map (\<lambda>(t, rows). (mysql_path d t, csv_rows True CHR '','' rows)) (reflect S)"
    by (simp add: store_all_eq mysql_files_def case_prod_unfold)
  moreover have "load_file CHR '','' (csv_rows True CHR '','' rows) = Some (map (map (cell_value True)) rows)"
    if "(t, rows) \<in> set (reflect S)" for t rows
    by (rule load_rows [OF sep_ok_comma reflect_rows_nonempty [OF that]])
  moreover have "load_file CHR '','' (csv_file st t rows)
      = Some ((if naked st then [] else [map m_name (tbl_members t)]) @ map (map (cell_value True)) rows)"
    if "(t, rows) \<in> set (reflect S)" for t rows
    using load_csv_file [OF _ that, of st] st(1) sep_ok_comma by simp
  ultimately show ?thesis
    by (simp add: list.rel_map) (auto simp: st(2) intro!: list.rel_refl_strong)
qed

theorem engines_agree_witness:
  "\<exists>w1 d w2. csv_engine_output sample_os [''drpdb''] sample_symbols world_init = returns w1
     \<and> OutputData_init sample_os sample_argv sample_symbols world_init = returns (d, w2)
     \<and> length (files w1) = length (files w2)"
proof -
  obtain w1 where csv: "csv_engine_output sample_os [''drpdb''] sample_symbols world_init = returns w1"
    by (simp add: csv_engine_output_returns)
  obtain d w2 where mysql: "OutputData_init sample_os sample_argv sample_symbols world_init = returns (d, w2)"
    using sample_init by blast
  have "\<forall>path. \<not> write_bad sample_os path" "\<not> getFlag [''drpdb''] ''-uselocaleseparator''"
    by (simp_all add: sample_os_def getFlag_iff strncmp_eq_def)
  from list_all2_lengthD [OF engines_agree [OF csv mysql this]] have "length (files w1) = length (files w2)"
    by (simp add: world_init_def)
  with csv mysql show ?thesis by blast
qed

lemma main_input_ends:
  assumes "com_ends (p_com P)"
  shows "main_input P argv \<noteq> None"
proof (cases "getOption argv ''-in'' = []")
  case True
  then show ?thesis by (simp add: main_input_none)
next
  case False
  let ?load = "Provider_load (Provider_source (p_com P)) (getOption argv ''-in'')"
  have "DIA2_ReadSymbols (p_names P) (p_env P) (p_junk P) (p_com P) argv (getOption argv ''-in'') SymbolData_init \<noteq> None"
  proof (cases ?load)
    case (Inl e)
    then show ?thesis by (simp add: DIA2_ReadSymbols_def)
  next
    case (Inr r)
    then obtain ok session where r: "?load = Inr (ok, session)" by (cases r) auto
    show ?thesis
    proof (cases session)
      case None
      with r show ?thesis by (simp add: DIA2_ReadSymbols_def Some_Inr)
    next
      case (Some ses)
      with r load_session_ends [OF assms] have "session_ends ses" by auto
      then have "run_bind (provider_ReadSymbols (p_names P) (p_env P) (p_junk P) argv ses (reader_init SymbolData_init))
          (\<lambda>r. returns (Result r)) \<noteq> None"
        by (intro ends_intros provider_ReadSymbols_ends)
      with r Some show ?thesis by (simp add: DIA2_ReadSymbols_def Some_Inr)
    qed
  qed
  with False show ?thesis by (simp add: main_input_def get_input_engine_def Let_def)
qed

lemma engines_end:
  assumes "get_output_engine (init_engines P sys argv) argv = Some e"
  shows "eng_output e S w \<noteq> None"
proof -
  have "mysql_output (p_mysql P) sys argv S w \<noteq> None"
    using mysql_output_benign [of "p_mysql P" sys argv S w] by (auto simp: benign_def)
  then have "run_bind (mysql_output (p_mysql P) sys argv S w) (\<lambda>(c, w). returns w) \<noteq> None"
    by (intro ends_intros) (simp_all split: prod.split)
  moreover have "odbc_output (p_odbc P) sys argv S w \<noteq> None"
    by (simp add: odbc_output_def Send_def Let_def odbc_tables_returns split: prod.split)
  then have "run_bind (odbc_output (p_odbc P) sys argv S w) (\<lambda>(c, w). returns w) \<noteq> None"
    by (intro ends_intros) (simp_all split: prod.split)
  moreover from assms have "e \<in> set (init_engines P sys argv)"
    by (auto simp: get_output_engine_def Let_def find_Some_iff split: if_split_asm)
  ultimately show ?thesis
    by (auto simp: init_engines_def mysql_CreateEngine_def csv_CreateEngine_def odbc_CreateEngine_def
        csv_engine_output_returns simp del: not_None_eq)
qed

text \<open>C10. The program comes to an end, whatever the command line, the platform, the database server and
  the driver do, as long as the enumerators of the debug interface end.\<close>

theorem main_terminates:
  assumes "com_ends (p_com P)"
  shows "main P argv \<noteq> None"
proof (cases "trim_path (path_main P)")
  case (Inl e)
  then show ?thesis by (simp add: main_def)
next
  case (Inr path)
  have catches: "main_output e S w \<noteq> None" if "eng_output e S (print_text (''Saving results...'' @ [newline]) w) \<noteq> None"
    for e S w
    using that unfolding main_output_def Let_def catch_text_def
    by (intro ends_intros) (auto simp del: not_None_eq split: option.split sum.split fault.split)
  show ?thesis
  proof (cases "getFlag argv ''-doc'' \<or> getOption argv ''-wikidoc'' \<noteq> []")
    case True
    have "run_bind (Document nm ans (p_com P) sys f w) (\<lambda>w. returns (0 :: int, w)) \<noteq> None" for nm ans sys f w
      by (intro ends_intros Document_ends assms)
    with Inr True show ?thesis by (auto simp: main_def Let_def Some_Inr)
  next
    case False
    then have mode: "\<not> getFlag argv ''-doc''" "getOption argv ''-wikidoc'' = []" by simp_all
    show ?thesis
    proof (cases "get_output_engine (init_engines P (p_os P (c_text path)) argv) argv")
      case None
      then show ?thesis by (simp add: main_normal [OF Inr mode])
    next
      case (Some e)
      have "run_bind (main_input P argv) (\<lambda>S. main_output e S (after_input P argv)) \<noteq> None"
        by (intro ends_intros main_input_ends assms catches engines_end [OF Some])
      with Some show ?thesis by (simp add: main_normal [OF Inr mode])
    qed
  qed
qed

theorem main_terminates_witness:
  "\<forall>env J. main (sample_platform env J) [''drpdb'', ''-in=a.pdb'', ''-out=csv''] \<noteq> None"
proof (intro allI main_terminates)
  fix env J
  have "\<exists>n. fetch_stop m (the (ses_tables (sample_session [])) n)" for m
    by (intro exI [of _ 1]) (simp add: sample_session_def fetch_stop_def)
  moreover have "table_ends t" if "fst (the (ses_tables (sample_session [])) k) = Some t" for k t
  proof -
    have "ends_at (en_Next (sample_enum [])) 0" by (simp add: ends_at_def stops_def sample_enum_def)
    with that show ?thesis
      by (auto simp: sample_session_def table_ends_def enum_ends_def sample_enum_def split: if_split_asm)
  qed
  ultimately show "com_ends (p_com (sample_platform env J))"
    by (auto simp: com_ends_def sample_platform_def sample_com_def session_ends_def sample_session_def fetch_stop_def)
qed

end
